(* ===== verification/Prelude.thy ===== *)
theory Prelude
  imports Main "HOL-Library.Word" "HOL-Library.Sublist"
begin

text \<open>
  Shared vocabulary of the development.

  \<^item> Rust's \<open>Result<T, E>\<close> is \<open>'e + 'a\<close> (\<open>Inl\<close> the error), with \<open>and_then\<close> for the
    \<open>?\<close> operator; a computation that can also panic is an \<open>outcome\<close>.
  \<^item> Rust's \<open>String\<close> is \<open>string\<close>, one \<open>char\<close> per UTF-8 byte, so \<open>length\<close> is \<open>str::len\<close>;
    \<open>valid_utf8\<close> is the check of \<open>String::from_utf8\<close>.
  \<^item> The two collections of facts, \<open>wire\<close> (encoding, decoding and their inverses) and
    \<open>secrecy\<close> (what a redacted value still shows), gather the rewrite rules that the
    component theories contribute to.
\<close>

named_theorems wire
named_theorems secrecy

type_synonym u8 = "8 word"
type_synonym u32 = "32 word"
type_synonym u64 = "64 word"

section \<open>Results and outcomes\<close>

fun and_then :: "'e + 'a \<Rightarrow> ('a \<Rightarrow> 'e + 'b) \<Rightarrow> 'e + 'b" where
  "and_then (Inl e) f = Inl e"
| "and_then (Inr a) f = f a"

fun ok_or :: "'e \<Rightarrow> 'a option \<Rightarrow> 'e + 'a" where
  "ok_or e None = Inl e"
| "ok_or e (Some a) = Inr a"

fun map_err :: "('e \<Rightarrow> 'f) \<Rightarrow> 'e + 'a \<Rightarrow> 'f + 'a" where
  "map_err h (Inl e) = Inl (h e)"
| "map_err h (Inr a) = Inr a"

fun ok :: "'e + 'a \<Rightarrow> 'a option" where
  "ok (Inl e) = None"
| "ok (Inr a) = Some a"

text \<open>The value of a Rust call that returns or panics.\<close>

datatype 'a outcome = Panic string | Ret 'a

fun ret_or :: "'a \<Rightarrow> 'a outcome \<Rightarrow> 'a" where
  "ret_or d (Panic m) = d"
| "ret_or d (Ret a) = a"

fun panics :: "'a outcome \<Rightarrow> bool" where
  "panics (Panic m) = True"
| "panics (Ret a) = False"

text \<open>A Rust function that returns a \<open>Result\<close> and may panic, with its \<open>?\<close>.\<close>

type_synonym ('e, 'a) fallible = "('e + 'a) outcome"

abbreviation "Okay a \<equiv> Ret (Inr a)"
abbreviation "Fail e \<equiv> Ret (Inl e)"

fun and_try :: "('e, 'a) fallible \<Rightarrow> ('a \<Rightarrow> ('e, 'b) fallible) \<Rightarrow> ('e, 'b) fallible" where
  "and_try (Panic m) f = Panic m"
| "and_try (Ret (Inl e)) f = Fail e"
| "and_try (Ret (Inr a)) f = f a"

fun map_fail :: "('e \<Rightarrow> 'f) \<Rightarrow> ('e, 'a) fallible \<Rightarrow> ('f, 'a) fallible" where
  "map_fail h (Panic m) = Panic m"
| "map_fail h (Ret (Inl e)) = Fail (h e)"
| "map_fail h (Ret (Inr a)) = Okay a"

lemma map_fail_Okay_iff [simp]: "map_fail h x = Okay a \<longleftrightarrow> x = Okay a"
  by (cases "(h, x)" rule: map_fail.cases) auto

lemma panics_map_fail [simp]: "panics (map_fail h x) = panics x"
  by (cases "(h, x)" rule: map_fail.cases) auto

lemma and_try_Okay_iff: "and_try m f = Okay b \<longleftrightarrow> (\<exists>a. m = Okay a \<and> f a = Okay b)"
  by (cases "(m, f)" rule: and_try.cases) auto

lemma panics_and_try_iff: "panics (and_try m f) \<longleftrightarrow> panics m \<or> (\<exists>a. m = Okay a \<and> panics (f a))"
  by (cases "(m, f)" rule: and_try.cases) auto

lemma and_then_Inr_iff: "and_then m f = Inr b \<longleftrightarrow> (\<exists>a. m = Inr a \<and> f a = Inr b)"
  by (cases m) auto

lemma map_err_Inr_iff [simp]: "map_err h r = Inr a \<longleftrightarrow> r = Inr a"
  by (cases r) auto

lemma ok_or_Inr_iff [simp]: "ok_or e x = Inr a \<longleftrightarrow> x = Some a"
  by (cases x) auto

lemma ok_Some_iff [simp]: "ok r = Some a \<longleftrightarrow> r = Inr a"
  by (cases r) auto

lemma not_panics_iff: "\<not> panics x \<longleftrightarrow> (\<exists>a. x = Ret a)"
  by (cases x) auto

section \<open>Options and lists\<close>

abbreviation or_else :: "'a option \<Rightarrow> 'a option \<Rightarrow> 'a option" where
  "or_else x y \<equiv> (case x of None \<Rightarrow> y | Some a \<Rightarrow> Some a)"

lemma or_else_None_right [simp]: "or_else x None = x"
  by (cases x) auto

lemma or_else_same [simp]: "or_else x x = x"
  by (cases x) auto

text \<open>\<open>Iterator::find\<close> and \<open>Iterator::filter_map\<close>.\<close>

fun find_map :: "('a \<Rightarrow> 'b option) \<Rightarrow> 'a list \<Rightarrow> 'b option" where
  "find_map f [] = None"
| "find_map f (x # xs) = (case f x of None \<Rightarrow> find_map f xs | Some b \<Rightarrow> Some b)"

lemma find_map_None_iff: "find_map f xs = None \<longleftrightarrow> (\<forall>x \<in> set xs. f x = None)"
  by (induction xs) (auto split: option.splits)

lemma find_Some_mem: "List.find P xs = Some x \<Longrightarrow> x \<in> set xs \<and> P x"
  by (auto simp: find_Some_iff)

lemma find_distinct_key:
  assumes "distinct (map k xs)" and "x \<in> set xs"
  shows "List.find (\<lambda>y. k y = k x) xs = Some x"
  using assms by (induction xs) auto

lemma set_map_filter: "set (List.map_filter f xs) = {b. \<exists>a \<in> set xs. f a = Some b}"
  by (force simp: List.map_filter_def)

section \<open>UTF-8\<close>

definition byte_of :: "char \<Rightarrow> u8" where
  "byte_of c = word_of_nat (of_char c)"

definition char_of_byte :: "u8 \<Rightarrow> char" where
  "char_of_byte b = char_of (unat b)"

definition as_bytes :: "string \<Rightarrow> u8 list" where
  "as_bytes s = map byte_of s"

lemma unat_byte_of [simp]: "unat (byte_of c) = of_char c"
proof -
  have "(of_char c :: nat) < 256"
    by (rule nat_of_char_less_256)
  then show ?thesis
    by (simp add: byte_of_def unat_of_nat)
qed

lemma char_of_byte_of [simp]: "char_of_byte (byte_of c) = c"
  by (simp add: char_of_byte_def)

lemma map_char_of_byte_as_bytes [simp]: "map char_of_byte (as_bytes s) = s"
  by (simp add: as_bytes_def comp_def)

lemma length_as_bytes [simp]: "length (as_bytes s) = length s"
  by (simp add: as_bytes_def)

lemma as_bytes_inj: "as_bytes s = as_bytes t \<longleftrightarrow> s = t"
  by (metis map_char_of_byte_as_bytes)

text \<open>
  The table of well-formed byte sequences (Unicode 15, table 3-7), as \<open>str::from_utf8\<close>
  checks it: no overlong forms, no surrogates, nothing above U+10FFFF.
\<close>

definition cont_byte :: "nat \<Rightarrow> bool" where
  "cont_byte b \<longleftrightarrow> 128 \<le> b \<and> b \<le> 191"

fun valid_utf8 :: "nat list \<Rightarrow> bool" where
  "valid_utf8 [] = True"
| "valid_utf8 (a # bs) =
    (if a < 128 then valid_utf8 bs
     else if 194 \<le> a \<and> a \<le> 223 then
       (case bs of b # r \<Rightarrow> cont_byte b \<and> valid_utf8 r | _ \<Rightarrow> False)
     else if 224 \<le> a \<and> a \<le> 239 then
       (case bs of b # c # r \<Rightarrow>
          (if a = 224 then 160 \<le> b \<and> b \<le> 191
           else if a = 237 then 128 \<le> b \<and> b \<le> 159 else cont_byte b)
          \<and> cont_byte c \<and> valid_utf8 r | _ \<Rightarrow> False)
     else if 240 \<le> a \<and> a \<le> 244 then
       (case bs of b # c # d # r \<Rightarrow>
          (if a = 240 then 144 \<le> b \<and> b \<le> 191
           else if a = 244 then 128 \<le> b \<and> b \<le> 143 else cont_byte b)
          \<and> cont_byte c \<and> cont_byte d \<and> valid_utf8 r | _ \<Rightarrow> False)
     else False)"

text \<open>What every Rust \<open>String\<close> satisfies, and \<open>String::from_utf8\<close>.\<close>

definition utf8 :: "string \<Rightarrow> bool" where
  "utf8 s \<longleftrightarrow> valid_utf8 (map of_char s)"

definition from_utf8 :: "u8 list \<Rightarrow> string option" where
  "from_utf8 bs = (if valid_utf8 (map unat bs) then Some (map char_of_byte bs) else None)"

lemma from_utf8_as_bytes [wire]: "utf8 s \<Longrightarrow> from_utf8 (as_bytes s) = Some s"
  by (simp add: from_utf8_def utf8_def) (simp add: as_bytes_def comp_def)

lemma ascii_utf8: "(\<forall>c \<in> set s. of_char c < (128::nat)) \<Longrightarrow> utf8 s"
  by (induction s) (auto simp: utf8_def)

section \<open>Saturating arithmetic\<close>

text \<open>\<open>saturating_sub\<close> of the unsigned integers.\<close>

definition saturating_sub :: "'a::len word \<Rightarrow> 'a word \<Rightarrow> 'a word" where
  "saturating_sub a b = (if b \<le> a then a - b else 0)"

lemma saturating_sub_le: "t \<le> b \<Longrightarrow> t \<le> a \<Longrightarrow> saturating_sub a b \<le> a - t"
proof (cases "b \<le> a")
  case True
  assume "t \<le> b" and "t \<le> a"
  with True have "unat (a - b) = unat a - unat b" and "unat (a - t) = unat a - unat t" and "unat t \<le> unat b"
    by (simp_all add: unat_sub word_le_nat_alt)
  with True show ?thesis
    by (simp add: saturating_sub_def word_le_nat_alt)
qed (simp add: saturating_sub_def)

end
