(* ===== verification/Rust_Strings.thy ===== *)
theory Rust_Strings
  imports Prelude
begin

text \<open>
  The \<open>str\<close> methods and the \<open>std::net::IpAddr\<close> parser that the code calls, over byte
  strings. Case conversion and trimming act on the ASCII letters and the ASCII white space;
  bytes of multi-byte characters pass through unchanged, so the functions agree with Rust's
  on ASCII text and leave other text alone where Rust would apply the Unicode tables.
\<close>

section \<open>Characters\<close>

definition is_ws :: "char \<Rightarrow> bool" where
  "is_ws c \<longleftrightarrow> of_char c \<in> {9, 10, 11, 12, 13, 32::nat}"

definition lower_char :: "char \<Rightarrow> char" where
  "lower_char c = (let n = of_char c :: nat in if 65 \<le> n \<and> n \<le> 90 then char_of (n + 32) else c)"

definition to_lowercase :: "string \<Rightarrow> string" where
  "to_lowercase s = map lower_char s"

definition eq_ignore_ascii_case :: "string \<Rightarrow> string \<Rightarrow> bool" where
  "eq_ignore_ascii_case s t \<longleftrightarrow> to_lowercase s = to_lowercase t"

definition digit_val :: "char \<Rightarrow> nat option" where
  "digit_val c = (let n = of_char c :: nat in if 48 \<le> n \<and> n \<le> 57 then Some (n - 48) else None)"

definition hex_val :: "char \<Rightarrow> nat option" where
  "hex_val c = (let n = of_char c :: nat in
     if 48 \<le> n \<and> n \<le> 57 then Some (n - 48)
     else if 97 \<le> n \<and> n \<le> 102 then Some (n - 87)
     else if 65 \<le> n \<and> n \<le> 70 then Some (n - 55) else None)"

section \<open>Searching and splitting\<close>

fun starts_with :: "string \<Rightarrow> string \<Rightarrow> bool" where
  "starts_with [] s = True"
| "starts_with (p # ps) [] = False"
| "starts_with (p # ps) (c # cs) = (p = c \<and> starts_with ps cs)"

definition ends_with :: "string \<Rightarrow> string \<Rightarrow> bool" where
  "ends_with p s \<longleftrightarrow> starts_with (rev p) (rev s)"

definition strip_prefix :: "string \<Rightarrow> string \<Rightarrow> string option" where
  "strip_prefix p s = (if starts_with p s then Some (drop (length p) s) else None)"

fun split_once :: "string \<Rightarrow> string \<Rightarrow> (string \<times> string) option" where
  "split_once p [] = (if p = [] then Some ([], []) else None)"
| "split_once p (c # cs) =
     (if starts_with p (c # cs) then Some ([], drop (length p) (c # cs))
      else map_option (\<lambda>(a, b). (c # a, b)) (split_once p cs))"

definition contains_str :: "string \<Rightarrow> string \<Rightarrow> bool" where
  "contains_str p s \<longleftrightarrow> split_once p s \<noteq> None"

text \<open>\<open>s.split(c)\<close>: one piece more than there are separators.\<close>

fun split_char :: "char \<Rightarrow> string \<Rightarrow> string list" where
  "split_char c [] = [[]]"
| "split_char c (x # xs) =
     (if x = c then [] # split_char c xs
      else (case split_char c xs of [] \<Rightarrow> [[x]] | p # ps \<Rightarrow> (x # p) # ps))"

definition trim :: "string \<Rightarrow> string" where
  "trim s = rev (dropWhile is_ws (rev (dropWhile is_ws s)))"

text \<open>\<open>s.rsplit(c).next()\<close>.\<close>

definition after_last :: "char \<Rightarrow> string \<Rightarrow> string" where
  "after_last c s = rev (takeWhile (\<lambda>x. x \<noteq> c) (rev s))"

text \<open>\<open>format!("{n}")\<close> of an unsigned integer.\<close>

fun show_nat :: "nat \<Rightarrow> string" where
  "show_nat n = (if n < 10 then [char_of (48 + n)] else show_nat (n div 10) @ [char_of (48 + n mod 10)])"

declare show_nat.simps [simp del]

section \<open>IP addresses\<close>

text \<open>
  \<open>str::parse::<IpAddr>()\<close>: the reader of the standard library, which reads decimal octets
  without leading zeros, hexadecimal groups, one \<open>::\<close>, and a trailing dotted quad, and
  accepts only when nothing is left over. A reader returns the unread rest.
\<close>

fun read_digits :: "(char \<Rightarrow> nat option) \<Rightarrow> nat \<Rightarrow> string \<Rightarrow> nat \<times> nat \<times> string" where
  "read_digits dv b [] = (0, 0, [])"
| "read_digits dv b (c # cs) = (case dv c of None \<Rightarrow> (0, 0, c # cs)
     | Some d \<Rightarrow> (case read_digits dv b cs of (n, v, r) \<Rightarrow> (Suc n, d * b ^ n + v, r)))"

definition read_octet :: "string \<Rightarrow> string option" where
  "read_octet s = (case read_digits digit_val 10 s of (n, v, r) \<Rightarrow>
     if n = 0 \<or> 3 < n \<or> 255 < v \<or> (starts_with ''0'' s \<and> 1 < n) then None else Some r)"

definition read_hex_group :: "string \<Rightarrow> string option" where
  "read_hex_group s = (case read_digits hex_val 16 s of (n, v, r) \<Rightarrow>
     if n = 0 \<or> 4 < n then None else Some r)"

definition read_sep :: "char \<Rightarrow> nat \<Rightarrow> string \<Rightarrow> string option" where
  "read_sep c i s = (if i = 0 then Some s else strip_prefix [c] s)"

fun read_octets :: "nat \<Rightarrow> nat \<Rightarrow> string \<Rightarrow> string option" where
  "read_octets i 0 s = Some s"
| "read_octets i (Suc k) s =
     Option.bind (Option.bind (read_sep CHR ''.'' i s) read_octet) (read_octets (Suc i) k)"

definition read_ipv4 :: "string \<Rightarrow> string option" where
  "read_ipv4 s = read_octets 0 4 s"

fun read_groups :: "nat \<Rightarrow> nat \<Rightarrow> string \<Rightarrow> nat \<times> bool \<times> string" where
  "read_groups i 0 s = (i, False, s)"
| "read_groups i (Suc k) s =
     (case (if 0 < k then Option.bind (read_sep CHR '':'' i s) read_ipv4 else None) of
        Some r \<Rightarrow> (i + 2, True, r)
      | None \<Rightarrow> (case Option.bind (read_sep CHR '':'' i s) read_hex_group of
           Some r \<Rightarrow> read_groups (Suc i) k r
         | None \<Rightarrow> (i, False, s)))"

definition read_ipv6 :: "string \<Rightarrow> string option" where
  "read_ipv6 s = (case read_groups 0 8 s of (h, v4, r) \<Rightarrow>
     if h = 8 then Some r
     else if v4 then None
     else Option.bind (strip_prefix ''::'' r)
            (\<lambda>r'. case read_groups 0 (8 - (h + 1)) r' of (t, v4', r'') \<Rightarrow> Some r''))"

definition is_ip_addr :: "string \<Rightarrow> bool" where
  "is_ip_addr s = (case read_ipv4 s of Some r \<Rightarrow> r = [] | None \<Rightarrow> read_ipv6 s = Some [])"

section \<open>Facts\<close>

lemma starts_with_iff: "starts_with p s \<longleftrightarrow> (\<exists>r. s = p @ r)"
  by (induction p s rule: starts_with.induct) auto

lemma ends_with_iff: "ends_with p s \<longleftrightarrow> (\<exists>r. s = r @ p)"
proof
  assume "ends_with p s"
  then obtain r where "rev s = rev p @ r"
    by (auto simp: ends_with_def starts_with_iff)
  then have "s = rev r @ p"
    by (metis rev_append rev_rev_ident)
  then show "\<exists>r. s = r @ p" ..
qed (auto simp: ends_with_def starts_with_iff)

lemma strip_prefix_Some_iff: "strip_prefix p s = Some r \<longleftrightarrow> s = p @ r"
  by (auto simp: strip_prefix_def starts_with_iff)

lemma split_once_Some: "split_once p s = Some (a, b) \<Longrightarrow> s = a @ p @ b"
  by (induction s arbitrary: a) (auto simp: starts_with_iff split: if_splits)

lemma lower_char_idem [simp]: "lower_char (lower_char c) = lower_char c"
proof (cases "65 \<le> (of_char c :: nat) \<and> of_char c \<le> (90::nat)")
  case True
  then have "of_char (char_of (of_char c + 32 :: nat)) = (of_char c + 32 :: nat)"
    by simp
  with True show ?thesis
    by (simp add: lower_char_def Let_def)
qed (auto simp: lower_char_def Let_def)

lemma to_lowercase_idem [simp]: "to_lowercase (to_lowercase s) = to_lowercase s"
  by (simp add: to_lowercase_def comp_def)

lemma to_lowercase_Nil_iff [simp]: "to_lowercase s = [] \<longleftrightarrow> s = []"
  by (simp add: to_lowercase_def)

text \<open>Lower-casing maps no other character to a punctuation mark of the URI grammar.\<close>

lemma lower_char_eq_punct:
  assumes "(of_char c :: nat) < 65 \<or> 122 < (of_char c :: nat)"
  shows "lower_char x = c \<longleftrightarrow> x = c"
proof
  assume "lower_char x = c"
  with assms show "x = c"
    by (auto simp: lower_char_def Let_def split: if_splits)
next
  assume "x = c"
  with assms show "lower_char x = c"
    by (auto simp: lower_char_def Let_def)
qed

lemma set_after_last: "c \<notin> set (after_last c s)"
  by (auto simp: after_last_def dest: set_takeWhileD)

lemma set_after_last_subset: "set (after_last c s) \<subseteq> set s"
  by (auto simp: after_last_def dest: set_takeWhileD)

lemma split_char_nonempty [simp]: "split_char c s \<noteq> []"
  by (cases s) (auto split: list.splits)

lemma length_split_char: "length (split_char c s) = Suc (count_list s c)"
  by (induction s) (auto split: list.splits)

lemma split_char_no_sep [simp]: "c \<notin> set s \<Longrightarrow> split_char c s = [s]"
  by (induction s) auto

lemma split_char_append: "c \<notin> set a \<Longrightarrow> split_char c (a @ c # b) = a # split_char c b"
  by (induction a) auto

lemma trim_empty [simp]: "trim [] = []"
  by (simp add: trim_def)

end
