(* ===== verification/Errors.thy ===== *)
theory Errors
  imports Rust_Strings
begin

text \<open>
  \<open>cosmarden-core/src/error.rs\<close>: the error type of the core crate. A \<open>source\<close> error of
  another crate is carried as its text. \<open>error_display\<close> is the \<open>Display\<close> that
  \<open>thiserror\<close> derives from the \<open>#[error]\<close> attributes; the agent puts it in responses.
\<close>

datatype error =
    CreateBlockMode
  | CreateHmac
  | Decrypt
  | InvalidBase64
  | InvalidCipherString string
  | InvalidMac
  | Padding
  | Rsa
  | RsaPkcs8
  | TooOldCipherStringType string
  | UnimplementedCipherStringType string
  | Reqwest string
  | CreateReqwestClient string
  | InsecureServerUrl string
  | InvalidServerUrl string string
  | RequestFailed nat
  | RequestUnauthorized
  | InvalidTwoFactorProvider string
  | InvalidKdfType string
  | IncorrectPassword string
  | RegistrationRequired
  | IncorrectApiKey
  | Json string
  | TwoFactorRequired "nat list" string
  | NewDeviceVerificationRequired
  | SessionEnvelope string
  | Io string
  | Other string

fun error_display :: "error \<Rightarrow> string" where
  "error_display CreateBlockMode = ''failed to create block mode decryptor''"
| "error_display CreateHmac = ''failed to create hmac''"
| "error_display Decrypt = ''failed to decrypt''"
| "error_display InvalidBase64 = ''invalid base64''"
| "error_display (InvalidCipherString reason) = ''invalid cipherstring: '' @ reason"
| "error_display InvalidMac = ''invalid mac''"
| "error_display Padding = ''invalid padding''"
| "error_display Rsa = ''failed to decrypt RSA''"
| "error_display RsaPkcs8 = ''failed to decode RSA PKCS8''"
| "error_display (TooOldCipherStringType ty) = ''cipherstring type '' @ ty @ '' too old''"
| "error_display (UnimplementedCipherStringType ty) = ''unimplemented cipherstring type: '' @ ty"
| "error_display (Reqwest source) = ''network error: '' @ source"
| "error_display (CreateReqwestClient source) = ''failed to create reqwest client: '' @ source"
| "error_display (InsecureServerUrl url) = ''refusing insecure server URL '' @ url @
     '': https:// is required (http:// is allowed for loopback hosts only) '' @ map char_of [226::nat, 128, 148] @
     '' the master-password hash and session tokens would otherwise cross the network in cleartext''"
| "error_display (InvalidServerUrl url source) = ''invalid server URL '' @ url @ '': '' @ source"
| "error_display (RequestFailed status) = ''request failed with status: '' @ show_nat status"
| "error_display RequestUnauthorized = ''request unauthorized''"
| "error_display (InvalidTwoFactorProvider ty) = ''invalid two factor provider: '' @ ty"
| "error_display (InvalidKdfType ty) = ''invalid kdf type: '' @ ty"
| "error_display (IncorrectPassword message) = ''incorrect password: '' @ message"
| "error_display RegistrationRequired = ''registration required''"
| "error_display IncorrectApiKey = ''incorrect api key''"
| "error_display (Json source) = ''json error: '' @ source"
| "error_display (TwoFactorRequired providers token) = ''two factor authentication required''"
| "error_display NewDeviceVerificationRequired = ''new device verification required''"
| "error_display (SessionEnvelope reason) = ''session envelope: '' @ reason"
| "error_display (Io source) = ''io error: '' @ source"
| "error_display (Other s) = ''other error: '' @ s"

end
