(* ===== verification/Vault_Model.thy ===== *)
theory Vault_Model
  imports Errors
begin

text \<open>
  The vault's data: \<open>cosmarden-core/src/db/models.rs\<close> (entries, their fields and secrets),
  the enumerations of \<open>api/models\<close> they carry, and the operations on custom fields. The same
  type holds an entry as the server stores it, with cipherstrings in the string slots, and
  the decrypted entry.

  Each variant of the enum \<open>EntryData\<close> with named fields is a constructor over a record of
  those fields; the prefix of a field name tells the variants apart. \<open>secret\<close> is the newtype
  \<open>Secret\<close>, \<open>expose\<close> its accessor.
\<close>

section \<open>Enumerations\<close>

datatype entry_type =
  ET_Login | ET_Card | ET_Identity | ET_SecureNote | ET_SshKey | ET_BankAccount | ET_DriversLicense | ET_Passport

datatype field_type = FT_Text | FT_Hidden | FT_Boolean | FT_Linked

datatype linked_id_type = LI_Username | LI_Password

datatype uri_match_type = UM_Domain | UM_Host | UM_StartsWith | UM_Exact | UM_RegularExpression | UM_Never

datatype reprompt = Reprompt_None | Reprompt_Password

datatype kdf_type = Pbkdf2 | Argon2id

section \<open>Entries\<close>

datatype secret = Secret (expose: string)

record uri =
  u_uri :: string
  u_match_type :: "uri_match_type option"

record field =
  f_ty :: "field_type option"
  f_name :: "string option"
  f_value :: "secret option"
  f_linked_id :: "linked_id_type option"

record history_entry =
  h_last_used_date :: string
  h_password :: secret

record login =
  lg_username :: "string option"
  lg_password :: "secret option"
  lg_totp :: "secret option"
  lg_uris :: "uri list"

record card =
  cd_cardholder_name :: "string option"
  cd_number :: "secret option"
  cd_brand :: "string option"
  cd_exp_month :: "string option"
  cd_exp_year :: "string option"
  cd_code :: "secret option"

record identity =
  id_title :: "string option"
  id_first_name :: "string option"
  id_middle_name :: "string option"
  id_last_name :: "string option"
  id_address1 :: "string option"
  id_address2 :: "string option"
  id_address3 :: "string option"
  id_city :: "string option"
  id_state :: "string option"
  id_postal_code :: "string option"
  id_country :: "string option"
  id_phone :: "string option"
  id_email :: "string option"
  id_ssn :: "string option"
  id_license_number :: "string option"
  id_passport_number :: "string option"
  id_username :: "string option"

record ssh_key =
  sk_private_key :: "secret option"
  sk_public_key :: "string option"
  sk_fingerprint :: "string option"

record bank_account =
  ba_bank_name :: "string option"
  ba_name_on_account :: "string option"
  ba_account_type :: "string option"
  ba_account_number :: "secret option"
  ba_routing_number :: "secret option"
  ba_branch_number :: "string option"
  ba_pin :: "secret option"
  ba_swift_code :: "string option"
  ba_iban :: "string option"
  ba_bank_contact_phone :: "string option"

record drivers_license =
  dl_first_name :: "string option"
  dl_middle_name :: "string option"
  dl_last_name :: "string option"
  dl_date_of_birth :: "string option"
  dl_license_number :: "secret option"
  dl_issuing_country :: "string option"
  dl_issuing_state :: "string option"
  dl_issue_date :: "string option"
  dl_expiration_date :: "string option"
  dl_issuing_authority :: "string option"
  dl_license_class :: "string option"

record passport =
  pp_surname :: "string option"
  pp_given_name :: "string option"
  pp_date_of_birth :: "string option"
  pp_sex :: "string option"
  pp_birth_place :: "string option"
  pp_nationality :: "string option"
  pp_issuing_country :: "string option"
  pp_passport_number :: "secret option"
  pp_passport_type :: "string option"
  pp_national_identification_number :: "string option"
  pp_issuing_authority :: "string option"
  pp_issue_date :: "string option"
  pp_expiration_date :: "string option"

datatype entry_data =
    Login login
  | Card card
  | Identity identity
  | SecureNote
  | SshKey ssh_key
  | BankAccount bank_account
  | DriversLicense drivers_license
  | Passport passport

record entry =
  e_id :: string
  e_org_id :: "string option"
  e_folder :: "string option"
  e_folder_id :: "string option"
  e_name :: string
  e_favorite :: bool
  e_data :: entry_data
  e_fields :: "field list"
  e_notes :: "secret option"
  e_history :: "history_entry list"
  e_key :: "string option"
  e_reprompt :: reprompt

fun entry_type_of :: "entry_data \<Rightarrow> entry_type" where
  "entry_type_of (Login l) = ET_Login"
| "entry_type_of (Card c) = ET_Card"
| "entry_type_of (Identity i) = ET_Identity"
| "entry_type_of SecureNote = ET_SecureNote"
| "entry_type_of (SshKey s) = ET_SshKey"
| "entry_type_of (BankAccount b) = ET_BankAccount"
| "entry_type_of (DriversLicense d) = ET_DriversLicense"
| "entry_type_of (Passport p) = ET_Passport"

section \<open>Operations\<close>

definition master_password_reprompt :: "entry \<Rightarrow> bool" where
  "master_password_reprompt e \<longleftrightarrow> e_reprompt e \<noteq> Reprompt_None"

definition get_field :: "entry \<Rightarrow> string \<Rightarrow> field option" where
  "get_field e n = List.find (\<lambda>f. f_name f = Some n) (e_fields e)"

fun set_field_in :: "field list \<Rightarrow> string \<Rightarrow> string \<Rightarrow> field_type \<Rightarrow> field list" where
  "set_field_in [] n v ty =
     [\<lparr>f_ty = Some ty, f_name = Some n, f_value = Some (Secret v), f_linked_id = None\<rparr>]"
| "set_field_in (f # fs) n v ty =
     (if f_name f = Some n then f\<lparr>f_value := Some (Secret v), f_ty := Some ty\<rparr> # fs
      else f # set_field_in fs n v ty)"

definition set_field :: "entry \<Rightarrow> string \<Rightarrow> string \<Rightarrow> field_type \<Rightarrow> entry" where
  "set_field e n v ty = e\<lparr>e_fields := set_field_in (e_fields e) n v ty\<rparr>"

definition remove_field :: "entry \<Rightarrow> string \<Rightarrow> entry" where
  "remove_field e n = e\<lparr>e_fields := filter (\<lambda>f. f_name f \<noteq> Some n) (e_fields e)\<rparr>"

section \<open>Custom fields behave as a keyed store\<close>

text \<open>
  The interface the callers use: a value put under a name is the one found there, other names
  are not affected, and a removed name is gone.
\<close>

locale field_store =
  fixes look :: "'s \<Rightarrow> string \<Rightarrow> 'f option"
    and put :: "'s \<Rightarrow> string \<Rightarrow> string \<Rightarrow> field_type \<Rightarrow> 's"
    and del :: "'s \<Rightarrow> string \<Rightarrow> 's"
    and val_of :: "'f \<Rightarrow> string option"
  assumes look_put_same: "\<exists>f. look (put s n v ty) n = Some f \<and> val_of f = Some v"
    and look_put_other: "m \<noteq> n \<Longrightarrow> look (put s n v ty) m = look s m"
    and look_del_same: "look (del s n) n = None"
    and look_del_other: "m \<noteq> n \<Longrightarrow> look (del s n) m = look s m"
begin

definition value_at :: "'s \<Rightarrow> string \<Rightarrow> string option" where
  "value_at s n = Option.bind (look s n) val_of"

lemma value_at_put: "value_at (put s n v ty) m = (if m = n then Some v else value_at s m)"
proof (cases "m = n")
  case True
  then show ?thesis
    using look_put_same [of s n v ty] by (auto simp: value_at_def)
qed (simp add: value_at_def look_put_other)

lemma value_at_del: "value_at (del s n) m = (if m = n then None else value_at s m)"
  by (simp add: value_at_def look_del_same look_del_other)

lemma put_put_value: "value_at (put (put s n v ty) n w ty') m = value_at (put s n w ty') m"
  by (simp add: value_at_put)

lemma del_put_value: "value_at (del (put s n v ty) n) m = value_at (del s n) m"
  by (simp add: value_at_put value_at_del)

end

lemma find_set_field_in_same:
  "\<exists>f. List.find (\<lambda>f. f_name f = Some n) (set_field_in fs n v ty) = Some f
     \<and> f_value f = Some (Secret v) \<and> f_ty f = Some ty \<and> f_name f = Some n"
  by (induction fs) auto

lemma find_set_field_in_other:
  "m \<noteq> n \<Longrightarrow> List.find (\<lambda>f. f_name f = Some m) (set_field_in fs n v ty) =
     List.find (\<lambda>f. f_name f = Some m) fs"
  by (induction fs) auto

lemma get_set_field_same:
  "\<exists>f. get_field (set_field e n v ty) n = Some f
     \<and> f_value f = Some (Secret v) \<and> f_ty f = Some ty \<and> f_name f = Some n"
  using find_set_field_in_same by (simp add: get_field_def set_field_def)

lemma find_filter_name:
  "List.find (\<lambda>f. f_name f = Some m) (filter (\<lambda>f. f_name f \<noteq> Some n) fs) =
     (if m = n then None else List.find (\<lambda>f. f_name f = Some m) fs)"
  by (induction fs) auto

interpretation fields: field_store get_field set_field remove_field
  "\<lambda>f. map_option expose (f_value f)"
proof (unfold_locales, goal_cases)
  case (1 s n v ty)
  then show ?case
    using get_set_field_same [of s n v ty] by auto
next
  case (2 m n s v ty)
  then show ?case
    by (simp add: get_field_def set_field_def find_set_field_in_other)
next
  case (3 s n)
  then show ?case
    by (simp add: get_field_def remove_field_def find_filter_name)
next
  case (4 m n s)
  then show ?case
    by (simp add: get_field_def remove_field_def find_filter_name)
qed

text \<open>The value of a custom field, as the detail views read it.\<close>

abbreviation field_value_at :: "entry \<Rightarrow> string \<Rightarrow> string option" where
  "field_value_at \<equiv> fields.value_at"

lemma field_value_at_eq:
  "field_value_at e n = Option.bind (get_field e n) (\<lambda>f. map_option expose (f_value f))"
  by (simp add: fields.value_at_def)

end
