(* ===== verification/Wire_Format.thy ===== *)
theory Wire_Format
  imports Vault_Model
begin

text \<open>
  The cipher of the server's API, \<open>cosmarden-core/src/api/models/vault.rs\<close>: what a sync
  returns and what a create or an update sends, with \<open>SyncResCipher::to_entry\<close>, and the
  request bodies that \<open>api/client/ops.rs\<close> builds.

  The login of a request is an untyped JSON value (\<open>serde_json::json!\<close>) that comes back as the
  struct \<open>CipherLogin\<close>, so both ends are modelled on a type of JSON values with the keys that
  each side uses; for the typed objects the keys of both sides are derived from the same struct
  and the struct itself is the model. \<open>CipherIdentity\<close> has the fields of the vault's identity
  and shares its record.
\<close>

section \<open>JSON values\<close>

datatype json = JNull | JBool bool | JStr string | JNum nat | JArr "json list" | JObj "(string \<times> json) list"

definition json_opt :: "string option \<Rightarrow> json" where
  "json_opt s = (case s of None \<Rightarrow> JNull | Some v \<Rightarrow> JStr v)"

fun uri_match_repr :: "uri_match_type \<Rightarrow> nat" where
  "uri_match_repr UM_Domain = 0"
| "uri_match_repr UM_Host = 1"
| "uri_match_repr UM_StartsWith = 2"
| "uri_match_repr UM_Exact = 3"
| "uri_match_repr UM_RegularExpression = 4"
| "uri_match_repr UM_Never = 5"

definition uri_match_of_repr :: "nat \<Rightarrow> uri_match_type option" where
  "uri_match_of_repr n = (if n = 0 then Some UM_Domain else if n = 1 then Some UM_Host
     else if n = 2 then Some UM_StartsWith else if n = 3 then Some UM_Exact
     else if n = 4 then Some UM_RegularExpression else if n = 5 then Some UM_Never else None)"

definition json_match :: "uri_match_type option \<Rightarrow> json" where
  "json_match m = (case m of None \<Rightarrow> JNull | Some t \<Rightarrow> JNum (uri_match_repr t))"

section \<open>The structs\<close>

record cipher_uri =
  cu_uri :: "string option"
  cu_match_type :: "uri_match_type option"

record cipher_login =
  cl_username :: "string option"
  cl_password :: "string option"
  cl_totp :: "string option"
  cl_uris :: "cipher_uri list option"

record cipher_ssh_key =
  ck_private_key :: "string option"
  ck_public_key :: "string option"
  ck_fingerprint :: "string option"

record cipher_card =
  cc_cardholder_name :: "string option"
  cc_brand :: "string option"
  cc_number :: "string option"
  cc_exp_month :: "string option"
  cc_exp_year :: "string option"
  cc_code :: "string option"

record cipher_bank_account =
  cb_bank_name :: "string option"
  cb_name_on_account :: "string option"
  cb_account_type :: "string option"
  cb_account_number :: "string option"
  cb_routing_number :: "string option"
  cb_branch_number :: "string option"
  cb_pin :: "string option"
  cb_swift_code :: "string option"
  cb_iban :: "string option"
  cb_bank_contact_phone :: "string option"

record cipher_drivers_license =
  cdl_first_name :: "string option"
  cdl_middle_name :: "string option"
  cdl_last_name :: "string option"
  cdl_date_of_birth :: "string option"
  cdl_license_number :: "string option"
  cdl_issuing_country :: "string option"
  cdl_issuing_state :: "string option"
  cdl_issue_date :: "string option"
  cdl_expiration_date :: "string option"
  cdl_issuing_authority :: "string option"
  cdl_license_class :: "string option"

record cipher_passport =
  cp_surname :: "string option"
  cp_given_name :: "string option"
  cp_date_of_birth :: "string option"
  cp_sex :: "string option"
  cp_birth_place :: "string option"
  cp_nationality :: "string option"
  cp_issuing_country :: "string option"
  cp_passport_number :: "string option"
  cp_passport_type :: "string option"
  cp_national_identification_number :: "string option"
  cp_issuing_authority :: "string option"
  cp_issue_date :: "string option"
  cp_expiration_date :: "string option"

record cipher_field =
  cf_name :: "string option"
  cf_value :: "string option"
  cf_ty :: "field_type option"
  cf_linked_id :: "linked_id_type option"

record sync_history =
  sh_password :: "string option"
  sh_last_used_date :: string

record sync_folder =
  sf_id :: string
  sf_name :: string

record sync_cipher =
  sc_id :: string
  sc_ty :: nat
  sc_folder_id :: "string option"
  sc_organization_id :: "string option"
  sc_favorite :: bool
  sc_name :: string
  sc_login :: "cipher_login option"
  sc_card :: "cipher_card option"
  sc_identity :: "identity option"
  sc_ssh_key :: "cipher_ssh_key option"
  sc_bank_account :: "cipher_bank_account option"
  sc_drivers_license :: "cipher_drivers_license option"
  sc_passport :: "cipher_passport option"
  sc_notes :: "string option"
  sc_password_history :: "sync_history list option"
  sc_fields :: "cipher_field list option"
  sc_deleted_date :: "string option"
  sc_key :: "string option"
  sc_reprompt :: reprompt

section \<open>Reading a login\<close>

text \<open>
  The deserializers that serde derives. A missing key of an \<open>Option\<close> field is \<open>None\<close>, except
  \<open>match_type\<close>, whose default is \<open>default_uri_match_type\<close>; a value of another type fails.
\<close>

definition de_opt_string :: "json option \<Rightarrow> string option option" where
  "de_opt_string j = (case j of None \<Rightarrow> Some None | Some JNull \<Rightarrow> Some None
     | Some (JStr s) \<Rightarrow> Some (Some s) | _ \<Rightarrow> None)"

definition de_match_type :: "json option \<Rightarrow> uri_match_type option option" where
  "de_match_type j = (case j of None \<Rightarrow> Some (Some UM_Domain) | Some JNull \<Rightarrow> Some None
     | Some (JNum n) \<Rightarrow> map_option Some (uri_match_of_repr n) | _ \<Rightarrow> None)"

fun de_cipher_uri :: "json \<Rightarrow> cipher_uri option" where
  "de_cipher_uri (JObj kvs) =
     Option.bind (de_opt_string (map_of kvs ''uri'')) (\<lambda>u.
     Option.bind (de_match_type (map_of kvs ''match_type'')) (\<lambda>m.
       Some \<lparr>cu_uri = u, cu_match_type = m\<rparr>))"
| "de_cipher_uri j = None"

fun de_list :: "('a \<Rightarrow> 'b option) \<Rightarrow> 'a list \<Rightarrow> 'b list option" where
  "de_list f [] = Some []"
| "de_list f (x # xs) = Option.bind (f x) (\<lambda>y. Option.bind (de_list f xs) (\<lambda>ys. Some (y # ys)))"

definition de_uris :: "json option \<Rightarrow> cipher_uri list option option" where
  "de_uris j = (case j of None \<Rightarrow> Some None | Some JNull \<Rightarrow> Some None
     | Some (JArr js) \<Rightarrow> map_option Some (de_list de_cipher_uri js) | _ \<Rightarrow> None)"

fun de_cipher_login :: "json \<Rightarrow> cipher_login option" where
  "de_cipher_login (JObj kvs) =
     Option.bind (de_opt_string (map_of kvs ''username'')) (\<lambda>u.
     Option.bind (de_opt_string (map_of kvs ''password'')) (\<lambda>p.
     Option.bind (de_opt_string (map_of kvs ''totp'')) (\<lambda>t.
     Option.bind (de_uris (map_of kvs ''uris'')) (\<lambda>us.
       Some \<lparr>cl_username = u, cl_password = p, cl_totp = t, cl_uris = us\<rparr>))))"
| "de_cipher_login j = None"

section \<open>From the server's cipher to an entry\<close>

definition login_of_wire :: "cipher_login option \<Rightarrow> login" where
  "login_of_wire w =
     \<lparr>lg_username = Option.bind w cl_username,
      lg_password = map_option Secret (Option.bind w cl_password),
      lg_totp = map_option Secret (Option.bind w cl_totp),
      lg_uris = (case Option.bind w cl_uris of None \<Rightarrow> []
        | Some us \<Rightarrow> List.map_filter (\<lambda>u. map_option (\<lambda>s. \<lparr>u_uri = s, u_match_type = cu_match_type u\<rparr>)
                                         (cu_uri u)) us)\<rparr>"

definition ssh_key_of_wire :: "cipher_ssh_key option \<Rightarrow> ssh_key" where
  "ssh_key_of_wire w =
     \<lparr>sk_private_key = map_option Secret (Option.bind w ck_private_key),
      sk_public_key = Option.bind w ck_public_key,
      sk_fingerprint = Option.bind w ck_fingerprint\<rparr>"

definition card_of_wire :: "cipher_card option \<Rightarrow> card" where
  "card_of_wire w =
     \<lparr>cd_cardholder_name = Option.bind w cc_cardholder_name,
      cd_number = map_option Secret (Option.bind w cc_number),
      cd_brand = Option.bind w cc_brand,
      cd_exp_month = Option.bind w cc_exp_month,
      cd_exp_year = Option.bind w cc_exp_year,
      cd_code = map_option Secret (Option.bind w cc_code)\<rparr>"

definition identity_of_wire :: "identity option \<Rightarrow> identity" where
  "identity_of_wire w =
     \<lparr>id_title = Option.bind w id_title,
      id_first_name = Option.bind w id_first_name,
      id_middle_name = Option.bind w id_middle_name,
      id_last_name = Option.bind w id_last_name,
      id_address1 = Option.bind w id_address1,
      id_address2 = Option.bind w id_address2,
      id_address3 = Option.bind w id_address3,
      id_city = Option.bind w id_city,
      id_state = Option.bind w id_state,
      id_postal_code = Option.bind w id_postal_code,
      id_country = Option.bind w id_country,
      id_phone = Option.bind w id_phone,
      id_email = Option.bind w id_email,
      id_ssn = Option.bind w id_ssn,
      id_license_number = Option.bind w id_license_number,
      id_passport_number = Option.bind w id_passport_number,
      id_username = Option.bind w id_username\<rparr>"

definition bank_of_wire :: "cipher_bank_account option \<Rightarrow> bank_account" where
  "bank_of_wire w =
     \<lparr>ba_bank_name = Option.bind w cb_bank_name,
      ba_name_on_account = Option.bind w cb_name_on_account,
      ba_account_type = Option.bind w cb_account_type,
      ba_account_number = map_option Secret (Option.bind w cb_account_number),
      ba_routing_number = map_option Secret (Option.bind w cb_routing_number),
      ba_branch_number = Option.bind w cb_branch_number,
      ba_pin = map_option Secret (Option.bind w cb_pin),
      ba_swift_code = Option.bind w cb_swift_code,
      ba_iban = Option.bind w cb_iban,
      ba_bank_contact_phone = Option.bind w cb_bank_contact_phone\<rparr>"

definition drivers_license_of_wire :: "cipher_drivers_license option \<Rightarrow> drivers_license" where
  "drivers_license_of_wire w =
     \<lparr>dl_first_name = Option.bind w cdl_first_name,
      dl_middle_name = Option.bind w cdl_middle_name,
      dl_last_name = Option.bind w cdl_last_name,
      dl_date_of_birth = Option.bind w cdl_date_of_birth,
      dl_license_number = map_option Secret (Option.bind w cdl_license_number),
      dl_issuing_country = Option.bind w cdl_issuing_country,
      dl_issuing_state = Option.bind w cdl_issuing_state,
      dl_issue_date = Option.bind w cdl_issue_date,
      dl_expiration_date = Option.bind w cdl_expiration_date,
      dl_issuing_authority = Option.bind w cdl_issuing_authority,
      dl_license_class = Option.bind w cdl_license_class\<rparr>"

definition passport_of_wire :: "cipher_passport option \<Rightarrow> passport" where
  "passport_of_wire w =
     \<lparr>pp_surname = Option.bind w cp_surname,
      pp_given_name = Option.bind w cp_given_name,
      pp_date_of_birth = Option.bind w cp_date_of_birth,
      pp_sex = Option.bind w cp_sex,
      pp_birth_place = Option.bind w cp_birth_place,
      pp_nationality = Option.bind w cp_nationality,
      pp_issuing_country = Option.bind w cp_issuing_country,
      pp_passport_number = map_option Secret (Option.bind w cp_passport_number),
      pp_passport_type = Option.bind w cp_passport_type,
      pp_national_identification_number = Option.bind w cp_national_identification_number,
      pp_issuing_authority = Option.bind w cp_issuing_authority,
      pp_issue_date = Option.bind w cp_issue_date,
      pp_expiration_date = Option.bind w cp_expiration_date\<rparr>"

definition field_of_wire :: "cipher_field \<Rightarrow> field" where
  "field_of_wire f = \<lparr>f_ty = cf_ty f, f_name = cf_name f, f_value = map_option Secret (cf_value f),
     f_linked_id = cf_linked_id f\<rparr>"

definition history_of_wire :: "sync_history list option \<Rightarrow> history_entry list" where
  "history_of_wire h = (case h of None \<Rightarrow> []
     | Some hs \<Rightarrow> List.map_filter (\<lambda>x. map_option
         (\<lambda>p. \<lparr>h_last_used_date = sh_last_used_date x, h_password = Secret p\<rparr>) (sh_password x)) hs)"

text \<open>The loop keeps the name of the last folder with the id.\<close>

definition folder_name :: "sync_folder list \<Rightarrow> string \<Rightarrow> string option" where
  "folder_name folders i = foldl (\<lambda>acc f. if sf_id f = i then Some (sf_name f) else acc) None folders"

definition data_of_wire :: "sync_cipher \<Rightarrow> entry_data option" where
  "data_of_wire c =
     (if sc_ty c = 1 then Some (Login (login_of_wire (sc_login c)))
      else if sc_ty c = 2 then Some SecureNote
      else if sc_ty c = 3 then Some (Card (card_of_wire (sc_card c)))
      else if sc_ty c = 4 then Some (Identity (identity_of_wire (sc_identity c)))
      else if sc_ty c = 5 then Some (SshKey (ssh_key_of_wire (sc_ssh_key c)))
      else if sc_ty c = 6 then Some (BankAccount (bank_of_wire (sc_bank_account c)))
      else if sc_ty c = 7 then Some (DriversLicense (drivers_license_of_wire (sc_drivers_license c)))
      else if sc_ty c = 8 then Some (Passport (passport_of_wire (sc_passport c)))
      else None)"

definition to_entry :: "sync_folder list \<Rightarrow> sync_cipher \<Rightarrow> entry option" where
  "to_entry folders c =
     (if sc_deleted_date c \<noteq> None then None
      else map_option (\<lambda>data.
        \<lparr>e_id = sc_id c, e_org_id = sc_organization_id c,
         e_folder = Option.bind (sc_folder_id c) (folder_name folders),
         e_folder_id = sc_folder_id c, e_name = sc_name c, e_favorite = sc_favorite c,
         e_data = data,
         e_fields = (case sc_fields c of None \<Rightarrow> [] | Some fs \<Rightarrow> map field_of_wire fs),
         e_notes = map_option Secret (sc_notes c), e_history = history_of_wire (sc_password_history c),
         e_key = sc_key c, e_reprompt = sc_reprompt c\<rparr>) (data_of_wire c))"

section \<open>Requests\<close>

record ciphers_post_req =
  po_ty :: nat
  po_encrypted_for :: string
  po_folder_id :: "string option"
  po_favorite :: bool
  po_name :: string
  po_notes :: "string option"
  po_login :: "json option"
  po_card :: "cipher_card option"
  po_identity :: "identity option"
  po_secure_note :: bool
  po_ssh_key :: "cipher_ssh_key option"
  po_bank_account :: "cipher_bank_account option"
  po_drivers_license :: "cipher_drivers_license option"
  po_passport :: "cipher_passport option"
  po_fields :: "cipher_field list"
  po_reprompt :: reprompt

record ciphers_put_req =
  pu_ty :: nat
  pu_encrypted_for :: string
  pu_folder_id :: "string option"
  pu_organization_id :: "string option"
  pu_favorite :: bool
  pu_key :: "string option"
  pu_name :: string
  pu_notes :: "string option"
  pu_login :: "json option"
  pu_card :: "cipher_card option"
  pu_identity :: "identity option"
  pu_fields :: "cipher_field list"
  pu_secure_note :: bool
  pu_ssh_key :: "cipher_ssh_key option"
  pu_bank_account :: "cipher_bank_account option"
  pu_drivers_license :: "cipher_drivers_license option"
  pu_passport :: "cipher_passport option"
  pu_password_history :: "(string \<times> string) list"
  pu_reprompt :: reprompt

definition empty_post :: "nat \<Rightarrow> string \<Rightarrow> string \<Rightarrow> bool \<Rightarrow> string option \<Rightarrow> cipher_field list \<Rightarrow> ciphers_post_req" where
  "empty_post ty user_id name favorite notes flds =
     \<lparr>po_ty = ty, po_encrypted_for = user_id, po_folder_id = None, po_favorite = favorite,
      po_name = name, po_notes = notes, po_login = None, po_card = None, po_identity = None,
      po_secure_note = False, po_ssh_key = None, po_bank_account = None, po_drivers_license = None,
      po_passport = None, po_fields = flds, po_reprompt = Reprompt_None\<rparr>"

definition login_json :: "string option \<Rightarrow> string option \<Rightarrow> string option \<Rightarrow> json \<Rightarrow> json" where
  "login_json username password totp uris = JObj
     [(''username'', json_opt username), (''password'', json_opt password),
      (''totp'', json_opt totp), (''uris'', uris)]"

definition add_cipher_req ::
  "string \<Rightarrow> nat \<Rightarrow> string \<Rightarrow> bool \<Rightarrow> string option \<Rightarrow> string option \<Rightarrow> string option \<Rightarrow> json list option
    \<Rightarrow> string option \<Rightarrow> cipher_field list \<Rightarrow> ciphers_post_req" where
  "add_cipher_req user_id ty name favorite username password totp uris notes flds =
     (empty_post ty user_id name favorite notes flds)
       \<lparr>po_login := (if ty = 1 then Some (login_json username password totp
            (case uris of None \<Rightarrow> JNull | Some us \<Rightarrow> JArr us)) else None),
        po_secure_note := (ty = 2)\<rparr>"

definition add_ssh_key_req ::
  "string \<Rightarrow> string \<Rightarrow> bool \<Rightarrow> string \<Rightarrow> string option \<Rightarrow> string option \<Rightarrow> cipher_field list \<Rightarrow> ciphers_post_req" where
  "add_ssh_key_req user_id name favorite private_key public_key notes flds =
     (empty_post 5 user_id name favorite notes flds)
       \<lparr>po_ssh_key := Some \<lparr>ck_private_key = Some private_key, ck_public_key = public_key, ck_fingerprint = None\<rparr>\<rparr>"

definition add_card_req ::
  "string \<Rightarrow> string \<Rightarrow> bool \<Rightarrow> cipher_card \<Rightarrow> string option \<Rightarrow> cipher_field list \<Rightarrow> ciphers_post_req" where
  "add_card_req user_id name favorite c notes flds =
     (empty_post 3 user_id name favorite notes flds)\<lparr>po_card := Some c\<rparr>"

text \<open>Of the identity the client sends the nine values it is called with.\<close>

definition add_identity_req ::
  "string \<Rightarrow> string \<Rightarrow> bool \<Rightarrow> identity \<Rightarrow> string option \<Rightarrow> cipher_field list \<Rightarrow> ciphers_post_req" where
  "add_identity_req user_id name favorite i notes flds =
     (empty_post 4 user_id name favorite notes flds)
       \<lparr>po_identity := Some (i\<lparr>id_title := None, id_middle_name := None, id_address2 := None,
          id_address3 := None, id_ssn := None, id_license_number := None,
          id_passport_number := None, id_username := None\<rparr>)\<rparr>"

definition add_new_type_cipher_req ::
  "string \<Rightarrow> nat \<Rightarrow> string \<Rightarrow> bool \<Rightarrow> cipher_bank_account option \<Rightarrow> cipher_drivers_license option
    \<Rightarrow> cipher_passport option \<Rightarrow> string option \<Rightarrow> cipher_field list \<Rightarrow> ciphers_post_req" where
  "add_new_type_cipher_req user_id ty name favorite bank dl passport notes flds =
     (empty_post ty user_id name favorite notes flds)
       \<lparr>po_bank_account := bank, po_drivers_license := dl, po_passport := passport\<rparr>"

text \<open>The parts of an update that depend on the type of the entry.\<close>

record typed_payload =
  ty_type :: nat
  ty_login :: "json option"
  ty_ssh_key :: "cipher_ssh_key option"
  ty_card :: "cipher_card option"
  ty_identity :: "identity option"
  ty_bank_account :: "cipher_bank_account option"
  ty_drivers_license :: "cipher_drivers_license option"
  ty_passport :: "cipher_passport option"

definition update_cipher_req ::
  "string \<Rightarrow> string \<Rightarrow> bool \<Rightarrow> typed_payload \<Rightarrow> string option \<Rightarrow> reprompt \<Rightarrow> cipher_field list
    \<Rightarrow> string option \<Rightarrow> (string \<times> string) list \<Rightarrow> ciphers_put_req" where
  "update_cipher_req user_id name favorite p notes reprompt flds key history =
     \<lparr>pu_ty = ty_type p, pu_encrypted_for = user_id, pu_folder_id = None, pu_organization_id = None,
      pu_favorite = favorite, pu_key = key, pu_name = name, pu_notes = notes, pu_login = ty_login p,
      pu_card = ty_card p, pu_identity = ty_identity p, pu_fields = flds,
      pu_secure_note = (ty_type p = 2), pu_ssh_key = ty_ssh_key p,
      pu_bank_account = ty_bank_account p, pu_drivers_license = ty_drivers_license p,
      pu_passport = ty_passport p, pu_password_history = history, pu_reprompt = reprompt\<rparr>"

section \<open>What comes back from a server that stores an update as sent\<close>

text \<open>
  \<open>PUT /ciphers/{id}\<close> replaces the cipher wholesale: the next sync has the values of the
  request, the login as the same JSON value.
\<close>

definition echoes_put :: "string \<Rightarrow> ciphers_put_req \<Rightarrow> sync_cipher \<Rightarrow> bool" where
  "echoes_put i r c \<longleftrightarrow>
     sc_id c = i \<and> sc_ty c = pu_ty r \<and> sc_folder_id c = pu_folder_id r
     \<and> sc_organization_id c = pu_organization_id r \<and> sc_favorite c = pu_favorite r
     \<and> sc_name c = pu_name r \<and> Option.bind (pu_login r) de_cipher_login = sc_login c
     \<and> sc_card c = pu_card r \<and> sc_identity c = pu_identity r \<and> sc_ssh_key c = pu_ssh_key r
     \<and> sc_bank_account c = pu_bank_account r \<and> sc_drivers_license c = pu_drivers_license r
     \<and> sc_passport c = pu_passport r \<and> sc_notes c = pu_notes r \<and> sc_fields c = Some (pu_fields r)
     \<and> sc_password_history c = Some (map (\<lambda>(d, p). \<lparr>sh_password = Some p, sh_last_used_date = d\<rparr>)
                                      (pu_password_history r))
     \<and> sc_deleted_date c = None \<and> sc_key c = pu_key r \<and> sc_reprompt c = pu_reprompt r"

text \<open>A create: the server chooses the id, and the new cipher has no key and no history.\<close>

definition echoes_post :: "string \<Rightarrow> ciphers_post_req \<Rightarrow> sync_cipher \<Rightarrow> bool" where
  "echoes_post i r c \<longleftrightarrow>
     sc_id c = i \<and> sc_ty c = po_ty r \<and> sc_folder_id c = po_folder_id r
     \<and> sc_organization_id c = None \<and> sc_favorite c = po_favorite r
     \<and> sc_name c = po_name r \<and> Option.bind (po_login r) de_cipher_login = sc_login c
     \<and> sc_card c = po_card r \<and> sc_identity c = po_identity r \<and> sc_ssh_key c = po_ssh_key r
     \<and> sc_bank_account c = po_bank_account r \<and> sc_drivers_license c = po_drivers_license r
     \<and> sc_passport c = po_passport r \<and> sc_notes c = po_notes r \<and> sc_fields c = Some (po_fields r)
     \<and> sc_password_history c = None \<and> sc_deleted_date c = None \<and> sc_key c = None
     \<and> sc_reprompt c = po_reprompt r"

end
