(* ===== verification/Cipher_String.thy ===== *)
theory Cipher_String
  imports Errors
begin

text \<open>
  \<open>cosmarden-core/src/cipherstring.rs\<close>, the buffers of \<open>locked.rs\<close> it fills, and the PKCS#7
  check: parsing and printing of Bitwarden cipherstrings, encryption and the three
  decryptions.

  The crates \<open>base64\<close>, \<open>hmac\<close>, \<open>aes\<close>/\<open>cbc\<close>/\<open>block-padding\<close> and \<open>rsa\<close> are the parameter
  \<open>C :: crypto\<close>; \<open>crypto_ok\<close> states what the code relies on of their documentation. The
  calls of the code that can panic (slicing a short key, \<open>ArrayVec::extend\<close> past its capacity,
  turning a slice of the wrong length into a \<open>GenericArray\<close>) are the value \<open>Panic\<close>.
\<close>

section \<open>The external crates\<close>

record crypto =
  b64_encode :: "u8 list \<Rightarrow> string"
  b64_decode :: "string \<Rightarrow> u8 list option"
  hmac_sha256 :: "u8 list \<Rightarrow> u8 list \<Rightarrow> u8 list option"
  aes_cbc_encrypt :: "u8 list \<Rightarrow> u8 list \<Rightarrow> u8 list \<Rightarrow> u8 list"
  aes_cbc_decrypt :: "u8 list \<Rightarrow> u8 list \<Rightarrow> u8 list \<Rightarrow> (u8 list \<times> u8 list) option"
  rsa_oaep_decrypt :: "u8 list \<Rightarrow> u8 list \<Rightarrow> error + u8 list"

text \<open>
  \<open>aes_cbc_encrypt key iv plain\<close> pads with PKCS#7 and encrypts. \<open>aes_cbc_decrypt\<close> returns
  the buffer after the in-place block decryption, padding included, and the plaintext slice
  of it; \<open>None\<close> is an \<open>UnpadError\<close>.
\<close>

definition pkcs7_pad :: "u8 list \<Rightarrow> u8 list" where
  "pkcs7_pad bs = (let n = 16 - length bs mod 16 in replicate n (word_of_nat n))"

definition crypto_ok :: "crypto \<Rightarrow> bool" where
  "crypto_ok C \<longleftrightarrow>
     (\<forall>bs. b64_decode C (b64_encode C bs) = Some bs
         \<and> CHR ''.'' \<notin> set (b64_encode C bs) \<and> CHR ''|'' \<notin> set (b64_encode C bs)) \<and>
     (\<forall>k m. \<exists>t. hmac_sha256 C k m = Some t \<and> length t = 32) \<and>
     (\<forall>k iv p. length k = 32 \<longrightarrow> length iv = 16 \<longrightarrow>
         aes_cbc_decrypt C k iv (aes_cbc_encrypt C k iv p) = Some (p @ pkcs7_pad p, p)
         \<and> length (aes_cbc_encrypt C k iv p) = length p + length (pkcs7_pad p))"

section \<open>Locked buffers\<close>

text \<open>
  \<open>locked::Vec\<close> is a fixed buffer of \<open>LEN\<close> bytes; \<open>extend\<close> past it panics. \<open>Keys\<close>,
  \<open>Password\<close> and \<open>PrivateKey\<close> wrap its contents.
\<close>

definition LEN :: nat where "LEN = 4096"

definition lvec_extend :: "u8 list \<Rightarrow> u8 list \<Rightarrow> u8 list outcome" where
  "lvec_extend v it =
     (if length v + length it \<le> LEN then Ret (v @ it) else Panic ''ArrayVec: capacity exceeded'')"

definition enc_key :: "u8 list \<Rightarrow> u8 list outcome" where
  "enc_key ks = (if 32 \<le> length ks then Ret (take 32 ks) else Panic ''range end index out of range'')"

definition mac_key :: "u8 list \<Rightarrow> u8 list outcome" where
  "mac_key ks = (if 64 \<le> length ks then Ret (take 32 (drop 32 ks)) else Panic ''range end index out of range'')"

datatype token = Token_Locked "u8 list" | Token_Heap string

definition token_from_string :: "string \<Rightarrow> token outcome" where
  "token_from_string s =
     (if length s \<le> LEN
      then (case lvec_extend [] (as_bytes s) of Panic m \<Rightarrow> Panic m | Ret v \<Rightarrow> Ret (Token_Locked v))
      else Ret (Token_Heap s))"

fun token_expose :: "token \<Rightarrow> string outcome" where
  "token_expose (Token_Locked v) = (case from_utf8 v of
     Some s \<Rightarrow> Ret s | None \<Rightarrow> Panic ''locked token constructed from valid UTF-8'')"
| "token_expose (Token_Heap s) = Ret s"

section \<open>Cipherstrings\<close>

datatype cipherstring =
    Symmetric "u8 list" "u8 list" "u8 list option"
  | Asymmetric "u8 list"

definition decode64 :: "crypto \<Rightarrow> string \<Rightarrow> error + u8 list" where
  "decode64 C s = ok_or InvalidBase64 (b64_decode C s)"

definition parse_type2 :: "crypto \<Rightarrow> string \<Rightarrow> error + cipherstring" where
  "parse_type2 C contents = (case split_char CHR ''|'' contents of
     [a, b, c] \<Rightarrow>
       and_then (decode64 C a) (\<lambda>iv.
       and_then (decode64 C b) (\<lambda>ct.
       and_then (decode64 C c) (\<lambda>mac.
         Inr (Symmetric iv ct (Some mac)))))
   | parts \<Rightarrow> Inl (InvalidCipherString (''type 2 cipherstring with '' @ show_nat (length parts)
       @ '' parts (expected 3: iv|ct|mac)'')))"

definition cipherstring_new :: "crypto \<Rightarrow> string \<Rightarrow> error + cipherstring" where
  "cipherstring_new C s = (case split_char CHR ''.'' s of
     [t, contents] \<Rightarrow>
       (case t of
          [c] \<Rightarrow> (case digit_val c of
             None \<Rightarrow> Inl (UnimplementedCipherStringType t)
           | Some ty \<Rightarrow>
               if ty = 2 then parse_type2 C contents
               else if ty = 4 \<or> ty = 6 then
                 and_then (decode64 C (hd (split_char CHR ''|'' contents))) (\<lambda>ct. Inr (Asymmetric ct))
               else if ty < 6 then Inl (TooOldCipherStringType (show_nat ty))
               else Inl (UnimplementedCipherStringType (show_nat ty)))
        | _ \<Rightarrow> Inl (UnimplementedCipherStringType t))
   | _ \<Rightarrow> Inl (InvalidCipherString ''couldn't find type''))"

fun cipherstring_display :: "crypto \<Rightarrow> cipherstring \<Rightarrow> string" where
  "cipherstring_display C (Symmetric iv ct (Some mac)) =
     ''2.'' @ b64_encode C iv @ ''|'' @ b64_encode C ct @ ''|'' @ b64_encode C mac"
| "cipherstring_display C (Symmetric iv ct None) = ''2.'' @ b64_encode C iv @ ''|'' @ b64_encode C ct"
| "cipherstring_display C (Asymmetric ct) = ''4.'' @ b64_encode C ct"

section \<open>Encryption and decryption\<close>

text \<open>\<open>iv\<close> is what \<open>random_iv\<close> drew.\<close>

definition encrypt_symmetric :: "crypto \<Rightarrow> u8 list \<Rightarrow> u8 list \<Rightarrow> u8 list \<Rightarrow> (error, cipherstring) fallible" where
  "encrypt_symmetric C iv keys plaintext = (case enc_key keys of
     Panic m \<Rightarrow> Panic m
   | Ret ek \<Rightarrow> (let ct = aes_cbc_encrypt C ek iv plaintext in
       case mac_key keys of
         Panic m \<Rightarrow> Panic m
       | Ret mk \<Rightarrow> (case hmac_sha256 C mk (iv @ ct) of
           None \<Rightarrow> Fail CreateHmac
         | Some mac \<Rightarrow> Okay (Symmetric iv ct (Some mac)))))"

text \<open>Returns the key of the decryptor once the MAC is verified.\<close>

definition decrypt_common_symmetric ::
  "crypto \<Rightarrow> u8 list \<Rightarrow> u8 list \<Rightarrow> u8 list \<Rightarrow> u8 list option \<Rightarrow> (error, u8 list) fallible" where
  "decrypt_common_symmetric C keys iv ct mac_opt = (case mac_opt of
     None \<Rightarrow> Fail InvalidMac
   | Some mac \<Rightarrow> (case mac_key keys of
       Panic m \<Rightarrow> Panic m
     | Ret mk \<Rightarrow> (case hmac_sha256 C mk (iv @ ct) of
         None \<Rightarrow> Fail CreateHmac
       | Some tag \<Rightarrow>
           if length mac \<noteq> 32 then Panic ''GenericArray: slice length''
           else if mac \<noteq> tag then Fail InvalidMac
           else (case enc_key keys of
               Panic m \<Rightarrow> Panic m
             | Ret ek \<Rightarrow> if length iv \<noteq> 16 then Fail CreateBlockMode else Okay ek))))"

fun decrypt_symmetric ::
  "crypto \<Rightarrow> cipherstring \<Rightarrow> u8 list \<Rightarrow> u8 list option \<Rightarrow> (error, u8 list) fallible" where
  "decrypt_symmetric C (Symmetric iv ct mac) keys entry_key =
     and_try (decrypt_common_symmetric C (case entry_key of Some k \<Rightarrow> k | None \<Rightarrow> keys) iv ct mac)
       (\<lambda>ek. case aes_cbc_decrypt C ek iv ct of
          None \<Rightarrow> Fail Decrypt | Some (buf, plain) \<Rightarrow> Okay plain)"
| "decrypt_symmetric C (Asymmetric ct) keys entry_key =
     Fail (InvalidCipherString ''found an asymmetric cipherstring, expecting symmetric'')"

text \<open>The ciphertext is copied into a locked buffer first and decrypted there in place.\<close>

fun decrypt_locked_symmetric :: "crypto \<Rightarrow> cipherstring \<Rightarrow> u8 list \<Rightarrow> (error, u8 list) fallible" where
  "decrypt_locked_symmetric C (Symmetric iv ct mac) keys = (case lvec_extend [] ct of
     Panic m \<Rightarrow> Panic m
   | Ret res \<Rightarrow> and_try (decrypt_common_symmetric C keys iv ct mac)
       (\<lambda>ek. case aes_cbc_decrypt C ek iv res of
          None \<Rightarrow> Fail Decrypt | Some (buf, plain) \<Rightarrow> Okay buf))"
| "decrypt_locked_symmetric C (Asymmetric ct) keys =
     Fail (InvalidCipherString ''found an asymmetric cipherstring, expecting symmetric'')"

definition pkcs7_unpad :: "u8 list \<Rightarrow> u8 list option" where
  "pkcs7_unpad b =
     (if b = [] then None
      else let v = last b in
        if v = 0 then None
        else let n = unat v in
          if length b < n then None
          else if list_ex (\<lambda>c. c \<noteq> v) (drop (length b - n) b) then None
          else Some (take (length b - n) b))"

fun decrypt_locked_asymmetric :: "crypto \<Rightarrow> cipherstring \<Rightarrow> u8 list \<Rightarrow> (error, u8 list) fallible" where
  "decrypt_locked_asymmetric C (Asymmetric ct) private_key =
     and_try (Ret (ok_or Padding (pkcs7_unpad private_key))) (\<lambda>der.
     and_try (Ret (rsa_oaep_decrypt C der ct)) (\<lambda>bytes.
       (case lvec_extend [] bytes of Panic m \<Rightarrow> Panic m | Ret res \<Rightarrow> Okay res)))"
| "decrypt_locked_asymmetric C (Symmetric iv ct mac) private_key =
     Fail (InvalidCipherString ''found a symmetric cipherstring, expecting asymmetric'')"

section \<open>Parsing and printing\<close>

lemma digit_val_nat: "digit_val (char_of (48 + n)) = Some n" if "n < 10"
  using that by (simp add: digit_val_def Let_def)

lemma crypto_okD:
  assumes "crypto_ok C"
  shows "b64_decode C (b64_encode C bs) = Some bs"
    and "CHR ''.'' \<notin> set (b64_encode C bs)" and "CHR ''|'' \<notin> set (b64_encode C bs)"
    and "\<exists>t. hmac_sha256 C k m = Some t \<and> length t = 32"
    and "length k = 32 \<Longrightarrow> length iv = 16 \<Longrightarrow>
      aes_cbc_decrypt C k iv (aes_cbc_encrypt C k iv p) = Some (p @ pkcs7_pad p, p)"
    and "length k = 32 \<Longrightarrow> length iv = 16 \<Longrightarrow>
      length (aes_cbc_encrypt C k iv p) = length p + length (pkcs7_pad p)"
  using assms by (auto simp: crypto_ok_def)

lemma parse_display_mac [wire]:
  assumes "crypto_ok C"
  shows "cipherstring_new C (cipherstring_display C (Symmetric iv ct (Some mac))) =
    Inr (Symmetric iv ct (Some mac))"
proof -
  let ?iv = "b64_encode C iv" and ?ct = "b64_encode C ct" and ?mac = "b64_encode C mac"
  note b64 = crypto_okD(1-3) [OF assms]
  have "split_char CHR ''.'' (''2.'' @ ?iv @ ''|'' @ ?ct @ ''|'' @ ?mac) =
      [''2'', ?iv @ ''|'' @ ?ct @ ''|'' @ ?mac]"
    using split_char_append [of "CHR ''.''" "''2''"] b64 by simp
  moreover have "split_char CHR ''|'' (?iv @ ''|'' @ ?ct @ ''|'' @ ?mac) = [?iv, ?ct, ?mac]"
    using b64 by (simp add: split_char_append)
  moreover have "digit_val CHR ''2'' = Some 2"
    by (simp add: digit_val_def)
  ultimately show ?thesis
    using b64 by (simp add: cipherstring_new_def parse_type2_def decode64_def)
qed

lemma parse_display_asymmetric [wire]:
  assumes "crypto_ok C"
  shows "cipherstring_new C (cipherstring_display C (Asymmetric ct)) = Inr (Asymmetric ct)"
proof -
  note b64 = crypto_okD(1-3) [OF assms]
  have "split_char CHR ''.'' (''4.'' @ b64_encode C ct) = [''4'', b64_encode C ct]"
    using split_char_append [of "CHR ''.''" "''4''"] b64 by simp
  moreover have "digit_val CHR ''4'' = Some 4"
    by (simp add: digit_val_def)
  ultimately show ?thesis
    using b64 by (simp add: cipherstring_new_def decode64_def)
qed

lemma parsed_symmetric_has_mac:
  "cipherstring_new C s = Inr (Symmetric iv ct mac) \<Longrightarrow> mac \<noteq> None"
  by (auto simp: cipherstring_new_def parse_type2_def and_then_Inr_iff
      split: list.splits option.splits if_splits)

section \<open>Padding\<close>

lemma length_pkcs7_pad: "length (pkcs7_pad p) = 16 - length p mod 16"
  by (simp add: pkcs7_pad_def Let_def)

lemma pkcs7_unpad_pad [wire]: "pkcs7_unpad (p @ pkcs7_pad p) = Some p"
proof -
  define n where "n = 16 - length p mod 16"
  have n: "0 < n" "n \<le> 16"
    by (auto simp: n_def)
  have w: "unat (word_of_nat n :: u8) = n"
    using n by (simp add: unat_of_nat)
  then have "word_of_nat n \<noteq> (0 :: u8)"
    using n by (metis neq0_conv unat_0)
  then show ?thesis
    using n w by (simp add: pkcs7_pad_def pkcs7_unpad_def Let_def flip: n_def)
      (auto simp: list_ex_iff)
qed

text \<open>Stripping succeeds exactly on a buffer that ends in its padding.\<close>

lemma pkcs7_unpad_Some_iff:
  "pkcs7_unpad b = Some p \<longleftrightarrow> (\<exists>v. v \<noteq> 0 \<and> b = p @ replicate (unat v) v)"
proof
  assume h: "pkcs7_unpad b = Some p"
  define v where "v = last b"
  define k where "k = length b - unat v"
  from h have "v \<noteq> 0" and le: "unat v \<le> length b" and p: "p = take k b"
    and all: "\<forall>c \<in> set (drop k b). c = v"
    by (auto simp: pkcs7_unpad_def Let_def v_def k_def list_ex_iff split: if_splits)
  have "length (drop k b) = unat v"
    using le by (simp add: k_def)
  with all have "drop k b = replicate (unat v) v"
    by (metis replicate_length_same)
  then have "b = p @ replicate (unat v) v"
    by (metis append_take_drop_id p)
  with \<open>v \<noteq> 0\<close> show "\<exists>v. v \<noteq> 0 \<and> b = p @ replicate (unat v) v"
    by blast
next
  assume "\<exists>v. v \<noteq> 0 \<and> b = p @ replicate (unat v) v"
  then obtain v where v: "v \<noteq> 0" and b: "b = p @ replicate (unat v) v"
    by blast
  then have "0 < unat v"
    by (simp add: unat_gt_0)
  with b v show "pkcs7_unpad b = Some p"
    by (simp add: pkcs7_unpad_def Let_def list_ex_iff)
qed

section \<open>Encryption and decryption are inverse\<close>

lemma enc_key_Ret: "64 \<le> length ks \<Longrightarrow> enc_key ks = Ret (take 32 ks)"
  by (simp add: enc_key_def)

lemma mac_key_Ret: "64 \<le> length ks \<Longrightarrow> mac_key ks = Ret (take 32 (drop 32 ks))"
  by (simp add: mac_key_def)

lemma encrypt_symmetric_Okay:
  assumes "crypto_ok C" and "64 \<le> length keys"
  obtains mac where "encrypt_symmetric C iv keys p =
      Okay (Symmetric iv (aes_cbc_encrypt C (take 32 keys) iv p) (Some mac))"
    and "hmac_sha256 C (take 32 (drop 32 keys)) (iv @ aes_cbc_encrypt C (take 32 keys) iv p) = Some mac"
    and "length mac = 32"
  using crypto_okD(4) [OF assms(1), of "take 32 (drop 32 keys)" "iv @ aes_cbc_encrypt C (take 32 keys) iv p"] assms(2)
  by (auto simp: encrypt_symmetric_def enc_key_Ret mac_key_Ret Let_def)

lemma decrypt_common_symmetric_Okay:
  assumes "64 \<le> length keys" and "length iv = 16" and "length mac = 32"
    and "hmac_sha256 C (take 32 (drop 32 keys)) (iv @ ct) = Some mac"
  shows "decrypt_common_symmetric C keys iv ct (Some mac) = Okay (take 32 keys)"
  using assms by (simp add: decrypt_common_symmetric_def enc_key_Ret mac_key_Ret)

lemma decrypt_encrypt_symmetric [wire]:
  assumes "crypto_ok C" and "64 \<le> length keys" and "length iv = 16"
    and "encrypt_symmetric C iv keys p = Okay c"
  shows "decrypt_symmetric C c other (Some keys) = Okay p"
    and "decrypt_symmetric C c keys None = Okay p"
proof -
  let ?ct = "aes_cbc_encrypt C (take 32 keys) iv p"
  obtain mac where c: "c = Symmetric iv ?ct (Some mac)"
    and mac: "hmac_sha256 C (take 32 (drop 32 keys)) (iv @ ?ct) = Some mac" "length mac = 32"
    using encrypt_symmetric_Okay [OF assms(1,2), of iv p] assms(4) by auto
  have "aes_cbc_decrypt C (take 32 keys) iv ?ct = Some (p @ pkcs7_pad p, p)"
    using assms by (intro crypto_okD(5)) auto
  then show "decrypt_symmetric C c other (Some keys) = Okay p"
    and "decrypt_symmetric C c keys None = Okay p"
    using decrypt_common_symmetric_Okay [OF assms(2,3) mac(2,1)] by (auto simp: c)
qed

text \<open>
  The locked decryption keeps the padding in the buffer: that is why \<open>Keys\<close> reads its
  halves by position and the private key is unpadded before it is parsed.
\<close>

lemma decrypt_locked_encrypt [wire]:
  assumes "crypto_ok C" and "64 \<le> length keys" and "length iv = 16"
    and "encrypt_symmetric C iv keys p = Okay c"
    and "length p + length (pkcs7_pad p) \<le> LEN"
  shows "decrypt_locked_symmetric C c keys = Okay (p @ pkcs7_pad p)"
proof -
  let ?ct = "aes_cbc_encrypt C (take 32 keys) iv p"
  obtain mac where c: "c = Symmetric iv ?ct (Some mac)"
    and mac: "hmac_sha256 C (take 32 (drop 32 keys)) (iv @ ?ct) = Some mac" "length mac = 32"
    using encrypt_symmetric_Okay [OF assms(1,2), of iv p] assms(4) by auto
  have "aes_cbc_decrypt C (take 32 keys) iv ?ct = Some (p @ pkcs7_pad p, p)"
    and "length ?ct = length p + length (pkcs7_pad p)"
    using assms by (auto intro!: crypto_okD(5,6))
  then show ?thesis
    using decrypt_common_symmetric_Okay [OF assms(2,3) mac(2,1)] assms(5)
    by (simp add: c lvec_extend_def)
qed

section \<open>Which inputs panic\<close>

text \<open>What a parsed cipherstring must satisfy for a decryption of it to return.\<close>

fun mac_fits :: "cipherstring \<Rightarrow> bool" where
  "mac_fits (Symmetric iv ct (Some mac)) = (length mac = 32)"
| "mac_fits _ = True"

fun ct_fits :: "cipherstring \<Rightarrow> bool" where
  "ct_fits (Symmetric iv ct mac) = (length ct \<le> LEN)"
| "ct_fits (Asymmetric ct) = True"

lemma decrypt_common_no_panic:
  assumes "64 \<le> length keys" and "mac_fits (Symmetric iv ct mac)"
  shows "\<not> panics (decrypt_common_symmetric C keys iv ct mac)"
  using assms
  by (cases mac) (auto simp: decrypt_common_symmetric_def enc_key_Ret mac_key_Ret split: option.splits)

lemma decrypt_symmetric_no_panic:
  assumes "64 \<le> length (case entry_key of Some k \<Rightarrow> k | None \<Rightarrow> keys)" and "mac_fits c"
  shows "\<not> panics (decrypt_symmetric C c keys entry_key)"
  using assms decrypt_common_no_panic
  by (cases c) (auto simp: panics_and_try_iff split: option.splits)

lemma decrypt_locked_symmetric_no_panic:
  assumes "64 \<le> length keys" and "mac_fits c" and "ct_fits c"
  shows "\<not> panics (decrypt_locked_symmetric C c keys)"
  using assms decrypt_common_no_panic
  by (cases c) (auto simp: panics_and_try_iff lvec_extend_def split: option.splits)

lemma token_from_string_expose:
  "utf8 s \<Longrightarrow> \<exists>t. token_from_string s = Ret t \<and> token_expose t = Ret s"
  by (auto simp: token_from_string_def lvec_extend_def from_utf8_as_bytes)

end
