(* ===== verification/Vault_Crypto.thy ===== *)
theory Vault_Crypto
  imports Vault_Model Cipher_String
begin

text \<open>
  \<open>cosmarden-core/src/vault.rs\<close> (decrypting one cipherstring, the organization keys, unlocking
  with the identity keys) and \<open>Entry::decrypt\<close> of \<open>db/models.rs\<close>.

  \<open>HashMap\<close> arguments that are iterated are association lists in iteration order, maps that are
  looked up are partial functions.
\<close>

type_synonym keys = "u8 list"
type_synonym org_keys = "string \<Rightarrow> u8 list option"

section \<open>vault.rs\<close>

definition decrypt_private_key :: "crypto \<Rightarrow> keys \<Rightarrow> string option \<Rightarrow> (error, u8 list option) fallible" where
  "decrypt_private_key C vault_keys ppk = (case ppk of
     None \<Rightarrow> Okay None
   | Some s \<Rightarrow> and_try (Ret (cipherstring_new C s)) (\<lambda>c.
       and_try (decrypt_locked_symmetric C c vault_keys) (\<lambda>pk. Okay (Some pk))))"

fun insert_org_keys ::
  "crypto \<Rightarrow> u8 list \<Rightarrow> (string \<times> string) list \<Rightarrow> org_keys \<Rightarrow> (error, org_keys) fallible" where
  "insert_org_keys C pk [] m = Okay m"
| "insert_org_keys C pk ((org_id, pok) # rest) m =
     and_try (Ret (cipherstring_new C pok)) (\<lambda>c.
     and_try (decrypt_locked_asymmetric C c pk) (\<lambda>k.
       insert_org_keys C pk rest (m(org_id \<mapsto> k))))"

definition decrypt_org_keys ::
  "crypto \<Rightarrow> keys \<Rightarrow> string option \<Rightarrow> (string \<times> string) list \<Rightarrow> (error, org_keys) fallible" where
  "decrypt_org_keys C vault_keys ppk poks =
     and_try (decrypt_private_key C vault_keys ppk) (\<lambda>private_key. case private_key of
       None \<Rightarrow> Okay Map.empty
     | Some pk \<Rightarrow> insert_org_keys C pk poks Map.empty)"

definition wrong_password :: "error \<Rightarrow> error" where
  "wrong_password e = (if e = InvalidMac then Other ''Password is incorrect. Try again.'' else e)"

definition unlock_from_keys ::
  "crypto \<Rightarrow> keys \<Rightarrow> string \<Rightarrow> string option \<Rightarrow> (string \<times> string) list
    \<Rightarrow> (error, keys \<times> org_keys) fallible" where
  "unlock_from_keys C identity_keys protected_key ppk poks =
     and_try (Ret (cipherstring_new C protected_key)) (\<lambda>c.
     and_try (map_fail wrong_password (decrypt_locked_symmetric C c identity_keys)) (\<lambda>vault_keys.
     and_try (decrypt_org_keys C vault_keys ppk poks) (\<lambda>org_keys.
       Okay (vault_keys, org_keys))))"

text \<open>The item-level key of a cipher, when it has one.\<close>

definition open_item_key :: "crypto \<Rightarrow> keys \<Rightarrow> string option \<Rightarrow> (error, keys option) fallible" where
  "open_item_key C keys ek = (case ek of
     None \<Rightarrow> Okay None
   | Some s \<Rightarrow> and_try (Ret (cipherstring_new C s)) (\<lambda>c.
       and_try (decrypt_locked_symmetric C c keys) (\<lambda>k. Okay (Some k))))"

definition vault_decrypt :: "crypto \<Rightarrow> string \<Rightarrow> keys \<Rightarrow> string option \<Rightarrow> (error, string) fallible" where
  "vault_decrypt C cs keys ek =
     and_try (Ret (cipherstring_new C cs)) (\<lambda>cipher.
     and_try (open_item_key C keys ek) (\<lambda>entry_key.
     and_try (decrypt_symmetric C cipher keys entry_key) (\<lambda>plain.
       Ret (ok_or (Other ''invalid utf8 in decrypted secret'') (from_utf8 plain)))))"

section \<open>Entry::decrypt\<close>

text \<open>
  The body of \<open>decrypt\<close> over its closure \<open>d\<close>: a slot that does not decrypt becomes \<open>None\<close>
  where the code assigns \<open>d\<close>'s result, and stays as it is where the code asks \<open>if let Some\<close>
  (the name, the notes, URIs and field names).
\<close>

abbreviation sec :: "(string \<Rightarrow> string option) \<Rightarrow> secret option \<Rightarrow> secret option" where
  "sec d s \<equiv> Option.bind s (\<lambda>c. map_option Secret (d (expose c)))"

abbreviation keep :: "(string \<Rightarrow> string option) \<Rightarrow> string \<Rightarrow> string" where
  "keep d s \<equiv> (case d s of Some v \<Rightarrow> v | None \<Rightarrow> s)"

definition decrypt_login :: "(string \<Rightarrow> string option) \<Rightarrow> login \<Rightarrow> login" where
  "decrypt_login d l =
     \<lparr>lg_username = Option.bind (lg_username l) d,
      lg_password = sec d (lg_password l),
      lg_totp = sec d (lg_totp l),
      lg_uris = map (\<lambda>u. u\<lparr>u_uri := keep d (u_uri u)\<rparr>) (lg_uris l)\<rparr>"

definition decrypt_card :: "(string \<Rightarrow> string option) \<Rightarrow> card \<Rightarrow> card" where
  "decrypt_card d c =
     \<lparr>cd_cardholder_name = Option.bind (cd_cardholder_name c) d,
      cd_number = sec d (cd_number c),
      cd_brand = Option.bind (cd_brand c) d,
      cd_exp_month = Option.bind (cd_exp_month c) d,
      cd_exp_year = Option.bind (cd_exp_year c) d,
      cd_code = sec d (cd_code c)\<rparr>"

definition decrypt_identity :: "(string \<Rightarrow> string option) \<Rightarrow> identity \<Rightarrow> identity" where
  "decrypt_identity d i =
     \<lparr>id_title = Option.bind (id_title i) d,
      id_first_name = Option.bind (id_first_name i) d,
      id_middle_name = Option.bind (id_middle_name i) d,
      id_last_name = Option.bind (id_last_name i) d,
      id_address1 = Option.bind (id_address1 i) d,
      id_address2 = Option.bind (id_address2 i) d,
      id_address3 = Option.bind (id_address3 i) d,
      id_city = Option.bind (id_city i) d,
      id_state = Option.bind (id_state i) d,
      id_postal_code = Option.bind (id_postal_code i) d,
      id_country = Option.bind (id_country i) d,
      id_phone = Option.bind (id_phone i) d,
      id_email = Option.bind (id_email i) d,
      id_ssn = Option.bind (id_ssn i) d,
      id_license_number = Option.bind (id_license_number i) d,
      id_passport_number = Option.bind (id_passport_number i) d,
      id_username = Option.bind (id_username i) d\<rparr>"

definition decrypt_ssh_key :: "(string \<Rightarrow> string option) \<Rightarrow> ssh_key \<Rightarrow> ssh_key" where
  "decrypt_ssh_key d s =
     \<lparr>sk_private_key = sec d (sk_private_key s),
      sk_public_key = Option.bind (sk_public_key s) d,
      sk_fingerprint = Option.bind (sk_fingerprint s) d\<rparr>"

definition decrypt_bank :: "(string \<Rightarrow> string option) \<Rightarrow> bank_account \<Rightarrow> bank_account" where
  "decrypt_bank d b =
     \<lparr>ba_bank_name = Option.bind (ba_bank_name b) d,
      ba_name_on_account = Option.bind (ba_name_on_account b) d,
      ba_account_type = Option.bind (ba_account_type b) d,
      ba_account_number = sec d (ba_account_number b),
      ba_routing_number = sec d (ba_routing_number b),
      ba_branch_number = Option.bind (ba_branch_number b) d,
      ba_pin = sec d (ba_pin b),
      ba_swift_code = Option.bind (ba_swift_code b) d,
      ba_iban = Option.bind (ba_iban b) d,
      ba_bank_contact_phone = Option.bind (ba_bank_contact_phone b) d\<rparr>"

definition decrypt_drivers_license :: "(string \<Rightarrow> string option) \<Rightarrow> drivers_license \<Rightarrow> drivers_license" where
  "decrypt_drivers_license d x =
     \<lparr>dl_first_name = Option.bind (dl_first_name x) d,
      dl_middle_name = Option.bind (dl_middle_name x) d,
      dl_last_name = Option.bind (dl_last_name x) d,
      dl_date_of_birth = Option.bind (dl_date_of_birth x) d,
      dl_license_number = sec d (dl_license_number x),
      dl_issuing_country = Option.bind (dl_issuing_country x) d,
      dl_issuing_state = Option.bind (dl_issuing_state x) d,
      dl_issue_date = Option.bind (dl_issue_date x) d,
      dl_expiration_date = Option.bind (dl_expiration_date x) d,
      dl_issuing_authority = Option.bind (dl_issuing_authority x) d,
      dl_license_class = Option.bind (dl_license_class x) d\<rparr>"

definition decrypt_passport :: "(string \<Rightarrow> string option) \<Rightarrow> passport \<Rightarrow> passport" where
  "decrypt_passport d p =
     \<lparr>pp_surname = Option.bind (pp_surname p) d,
      pp_given_name = Option.bind (pp_given_name p) d,
      pp_date_of_birth = Option.bind (pp_date_of_birth p) d,
      pp_sex = Option.bind (pp_sex p) d,
      pp_birth_place = Option.bind (pp_birth_place p) d,
      pp_nationality = Option.bind (pp_nationality p) d,
      pp_issuing_country = Option.bind (pp_issuing_country p) d,
      pp_passport_number = sec d (pp_passport_number p),
      pp_passport_type = Option.bind (pp_passport_type p) d,
      pp_national_identification_number = Option.bind (pp_national_identification_number p) d,
      pp_issuing_authority = Option.bind (pp_issuing_authority p) d,
      pp_issue_date = Option.bind (pp_issue_date p) d,
      pp_expiration_date = Option.bind (pp_expiration_date p) d\<rparr>"

fun decrypt_data :: "(string \<Rightarrow> string option) \<Rightarrow> entry_data \<Rightarrow> entry_data" where
  "decrypt_data d (Login l) = Login (decrypt_login d l)"
| "decrypt_data d (Card c) = Card (decrypt_card d c)"
| "decrypt_data d (Identity i) = Identity (decrypt_identity d i)"
| "decrypt_data d SecureNote = SecureNote"
| "decrypt_data d (SshKey s) = SshKey (decrypt_ssh_key d s)"
| "decrypt_data d (BankAccount b) = BankAccount (decrypt_bank d b)"
| "decrypt_data d (DriversLicense x) = DriversLicense (decrypt_drivers_license d x)"
| "decrypt_data d (Passport p) = Passport (decrypt_passport d p)"

definition decrypt_field :: "(string \<Rightarrow> string option) \<Rightarrow> field \<Rightarrow> field" where
  "decrypt_field d f =
     f\<lparr>f_name := map_option (keep d) (f_name f), f_value := sec d (f_value f)\<rparr>"

text \<open>The loop that remembers the value of the last field of that name.\<close>

definition last_field_value :: "string \<Rightarrow> field list \<Rightarrow> secret option" where
  "last_field_value n fs = foldl (\<lambda>acc f. if f_name f = Some n then f_value f else acc) None fs"

fun ssh_fallback :: "field list \<Rightarrow> entry_data \<Rightarrow> entry_data" where
  "ssh_fallback fs (SshKey s) = SshKey (s
     \<lparr>sk_private_key := or_else (sk_private_key s) (last_field_value ''private_key'' fs),
      sk_public_key := or_else (sk_public_key s) (map_option expose (last_field_value ''public_key'' fs))\<rparr>)"
| "ssh_fallback fs data = data"

definition decrypt_with :: "(string \<Rightarrow> string option) \<Rightarrow> entry \<Rightarrow> entry" where
  "decrypt_with d e = (let fs = map (decrypt_field d) (e_fields e) in
     e\<lparr>e_name := keep d (e_name e),
       e_notes := map_option (\<lambda>n. Secret (keep d (expose n))) (e_notes e),
       e_fields := fs,
       e_data := ssh_fallback fs (decrypt_data d (e_data e))\<rparr>)"

text \<open>The key of the entry: its organization's when that is known, the vault's otherwise.\<close>

definition entry_keys :: "keys \<Rightarrow> org_keys \<Rightarrow> entry \<Rightarrow> keys" where
  "entry_keys keys orgs e = (case Option.bind (e_org_id e) orgs of Some k \<Rightarrow> k | None \<Rightarrow> keys)"

definition decrypt_slot :: "crypto \<Rightarrow> keys \<Rightarrow> string option \<Rightarrow> string \<Rightarrow> string option" where
  "decrypt_slot C keys ek s = (case vault_decrypt C s keys ek of Ret r \<Rightarrow> ok r | Panic m \<Rightarrow> None)"

definition secs :: "secret option \<Rightarrow> string list" where
  "secs s = (case s of None \<Rightarrow> [] | Some c \<Rightarrow> [expose c])"

definition strs :: "string option list \<Rightarrow> string list" where
  "strs xs = List.map_filter (\<lambda>x. x) xs"

fun data_slots :: "entry_data \<Rightarrow> string list" where
  "data_slots (Login l) = strs [lg_username l] @ secs (lg_password l) @ secs (lg_totp l) @ map u_uri (lg_uris l)"
| "data_slots (Card c) = strs [cd_cardholder_name c, cd_brand c, cd_exp_month c, cd_exp_year c]
     @ secs (cd_number c) @ secs (cd_code c)"
| "data_slots (Identity i) = strs [id_title i, id_first_name i, id_middle_name i, id_last_name i,
     id_address1 i, id_address2 i, id_address3 i, id_city i, id_state i, id_postal_code i,
     id_country i, id_phone i, id_email i, id_ssn i, id_license_number i, id_passport_number i, id_username i]"
| "data_slots SecureNote = []"
| "data_slots (SshKey s) = secs (sk_private_key s) @ strs [sk_public_key s, sk_fingerprint s]"
| "data_slots (BankAccount b) = strs [ba_bank_name b, ba_name_on_account b, ba_account_type b,
     ba_branch_number b, ba_swift_code b, ba_iban b, ba_bank_contact_phone b]
     @ secs (ba_account_number b) @ secs (ba_routing_number b) @ secs (ba_pin b)"
| "data_slots (DriversLicense x) = strs [dl_first_name x, dl_middle_name x, dl_last_name x,
     dl_date_of_birth x, dl_issuing_country x, dl_issuing_state x, dl_issue_date x,
     dl_expiration_date x, dl_issuing_authority x, dl_license_class x] @ secs (dl_license_number x)"
| "data_slots (Passport p) = strs [pp_surname p, pp_given_name p, pp_date_of_birth p, pp_sex p,
     pp_birth_place p, pp_nationality p, pp_issuing_country p, pp_passport_type p,
     pp_national_identification_number p, pp_issuing_authority p, pp_issue_date p,
     pp_expiration_date p] @ secs (pp_passport_number p)"

text \<open>All strings of an entry that \<open>decrypt\<close> hands to its closure.\<close>

definition entry_slots :: "entry \<Rightarrow> string list" where
  "entry_slots e = e_name e # secs (e_notes e) @ data_slots (e_data e)
     @ concat (map (\<lambda>f. strs [f_name f] @ secs (f_value f)) (e_fields e))"

text \<open>The call panics exactly when one of the calls of its closure does.\<close>

definition entry_decrypt :: "crypto \<Rightarrow> keys \<Rightarrow> org_keys \<Rightarrow> entry \<Rightarrow> entry outcome" where
  "entry_decrypt C keys orgs e = (let k = entry_keys keys orgs e in
     if list_ex (\<lambda>s. panics (vault_decrypt C s k (e_key e))) (entry_slots e)
     then Panic ''decrypt''
     else Ret (decrypt_with (decrypt_slot C k (e_key e)) e))"

text \<open>The value when it does not panic, as the agent's handlers use it.\<close>

definition decrypted :: "crypto \<Rightarrow> keys \<Rightarrow> org_keys \<Rightarrow> entry \<Rightarrow> entry" where
  "decrypted C keys orgs e = decrypt_with (decrypt_slot C (entry_keys keys orgs e) (e_key e)) e"

section \<open>Authentication comes before decryption\<close>

text \<open>A symmetric cipherstring opens only when its MAC is the one of the key.\<close>

definition authentic :: "crypto \<Rightarrow> keys \<Rightarrow> cipherstring \<Rightarrow> bool" where
  "authentic C keys c = (case c of
     Symmetric iv ct (Some mac) \<Rightarrow>
       64 \<le> length keys \<and> hmac_sha256 C (take 32 (drop 32 keys)) (iv @ ct) = Some mac
   | _ \<Rightarrow> False)"

lemma decrypt_common_authentic:
  "decrypt_common_symmetric C keys iv ct mac = Okay ek \<Longrightarrow> authentic C keys (Symmetric iv ct mac)"
  by (auto simp: decrypt_common_symmetric_def mac_key_def authentic_def
      split: option.splits outcome.splits if_splits)

lemma decrypt_symmetric_authentic:
  "decrypt_symmetric C c keys ek = Okay p \<Longrightarrow>
     authentic C (case ek of Some k \<Rightarrow> k | None \<Rightarrow> keys) c"
  by (cases c) (auto simp: and_try_Okay_iff dest: decrypt_common_authentic)

lemma decrypt_locked_symmetric_authentic:
  "decrypt_locked_symmetric C c keys = Okay p \<Longrightarrow> authentic C keys c"
  by (cases c) (auto simp: and_try_Okay_iff dest: decrypt_common_authentic split: outcome.splits)

lemma unlock_from_keys_authentic:
  assumes "unlock_from_keys C ik protected_key ppk poks = Okay (vk, orgs)"
  obtains c where "cipherstring_new C protected_key = Inr c" and "authentic C ik c"
    and "decrypt_locked_symmetric C c ik = Okay vk"
proof -
  from assms obtain c where "cipherstring_new C protected_key = Inr c"
    and "decrypt_locked_symmetric C c ik = Okay vk"
    by (auto simp: unlock_from_keys_def and_try_Okay_iff)
  then show thesis
    using that decrypt_locked_symmetric_authentic by blast
qed

lemma unlock_from_keys_wrong_password:
  assumes "cipherstring_new C protected_key = Inr c"
    and "decrypt_locked_symmetric C c ik = Fail InvalidMac"
  shows "unlock_from_keys C ik protected_key ppk poks = Fail (Other ''Password is incorrect. Try again.'')"
  using assms by (simp add: unlock_from_keys_def wrong_password_def)

section \<open>One slot: encryption and decryption are inverse\<close>

text \<open>The keys a slot is encrypted with: the item key when the entry has one.\<close>

definition crypt_keys :: "keys \<Rightarrow> keys option \<Rightarrow> keys" where
  "crypt_keys keys item_key = (case item_key of Some k \<Rightarrow> k | None \<Rightarrow> keys)"

lemma vault_decrypt_encrypt [wire]:
  assumes "crypto_ok C" and "utf8 s" and "length iv = 16"
    and "open_item_key C keys ek = Okay ik" and "64 \<le> length (crypt_keys keys ik)"
    and "encrypt_symmetric C iv (crypt_keys keys ik) (as_bytes s) = Okay c"
  shows "vault_decrypt C (cipherstring_display C c) keys ek = Okay s"
proof -
  obtain mac where "c = Symmetric iv (aes_cbc_encrypt C (take 32 (crypt_keys keys ik)) iv (as_bytes s)) (Some mac)"
    using encrypt_symmetric_Okay [OF assms(1,5), of iv "as_bytes s"] assms(6) by auto
  then have "cipherstring_new C (cipherstring_display C c) = Inr c"
    using parse_display_mac [OF assms(1)] by simp
  moreover have "decrypt_symmetric C c keys ik = Okay (as_bytes s)"
    using decrypt_encrypt_symmetric [OF assms(1,5,3,6)] assms(6)
    by (cases ik) (auto simp: crypt_keys_def)
  ultimately show ?thesis
    using assms(2,4) by (simp add: vault_decrypt_def from_utf8_as_bytes)
qed

lemma decrypt_slot_encrypt [wire]:
  assumes "crypto_ok C" and "utf8 s" and "length iv = 16"
    and "open_item_key C keys ek = Okay ik" and "64 \<le> length (crypt_keys keys ik)"
    and "encrypt_symmetric C iv (crypt_keys keys ik) (as_bytes s) = Okay c"
  shows "decrypt_slot C keys ek (cipherstring_display C c) = Some s"
  using vault_decrypt_encrypt [OF assms] by (simp add: decrypt_slot_def)

section \<open>When decryption returns\<close>

definition slot_safe :: "crypto \<Rightarrow> string \<Rightarrow> bool" where
  "slot_safe C s = (case cipherstring_new C s of Inl e \<Rightarrow> True | Inr c \<Rightarrow> mac_fits c)"

definition item_key_safe :: "crypto \<Rightarrow> keys \<Rightarrow> string option \<Rightarrow> bool" where
  "item_key_safe C keys ek = (case ek of None \<Rightarrow> True
   | Some s \<Rightarrow> (case cipherstring_new C s of Inl e \<Rightarrow> True
      | Inr c \<Rightarrow> mac_fits c \<and> ct_fits c
         \<and> (case decrypt_locked_symmetric C c keys of Ret (Inr k) \<Rightarrow> 64 \<le> length k | _ \<Rightarrow> True)))"

lemma open_item_key_no_panic:
  "64 \<le> length keys \<Longrightarrow> item_key_safe C keys ek \<Longrightarrow> \<not> panics (open_item_key C keys ek)"
  using decrypt_locked_symmetric_no_panic
  by (auto simp: open_item_key_def item_key_safe_def panics_and_try_iff split: option.splits sum.splits)

lemma open_item_key_length:
  "64 \<le> length keys \<Longrightarrow> item_key_safe C keys ek \<Longrightarrow> open_item_key C keys ek = Okay ik \<Longrightarrow>
     64 \<le> length (crypt_keys keys ik)"
  by (auto simp: open_item_key_def item_key_safe_def and_try_Okay_iff crypt_keys_def
      split: option.splits)

lemma vault_decrypt_no_panic:
  assumes "64 \<le> length keys" and "item_key_safe C keys ek" and "slot_safe C s"
  shows "\<not> panics (vault_decrypt C s keys ek)"
proof
  assume "panics (vault_decrypt C s keys ek)"
  then obtain c ik where c: "cipherstring_new C s = Inr c"
    and ik: "open_item_key C keys ek = Okay ik"
    and p: "panics (decrypt_symmetric C c keys ik)"
    using open_item_key_no_panic [OF assms(1,2)]
    by (auto simp: vault_decrypt_def panics_and_try_iff)
  have "64 \<le> length (case ik of Some k \<Rightarrow> k | None \<Rightarrow> keys)"
    using open_item_key_length [OF assms(1,2) ik] by (simp add: crypt_keys_def)
  moreover have "mac_fits c"
    using assms(3) c by (simp add: slot_safe_def)
  ultimately show False
    using decrypt_symmetric_no_panic p by blast
qed

lemma entry_decrypt_returns:
  assumes "64 \<le> length (entry_keys keys orgs e)"
    and "item_key_safe C (entry_keys keys orgs e) (e_key e)"
    and "\<And>s. s \<in> set (entry_slots e) \<Longrightarrow> slot_safe C s"
  shows "entry_decrypt C keys orgs e = Ret (decrypted C keys orgs e)"
  using vault_decrypt_no_panic [OF assms(1,2)] assms(3)
  by (auto simp: entry_decrypt_def decrypted_def Let_def list_ex_iff)

text \<open>A MAC of the wrong length is not rejected: it panics.\<close>

lemma vault_decrypt_short_mac_panics:
  assumes "crypto_ok C" and "64 \<le> length keys"
    and "cipherstring_new C s = Inr (Symmetric iv ct (Some mac))" and "length mac \<noteq> 32"
  shows "panics (vault_decrypt C s keys None)"
proof -
  obtain t where "hmac_sha256 C (take 32 (drop 32 keys)) (iv @ ct) = Some t"
    using crypto_okD(4) [OF assms(1)] by blast
  then show ?thesis
    using assms
    by (simp add: vault_decrypt_def open_item_key_def decrypt_common_symmetric_def mac_key_Ret)
qed

section \<open>Decryption changes only the encrypted slots\<close>

lemma entry_type_ssh_fallback [simp]: "entry_type_of (ssh_fallback fs data) = entry_type_of data"
  by (cases data) auto

lemma entry_type_decrypt_data [simp]: "entry_type_of (decrypt_data d data) = entry_type_of data"
  by (cases data) auto

lemma decrypt_with_frame [simp]:
  "e_id (decrypt_with d e) = e_id e"
  "e_org_id (decrypt_with d e) = e_org_id e"
  "e_folder (decrypt_with d e) = e_folder e"
  "e_folder_id (decrypt_with d e) = e_folder_id e"
  "e_favorite (decrypt_with d e) = e_favorite e"
  "e_history (decrypt_with d e) = e_history e"
  "e_key (decrypt_with d e) = e_key e"
  "e_reprompt (decrypt_with d e) = e_reprompt e"
  "entry_type_of (e_data (decrypt_with d e)) = entry_type_of (e_data e)"
  by (simp_all add: decrypt_with_def Let_def)

lemma decrypted_frame [simp]:
  "e_id (decrypted C keys orgs e) = e_id e"
  "e_favorite (decrypted C keys orgs e) = e_favorite e"
  "e_key (decrypted C keys orgs e) = e_key e"
  "e_reprompt (decrypted C keys orgs e) = e_reprompt e"
  "entry_type_of (e_data (decrypted C keys orgs e)) = entry_type_of (e_data e)"
  by (simp_all add: decrypted_def)

end
