(* ===== verification/Server_Payload.thy ===== *)
theory Server_Payload
  imports Wire_Format Vault_Crypto
begin

text \<open>
  The encryption of an entry for the server: \<open>update_entry_on_server\<close> and
  \<open>add_entry_on_server\<close> of \<open>cosmarden-agent/src/server/ops/\<close> up to the HTTP request.

  \<open>'a enc\<close> threads the number of initialisation vectors drawn so far; the \<open>n\<close>-th call of the
  random generator returns \<open>rnd n\<close>. A call of the code's closures \<open>encrypt\<close> and
  \<open>encrypt_secret\<close>, and of the same code written out, is a call of \<open>enc\<close>.
\<close>

section \<open>Encrypting with fresh initialisation vectors\<close>

type_synonym 'a enc = "nat \<Rightarrow> (string, 'a) fallible \<times> nat"

definition eret :: "'a \<Rightarrow> 'a enc" where
  "eret a n = (Okay a, n)"

definition ebind :: "'a enc \<Rightarrow> ('a \<Rightarrow> 'b enc) \<Rightarrow> 'b enc" where
  "ebind m f n = (case m n of
     (Panic x, n') \<Rightarrow> (Panic x, n')
   | (Ret (Inl e), n') \<Rightarrow> (Fail e, n')
   | (Ret (Inr a), n') \<Rightarrow> f a n')"

definition encrypt_string :: "crypto \<Rightarrow> (nat \<Rightarrow> u8 list) \<Rightarrow> keys \<Rightarrow> string \<Rightarrow> string enc" where
  "encrypt_string C rnd keys s n =
     (case encrypt_symmetric C (rnd n) keys (as_bytes s) of
        Panic x \<Rightarrow> (Panic x, Suc n)
      | Ret (Inl e) \<Rightarrow> (Fail (error_display e), Suc n)
      | Ret (Inr c) \<Rightarrow> (Okay (cipherstring_display C c), Suc n))"

definition enc_opt :: "(string \<Rightarrow> string enc) \<Rightarrow> string option \<Rightarrow> string option enc" where
  "enc_opt enc x = (case x of None \<Rightarrow> eret None | Some s \<Rightarrow> ebind (enc s) (\<lambda>c. eret (Some c)))"

definition enc_secret :: "(string \<Rightarrow> string enc) \<Rightarrow> secret option \<Rightarrow> string option enc" where
  "enc_secret enc x = enc_opt enc (map_option expose x)"

fun enc_list :: "('a \<Rightarrow> 'b enc) \<Rightarrow> 'a list \<Rightarrow> 'b list enc" where
  "enc_list f [] = eret []"
| "enc_list f (x # xs) = ebind (f x) (\<lambda>y. ebind (enc_list f xs) (\<lambda>ys. eret (y # ys)))"

section \<open>The parts of an entry\<close>

definition encrypt_uri :: "(string \<Rightarrow> string enc) \<Rightarrow> uri \<Rightarrow> json enc" where
  "encrypt_uri enc u = ebind (enc (u_uri u)) (\<lambda>c.
     eret (JObj [(''uri'', JStr c), (''match'', json_match (u_match_type u))]))"

definition encrypt_login :: "(string \<Rightarrow> string enc) \<Rightarrow> login \<Rightarrow> json enc" where
  "encrypt_login enc l =
     ebind (enc_opt enc (lg_username l)) (\<lambda>u.
     ebind (enc_secret enc (lg_password l)) (\<lambda>p.
     ebind (enc_secret enc (lg_totp l)) (\<lambda>t.
     ebind (enc_list (encrypt_uri enc) (lg_uris l)) (\<lambda>us.
       eret (login_json u p t (JArr us))))))"

definition encrypt_ssh_key :: "(string \<Rightarrow> string enc) \<Rightarrow> ssh_key \<Rightarrow> cipher_ssh_key enc" where
  "encrypt_ssh_key enc k =
     ebind (enc_secret enc (sk_private_key k)) (\<lambda>priv.
     ebind (enc_opt enc (sk_public_key k)) (\<lambda>pub.
       eret \<lparr>ck_private_key = priv, ck_public_key = pub, ck_fingerprint = None\<rparr>))"

definition encrypt_identity :: "(string \<Rightarrow> string enc) \<Rightarrow> identity \<Rightarrow> identity enc" where
  "encrypt_identity enc i =
     ebind (enc_opt enc (id_title i)) (\<lambda>a_title.
     ebind (enc_opt enc (id_first_name i)) (\<lambda>a_first_name.
     ebind (enc_opt enc (id_middle_name i)) (\<lambda>a_middle_name.
     ebind (enc_opt enc (id_last_name i)) (\<lambda>a_last_name.
     ebind (enc_opt enc (id_address1 i)) (\<lambda>a_address1.
     ebind (enc_opt enc (id_address2 i)) (\<lambda>a_address2.
     ebind (enc_opt enc (id_address3 i)) (\<lambda>a_address3.
     ebind (enc_opt enc (id_city i)) (\<lambda>a_city.
     ebind (enc_opt enc (id_state i)) (\<lambda>a_state.
     ebind (enc_opt enc (id_postal_code i)) (\<lambda>a_postal_code.
     ebind (enc_opt enc (id_country i)) (\<lambda>a_country.
     ebind (enc_opt enc (id_email i)) (\<lambda>a_email.
     ebind (enc_opt enc (id_phone i)) (\<lambda>a_phone.
     ebind (enc_opt enc (id_ssn i)) (\<lambda>a_ssn.
     ebind (enc_opt enc (id_license_number i)) (\<lambda>a_license_number.
     ebind (enc_opt enc (id_passport_number i)) (\<lambda>a_passport_number.
     ebind (enc_opt enc (id_username i)) (\<lambda>a_username.
     eret \<lparr>id_title = a_title, id_first_name = a_first_name, id_middle_name = a_middle_name,
       id_last_name = a_last_name, id_address1 = a_address1, id_address2 = a_address2,
       id_address3 = a_address3, id_city = a_city, id_state = a_state,
       id_postal_code = a_postal_code, id_country = a_country, id_phone = a_phone,
       id_email = a_email, id_ssn = a_ssn, id_license_number = a_license_number,
       id_passport_number = a_passport_number, id_username = a_username\<rparr>)))))))))))))))))"

definition encrypt_card :: "(string \<Rightarrow> string enc) \<Rightarrow> card \<Rightarrow> cipher_card enc" where
  "encrypt_card enc c =
     ebind (enc_opt enc (cd_cardholder_name c)) (\<lambda>a_cardholder_name.
     ebind (enc_opt enc (cd_brand c)) (\<lambda>a_brand.
     ebind (enc_secret enc (cd_number c)) (\<lambda>a_number.
     ebind (enc_opt enc (cd_exp_month c)) (\<lambda>a_exp_month.
     ebind (enc_opt enc (cd_exp_year c)) (\<lambda>a_exp_year.
     ebind (enc_secret enc (cd_code c)) (\<lambda>a_code.
     eret \<lparr>cc_cardholder_name = a_cardholder_name, cc_brand = a_brand, cc_number = a_number,
       cc_exp_month = a_exp_month, cc_exp_year = a_exp_year, cc_code = a_code\<rparr>))))))"

definition encrypt_bank :: "(string \<Rightarrow> string enc) \<Rightarrow> bank_account \<Rightarrow> cipher_bank_account enc" where
  "encrypt_bank enc b =
     ebind (enc_opt enc (ba_bank_name b)) (\<lambda>a_bank_name.
     ebind (enc_opt enc (ba_name_on_account b)) (\<lambda>a_name_on_account.
     ebind (enc_opt enc (ba_account_type b)) (\<lambda>a_account_type.
     ebind (enc_secret enc (ba_account_number b)) (\<lambda>a_account_number.
     ebind (enc_secret enc (ba_routing_number b)) (\<lambda>a_routing_number.
     ebind (enc_opt enc (ba_branch_number b)) (\<lambda>a_branch_number.
     ebind (enc_secret enc (ba_pin b)) (\<lambda>a_pin.
     ebind (enc_opt enc (ba_swift_code b)) (\<lambda>a_swift_code.
     ebind (enc_opt enc (ba_iban b)) (\<lambda>a_iban.
     ebind (enc_opt enc (ba_bank_contact_phone b)) (\<lambda>a_bank_contact_phone.
     eret \<lparr>cb_bank_name = a_bank_name, cb_name_on_account = a_name_on_account,
       cb_account_type = a_account_type, cb_account_number = a_account_number,
       cb_routing_number = a_routing_number, cb_branch_number = a_branch_number, cb_pin = a_pin,
       cb_swift_code = a_swift_code, cb_iban = a_iban,
       cb_bank_contact_phone = a_bank_contact_phone\<rparr>))))))))))"

definition encrypt_drivers_license :: "(string \<Rightarrow> string enc) \<Rightarrow> drivers_license \<Rightarrow> cipher_drivers_license enc" where
  "encrypt_drivers_license enc d =
     ebind (enc_opt enc (dl_first_name d)) (\<lambda>a_first_name.
     ebind (enc_opt enc (dl_middle_name d)) (\<lambda>a_middle_name.
     ebind (enc_opt enc (dl_last_name d)) (\<lambda>a_last_name.
     ebind (enc_opt enc (dl_date_of_birth d)) (\<lambda>a_date_of_birth.
     ebind (enc_secret enc (dl_license_number d)) (\<lambda>a_license_number.
     ebind (enc_opt enc (dl_issuing_country d)) (\<lambda>a_issuing_country.
     ebind (enc_opt enc (dl_issuing_state d)) (\<lambda>a_issuing_state.
     ebind (enc_opt enc (dl_issue_date d)) (\<lambda>a_issue_date.
     ebind (enc_opt enc (dl_expiration_date d)) (\<lambda>a_expiration_date.
     ebind (enc_opt enc (dl_issuing_authority d)) (\<lambda>a_issuing_authority.
     ebind (enc_opt enc (dl_license_class d)) (\<lambda>a_license_class.
     eret \<lparr>cdl_first_name = a_first_name, cdl_middle_name = a_middle_name,
       cdl_last_name = a_last_name, cdl_date_of_birth = a_date_of_birth,
       cdl_license_number = a_license_number, cdl_issuing_country = a_issuing_country,
       cdl_issuing_state = a_issuing_state, cdl_issue_date = a_issue_date,
       cdl_expiration_date = a_expiration_date, cdl_issuing_authority = a_issuing_authority,
       cdl_license_class = a_license_class\<rparr>)))))))))))"

definition encrypt_passport :: "(string \<Rightarrow> string enc) \<Rightarrow> passport \<Rightarrow> cipher_passport enc" where
  "encrypt_passport enc p =
     ebind (enc_opt enc (pp_surname p)) (\<lambda>a_surname.
     ebind (enc_opt enc (pp_given_name p)) (\<lambda>a_given_name.
     ebind (enc_opt enc (pp_date_of_birth p)) (\<lambda>a_date_of_birth.
     ebind (enc_opt enc (pp_sex p)) (\<lambda>a_sex.
     ebind (enc_opt enc (pp_birth_place p)) (\<lambda>a_birth_place.
     ebind (enc_opt enc (pp_nationality p)) (\<lambda>a_nationality.
     ebind (enc_opt enc (pp_issuing_country p)) (\<lambda>a_issuing_country.
     ebind (enc_secret enc (pp_passport_number p)) (\<lambda>a_passport_number.
     ebind (enc_opt enc (pp_passport_type p)) (\<lambda>a_passport_type.
     ebind (enc_opt enc (pp_national_identification_number p)) (\<lambda>a_national_identification_number.
     ebind (enc_opt enc (pp_issuing_authority p)) (\<lambda>a_issuing_authority.
     ebind (enc_opt enc (pp_issue_date p)) (\<lambda>a_issue_date.
     ebind (enc_opt enc (pp_expiration_date p)) (\<lambda>a_expiration_date.
     eret \<lparr>cp_surname = a_surname, cp_given_name = a_given_name,
       cp_date_of_birth = a_date_of_birth, cp_sex = a_sex, cp_birth_place = a_birth_place,
       cp_nationality = a_nationality, cp_issuing_country = a_issuing_country,
       cp_passport_number = a_passport_number, cp_passport_type = a_passport_type,
       cp_national_identification_number = a_national_identification_number,
       cp_issuing_authority = a_issuing_authority, cp_issue_date = a_issue_date,
       cp_expiration_date = a_expiration_date\<rparr>)))))))))))))"

definition encrypt_field :: "(string \<Rightarrow> string enc) \<Rightarrow> field \<Rightarrow> cipher_field enc" where
  "encrypt_field enc f =
     ebind (enc_opt enc (f_name f)) (\<lambda>name.
     ebind (enc_secret enc (f_value f)) (\<lambda>val.
       eret \<lparr>cf_name = name, cf_value = val, cf_ty = f_ty f, cf_linked_id = f_linked_id f\<rparr>))"

section \<open>Updating\<close>

definition no_payload :: "nat \<Rightarrow> typed_payload" where
  "no_payload ty = \<lparr>ty_type = ty, ty_login = None, ty_ssh_key = None, ty_card = None,
     ty_identity = None, ty_bank_account = None, ty_drivers_license = None, ty_passport = None\<rparr>"

fun update_data :: "(string \<Rightarrow> string enc) \<Rightarrow> entry_data \<Rightarrow> typed_payload enc" where
  "update_data enc (Login l) = ebind (encrypt_login enc l) (\<lambda>w. eret ((no_payload 1)\<lparr>ty_login := Some w\<rparr>))"
| "update_data enc SecureNote = eret (no_payload 2)"
| "update_data enc (Identity i) = ebind (encrypt_identity enc i) (\<lambda>w. eret ((no_payload 4)\<lparr>ty_identity := Some w\<rparr>))"
| "update_data enc (Card c) = ebind (encrypt_card enc c) (\<lambda>w. eret ((no_payload 3)\<lparr>ty_card := Some w\<rparr>))"
| "update_data enc (SshKey k) = ebind (encrypt_ssh_key enc k) (\<lambda>w. eret ((no_payload 5)\<lparr>ty_ssh_key := Some w\<rparr>))"
| "update_data enc (BankAccount b) = ebind (encrypt_bank enc b) (\<lambda>w. eret ((no_payload 6)\<lparr>ty_bank_account := Some w\<rparr>))"
| "update_data enc (DriversLicense d) =
     ebind (encrypt_drivers_license enc d) (\<lambda>w. eret ((no_payload 7)\<lparr>ty_drivers_license := Some w\<rparr>))"
| "update_data enc (Passport p) = ebind (encrypt_passport enc p) (\<lambda>w. eret ((no_payload 8)\<lparr>ty_passport := Some w\<rparr>))"

text \<open>
  The body of the request over the closure, as a function of the user id, which the code looks up
  once everything is encrypted; the item key is decrypted before and sent as it is.
\<close>

definition update_body :: "(string \<Rightarrow> string enc) \<Rightarrow> entry \<Rightarrow> (string \<Rightarrow> ciphers_put_req) enc" where
  "update_body enc e =
     ebind (enc (e_name e)) (\<lambda>name.
     ebind (enc_secret enc (e_notes e)) (\<lambda>notes.
     ebind (update_data enc (e_data e)) (\<lambda>typed.
     ebind (enc_list (encrypt_field enc) (e_fields e)) (\<lambda>flds.
       eret (\<lambda>uid. update_cipher_req uid name (e_favorite e) typed notes (e_reprompt e) flds (e_key e)
           (map (\<lambda>h. (h_last_used_date h, expose (h_password h))) (e_history e)))))))"

definition item_key_of :: "crypto \<Rightarrow> keys \<Rightarrow> string option \<Rightarrow> (string, keys option) fallible" where
  "item_key_of C keys ek = (case ek of
     None \<Rightarrow> Okay None
   | Some s \<Rightarrow> (case cipherstring_new C s of
       Inl e \<Rightarrow> Fail (''invalid entry key: '' @ error_display e)
     | Inr c \<Rightarrow> (case decrypt_locked_symmetric C c keys of
         Panic m \<Rightarrow> Panic m
       | Ret (Inl e) \<Rightarrow> Fail (''failed to decrypt entry key: '' @ error_display e)
       | Ret (Inr k) \<Rightarrow> Okay (Some k))))"

definition update_request ::
  "crypto \<Rightarrow> (nat \<Rightarrow> u8 list) \<Rightarrow> keys \<Rightarrow> entry \<Rightarrow> (string \<Rightarrow> ciphers_put_req) enc" where
  "update_request C rnd keys e =
     ebind (\<lambda>n. (item_key_of C keys (e_key e), n)) (\<lambda>entry_key.
       update_body (encrypt_string C rnd (crypt_keys keys entry_key)) e)"

section \<open>Adding\<close>

definition add_login :: "(string \<Rightarrow> string enc) \<Rightarrow> login
    \<Rightarrow> (string option \<times> string option \<times> string option \<times> json list option) enc" where
  "add_login enc l =
     ebind (enc_opt enc (lg_username l)) (\<lambda>u.
     ebind (enc_secret enc (lg_password l)) (\<lambda>p.
     ebind (enc_secret enc (lg_totp l)) (\<lambda>t.
     ebind (if lg_uris l = [] then eret None
            else ebind (enc_list (encrypt_uri enc) (lg_uris l)) (\<lambda>us. eret (Some us))) (\<lambda>us.
       eret (u, p, t, us)))))"

text \<open>Of an identity, the nine slots the add form has.\<close>

definition add_identity :: "(string \<Rightarrow> string enc) \<Rightarrow> identity \<Rightarrow> identity enc" where
  "add_identity enc i =
     ebind (enc_opt enc (id_first_name i)) (\<lambda>first_name.
     ebind (enc_opt enc (id_last_name i)) (\<lambda>last_name.
     ebind (enc_opt enc (id_address1 i)) (\<lambda>address1.
     ebind (enc_opt enc (id_city i)) (\<lambda>city.
     ebind (enc_opt enc (id_state i)) (\<lambda>state.
     ebind (enc_opt enc (id_postal_code i)) (\<lambda>postal_code.
     ebind (enc_opt enc (id_country i)) (\<lambda>country.
     ebind (enc_opt enc (id_email i)) (\<lambda>email.
     ebind (enc_opt enc (id_phone i)) (\<lambda>phone.
       eret \<lparr>id_title = None, id_first_name = first_name, id_middle_name = None,
         id_last_name = last_name, id_address1 = address1, id_address2 = None, id_address3 = None,
         id_city = city, id_state = state, id_postal_code = postal_code, id_country = country,
         id_phone = phone, id_email = email, id_ssn = None, id_license_number = None,
         id_passport_number = None, id_username = None\<rparr>)))))))))"

text \<open>
  The arms for the remaining types are, line by line, those of the update with the vault key in
  the place of the item key: the same functions of the closure, but for the fingerprint of an SSH key.
\<close>

definition add_card :: "(string \<Rightarrow> string enc) \<Rightarrow> card \<Rightarrow> cipher_card enc" where
  "add_card enc c = encrypt_card enc c"

definition add_ssh_key :: "(string \<Rightarrow> string enc) \<Rightarrow> ssh_key \<Rightarrow> (string option \<times> string option) enc" where
  "add_ssh_key enc k =
     ebind (enc_secret enc (sk_private_key k)) (\<lambda>priv.
     ebind (enc_opt enc (sk_public_key k)) (\<lambda>pub.
       eret (priv, pub)))"

definition add_bank :: "(string \<Rightarrow> string enc) \<Rightarrow> bank_account \<Rightarrow> cipher_bank_account enc" where
  "add_bank enc b = encrypt_bank enc b"

definition add_drivers_license :: "(string \<Rightarrow> string enc) \<Rightarrow> drivers_license \<Rightarrow> cipher_drivers_license enc" where
  "add_drivers_license enc d = encrypt_drivers_license enc d"

definition add_passport :: "(string \<Rightarrow> string enc) \<Rightarrow> passport \<Rightarrow> cipher_passport enc" where
  "add_passport enc p = encrypt_passport enc p"

lemmas add_arms [simp] = add_card_def add_bank_def add_drivers_license_def add_passport_def

text \<open>
  The data of the request, as a function of what is known only later in the code (the user, the
  name, the favorite flag, the notes and the fields).
\<close>

fun add_data :: "(string \<Rightarrow> string enc) \<Rightarrow> entry_data
    \<Rightarrow> (string \<Rightarrow> string \<Rightarrow> bool \<Rightarrow> string option \<Rightarrow> cipher_field list \<Rightarrow> ciphers_post_req) enc" where
  "add_data enc (Login l) = ebind (add_login enc l) (\<lambda>(u, p, t, us).
     eret (\<lambda>uid name fav notes flds. add_cipher_req uid 1 name fav u p t us notes flds))"
| "add_data enc SecureNote =
     eret (\<lambda>uid name fav notes flds. add_cipher_req uid 2 name fav None None None None notes flds)"
| "add_data enc (Identity i) = ebind (add_identity enc i) (\<lambda>w. eret (\<lambda>uid name fav. add_identity_req uid name fav w))"
| "add_data enc (Card c) = ebind (add_card enc c) (\<lambda>w. eret (\<lambda>uid name fav. add_card_req uid name fav w))"
| "add_data enc (SshKey k) =
     ebind (add_ssh_key enc k) (\<lambda>(priv, pub).
       eret (\<lambda>uid name fav. add_ssh_key_req uid name fav (case priv of Some p \<Rightarrow> p | None \<Rightarrow> []) pub))"
| "add_data enc (BankAccount b) = ebind (add_bank enc b) (\<lambda>w.
     eret (\<lambda>uid name fav. add_new_type_cipher_req uid 6 name fav (Some w) None None))"
| "add_data enc (DriversLicense d) = ebind (add_drivers_license enc d) (\<lambda>w.
     eret (\<lambda>uid name fav. add_new_type_cipher_req uid 7 name fav None (Some w) None))"
| "add_data enc (Passport p) = ebind (add_passport enc p) (\<lambda>w.
     eret (\<lambda>uid name fav. add_new_type_cipher_req uid 8 name fav None None (Some w)))"

definition add_request ::
  "crypto \<Rightarrow> (nat \<Rightarrow> u8 list) \<Rightarrow> keys \<Rightarrow> entry \<Rightarrow> (string \<Rightarrow> ciphers_post_req) enc" where
  "add_request C rnd keys e = (let enc = encrypt_string C rnd keys in
     ebind (enc (e_name e)) (\<lambda>name.
     ebind (enc_secret enc (e_notes e)) (\<lambda>notes.
     ebind (add_data enc (e_data e)) (\<lambda>req.
     ebind (enc_list (encrypt_field enc) (e_fields e)) (\<lambda>flds.
       eret (\<lambda>uid. req uid name (e_favorite e) notes flds))))))"

end
