(* ===== verification/Server_Roundtrip.thy ===== *)
theory Server_Roundtrip
  imports Server_Payload
begin

text \<open>
  Saving an entry and reading it back: the slots of an update, stored by the server as sent and
  decrypted after the next sync, are those of the entry that was saved.
\<close>

section \<open>The encryption monad\<close>

lemma eret_Okay_iff [simp]: "eret a n = (Okay b, n') \<longleftrightarrow> a = b \<and> n = n'"
  by (simp add: eret_def)

lemma ebind_Okay_iff:
  "ebind m f n = (Okay b, n') \<longleftrightarrow> (\<exists>a n''. m n = (Okay a, n'') \<and> f a n'' = (Okay b, n'))"
  by (cases "m n" rule: prod.exhaust; cases "fst (m n)" rule: outcome.exhaust)
     (auto simp: ebind_def split: outcome.splits sum.splits)

lemma set_strs [simp]: "set (strs xs) = {s. Some s \<in> set xs}"
  by (force simp: strs_def set_map_filter)

lemma set_secs [simp]: "set (secs x) = expose ` set_option x"
  by (cases x) (auto simp: secs_def)

lemma encrypt_uri_Okay_iff:
  "encrypt_uri enc u n = (Okay j, n') \<longleftrightarrow> (\<exists>c. enc (u_uri u) n = (Okay c, n')
     \<and> j = JObj [(''uri'', JStr c), (''match'', json_match (u_match_type u))])"
  by (auto simp: encrypt_uri_def ebind_Okay_iff)

section \<open>A codec for one slot, lifted to the parts of an entry\<close>

text \<open>
  \<open>dec\<close> recovers what \<open>enc\<close> wrote, for the strings that are \<open>good\<close>. Everything an update
  writes is made of such slots.
\<close>

locale slot_codec =
  fixes enc :: "string \<Rightarrow> string enc" and dec :: "string \<Rightarrow> string option" and good :: "string \<Rightarrow> bool"
  assumes dec_enc: "good s \<Longrightarrow> enc s n = (Okay c, n') \<Longrightarrow> dec c = Some s"
begin

lemma opt: "enc_opt enc x n = (Okay y, n') \<Longrightarrow> (\<And>s. x = Some s \<Longrightarrow> good s) \<Longrightarrow> Option.bind y dec = x"
  by (cases x) (auto simp: enc_opt_def ebind_Okay_iff dec_enc)

lemma secret:
  "enc_secret enc x n = (Okay y, n') \<Longrightarrow> (\<And>s. x = Some s \<Longrightarrow> good (expose s)) \<Longrightarrow>
     sec dec (map_option Secret y) = x"
  by (cases x) (auto simp: enc_secret_def enc_opt_def ebind_Okay_iff dec_enc)

lemma name:
  "enc_opt enc x n = (Okay y, n') \<Longrightarrow> (\<And>s. x = Some s \<Longrightarrow> good s) \<Longrightarrow> map_option (keep dec) y = x"
  by (cases x) (auto simp: enc_opt_def ebind_Okay_iff dec_enc)

lemmas slots = opt secret

lemma card:
  "encrypt_card enc c n = (Okay w, n') \<Longrightarrow> (\<And>s. s \<in> set (data_slots (Card c)) \<Longrightarrow> good s) \<Longrightarrow>
     decrypt_card dec (card_of_wire (Some w)) = c"
  by (auto simp: encrypt_card_def ebind_Okay_iff decrypt_card_def card_of_wire_def
      intro!: card.equality slots)

lemma identity:
  "encrypt_identity enc i n = (Okay w, n') \<Longrightarrow> (\<And>s. s \<in> set (data_slots (Identity i)) \<Longrightarrow> good s) \<Longrightarrow>
     decrypt_identity dec (identity_of_wire (Some w)) = i"
  by (auto simp: encrypt_identity_def ebind_Okay_iff decrypt_identity_def identity_of_wire_def
      intro!: identity.equality slots)

lemma bank:
  "encrypt_bank enc b n = (Okay w, n') \<Longrightarrow> (\<And>s. s \<in> set (data_slots (BankAccount b)) \<Longrightarrow> good s) \<Longrightarrow>
     decrypt_bank dec (bank_of_wire (Some w)) = b"
  by (auto simp: encrypt_bank_def ebind_Okay_iff decrypt_bank_def bank_of_wire_def
      intro!: bank_account.equality slots)

lemma drivers_license:
  "encrypt_drivers_license enc x n = (Okay w, n') \<Longrightarrow>
     (\<And>s. s \<in> set (data_slots (DriversLicense x)) \<Longrightarrow> good s) \<Longrightarrow>
     decrypt_drivers_license dec (drivers_license_of_wire (Some w)) = x"
  by (auto simp: encrypt_drivers_license_def ebind_Okay_iff decrypt_drivers_license_def
      drivers_license_of_wire_def intro!: drivers_license.equality slots)

lemma passport:
  "encrypt_passport enc p n = (Okay w, n') \<Longrightarrow> (\<And>s. s \<in> set (data_slots (Passport p)) \<Longrightarrow> good s) \<Longrightarrow>
     decrypt_passport dec (passport_of_wire (Some w)) = p"
  by (auto simp: encrypt_passport_def ebind_Okay_iff decrypt_passport_def passport_of_wire_def
      intro!: passport.equality slots)

lemma ssh_key:
  "encrypt_ssh_key enc k n = (Okay w, n') \<Longrightarrow> (\<And>s. s \<in> set (data_slots (SshKey k)) \<Longrightarrow> good s) \<Longrightarrow>
     decrypt_ssh_key dec (ssh_key_of_wire (Some w)) = k\<lparr>sk_fingerprint := None\<rparr>"
  by (auto simp: encrypt_ssh_key_def ebind_Okay_iff decrypt_ssh_key_def ssh_key_of_wire_def
      intro!: ssh_key.equality slots)

lemma uris:
  assumes "enc_list (encrypt_uri enc) us n = (Okay js, n')" and "\<And>u. u \<in> set us \<Longrightarrow> good (u_uri u)"
  shows "\<exists>cs. de_list de_cipher_uri js = Some cs
     \<and> map (\<lambda>u. u\<lparr>u_uri := keep dec (u_uri u)\<rparr>)
         (List.map_filter (\<lambda>u. map_option (\<lambda>s. \<lparr>u_uri = s, u_match_type = cu_match_type u\<rparr>) (cu_uri u)) cs)
       = map (\<lambda>u. u\<lparr>u_match_type := Some UM_Domain\<rparr>) us"
  using assms
proof (induction us arbitrary: n js n')
  case Nil
  then show ?case
    by (simp add: List.map_filter_def)
next
  case (Cons u us)
  then obtain c n1 js' where c: "enc (u_uri u) n = (Okay c, n1)"
    and js: "js = JObj [(''uri'', JStr c), (''match'', json_match (u_match_type u))] # js'"
    and rest: "enc_list (encrypt_uri enc) us n1 = (Okay js', n')"
    by (auto simp: encrypt_uri_Okay_iff ebind_Okay_iff)
  from c Cons.prems(2) have "dec c = Some (u_uri u)"
    by (auto intro: dec_enc)
  moreover from Cons.IH [OF rest] Cons.prems(2) obtain cs where "de_list de_cipher_uri js' = Some cs"
    and "map (\<lambda>u. u\<lparr>u_uri := keep dec (u_uri u)\<rparr>)
         (List.map_filter (\<lambda>u. map_option (\<lambda>s. \<lparr>u_uri = s, u_match_type = cu_match_type u\<rparr>) (cu_uri u)) cs)
       = map (\<lambda>u. u\<lparr>u_match_type := Some UM_Domain\<rparr>) us"
    by auto
  ultimately show ?case
    by (auto simp: js de_opt_string_def de_match_type_def List.map_filter_def)
qed

lemma login:
  assumes "encrypt_login enc l n = (Okay w, n')" and "\<And>s. s \<in> set (data_slots (Login l)) \<Longrightarrow> good s"
  shows "decrypt_login dec (login_of_wire (de_cipher_login w)) =
     l\<lparr>lg_uris := map (\<lambda>u. u\<lparr>u_match_type := Some UM_Domain\<rparr>) (lg_uris l)\<rparr>"
proof -
  from assms(1) obtain u p t js n1 n2 n3 where
    u: "enc_opt enc (lg_username l) n = (Okay u, n1)" and
    p: "enc_secret enc (lg_password l) n1 = (Okay p, n2)" and
    t: "enc_secret enc (lg_totp l) n2 = (Okay t, n3)" and
    js: "enc_list (encrypt_uri enc) (lg_uris l) n3 = (Okay js, n')" and
    w: "w = login_json u p t (JArr js)"
    by (auto simp: encrypt_login_def ebind_Okay_iff)
  from uris [OF js] assms(2) obtain cs where cs: "de_list de_cipher_uri js = Some cs"
    and us: "map (\<lambda>u. u\<lparr>u_uri := keep dec (u_uri u)\<rparr>)
         (List.map_filter (\<lambda>u. map_option (\<lambda>s. \<lparr>u_uri = s, u_match_type = cu_match_type u\<rparr>) (cu_uri u)) cs)
       = map (\<lambda>u. u\<lparr>u_match_type := Some UM_Domain\<rparr>) (lg_uris l)"
    by auto
  have str: "de_opt_string (Some (json_opt x)) = Some x" for x
    by (cases x) (auto simp: de_opt_string_def json_opt_def)
  have "de_cipher_login w = Some \<lparr>cl_username = u, cl_password = p, cl_totp = t, cl_uris = Some cs\<rparr>"
    using cs by (simp add: w login_json_def str de_uris_def)
  with us opt [OF u] secret [OF p] secret [OF t] assms(2) show ?thesis
    by (auto simp: decrypt_login_def login_of_wire_def intro!: login.equality)
qed

lemma field:
  assumes "encrypt_field enc f n = (Okay w, n')"
    and "\<And>s. s \<in> set (strs [f_name f] @ secs (f_value f)) \<Longrightarrow> good s"
  shows "decrypt_field dec (field_of_wire w) = f"
  using assms
  by (auto simp: encrypt_field_def ebind_Okay_iff decrypt_field_def field_of_wire_def
      intro!: field.equality name secret)

lemma fields:
  assumes "enc_list (encrypt_field enc) fs n = (Okay ws, n')"
    and "\<And>f s. f \<in> set fs \<Longrightarrow> s \<in> set (strs [f_name f] @ secs (f_value f)) \<Longrightarrow> good s"
  shows "map (decrypt_field dec) (map field_of_wire ws) = fs"
  using assms
proof (induction fs arbitrary: n ws)
  case (Cons f fs)
  then obtain w n1 ws' where w: "encrypt_field enc f n = (Okay w, n1)"
    and ws': "enc_list (encrypt_field enc) fs n1 = (Okay ws', n')" and ws: "ws = w # ws'"
    by (auto simp: ebind_Okay_iff)
  have "decrypt_field dec (field_of_wire w) = f"
    using Cons.prems(2) by (intro field [OF w]) auto
  moreover have "map (decrypt_field dec) (map field_of_wire ws') = fs"
    using Cons.prems(2) by (intro Cons.IH [OF ws']) auto
  ultimately show ?case
    by (simp add: ws)
qed simp

end

section \<open>Saving and reading back\<close>

text \<open>What an update does not carry: the folder, the match type of URIs, an SSH fingerprint.\<close>

fun sent_data :: "entry_data \<Rightarrow> entry_data" where
  "sent_data (Login l) = Login (l\<lparr>lg_uris := map (\<lambda>u. u\<lparr>u_match_type := Some UM_Domain\<rparr>) (lg_uris l)\<rparr>)"
| "sent_data (SshKey k) = SshKey (k\<lparr>sk_fingerprint := None\<rparr>)"
| "sent_data d = d"

definition after_update :: "entry \<Rightarrow> entry" where
  "after_update e = e\<lparr>e_org_id := None, e_folder := None, e_folder_id := None,
     e_data := ssh_fallback (e_fields e) (sent_data (e_data e))\<rparr>"

text \<open>The slots of a saved entry are good for the key it is saved with.\<close>

definition slot_good :: "crypto \<Rightarrow> (nat \<Rightarrow> u8 list) \<Rightarrow> keys \<Rightarrow> string option \<Rightarrow> keys option \<Rightarrow> string \<Rightarrow> bool" where
  "slot_good C rnd keys ek ik s \<longleftrightarrow> crypto_ok C \<and> (\<forall>n. length (rnd n) = 16)
     \<and> open_item_key C keys ek = Okay ik \<and> 64 \<le> length (crypt_keys keys ik) \<and> utf8 s"

lemma decrypt_slot_encrypt_string:
  "slot_good C rnd keys ek ik s \<Longrightarrow> encrypt_string C rnd (crypt_keys keys ik) s n = (Okay c, n') \<Longrightarrow>
     decrypt_slot C keys ek c = Some s"
  by (auto simp: slot_good_def encrypt_string_def intro: decrypt_slot_encrypt
      split: outcome.splits sum.splits)

interpretation update_codec: slot_codec
  "encrypt_string C rnd (crypt_keys keys ik)" "decrypt_slot C keys ek" "slot_good C rnd keys ek ik"
  for C rnd keys ek ik
  by unfold_locales (rule decrypt_slot_encrypt_string)

lemma item_key_of_Okay: "item_key_of C keys ek = Okay ik \<Longrightarrow> open_item_key C keys ek = Okay ik"
  by (auto simp: item_key_of_def open_item_key_def split: option.splits sum.splits outcome.splits)

lemma history_echo:
  "history_of_wire (Some (map (\<lambda>(d, p). \<lparr>sh_password = Some p, sh_last_used_date = d\<rparr>)
     (map (\<lambda>h. (h_last_used_date h, expose (h_password h))) hs))) = hs"
  by (induction hs) (auto simp: history_of_wire_def List.map_filter_def)

lemma typed_roundtrip:
  assumes "update_data (encrypt_string C rnd (crypt_keys keys ik)) data n = (Okay p, n')"
    and "\<And>s. s \<in> set (data_slots data) \<Longrightarrow> slot_good C rnd keys ek ik s"
    and "sc_ty c = ty_type p" and "sc_login c = Option.bind (ty_login p) de_cipher_login"
    and "sc_card c = ty_card p" and "sc_identity c = ty_identity p" and "sc_ssh_key c = ty_ssh_key p"
    and "sc_bank_account c = ty_bank_account p" and "sc_drivers_license c = ty_drivers_license p"
    and "sc_passport c = ty_passport p"
  shows "\<exists>w. data_of_wire c = Some w \<and> decrypt_data (decrypt_slot C keys ek) w = sent_data data"
proof (cases data)
  case (Login x)
  with assms show ?thesis
    by (auto simp: ebind_Okay_iff no_payload_def data_of_wire_def intro!: update_codec.login)
next
  case (Card x)
  with assms show ?thesis
    by (auto simp: ebind_Okay_iff no_payload_def data_of_wire_def intro!: update_codec.card)
next
  case (Identity x)
  with assms show ?thesis
    by (auto simp: ebind_Okay_iff no_payload_def data_of_wire_def intro!: update_codec.identity)
next
  case SecureNote
  with assms show ?thesis
    by (auto simp: no_payload_def data_of_wire_def)
next
  case (SshKey x)
  with assms show ?thesis
    by (auto simp: ebind_Okay_iff no_payload_def data_of_wire_def intro!: update_codec.ssh_key)
next
  case (BankAccount x)
  with assms show ?thesis
    by (auto simp: ebind_Okay_iff no_payload_def data_of_wire_def intro!: update_codec.bank)
next
  case (DriversLicense x)
  with assms show ?thesis
    by (auto simp: ebind_Okay_iff no_payload_def data_of_wire_def intro!: update_codec.drivers_license)
next
  case (Passport x)
  with assms show ?thesis
    by (auto simp: ebind_Okay_iff no_payload_def data_of_wire_def intro!: update_codec.passport)
qed

text \<open>The whole entry.\<close>

lemma update_roundtrip:
  assumes req: "update_request C rnd keys e n = (Okay mk, n')"
    and good: "\<And>ik s. open_item_key C keys (e_key e) = Okay ik \<Longrightarrow> s \<in> set (entry_slots e) \<Longrightarrow>
                 slot_good C rnd keys (e_key e) ik s"
    and echo: "echoes_put (e_id e) (mk uid) c"
  shows "\<exists>e'. to_entry folders c = Some e' \<and> decrypted C keys orgs e' = after_update e"
proof -
  let ?d = "decrypt_slot C keys (e_key e)"
  from req obtain ik name nte typed flds n1 n2 n3 where
    ik: "open_item_key C keys (e_key e) = Okay ik" and
    name: "encrypt_string C rnd (crypt_keys keys ik) (e_name e) n = (Okay name, n1)" and
    nts: "enc_secret (encrypt_string C rnd (crypt_keys keys ik)) (e_notes e) n1 = (Okay nte, n2)" and
    typed: "update_data (encrypt_string C rnd (crypt_keys keys ik)) (e_data e) n2 = (Okay typed, n3)" and
    flds: "enc_list (encrypt_field (encrypt_string C rnd (crypt_keys keys ik))) (e_fields e) n3 = (Okay flds, n')" and
    r: "mk uid = update_cipher_req uid name (e_favorite e) typed nte (e_reprompt e) flds (e_key e)
           (map (\<lambda>h. (h_last_used_date h, expose (h_password h))) (e_history e))"
    by (auto simp: update_request_def update_body_def ebind_Okay_iff dest!: item_key_of_Okay)
  have g: "slot_good C rnd keys (e_key e) ik s" if "s \<in> set (entry_slots e)" for s
    using good ik that by blast
  have c: "sc_id c = e_id e" "sc_ty c = ty_type typed" "sc_folder_id c = None" "sc_organization_id c = None"
    "sc_favorite c = e_favorite e" "sc_name c = name" "sc_login c = Option.bind (ty_login typed) de_cipher_login"
    "sc_card c = ty_card typed" "sc_identity c = ty_identity typed" "sc_ssh_key c = ty_ssh_key typed"
    "sc_bank_account c = ty_bank_account typed" "sc_drivers_license c = ty_drivers_license typed"
    "sc_passport c = ty_passport typed" "sc_notes c = nte" "sc_fields c = Some flds"
    "sc_deleted_date c = None" "sc_key c = e_key e" "sc_reprompt c = e_reprompt e"
    and hist: "history_of_wire (sc_password_history c) = e_history e"
    using echo history_echo by (auto simp: echoes_put_def r update_cipher_req_def)
  have "\<exists>w. data_of_wire c = Some w \<and> decrypt_data ?d w = sent_data (e_data e)"
    using g by (intro typed_roundtrip [OF typed]) (auto simp: c entry_slots_def)
  then obtain w where w: "data_of_wire c = Some w" and dw: "decrypt_data ?d w = sent_data (e_data e)"
    by blast
  have "?d name = Some (e_name e)"
    using g by (intro decrypt_slot_encrypt_string [OF _ name]) (simp add: entry_slots_def)
  moreover have "sec ?d (map_option Secret nte) = e_notes e"
    using g by (intro update_codec.secret [OF nts]) (auto simp: entry_slots_def)
  moreover have "map (decrypt_field ?d) (map field_of_wire flds) = e_fields e"
    using g by (intro update_codec.fields [OF flds]) (auto simp: entry_slots_def)
  moreover have "nte = None \<longleftrightarrow> e_notes e = None"
    using nts by (auto simp: enc_secret_def enc_opt_def ebind_Okay_iff split: option.splits)
  ultimately show ?thesis
    using w dw hist
    by (auto simp: to_entry_def c decrypted_def entry_keys_def decrypt_with_def Let_def after_update_def
        intro!: entry.equality split: option.splits)
qed

section \<open>Encryption always succeeds\<close>

text \<open>With keys of the right length the only failure of a request is a missing user id.\<close>

locale total_encoder =
  fixes enc :: "string \<Rightarrow> string enc" and ok :: bool
  assumes total: "ok \<Longrightarrow> \<exists>c n'. enc s n = (Okay c, n')"
begin

definition runs :: "'a enc \<Rightarrow> bool" where
  "runs m \<longleftrightarrow> (ok \<longrightarrow> (\<forall>n. \<exists>a n'. m n = (Okay a, n')))"

lemma runs_bind: "runs m \<Longrightarrow> (\<And>a. runs (f a)) \<Longrightarrow> runs (ebind m f)"
  unfolding runs_def ebind_Okay_iff by blast

lemma runs_ret: "runs (eret a)"
  by (simp add: runs_def)

lemma runs_enc: "runs (enc s)"
  using total by (simp add: runs_def)

lemma runs_opt: "runs (enc_opt enc x)"
  by (cases x) (auto simp: enc_opt_def intro: runs_ret runs_bind runs_enc)

lemma runs_secret: "runs (enc_secret enc x)"
  by (simp add: enc_secret_def runs_opt)

lemmas runs_rules = runs_bind runs_ret runs_enc runs_opt runs_secret

lemma runs_list: "(\<And>x. runs (f x)) \<Longrightarrow> runs (enc_list f xs)"
  by (induction xs) (auto intro!: runs_rules)

lemma runs_field: "runs (encrypt_field enc f)"
  by (auto simp: encrypt_field_def intro!: runs_rules)

lemma runs_uri: "runs (encrypt_uri enc u)"
  by (auto simp: encrypt_uri_def intro!: runs_rules)

lemma runs_parts:
  "runs (encrypt_login enc l)" "runs (encrypt_card enc c)" "runs (encrypt_identity enc i)"
  "runs (encrypt_ssh_key enc k)" "runs (encrypt_bank enc b)" "runs (encrypt_drivers_license enc d)"
  "runs (encrypt_passport enc p)" "runs (add_login enc l)" "runs (add_identity enc i)"
  "runs (add_ssh_key enc k)"
  unfolding encrypt_login_def encrypt_card_def encrypt_identity_def encrypt_ssh_key_def
    encrypt_bank_def encrypt_drivers_license_def encrypt_passport_def add_login_def add_identity_def add_ssh_key_def
  by (auto intro!: runs_rules runs_list runs_uri)

lemma runs_update_data: "runs (update_data enc data)"
  by (cases data) (auto intro!: runs_rules runs_parts)

lemma runs_add_data: "runs (add_data enc data)"
  by (cases data) (auto intro!: runs_rules runs_parts split: prod.splits)

lemma runs_update_body: "runs (update_body enc e)"
  by (auto simp: update_body_def intro!: runs_rules runs_list runs_update_data runs_field)

end

lemma encrypt_string_total:
  assumes "crypto_ok C" and "64 \<le> length ks"
  shows "\<exists>c n'. encrypt_string C rnd ks s n = (Okay c, n')"
proof -
  obtain c where "encrypt_symmetric C (rnd n) ks (as_bytes s) = Okay c"
    using encrypt_symmetric_Okay [OF assms] by blast
  then show ?thesis
    by (simp add: encrypt_string_def)
qed

interpretation update_encoder: total_encoder "encrypt_string C rnd ks" "crypto_ok C \<and> 64 \<le> length ks"
  for C rnd ks
  by unfold_locales (auto intro: encrypt_string_total)

lemma update_request_Okay:
  assumes "crypto_ok C" and "item_key_of C keys (e_key e) = Okay ik" and "64 \<le> length (crypt_keys keys ik)"
  shows "\<exists>r n'. update_request C rnd keys e n = (Okay r, n')"
proof -
  have "\<exists>r n'. update_body (encrypt_string C rnd (crypt_keys keys ik)) e n = (Okay r, n')"
    using update_encoder.runs_update_body assms(1,3) unfolding update_encoder.runs_def by blast
  with assms(2) show ?thesis
    by (simp add: update_request_def ebind_Okay_iff)
qed

lemma add_request_Okay:
  assumes "crypto_ok C" and "64 \<le> length keys"
  shows "\<exists>r n'. add_request C rnd keys e n = (Okay r, n')"
proof -
  have "update_encoder.runs C keys (add_request C rnd keys e)"
    by (auto simp: add_request_def Let_def intro!: update_encoder.runs_rules update_encoder.runs_list
        update_encoder.runs_add_data update_encoder.runs_field)
  with assms show ?thesis
    unfolding update_encoder.runs_def by blast
qed

text \<open>The organization plays no part: the entry is encrypted with the user's keys.\<close>

lemma update_request_org [simp]:
  "update_request C rnd keys (e\<lparr>e_org_id := i\<rparr>) = update_request C rnd keys e"
  by (simp add: update_request_def update_body_def)

section \<open>Creating and reading back\<close>

text \<open>Of an identity, the add form's slots; an SSH key without a private part is sent as empty.\<close>

fun added_data :: "entry_data \<Rightarrow> entry_data" where
  "added_data (Identity i) = Identity (i\<lparr>id_title := None, id_middle_name := None, id_address2 := None,
     id_address3 := None, id_ssn := None, id_license_number := None, id_passport_number := None,
     id_username := None\<rparr>)"
| "added_data d = sent_data d"

definition after_add :: "string \<Rightarrow> entry \<Rightarrow> entry" where
  "after_add i e = \<lparr>e_id = i, e_org_id = None, e_folder = None, e_folder_id = None, e_name = e_name e,
     e_favorite = e_favorite e, e_data = ssh_fallback (e_fields e) (added_data (e_data e)),
     e_fields = e_fields e, e_notes = e_notes e, e_history = [], e_key = None, e_reprompt = Reprompt_None\<rparr>"

lemma decrypt_slot_Nil [simp]: "decrypt_slot C keys ek [] = None"
  by (simp add: decrypt_slot_def vault_decrypt_def cipherstring_new_def)

lemma add_login_update:
  assumes "add_login enc l n = (Okay (u, p, t, us), n')"
  shows "\<exists>w. encrypt_login enc l n = (Okay w, n')
     \<and> login_of_wire (de_cipher_login (login_json u p t (case us of None \<Rightarrow> JNull | Some js \<Rightarrow> JArr js)))
       = login_of_wire (de_cipher_login w)"
proof -
  have str: "de_opt_string (Some (json_opt x)) = Some x" for x
    by (cases x) (auto simp: de_opt_string_def json_opt_def)
  show ?thesis
    using assms
    by (auto simp: add_login_def encrypt_login_def ebind_Okay_iff login_json_def str de_uris_def
        login_of_wire_def List.map_filter_def split: if_splits)
qed

lemma add_identity_roundtrip:
  assumes "add_identity (encrypt_string C rnd (crypt_keys keys ik)) i n = (Okay w, n')"
    and "\<And>s. s \<in> set (data_slots (Identity i)) \<Longrightarrow> slot_good C rnd keys ek ik s"
  shows "Identity (decrypt_identity (decrypt_slot C keys ek) (identity_of_wire (Some w))) = added_data (Identity i)"
  using assms
  by (auto simp: add_identity_def ebind_Okay_iff decrypt_identity_def identity_of_wire_def
      intro!: identity.equality update_codec.opt)

lemmas request_defs = add_cipher_req_def add_ssh_key_req_def add_card_req_def add_identity_req_def
  add_new_type_cipher_req_def empty_post_def

lemma add_data_frame:
  assumes "add_data enc data n = (Okay req, n')"
  shows "po_name (req uid nm fav nt flds) = nm" "po_favorite (req uid nm fav nt flds) = fav"
    "po_notes (req uid nm fav nt flds) = nt" "po_fields (req uid nm fav nt flds) = flds"
    "po_folder_id (req uid nm fav nt flds) = None" "po_reprompt (req uid nm fav nt flds) = Reprompt_None"
  using assms by (cases data; auto simp: ebind_Okay_iff request_defs split: prod.splits)+

lemma add_data_roundtrip:
  fixes C rnd keys
  defines "enc \<equiv> encrypt_string C rnd keys" and "d \<equiv> decrypt_slot C keys None"
  assumes "add_data enc data n = (Okay req, n')"
    and good: "\<And>s. s \<in> set (data_slots data) \<Longrightarrow> slot_good C rnd keys None None s"
    and r: "r = req uid nm fav nt flds"
    and c: "sc_ty c = po_ty r" "sc_login c = Option.bind (po_login r) de_cipher_login"
    "sc_card c = po_card r" "sc_identity c = po_identity r" "sc_ssh_key c = po_ssh_key r"
    "sc_bank_account c = po_bank_account r" "sc_drivers_license c = po_drivers_license r"
    "sc_passport c = po_passport r"
  shows "\<exists>w. data_of_wire c = Some w \<and> decrypt_data d w = added_data data"
proof -
  have enc: "enc = encrypt_string C rnd (crypt_keys keys None)"
    by (simp add: enc_def crypt_keys_def)
  note defs = d_def enc ebind_Okay_iff request_defs data_of_wire_def r c
  show ?thesis
  proof (cases data)
    case (Login l)
    with assms(3) obtain u p t us where l: "add_login enc l n = (Okay (u, p, t, us), n')"
      and req: "req = (\<lambda>uid name fav nts flds. add_cipher_req uid 1 name fav u p t us nts flds)"
      by (auto simp: ebind_Okay_iff split: prod.splits)
    from add_login_update [OF l] obtain w where "encrypt_login enc l n = (Okay w, n')"
      and "login_of_wire (de_cipher_login (login_json u p t (case us of None \<Rightarrow> JNull | Some js \<Rightarrow> JArr js)))
        = login_of_wire (de_cipher_login w)"
      by blast
    with Login good show ?thesis
      by (auto simp: defs req intro!: update_codec.login)
  next
    case (Identity i)
    with assms(3) obtain w where w: "add_identity enc i n = (Okay w, n')"
      and req: "req = (\<lambda>uid name fav. add_identity_req uid name fav w)"
      by (auto simp: ebind_Okay_iff)
    from w have "w\<lparr>id_title := None, id_middle_name := None, id_address2 := None, id_address3 := None,
        id_ssn := None, id_license_number := None, id_passport_number := None, id_username := None\<rparr> = w"
      by (auto simp: add_identity_def ebind_Okay_iff)
    with add_identity_roundtrip [OF w [unfolded enc], of None] Identity good show ?thesis
      by (simp add: defs req)
  next
    case (SshKey k)
    with assms(3) obtain priv pub n1 where priv: "enc_secret enc (sk_private_key k) n = (Okay priv, n1)"
      and pub: "enc_opt enc (sk_public_key k) n1 = (Okay pub, n')"
      and req: "req = (\<lambda>uid name fav. add_ssh_key_req uid name fav (case priv of Some p \<Rightarrow> p | None \<Rightarrow> []) pub)"
      by (auto simp: add_ssh_key_def ebind_Okay_iff)
    have "Option.bind pub d = sk_public_key k"
      unfolding d_def using pub [unfolded enc] good SshKey by (intro update_codec.opt) auto
    moreover have "sec d (map_option Secret priv) = sk_private_key k"
      unfolding d_def using priv [unfolded enc] good SshKey by (intro update_codec.secret) auto
    ultimately show ?thesis
      using SshKey by (cases priv)
        (auto simp: defs req decrypt_ssh_key_def ssh_key_of_wire_def intro!: ssh_key.equality)
  qed (use assms(3) good in \<open>auto simp: defs intro!: update_codec.card update_codec.bank
         update_codec.drivers_license update_codec.passport\<close>)
qed

lemma add_roundtrip:
  assumes req: "add_request C rnd keys e n = (Okay mk, n')"
    and good: "\<And>s. s \<in> set (entry_slots e) \<Longrightarrow> slot_good C rnd keys None None s"
    and echo: "echoes_post i (mk uid) c"
  shows "\<exists>e'. to_entry folders c = Some e' \<and> decrypted C keys orgs e' = after_add i e"
proof -
  let ?d = "decrypt_slot C keys None" and ?enc = "encrypt_string C rnd keys"
  have k: "?enc = encrypt_string C rnd (crypt_keys keys None)"
    by (simp add: crypt_keys_def)
  from req obtain nm nte rq flds n1 n2 n3 where
    nm: "?enc (e_name e) n = (Okay nm, n1)" and
    nts: "enc_secret ?enc (e_notes e) n1 = (Okay nte, n2)" and
    data: "add_data ?enc (e_data e) n2 = (Okay rq, n3)" and
    flds: "enc_list (encrypt_field ?enc) (e_fields e) n3 = (Okay flds, n')" and
    r: "mk uid = rq uid nm (e_favorite e) nte flds"
    by (auto simp: add_request_def Let_def ebind_Okay_iff)
  have "\<exists>w. data_of_wire c = Some w \<and> decrypt_data ?d w = added_data (e_data e)"
    using echo good by (intro add_data_roundtrip [OF data _ r]) (auto simp: echoes_post_def entry_slots_def)
  then obtain w where w: "data_of_wire c = Some w" and dw: "decrypt_data ?d w = added_data (e_data e)"
    by blast
  have "?d nm = Some (e_name e)"
    using good by (intro decrypt_slot_encrypt_string [OF _ nm [unfolded k]]) (auto simp: entry_slots_def)
  moreover have "sec ?d (map_option Secret nte) = e_notes e"
    using good by (intro update_codec.secret [OF nts [unfolded k]]) (auto simp: entry_slots_def)
  moreover have "map (decrypt_field ?d) (map field_of_wire flds) = e_fields e"
    using good by (intro update_codec.fields [OF flds [unfolded k]]) (auto simp: entry_slots_def)
  moreover have "nte = None \<longleftrightarrow> e_notes e = None"
    using nts by (auto simp: enc_secret_def enc_opt_def ebind_Okay_iff split: option.splits)
  ultimately show ?thesis
    using w dw echo
    by (auto simp: to_entry_def echoes_post_def r add_data_frame [OF data] decrypted_def entry_keys_def
        decrypt_with_def Let_def after_add_def history_of_wire_def intro!: entry.equality split: option.splits)
qed

end
