(* ===== verification/Domain.thy ===== *)
theory Domain
  imports Rust_Strings
begin

text \<open>
  \<open>cosmarden-core/src/domain.rs\<close>: which vault entry belongs to which web page. Hosts are
  extracted from URIs and entry names, and two hosts match when they are equal, when one is
  a subdomain of the other on a label boundary, or when they share a registrable domain.

  \<open>psl\<close> is \<open>psl::domain_str\<close> of the external \<open>psl\<close> crate, a parameter; the build without
  the feature \<open>public_suffix_list\<close> is \<open>psl = (\<lambda>_. None)\<close>. Of the crate the code relies on
  \<open>psl_ok\<close>: a registrable domain is the host or a parent of it.
\<close>

section \<open>Extracting hosts\<close>

definition drop_scheme :: "string \<Rightarrow> string" where
  "drop_scheme s = (case split_once ''://'' s of None \<Rightarrow> s | Some (scheme, rest) \<Rightarrow> rest)"

definition strip_www :: "string \<Rightarrow> string" where
  "strip_www s = (case strip_prefix ''www.'' s of Some r \<Rightarrow> r | None \<Rightarrow> s)"

definition strip_port :: "string \<Rightarrow> string" where
  "strip_port s = (case split_once '':'' s of
     Some (h, rest) \<Rightarrow> if CHR '':'' \<notin> set rest \<and> \<not> starts_with ''['' s then h else s
   | None \<Rightarrow> s)"

definition host_from_uri :: "string \<Rightarrow> string option" where
  "host_from_uri uri =
    (let s = drop_scheme (trim uri);
         s = takeWhile (\<lambda>c. c \<notin> set ''/?#'') s;
         s = after_last CHR ''@'' s;
         s = strip_port s;
         s = to_lowercase s;
         s = strip_www s
     in if s = [] then None else Some s)"

definition host_from_name :: "string \<Rightarrow> string option" where
  "host_from_name name =
    (let n = trim name in
     if CHR '' '' \<in> set n \<or> CHR ''@'' \<in> set n \<or> CHR ''.'' \<notin> set n then None
     else host_from_uri n)"

definition is_uri_like :: "string \<Rightarrow> bool" where
  "is_uri_like name \<longleftrightarrow> host_from_name name \<noteq> None"

definition open_uri_for_name :: "string \<Rightarrow> string option" where
  "open_uri_for_name name =
    (let n = trim name in
     if \<not> is_uri_like n then None
     else let uri = (if contains_str ''://'' n then n else ''https://'' @ n) in
       Option.bind (split_once ''://'' uri) (\<lambda>(scheme, rest).
         if eq_ignore_ascii_case scheme ''http'' \<or> eq_ignore_ascii_case scheme ''https''
         then Some uri else None))"

section \<open>Matching hosts\<close>

definition is_subdomain :: "string \<Rightarrow> string \<Rightarrow> bool" where
  "is_subdomain sub parent \<longleftrightarrow>
     length parent < length sub \<and> ends_with parent sub
     \<and> sub ! (length sub - length parent - 1) = CHR ''.''"

definition registrable_domain :: "(string \<Rightarrow> string option) \<Rightarrow> string \<Rightarrow> string option" where
  "registrable_domain psl host = (if is_ip_addr host then None else psl host)"

definition display_label_for_name :: "(string \<Rightarrow> string option) \<Rightarrow> string \<Rightarrow> string" where
  "display_label_for_name psl name =
    (case host_from_name name of
       Some host \<Rightarrow> (case registrable_domain psl host of Some d \<Rightarrow> d | None \<Rightarrow> host)
     | None \<Rightarrow> name)"

definition hosts_match :: "(string \<Rightarrow> string option) \<Rightarrow> string \<Rightarrow> string \<Rightarrow> bool" where
  "hosts_match psl a b =
    (if a = [] \<or> b = [] then False
     else if a = b then True
     else if CHR ''.'' \<notin> set a \<or> CHR ''.'' \<notin> set b \<or> is_ip_addr a \<or> is_ip_addr b then False
     else if is_subdomain a b \<or> is_subdomain b a then True
     else (case (registrable_domain psl a, registrable_domain psl b) of
             (Some ra, Some rb) \<Rightarrow> ra = rb | _ \<Rightarrow> False))"

definition psl_ok :: "(string \<Rightarrow> string option) \<Rightarrow> bool" where
  "psl_ok psl \<longleftrightarrow> (\<forall>h d. psl h = Some d \<longrightarrow> d \<noteq> [] \<and> (d = h \<or> is_subdomain h d))"

section \<open>Subdomains are a label-boundary relation\<close>

lemma is_subdomain_iff: "is_subdomain sub parent \<longleftrightarrow> (\<exists>p. sub = p @ CHR ''.'' # parent)"
proof
  assume sub: "is_subdomain sub parent"
  then obtain r where r: "sub = r @ parent" and "r \<noteq> []" and "last r = CHR ''.''"
    by (auto simp: is_subdomain_def ends_with_iff nth_append last_conv_nth)
  then have "r = butlast r @ [CHR ''.'']"
    by (metis append_butlast_last_id)
  with r show "\<exists>p. sub = p @ CHR ''.'' # parent"
    by (metis append_Cons append_assoc self_append_conv2)
next
  assume "\<exists>p. sub = p @ CHR ''.'' # parent"
  then obtain p where "sub = (p @ [CHR ''.'']) @ parent"
    by auto
  then show "is_subdomain sub parent"
    by (auto simp: is_subdomain_def ends_with_iff nth_append)
qed

lemma is_subdomain_irrefl: "\<not> is_subdomain a a"
  by (simp add: is_subdomain_def)

lemma is_subdomain_trans: "is_subdomain a b \<Longrightarrow> is_subdomain b c \<Longrightarrow> is_subdomain a c"
  by (auto simp: is_subdomain_iff)

text \<open>A host is at or below a site \<open>d\<close>.\<close>

definition under :: "string \<Rightarrow> string \<Rightarrow> bool" where
  "under d h \<longleftrightarrow> h = d \<or> is_subdomain h d"

lemma hosts_match_iff:
  "hosts_match psl a b \<longleftrightarrow> a \<noteq> [] \<and> b \<noteq> [] \<and>
     (a = b \<or>
      (CHR ''.'' \<in> set a \<and> CHR ''.'' \<in> set b \<and> \<not> is_ip_addr a \<and> \<not> is_ip_addr b \<and>
       (is_subdomain a b \<or> is_subdomain b a \<or> (\<exists>d. psl a = Some d \<and> psl b = Some d))))"
  by (auto simp: hosts_match_def registrable_domain_def split: option.splits)

lemma hosts_match_sym: "hosts_match psl a b \<longleftrightarrow> hosts_match psl b a"
  by (auto simp: hosts_match_iff)

lemma hosts_match_common_site:
  assumes "hosts_match psl a b" and "psl_ok psl"
  obtains d where "under d a" and "under d b" and "d \<in> {a, b} \<or> (psl a = Some d \<and> psl b = Some d)"
proof -
  have below: "psl h = Some d \<Longrightarrow> under d h" for h d
    using assms(2) by (auto simp: psl_ok_def under_def)
  consider "a = b" | "is_subdomain a b" | "is_subdomain b a" | d where "psl a = Some d" "psl b = Some d"
    using assms(1) by (auto simp: hosts_match_iff)
  then show thesis
  proof cases
    case (4 d)
    then show thesis
      using that below by blast
  qed (use that in \<open>auto simp: under_def\<close>)
qed

section \<open>Properties of extracted hosts\<close>

lemma set_strip_www: "set (strip_www s) \<subseteq> set s"
  by (auto simp: strip_www_def strip_prefix_Some_iff split: option.splits)

lemma set_strip_port: "set (strip_port s) \<subseteq> set s"
  by (auto simp: strip_port_def dest!: split_once_Some split: option.splits if_splits)

lemma host_from_uri_Some:
  assumes "host_from_uri uri = Some h"
  obtains s where "h = strip_www (to_lowercase s)"
    and "\<And>c. c \<in> set s \<Longrightarrow> c \<notin> set ''/?#@''" and "h \<noteq> []"
proof -
  let ?u = "after_last CHR ''@'' (takeWhile (\<lambda>c. c \<notin> set ''/?#'') (drop_scheme (trim uri)))"
  have "h = strip_www (to_lowercase (strip_port ?u))" and "h \<noteq> []"
    using assms by (auto simp: host_from_uri_def Let_def split: if_splits)
  moreover have "c \<notin> set ''/?#@''" if "c \<in> set (strip_port ?u)" for c
  proof -
    from that have "c \<in> set ?u"
      using set_strip_port by blast
    then have "c \<noteq> CHR ''@''" and "c \<notin> set ''/?#''"
      using set_after_last set_after_last_subset by (metis, metis set_takeWhileD subsetD)
    then show ?thesis
      by simp
  qed
  ultimately show thesis
    using that by blast
qed

lemma to_lowercase_fixed: "(\<And>c. c \<in> set s \<Longrightarrow> lower_char c = c) \<Longrightarrow> to_lowercase s = s"
  by (induction s) (auto simp: to_lowercase_def)

lemma host_from_uri_lower:
  assumes "host_from_uri uri = Some h"
  shows "to_lowercase h = h"
  using assms
proof (rule host_from_uri_Some)
  fix s
  assume "h = strip_www (to_lowercase s)"
  then have "c \<in> set h \<Longrightarrow> \<exists>x \<in> set s. c = lower_char x" for c
    using set_strip_www by (fastforce simp: to_lowercase_def)
  then have "c \<in> set h \<Longrightarrow> lower_char c = c" for c
    using lower_char_idem by metis
  then show "to_lowercase h = h"
    by (rule to_lowercase_fixed)
qed

lemma host_from_uri_chars:
  assumes "host_from_uri uri = Some h" and "c \<in> set h"
  shows "c \<notin> set ''/?#@''"
proof
  assume c: "c \<in> set ''/?#@''"
  obtain s where s: "\<And>c. c \<in> set s \<Longrightarrow> c \<notin> set ''/?#@''" and h: "h = strip_www (to_lowercase s)"
    by (rule host_from_uri_Some [OF assms(1)]) blast
  from assms(2) h obtain x where x: "x \<in> set s" "lower_char x = c"
    using set_strip_www by (fastforce simp: to_lowercase_def)
  from c have "(of_char c :: nat) < 65 \<or> 122 < (of_char c :: nat)"
    by auto
  with x have "x = c"
    by (simp add: lower_char_eq_punct)
  then show False
    using s [OF x(1)] c by simp
qed

end
