(* ===== verification/Protocol.thy ===== *)
theory Protocol
  imports Vault_Model
begin

text \<open>
  The messages between the agent and its clients (\<open>cosmarden-core/src/protocol.rs\<close>), the
  device configuration they carry (\<open>config.rs\<close>) with the server addresses derived from it,
  and the choice of the message that saves an edited entry (\<open>protocol/entry_save.rs\<close>).

  A variant whose fields are those of a vault record (\<open>AddCard\<close>, \<open>AddBankAccount\<close>,
  \<open>AddDriversLicense\<close>, \<open>AddPassport\<close>) carries the record; every other variant has its fields
  in the order of the source.
\<close>

section \<open>Configuration\<close>

record config =
  cfg_email :: "string option"
  cfg_base_url :: "string option"
  cfg_identity_url :: "string option"
  cfg_ui_url :: "string option"
  cfg_device_id :: "string option"
  cfg_socket_path :: "string option"
  cfg_ssh_agent_socket_path :: "string option"
  cfg_lock_timeout :: u64
  cfg_persist_session :: bool
  cfg_tpm_enabled :: bool

definition default_lock_timeout :: u64 where
  "default_lock_timeout = 5400"

definition default_config :: config where
  "default_config = \<lparr>cfg_email = None, cfg_base_url = None, cfg_identity_url = None, cfg_ui_url = None,
     cfg_device_id = None, cfg_socket_path = None, cfg_ssh_agent_socket_path = None,
     cfg_lock_timeout = default_lock_timeout, cfg_persist_session = False, cfg_tpm_enabled = False\<rparr>"

text \<open>What \<open>load_legacy\<close> makes of the file: \<open>None\<close> when there is none, else the parsed value.\<close>

definition load_legacy :: "config option \<Rightarrow> config" where
  "load_legacy file = (case file of None \<Rightarrow> default_config
     | Some c \<Rightarrow> if cfg_lock_timeout c = 0 then c\<lparr>cfg_lock_timeout := default_lock_timeout\<rparr> else c)"

definition trim_end_slashes :: "string \<Rightarrow> string" where
  "trim_end_slashes s = rev (dropWhile (\<lambda>c. c = CHR ''/'') (rev s))"

definition set_url :: "string option \<Rightarrow> string option" where
  "set_url u = (case u of Some s \<Rightarrow> if s = [] then None else Some s | None \<Rightarrow> None)"

definition base_url :: "config \<Rightarrow> string" where
  "base_url c = (case set_url (cfg_base_url c) of
     None \<Rightarrow> ''https://api.bitwarden.com''
   | Some url \<Rightarrow>
       (let clean = trim_end_slashes url in
        if clean = ''https://api.bitwarden.eu'' then ''https://api.bitwarden.eu'' else clean @ ''/api''))"

definition identity_url :: "config \<Rightarrow> string" where
  "identity_url c = (case set_url (cfg_identity_url c) of Some u \<Rightarrow> u
   | None \<Rightarrow>
      (case set_url (cfg_base_url c) of
         None \<Rightarrow> ''https://identity.bitwarden.com''
       | Some url \<Rightarrow>
           (let clean = trim_end_slashes url in
            if clean = ''https://api.bitwarden.eu'' then ''https://identity.bitwarden.eu''
            else clean @ ''/identity'')))"

definition ui_url :: "config \<Rightarrow> string" where
  "ui_url c = (case set_url (cfg_ui_url c) of Some u \<Rightarrow> u
   | None \<Rightarrow>
      (case set_url (cfg_base_url c) of
         None \<Rightarrow> ''https://vault.bitwarden.com''
       | Some url \<Rightarrow>
           (let clean = trim_end_slashes url in
            if clean = ''https://api.bitwarden.eu'' then ''https://vault.bitwarden.eu'' else clean)))"

definition server_name :: "config \<Rightarrow> string" where
  "server_name c = (case cfg_base_url c of Some u \<Rightarrow> u | None \<Rightarrow> ''default'')"

section \<open>Messages\<close>

record sidebar_entry =
  se_id :: string
  se_name :: string
  se_username :: "string option"
  se_public_key :: "string option"
  se_entry_type :: entry_type
  se_is_pinned :: bool

record tpm_da_status =
  da_available :: bool
  da_max_tries :: "u32 option"
  da_lockout_counter :: "u32 option"
  da_remaining :: "u32 option"
  da_in_lockout :: bool
  da_recovery_interval_secs :: "u32 option"

record generator_settings =
  gs_uppercase :: bool
  gs_lowercase :: bool
  gs_numbers :: bool
  gs_special :: bool
  gs_length :: u8

definition default_generator_settings :: generator_settings where
  "default_generator_settings =
     \<lparr>gs_uppercase = True, gs_lowercase = True, gs_numbers = True, gs_special = True, gs_length = 14\<rparr>"

record generator_history_entry =
  gh_password :: secret
  gh_created_at :: u64

datatype event = Locked | Unlocked | VaultChanged | UnlockRequested | PinRequested | OpenEntry string

record login_request =
  lr_email :: string
  lr_password :: string
  lr_server_url :: "string option"
  lr_remember_me :: bool
  lr_two_factor_token :: "string option"
  lr_two_factor_provider :: "u32 option"
  lr_two_factor_code :: "string option"
  lr_device_verification_code :: "string option"

record new_identity =
  ni_first_name :: "string option"
  ni_last_name :: "string option"
  ni_address1 :: "string option"
  ni_city :: "string option"
  ni_state :: "string option"
  ni_postal_code :: "string option"
  ni_country :: "string option"
  ni_email :: "string option"
  ni_phone :: "string option"

record new_entry =
  ne_name :: string
  ne_entry_type :: entry_type
  ne_username :: "string option"
  ne_password :: "secret option"
  ne_notes :: "secret option"
  ne_fields :: "field list"
  ne_totp :: "secret option"
  ne_uris :: "uri list"

datatype (plugins only: size) action =
    Action_Register string string string
  | Action_Login login_request
  | Action_Unlock string
  | Action_Lock
  | Action_Sync
  | GetConfig
  | GetEntries "string option" "entry_type option" bool
  | GetSidebarEntries "string option" "entry_type option" bool "string option"
  | GetEntry string "string option"
  | GetPassword string "string option"
  | GetTotp string "string option"
  | CopyToClipboard string
  | PinEntry string
  | UnpinEntry string
  | AddEntry new_entry
  | AddSecureNote string secret "field list"
  | AddCard string card "secret option" "field list"
  | AddIdentity string new_identity "secret option" "field list"
  | AddSshKey string secret "string option" "secret option" "field list"
  | AddBankAccount string bank_account "secret option" "field list"
  | AddDriversLicense string drivers_license "secret option" "field list"
  | AddPassport string passport "secret option" "field list"
  | SetPendingEntry string
  | RequestUnlock
  | GetEntryMeta string
  | Quit
  | Action_Version
  | DeleteEntry string
  | UpdateEntry entry
  | Logout
  | Subscribe
  | SetupTpmPin string string
  | SetupTpmPinFromUnlocked string
  | UnlockWithPin string
  | DisableTpmPin
  | CheckTpm
  | CheckTpmDiagnostics
  | GetTpmDaStatus
  | UpdateLockTimeout u64
  | CheckLoginMatch string string string
  | UpdateLoginPassword string string
  | GeneratePassword "generator_settings option"
  | GetGeneratorSettings
  | GetPasswordHistory
  | DeleteGeneratedPassword u64

datatype (plugins only: size) response =
    Ack
  | Error string
  | Response_TwoFactorRequired string "u32 list"
  | Response_NewDeviceVerificationRequired
  | Config (rc_config: config) (rc_needs_login: bool) (rc_has_account: bool) (rc_is_locked: bool)
      (rc_sync_failed: bool) (rc_session_id: u64) (rc_lock_epoch: u64)
  | Entries "entry list"
  | SidebarEntries "sidebar_entry list"
  | Response_Entry entry
  | EntryMeta entry "string list"
  | Response_Password secret
  | Totp secret
  | Response_Version string string
  | Event event
  | TpmStatus bool bool
  | TpmDiagnostics "(string \<times> bool \<times> string) list"
  | TpmDaStatus tpm_da_status
  | LoginMatch "string option" "string option" bool
  | GeneratedPassword secret
  | GeneratorSettings generator_settings
  | PasswordHistory "generator_history_entry list"

primrec variant_name :: "action \<Rightarrow> string" where
  "variant_name (Action_Register e p s) = ''Register''"
| "variant_name (Action_Login r) = ''Login''"
| "variant_name (Action_Unlock p) = ''Unlock''"
| "variant_name Action_Lock = ''Lock''"
| "variant_name Action_Sync = ''Sync''"
| "variant_name GetConfig = ''GetConfig''"
| "variant_name (GetEntries q t p) = ''GetEntries''"
| "variant_name (GetSidebarEntries q t p d) = ''GetSidebarEntries''"
| "variant_name (GetEntry i p) = ''GetEntry''"
| "variant_name (GetPassword i p) = ''GetPassword''"
| "variant_name (GetTotp i p) = ''GetTotp''"
| "variant_name (CopyToClipboard i) = ''CopyToClipboard''"
| "variant_name (PinEntry i) = ''PinEntry''"
| "variant_name (UnpinEntry i) = ''UnpinEntry''"
| "variant_name (AddEntry n) = ''AddEntry''"
| "variant_name (AddSecureNote n t f) = ''AddSecureNote''"
| "variant_name (AddCard n c t f) = ''AddCard''"
| "variant_name (AddIdentity n i t f) = ''AddIdentity''"
| "variant_name (AddSshKey n k p t f) = ''AddSshKey''"
| "variant_name (AddBankAccount n b t f) = ''AddBankAccount''"
| "variant_name (AddDriversLicense n d t f) = ''AddDriversLicense''"
| "variant_name (AddPassport n p t f) = ''AddPassport''"
| "variant_name (SetPendingEntry i) = ''SetPendingEntry''"
| "variant_name RequestUnlock = ''RequestUnlock''"
| "variant_name (GetEntryMeta i) = ''GetEntryMeta''"
| "variant_name Quit = ''Quit''"
| "variant_name Action_Version = ''Version''"
| "variant_name (DeleteEntry i) = ''DeleteEntry''"
| "variant_name (UpdateEntry e) = ''UpdateEntry''"
| "variant_name Logout = ''Logout''"
| "variant_name Subscribe = ''Subscribe''"
| "variant_name (SetupTpmPin m p) = ''SetupTpmPin''"
| "variant_name (SetupTpmPinFromUnlocked p) = ''SetupTpmPinFromUnlocked''"
| "variant_name (UnlockWithPin p) = ''UnlockWithPin''"
| "variant_name DisableTpmPin = ''DisableTpmPin''"
| "variant_name CheckTpm = ''CheckTpm''"
| "variant_name CheckTpmDiagnostics = ''CheckTpmDiagnostics''"
| "variant_name GetTpmDaStatus = ''GetTpmDaStatus''"
| "variant_name (UpdateLockTimeout s) = ''UpdateLockTimeout''"
| "variant_name (CheckLoginMatch d u p) = ''CheckLoginMatch''"
| "variant_name (UpdateLoginPassword i p) = ''UpdateLoginPassword''"
| "variant_name (GeneratePassword s) = ''GeneratePassword''"
| "variant_name GetGeneratorSettings = ''GetGeneratorSettings''"
| "variant_name GetPasswordHistory = ''GetPasswordHistory''"
| "variant_name (DeleteGeneratedPassword c) = ''DeleteGeneratedPassword''"

section \<open>Saving an edited entry\<close>

definition NEW_ENTRY_ID_PREFIX :: string where
  "NEW_ENTRY_ID_PREFIX = ''new-''"

text \<open>The clock is the argument.\<close>

definition new_placeholder_id :: "u64 \<Rightarrow> string" where
  "new_placeholder_id secs = NEW_ENTRY_ID_PREFIX @ show_nat (unat secs)"

definition is_new :: "entry \<Rightarrow> bool" where
  "is_new e \<longleftrightarrow> e_id e = [] \<or> starts_with NEW_ENTRY_ID_PREFIX (e_id e)"

definition non_empty :: "string option \<Rightarrow> string option" where
  "non_empty v = (case v of Some s \<Rightarrow> if s = [] then None else Some s | None \<Rightarrow> None)"

definition non_empty_secret :: "secret option \<Rightarrow> secret option" where
  "non_empty_secret v = (case v of Some s \<Rightarrow> if expose s = [] then None else Some s | None \<Rightarrow> None)"

fun add_action :: "string \<Rightarrow> field list \<Rightarrow> secret option \<Rightarrow> entry_data \<Rightarrow> action" where
  "add_action name fs notes (Login l) = AddEntry
     \<lparr>ne_name = name, ne_entry_type = ET_Login, ne_username = non_empty (lg_username l),
      ne_password = non_empty_secret (lg_password l), ne_notes = notes, ne_fields = fs,
      ne_totp = non_empty_secret (lg_totp l), ne_uris = lg_uris l\<rparr>"
| "add_action name fs notes SecureNote = AddEntry
     \<lparr>ne_name = name, ne_entry_type = ET_SecureNote, ne_username = None, ne_password = None,
      ne_notes = notes, ne_fields = fs, ne_totp = None, ne_uris = []\<rparr>"
| "add_action name fs notes (SshKey k) = AddSshKey name
     (case non_empty_secret (sk_private_key k) of Some p \<Rightarrow> p | None \<Rightarrow> Secret [])
     (non_empty (sk_public_key k)) notes fs"
| "add_action name fs notes (Card c) = AddCard name
     \<lparr>cd_cardholder_name = non_empty (cd_cardholder_name c), cd_number = non_empty_secret (cd_number c),
      cd_brand = non_empty (cd_brand c), cd_exp_month = non_empty (cd_exp_month c),
      cd_exp_year = non_empty (cd_exp_year c), cd_code = non_empty_secret (cd_code c)\<rparr> notes fs"
| "add_action name fs notes (Identity i) = AddIdentity name
     \<lparr>ni_first_name = non_empty (id_first_name i), ni_last_name = non_empty (id_last_name i),
      ni_address1 = non_empty (id_address1 i), ni_city = non_empty (id_city i),
      ni_state = non_empty (id_state i), ni_postal_code = non_empty (id_postal_code i),
      ni_country = non_empty (id_country i), ni_email = non_empty (id_email i),
      ni_phone = non_empty (id_phone i)\<rparr> notes fs"
| "add_action name fs notes (BankAccount b) = AddBankAccount name
     \<lparr>ba_bank_name = non_empty (ba_bank_name b), ba_name_on_account = non_empty (ba_name_on_account b),
      ba_account_type = non_empty (ba_account_type b),
      ba_account_number = non_empty_secret (ba_account_number b),
      ba_routing_number = non_empty_secret (ba_routing_number b),
      ba_branch_number = non_empty (ba_branch_number b), ba_pin = non_empty_secret (ba_pin b),
      ba_swift_code = non_empty (ba_swift_code b), ba_iban = non_empty (ba_iban b),
      ba_bank_contact_phone = non_empty (ba_bank_contact_phone b)\<rparr> notes fs"
| "add_action name fs notes (DriversLicense d) = AddDriversLicense name
     \<lparr>dl_first_name = non_empty (dl_first_name d), dl_middle_name = non_empty (dl_middle_name d),
      dl_last_name = non_empty (dl_last_name d), dl_date_of_birth = non_empty (dl_date_of_birth d),
      dl_license_number = non_empty_secret (dl_license_number d),
      dl_issuing_country = non_empty (dl_issuing_country d),
      dl_issuing_state = non_empty (dl_issuing_state d), dl_issue_date = non_empty (dl_issue_date d),
      dl_expiration_date = non_empty (dl_expiration_date d),
      dl_issuing_authority = non_empty (dl_issuing_authority d),
      dl_license_class = non_empty (dl_license_class d)\<rparr> notes fs"
| "add_action name fs notes (Passport p) = AddPassport name
     \<lparr>pp_surname = non_empty (pp_surname p), pp_given_name = non_empty (pp_given_name p),
      pp_date_of_birth = non_empty (pp_date_of_birth p), pp_sex = non_empty (pp_sex p),
      pp_birth_place = non_empty (pp_birth_place p), pp_nationality = non_empty (pp_nationality p),
      pp_issuing_country = non_empty (pp_issuing_country p),
      pp_passport_number = non_empty_secret (pp_passport_number p),
      pp_passport_type = non_empty (pp_passport_type p),
      pp_national_identification_number = non_empty (pp_national_identification_number p),
      pp_issuing_authority = non_empty (pp_issuing_authority p),
      pp_issue_date = non_empty (pp_issue_date p),
      pp_expiration_date = non_empty (pp_expiration_date p)\<rparr> notes fs"

definition save_action :: "entry \<Rightarrow> action" where
  "save_action e =
     (if is_new e then add_action (e_name e) (e_fields e) (e_notes e) (e_data e) else UpdateEntry e)"

section \<open>Facts\<close>

lemma minted_id_is_new: "e_id e = new_placeholder_id t \<Longrightarrow> is_new e"
  by (simp add: is_new_def new_placeholder_id_def NEW_ENTRY_ID_PREFIX_def)

lemma add_action_not_update: "add_action n fs t d \<noteq> UpdateEntry e"
  by (cases d) auto

lemma save_action_update_iff: "save_action e = UpdateEntry e' \<longleftrightarrow> \<not> is_new e \<and> e' = e"
  by (auto simp: save_action_def add_action_not_update)

lemma set_url_some_iff: "set_url u = Some s \<longleftrightarrow> u = Some s \<and> s \<noteq> []"
  by (auto simp: set_url_def split: option.splits)

lemma trim_end_slashes_idem [simp]: "trim_end_slashes (trim_end_slashes s) = trim_end_slashes s"
  by (simp add: trim_end_slashes_def dropWhile_idem)

lemma load_legacy_timeout: "cfg_lock_timeout (load_legacy f) \<noteq> 0"
  by (auto simp: load_legacy_def default_config_def default_lock_timeout_def split: option.splits)

lemma load_legacy_idem [simp]: "load_legacy (Some (load_legacy f)) = load_legacy f"
  using load_legacy_timeout [of f] by (auto simp: load_legacy_def)

end
