(* ===== verification/Agent_State.thy ===== *)
theory Agent_State
  imports Vault_Crypto Domain Protocol
begin

text \<open>
  The agent's shared state: \<open>Db\<close> of \<open>cosmarden-core/src/db/persistence.rs\<close>, \<open>State\<close> of
  \<open>cosmarden-agent/src/state.rs\<close> with its methods, and the SSH identity cache of
  \<open>ssh_agent/identities.rs\<close>.

  A subscriber is the pair of its channel's receiver being alive and the events sent so far,
  a \<open>watch\<close> channel is its current value, the shutdown channel the number of messages sent on
  it. \<open>refresh_lock\<close> is left out (a mutex without data). \<open>parse_pk\<close> is the parser of the
  crate \<open>ssh-key\<close> for public keys; the key data it returns is compared only.
\<close>

section \<open>The vault database\<close>

record db =
  db_access_token :: "token option"
  db_refresh_token :: "token option"
  db_kdf :: "kdf_type option"
  db_iterations :: "u32 option"
  db_memory :: "u32 option"
  db_parallelism :: "u32 option"
  db_protected_key :: "secret option"
  db_protected_private_key :: "secret option"
  db_protected_org_keys :: "(string \<times> secret) list"
  db_entries :: "entry list"

definition db_new :: db where
  "db_new = \<lparr>db_access_token = None, db_refresh_token = None, db_kdf = None, db_iterations = None,
     db_memory = None, db_parallelism = None, db_protected_key = None,
     db_protected_private_key = None, db_protected_org_keys = [], db_entries = []\<rparr>"

definition has_account :: "db \<Rightarrow> bool" where
  "has_account d \<longleftrightarrow> db_iterations d \<noteq> None \<and> db_kdf d \<noteq> None \<and> db_protected_key d \<noteq> None"

definition needs_login :: "db \<Rightarrow> bool" where
  "needs_login d \<longleftrightarrow> \<not> has_account d"

text \<open>What \<open>save\<close> writes and \<open>load\<close> reads back: the tokens are \<open>serde(skip)\<close>.\<close>

definition db_on_disk :: "db \<Rightarrow> db" where
  "db_on_disk d = d\<lparr>db_access_token := None, db_refresh_token := None\<rparr>"

section \<open>The state\<close>

datatype vault_session = VS_Locked | VS_Unlocked | VS_LoggedOut

record cached_sidebar_entry =
  ce_entry :: sidebar_entry
  ce_hosts :: "string list"

record cached_ssh_identity =
  ci_pubkey :: string
  ci_comment :: string

record subscriber =
  sub_alive :: bool
  sub_events :: "event list"

record agent =
  st_keys :: "keys option"
  st_org_keys :: "org_keys option"
  st_db :: "db option"
  st_user_id :: "string option"
  st_pinned_ids :: "string set"
  st_sidebar_cache :: "cached_sidebar_entry list"
  st_ssh_identity_cache :: "cached_ssh_identity list"
  st_session :: vault_session
  st_pending_entry_id :: "string option"
  st_subscribers :: "subscriber list"
  st_shutdown_tx :: "nat option"
  st_unlock_requested_notified :: bool
  st_sync_failed :: bool
  st_last_sync_error :: "string option"
  st_session_id :: u64
  st_lock_epoch :: u64
  st_tpm_configured :: bool

text \<open>The clock in nanoseconds and the process id are arguments.\<close>

definition session_id :: "u64 \<Rightarrow> u64 \<Rightarrow> u64" where
  "session_id nanos pid =
     (let x = Bit_Operations.xor nanos (push_bit 32 pid);
          x = x + 0x9e3779b97f4a7c15;
          x = Bit_Operations.xor x (drop_bit 30 x) * 0xbf58476d1ce4e5b9;
          x = Bit_Operations.xor x (drop_bit 27 x) * 0x94d049bb133111eb
      in Bit_Operations.xor x (drop_bit 31 x))"

definition agent_new :: "u64 \<Rightarrow> agent" where
  "agent_new sid = \<lparr>st_keys = None, st_org_keys = None, st_db = None, st_user_id = None,
     st_pinned_ids = {}, st_sidebar_cache = [], st_ssh_identity_cache = [],
     st_session = VS_LoggedOut, st_pending_entry_id = None, st_subscribers = [],
     st_shutdown_tx = None, st_unlock_requested_notified = False, st_sync_failed = False,
     st_last_sync_error = None, st_session_id = sid, st_lock_epoch = 0, st_tpm_configured = False\<rparr>"

section \<open>SSH identities\<close>

definition LOCKED_COMMENT_TOKEN :: string where
  "LOCKED_COMMENT_TOKEN = ''[cosmarden:locked]''"

definition locked_comment :: "string \<Rightarrow> string" where
  "locked_comment c = c @ '' '' @ LOCKED_COMMENT_TOKEN"

definition identities_for_list :: "cached_ssh_identity list \<Rightarrow> bool \<Rightarrow> (string \<times> string) list" where
  "identities_for_list cache locked =
     map (\<lambda>i. (ci_pubkey i, if locked then locked_comment (ci_comment i) else ci_comment i)) cache"

definition cache_has_pubkey :: "cached_ssh_identity list \<Rightarrow> string \<Rightarrow> bool" where
  "cache_has_pubkey cache pk = list_ex (\<lambda>i. ci_pubkey i = pk) cache"

definition ssh_identity_of :: "(string \<Rightarrow> string option) \<Rightarrow> cached_sidebar_entry \<Rightarrow> cached_ssh_identity option" where
  "ssh_identity_of parse_pk c =
     (if se_entry_type (ce_entry c) \<noteq> ET_SshKey then None
      else (case se_public_key (ce_entry c) of None \<Rightarrow> None
        | Some s \<Rightarrow> (case parse_pk s of None \<Rightarrow> None
            | Some kd \<Rightarrow> Some \<lparr>ci_pubkey = kd, ci_comment = se_name (ce_entry c)\<rparr>)))"

definition rebuild_from_sidebar :: "(string \<Rightarrow> string option) \<Rightarrow> agent \<Rightarrow> agent" where
  "rebuild_from_sidebar parse_pk s =
     s\<lparr>st_ssh_identity_cache := List.map_filter (ssh_identity_of parse_pk) (st_sidebar_cache s)\<rparr>"

section \<open>The sidebar cache\<close>

definition login_hosts :: "(string \<Rightarrow> string option) \<Rightarrow> uri list \<Rightarrow> string \<Rightarrow> string list" where
  "login_hosts d us name =
     (let hosts = List.map_filter (\<lambda>u. Option.bind (d (u_uri u)) host_from_uri)
                    (filter (\<lambda>u. u_match_type u \<noteq> Some UM_Never) us)
      in if hosts = [] then (case host_from_name name of Some h \<Rightarrow> [h] | None \<Rightarrow> []) else hosts)"

fun ssh_public_key :: "entry_data \<Rightarrow> string option" where
  "ssh_public_key (SshKey k) = sk_public_key k"
| "ssh_public_key data = None"

text \<open>
  One entry of the cache over the decryption closure \<open>d\<close>. \<open>full\<close> is the whole entry decrypted,
  which is consulted for an SSH key whose native public key does not decrypt.
\<close>

definition sidebar_row :: "(string \<Rightarrow> string option) \<Rightarrow> entry \<Rightarrow> entry \<Rightarrow> cached_sidebar_entry" where
  "sidebar_row d full e =
     (let name = keep d (e_name e);
          (username, pk, hosts) = (case e_data e of
             Login l \<Rightarrow> (Option.bind (lg_username l) d, None, login_hosts d (lg_uris l) name)
           | SshKey k \<Rightarrow> (None, or_else (Option.bind (sk_public_key k) d) (ssh_public_key (e_data full)), [])
           | _ \<Rightarrow> (None, None, []))
      in \<lparr>ce_entry = \<lparr>se_id = e_id e, se_name = name, se_username = username, se_public_key = pk,
                     se_entry_type = entry_type_of (e_data e), se_is_pinned = e_favorite e\<rparr>,
          ce_hosts = hosts\<rparr>)"

text \<open>
  The strings decrypted for one row, in no particular order: a panic of one of them is a panic
  of the rebuild. The fallback decrypts the whole entry with the entry's key in the place of
  the vault key.
\<close>

definition row_slots :: "(string \<Rightarrow> string option) \<Rightarrow> entry \<Rightarrow> string list" where
  "row_slots d e = e_name e # (case e_data e of
     Login l \<Rightarrow> strs [lg_username l]
        @ map u_uri (filter (\<lambda>u. u_match_type u \<noteq> Some UM_Never) (lg_uris l))
   | SshKey k \<Rightarrow> strs [sk_public_key k]
        @ (if Option.bind (sk_public_key k) d = None then entry_slots e else [])
   | _ \<Rightarrow> [])"

definition build_row :: "crypto \<Rightarrow> keys \<Rightarrow> org_keys \<Rightarrow> entry \<Rightarrow> cached_sidebar_entry outcome" where
  "build_row C keys orgs e = (let k = entry_keys keys orgs e; d = decrypt_slot C k (e_key e) in
     if list_ex (\<lambda>s. panics (vault_decrypt C s k (e_key e))) (row_slots d e) then Panic ''decrypt''
     else Ret (sidebar_row d (decrypted C k orgs e) e))"

fun build_rows :: "crypto \<Rightarrow> keys \<Rightarrow> org_keys \<Rightarrow> entry list \<Rightarrow> cached_sidebar_entry list outcome" where
  "build_rows C keys orgs [] = Ret []"
| "build_rows C keys orgs (e # es) = (case build_row C keys orgs e of
     Panic m \<Rightarrow> Panic m
   | Ret r \<Rightarrow> (case build_rows C keys orgs es of Panic m \<Rightarrow> Panic m | Ret rs \<Rightarrow> Ret (r # rs)))"

definition orgs_or_empty :: "org_keys option \<Rightarrow> org_keys" where
  "orgs_or_empty o' = (case o' of Some m \<Rightarrow> m | None \<Rightarrow> Map.empty)"

definition new_sidebar_cache :: "crypto \<Rightarrow> agent \<Rightarrow> cached_sidebar_entry list outcome" where
  "new_sidebar_cache C s = (case (st_db s, st_keys s) of
     (Some d, Some ks) \<Rightarrow> build_rows C ks (orgs_or_empty (st_org_keys s)) (db_entries d)
   | _ \<Rightarrow> Ret [])"

definition rebuild_sidebar_cache :: "crypto \<Rightarrow> (string \<Rightarrow> string option) \<Rightarrow> agent \<Rightarrow> agent outcome" where
  "rebuild_sidebar_cache C parse_pk s = (case new_sidebar_cache C s of
     Panic m \<Rightarrow> Panic m
   | Ret cache \<Rightarrow> (let s1 = s\<lparr>st_sidebar_cache := cache\<rparr> in
       Ret (if st_keys s1 \<noteq> None then (rebuild_from_sidebar parse_pk s1)\<lparr>st_session := VS_Unlocked\<rparr> else s1)))"

section \<open>Events and lock transitions\<close>

text \<open>\<open>retain\<close> over \<open>send\<close>: dead receivers are dropped, the others get the event.\<close>

definition broadcast :: "event \<Rightarrow> agent \<Rightarrow> agent" where
  "broadcast ev s = s\<lparr>st_subscribers :=
     map (\<lambda>u. u\<lparr>sub_events := sub_events u @ [ev]\<rparr>) (filter sub_alive (st_subscribers s))\<rparr>"

definition bump_epoch :: "agent \<Rightarrow> agent" where
  "bump_epoch s = s\<lparr>st_lock_epoch := st_lock_epoch s + 1\<rparr>"

definition drop_tokens :: "db \<Rightarrow> db" where
  "drop_tokens d = d\<lparr>db_access_token := None, db_refresh_token := None\<rparr>"

definition lock :: "agent \<Rightarrow> agent" where
  "lock s =
     (let s = s\<lparr>st_keys := None, st_org_keys := None, st_pinned_ids := {}, st_sidebar_cache := [],
                st_pending_entry_id := None, st_unlock_requested_notified := False,
                st_session := VS_Locked\<rparr>;
          s = bump_epoch s;
          s = s\<lparr>st_db := map_option drop_tokens (st_db s)\<rparr>
      in broadcast Locked s)"

definition request_unlock :: "agent \<Rightarrow> agent" where
  "request_unlock s =
     (if \<not> st_unlock_requested_notified s
      then (broadcast (if st_tpm_configured s then PinRequested else UnlockRequested) s)
             \<lparr>st_unlock_requested_notified := True\<rparr>
      else s)"

definition clear_account :: "agent \<Rightarrow> agent" where
  "clear_account s = (lock s)\<lparr>st_ssh_identity_cache := [], st_db := None, st_user_id := None,
     st_sync_failed := False, st_last_sync_error := None, st_session := VS_LoggedOut\<rparr>"

definition list_identities :: "agent \<Rightarrow> (string \<times> string) list \<times> agent" where
  "list_identities s =
     (let locked = (st_keys s = None);
          s = (if locked then request_unlock s else s)
      in (identities_for_list (st_ssh_identity_cache s) locked, s))"


section \<open>What the transitions keep\<close>

lemma broadcast_frame [simp]:
  "st_keys (broadcast ev s) = st_keys s" "st_org_keys (broadcast ev s) = st_org_keys s"
  "st_db (broadcast ev s) = st_db s" "st_user_id (broadcast ev s) = st_user_id s"
  "st_pinned_ids (broadcast ev s) = st_pinned_ids s"
  "st_sidebar_cache (broadcast ev s) = st_sidebar_cache s"
  "st_ssh_identity_cache (broadcast ev s) = st_ssh_identity_cache s"
  "st_session (broadcast ev s) = st_session s"
  "st_pending_entry_id (broadcast ev s) = st_pending_entry_id s"
  "st_shutdown_tx (broadcast ev s) = st_shutdown_tx s"
  "st_unlock_requested_notified (broadcast ev s) = st_unlock_requested_notified s"
  "st_sync_failed (broadcast ev s) = st_sync_failed s"
  "st_last_sync_error (broadcast ev s) = st_last_sync_error s"
  "st_session_id (broadcast ev s) = st_session_id s"
  "st_lock_epoch (broadcast ev s) = st_lock_epoch s"
  "st_tpm_configured (broadcast ev s) = st_tpm_configured s"
  by (simp_all add: broadcast_def)

lemma subscribers_broadcast:
  "st_subscribers (broadcast ev s) =
     map (\<lambda>u. u\<lparr>sub_events := sub_events u @ [ev]\<rparr>) (filter sub_alive (st_subscribers s))"
  by (simp add: broadcast_def)

lemma lock_fields [simp]:
  "st_keys (lock s) = None" "st_org_keys (lock s) = None" "st_pinned_ids (lock s) = {}"
  "st_sidebar_cache (lock s) = []" "st_pending_entry_id (lock s) = None"
  "st_unlock_requested_notified (lock s) = False" "st_session (lock s) = VS_Locked"
  "st_lock_epoch (lock s) = st_lock_epoch s + 1"
  "st_db (lock s) = map_option drop_tokens (st_db s)"
  "st_user_id (lock s) = st_user_id s"
  "st_ssh_identity_cache (lock s) = st_ssh_identity_cache s"
  "st_sync_failed (lock s) = st_sync_failed s"
  "st_last_sync_error (lock s) = st_last_sync_error s"
  "st_tpm_configured (lock s) = st_tpm_configured s"
  "st_session_id (lock s) = st_session_id s"
  by (simp_all add: lock_def bump_epoch_def Let_def)

lemma request_unlock_fields [simp]:
  "st_keys (request_unlock s) = st_keys s" "st_org_keys (request_unlock s) = st_org_keys s"
  "st_db (request_unlock s) = st_db s" "st_sidebar_cache (request_unlock s) = st_sidebar_cache s"
  "st_ssh_identity_cache (request_unlock s) = st_ssh_identity_cache s"
  "st_session (request_unlock s) = st_session s" "st_pinned_ids (request_unlock s) = st_pinned_ids s"
  "st_unlock_requested_notified (request_unlock s) = True"
  "st_lock_epoch (request_unlock s) = st_lock_epoch s"
  by (simp_all add: request_unlock_def)

lemma request_unlock_idem [simp]: "request_unlock (request_unlock s) = request_unlock s"
  using request_unlock_fields(8) [of s] by (simp add: request_unlock_def [of "request_unlock s"])

lemma clear_account_fields [simp]:
  "st_keys (clear_account s) = None" "st_org_keys (clear_account s) = None"
  "st_db (clear_account s) = None" "st_sidebar_cache (clear_account s) = []"
  "st_ssh_identity_cache (clear_account s) = []" "st_user_id (clear_account s) = None"
  "st_session (clear_account s) = VS_LoggedOut" "st_lock_epoch (clear_account s) = st_lock_epoch s + 1"
  "st_pinned_ids (clear_account s) = {}" "st_unlock_requested_notified (clear_account s) = False"
  by (simp_all add: clear_account_def)

section \<open>The sidebar cache mirrors the database\<close>

lemma build_row_Ret:
  "build_row C ks orgs e = Ret r \<Longrightarrow>
     r = sidebar_row (decrypt_slot C (entry_keys ks orgs e) (e_key e))
           (decrypted C (entry_keys ks orgs e) orgs e) e"
  by (auto simp: build_row_def Let_def split: if_splits)

lemma build_rows_Ret_iff:
  "build_rows C ks orgs es = Ret rs \<longleftrightarrow> list_all2 (\<lambda>e r. build_row C ks orgs e = Ret r) es rs"
proof (induction es arbitrary: rs)
  case (Cons e es)
  then show ?case
    by (cases rs) (auto simp flip: Cons.IH split: outcome.splits)
qed auto

lemma sidebar_row_fields [simp]:
  "se_id (ce_entry (sidebar_row d full e)) = e_id e"
  "se_entry_type (ce_entry (sidebar_row d full e)) = entry_type_of (e_data e)"
  "se_is_pinned (ce_entry (sidebar_row d full e)) = e_favorite e"
  "se_name (ce_entry (sidebar_row d full e)) = keep d (e_name e)"
  by (simp_all add: sidebar_row_def Let_def split: prod.splits)

lemma build_rows_ids:
  "build_rows C ks orgs es = Ret rs \<Longrightarrow> map (se_id \<circ> ce_entry) rs = map e_id es"
  unfolding build_rows_Ret_iff
  by (induction rule: list_all2_induct) (auto dest: build_row_Ret)

lemma rebuild_locked [simp]:
  "st_keys s = None \<Longrightarrow> rebuild_sidebar_cache C pp s = Ret (s\<lparr>st_sidebar_cache := []\<rparr>)"
  by (simp add: rebuild_sidebar_cache_def new_sidebar_cache_def split: option.splits)

lemma rebuild_fields:
  assumes "rebuild_sidebar_cache C pp s = Ret s'"
  shows "st_keys s' = st_keys s" "st_org_keys s' = st_org_keys s" "st_db s' = st_db s"
    "st_pinned_ids s' = st_pinned_ids s" "st_subscribers s' = st_subscribers s"
    "st_lock_epoch s' = st_lock_epoch s" "st_user_id s' = st_user_id s"
    "st_unlock_requested_notified s' = st_unlock_requested_notified s"
    "st_sync_failed s' = st_sync_failed s"
    "st_session s' = (if st_keys s = None then st_session s else VS_Unlocked)"
  using assms
  by (auto simp: rebuild_sidebar_cache_def rebuild_from_sidebar_def Let_def
      split: outcome.splits if_splits)

lemma rebuild_unlocked:
  assumes "rebuild_sidebar_cache C pp s = Ret s'" and "st_keys s = Some ks" and "st_db s = Some d"
  shows "build_rows C ks (orgs_or_empty (st_org_keys s)) (db_entries d) = Ret (st_sidebar_cache s')"
    and "st_ssh_identity_cache s' = List.map_filter (ssh_identity_of pp) (st_sidebar_cache s')"
  using assms
  by (auto simp: rebuild_sidebar_cache_def new_sidebar_cache_def rebuild_from_sidebar_def Let_def
      split: outcome.splits)

section \<open>SSH identities survive a lock\<close>

lemma identities_for_list_pubkeys [simp]: "map fst (identities_for_list cache l) = map ci_pubkey cache"
  by (simp add: identities_for_list_def comp_def)

lemma identities_for_list_length [simp]: "length (identities_for_list cache l) = length cache"
  by (simp add: identities_for_list_def)

lemma cache_has_pubkey_iff: "cache_has_pubkey cache pk \<longleftrightarrow> pk \<in> set (map fst (identities_for_list cache l))"
  by (auto simp: cache_has_pubkey_def list_ex_iff)

lemma locked_comment_ends: "ends_with LOCKED_COMMENT_TOKEN (locked_comment c)"
  by (auto simp: ends_with_iff locked_comment_def intro: exI [of _ "c @ '' ''"])

end
