(* ===== verification/Identity_Keys.thy ===== *)
theory Identity_Keys
  imports Vault_Model Cipher_String
begin

text \<open>
  \<open>cosmarden-core/src/identity.rs\<close>: the keys and the password hash derived from the master
  password, with the ranges the parameters of the KDF are held to. The crates \<open>pbkdf2\<close>,
  \<open>argon2\<close>, \<open>sha2\<close> and \<open>hkdf\<close> are the parameter \<open>K\<close>; a buffer they fill has the length asked for,
  which \<open>kdf_lib_ok\<close> states.
\<close>

record kdf_lib =
  kl_pbkdf2 :: "u8 list \<Rightarrow> u8 list \<Rightarrow> u32 \<Rightarrow> u8 list option"
  kl_argon2_params :: "u32 \<Rightarrow> u32 \<Rightarrow> u32 \<Rightarrow> string + unit"
  kl_argon2id :: "u8 list \<Rightarrow> u8 list \<Rightarrow> u32 \<Rightarrow> u32 \<Rightarrow> u32 \<Rightarrow> u8 list option"
  kl_sha256 :: "u8 list \<Rightarrow> u8 list"
  kl_hkdf_from_prk :: "u8 list \<Rightarrow> bool"
  kl_hkdf_expand :: "u8 list \<Rightarrow> u8 list \<Rightarrow> u8 list option"

definition kdf_lib_ok :: "kdf_lib \<Rightarrow> bool" where
  "kdf_lib_ok K \<longleftrightarrow> (\<forall>prk info out. kl_hkdf_expand K prk info = Some out \<longrightarrow> length out = 32)"

record account_keys =
  ak_email :: string
  ak_keys :: "u8 list"
  ak_master_password_hash :: "u8 list"

definition show_u32 :: "u32 \<Rightarrow> string" where
  "show_u32 n = show_nat (unat n)"

definition derive_pbkdf2 :: "kdf_lib \<Rightarrow> u8 list \<Rightarrow> string \<Rightarrow> u32 \<Rightarrow> error + u8 list" where
  "derive_pbkdf2 K password email iterations =
     (if \<not> (100000 \<le> iterations \<and> iterations \<le> 2000000)
      then Inl (Other (''PBKDF2 iterations '' @ show_u32 iterations
             @ '' out of allowed range (100000..=2000000)''))
      else ok_or (Other ''failed to run pbkdf2'') (kl_pbkdf2 K password (as_bytes email) iterations))"

definition derive_argon2id ::
  "kdf_lib \<Rightarrow> u8 list \<Rightarrow> string \<Rightarrow> u32 \<Rightarrow> u32 option \<Rightarrow> u32 option \<Rightarrow> error + u8 list" where
  "derive_argon2id K password email iterations memory parallelism =
     (let salt = kl_sha256 K (as_bytes email) in
      and_then (ok_or (Other ''Argon2id requires a memory parameter'') memory) (\<lambda>memory_mib.
      and_then (ok_or (Other ''Argon2id requires a parallelism parameter'') parallelism) (\<lambda>parallelism.
        if \<not> (16 \<le> memory_mib \<and> memory_mib \<le> 1024)
        then Inl (Other (''Argon2id memory '' @ show_u32 memory_mib @ '' MiB out of allowed range (16..=1024)''))
        else if \<not> (1 \<le> parallelism \<and> parallelism \<le> 16)
        then Inl (Other (''Argon2id parallelism '' @ show_u32 parallelism @ '' out of allowed range (1..=16)''))
        else if \<not> (2 \<le> iterations \<and> iterations \<le> 10)
        then Inl (Other (''Argon2id iterations '' @ show_u32 iterations @ '' out of allowed range (2..=10)''))
        else if 2 ^ 32 \<le> unat memory_mib * 1024
        then Inl (Other ''Argon2id memory parameter overflow'')
        else (let mem_kib = memory_mib * 1024 in
          and_then (map_err (\<lambda>e. Other (''invalid Argon2id parameters: '' @ e))
                     (kl_argon2_params K mem_kib iterations parallelism)) (\<lambda>_.
            ok_or (Other ''failed to run argon2'')
              (kl_argon2id K password salt mem_kib iterations parallelism))))))"

definition expand_keys :: "kdf_lib \<Rightarrow> u8 list \<Rightarrow> error + u8 list" where
  "expand_keys K prk =
     (if \<not> kl_hkdf_from_prk K prk then Inl (Other ''failed to expand with hkdf'') else
      and_then (ok_or (Other ''failed to expand enc key with hkdf'') (kl_hkdf_expand K prk (as_bytes ''enc''))) (\<lambda>e.
      and_then (ok_or (Other ''failed to expand mac key with hkdf'') (kl_hkdf_expand K prk (as_bytes ''mac''))) (\<lambda>m.
        Inr (e @ m))))"

definition identity_new ::
  "kdf_lib \<Rightarrow> string \<Rightarrow> u8 list \<Rightarrow> kdf_type \<Rightarrow> u32 \<Rightarrow> u32 option \<Rightarrow> u32 option \<Rightarrow> error + account_keys" where
  "identity_new K email password kdf iterations memory parallelism =
     (let email = to_lowercase (trim email) in
      if iterations = 0 then Inl (Other ''KDF iterations must be greater than zero'') else
      and_then (case kdf of
          Pbkdf2 \<Rightarrow> derive_pbkdf2 K password email iterations
        | Argon2id \<Rightarrow> derive_argon2id K password email iterations memory parallelism) (\<lambda>prk.
      and_then (ok_or (Other ''failed to run pbkdf2 for master password hash'')
                 (kl_pbkdf2 K prk password 1)) (\<lambda>hash.
      and_then (expand_keys K prk) (\<lambda>keys.
        Inr \<lparr>ak_email = email, ak_keys = keys, ak_master_password_hash = hash\<rparr>))))"

section \<open>Facts\<close>

text \<open>The parameters the code accepts.\<close>

definition kdf_params_ok :: "kdf_type \<Rightarrow> u32 \<Rightarrow> u32 option \<Rightarrow> u32 option \<Rightarrow> bool" where
  "kdf_params_ok kdf iterations memory parallelism = (case kdf of
     Pbkdf2 \<Rightarrow> 100000 \<le> iterations \<and> iterations \<le> 2000000
   | Argon2id \<Rightarrow> 2 \<le> iterations \<and> iterations \<le> 10
       \<and> (case memory of None \<Rightarrow> False | Some m \<Rightarrow> 16 \<le> m \<and> m \<le> 1024)
       \<and> (case parallelism of None \<Rightarrow> False | Some p \<Rightarrow> 1 \<le> p \<and> p \<le> 16))"

lemma identity_new_Inr:
  assumes "identity_new K email pw kdf it mem par = Inr a"
  shows "kdf_params_ok kdf it mem par" and "ak_email a = to_lowercase (trim email)"
    and "kdf_lib_ok K \<Longrightarrow> length (ak_keys a) = 64"
proof -
  show "kdf_params_ok kdf it mem par"
    using assms
    by (cases kdf; cases mem; cases par)
       (auto simp: identity_new_def kdf_params_ok_def derive_pbkdf2_def derive_argon2id_def
          Let_def and_then_Inr_iff split: if_splits)
  show "ak_email a = to_lowercase (trim email)"
    using assms by (auto simp: identity_new_def Let_def and_then_Inr_iff split: if_splits)
  assume "kdf_lib_ok K"
  then show "length (ak_keys a) = 64"
    using assms
    by (auto simp: identity_new_def expand_keys_def kdf_lib_ok_def Let_def and_then_Inr_iff
        split: if_splits)
qed

text \<open>Memory within its range cannot overflow, so the check for it is never taken.\<close>

lemma mem_kib_no_overflow: "m \<le> (1024 :: u32) \<Longrightarrow> unat m * 1024 < 2 ^ 32"
  by (simp add: word_le_nat_alt)

lemma derive_pbkdf2_rejects:
  "\<not> kdf_params_ok Pbkdf2 it mem par \<Longrightarrow> \<exists>e. derive_pbkdf2 K pw email it = Inl (Other e)"
  unfolding derive_pbkdf2_def kdf_params_ok_def by simp

lemma derive_argon2id_rejects:
  assumes "\<not> kdf_params_ok Argon2id it mem par"
  shows "\<exists>e. derive_argon2id K pw email it mem par = Inl (Other e)"
proof (cases mem)
  case (Some m)
  show ?thesis
  proof (cases par)
    case (Some p)
    with \<open>mem = Some m\<close> show ?thesis
      using assms unfolding derive_argon2id_def kdf_params_ok_def Let_def
      by (simp split del: if_split) (simp split: if_split, blast)
  qed (simp add: derive_argon2id_def \<open>mem = Some m\<close>)
qed (simp add: derive_argon2id_def)

lemma identity_new_rejects:
  assumes "\<not> kdf_params_ok kdf it mem par"
  shows "\<exists>e. identity_new K email pw kdf it mem par = Inl (Other e)"
proof (cases "it = 0")
  case False
  obtain e where "(case kdf of Pbkdf2 \<Rightarrow> derive_pbkdf2 K pw (to_lowercase (trim email)) it
      | Argon2id \<Rightarrow> derive_argon2id K pw (to_lowercase (trim email)) it mem par) = Inl (Other e)"
    using assms derive_pbkdf2_rejects derive_argon2id_rejects by (cases kdf) fastforce+
  with False show ?thesis
    by (simp add: identity_new_def Let_def)
qed (simp add: identity_new_def)

end
