(* ===== verification/Redaction.thy ===== *)
theory Redaction
  imports Vault_Model
begin

text \<open>
  What the agent lets out of an entry and takes back: \<open>redact_entry_secrets\<close> and
  \<open>filled_secret_keys\<close> of \<open>handler/vault/query.rs\<close>, \<open>merge_redacted_secrets\<close> of
  \<open>handler/vault/merge.rs\<close>, and the detail-pane decisions of
  \<open>cosmarden-core/src/field_access.rs\<close> that read the same slots by their labels.
\<close>

section \<open>Redaction\<close>

fun redact_data :: "entry_data \<Rightarrow> entry_data" where
  "redact_data (Login l) = Login (l\<lparr>lg_password := None, lg_totp := None\<rparr>)"
| "redact_data (Card c) = Card (c\<lparr>cd_number := None, cd_code := None\<rparr>)"
| "redact_data (SshKey s) = SshKey (s\<lparr>sk_private_key := None\<rparr>)"
| "redact_data (BankAccount b) = BankAccount (b
     \<lparr>ba_account_number := None, ba_routing_number := None, ba_pin := None,
      ba_iban := None, ba_swift_code := None, ba_branch_number := None\<rparr>)"
| "redact_data (DriversLicense x) = DriversLicense (x\<lparr>dl_license_number := None\<rparr>)"
| "redact_data (Passport p) = Passport (p
     \<lparr>pp_passport_number := None, pp_national_identification_number := None, pp_date_of_birth := None\<rparr>)"
| "redact_data (Identity i) = Identity (i
     \<lparr>id_ssn := None, id_license_number := None, id_passport_number := None\<rparr>)"
| "redact_data SecureNote = SecureNote"

definition redact_field :: "field \<Rightarrow> field" where
  "redact_field f = (if f_ty f = Some FT_Hidden then f\<lparr>f_value := None\<rparr> else f)"

definition redact_entry_secrets :: "entry \<Rightarrow> entry" where
  "redact_entry_secrets e =
     e\<lparr>e_data := redact_data (e_data e), e_notes := None, e_fields := map redact_field (e_fields e)\<rparr>"

definition when_some :: "'a option \<Rightarrow> string \<Rightarrow> string list" where
  "when_some x k = (if x \<noteq> None then [k] else [])"

fun data_secret_keys :: "entry_data \<Rightarrow> string list" where
  "data_secret_keys (Login l) = when_some (lg_password l) ''Password'' @ when_some (lg_totp l) ''TOTP''"
| "data_secret_keys (Card c) = when_some (cd_number c) ''Card Number'' @ when_some (cd_code c) ''Security Code''"
| "data_secret_keys (SshKey s) = when_some (sk_private_key s) ''Private Key''"
| "data_secret_keys (BankAccount b) =
     when_some (ba_account_number b) ''Account Number'' @ when_some (ba_routing_number b) ''Routing Number''
     @ when_some (ba_branch_number b) ''Branch Number'' @ when_some (ba_pin b) ''PIN''
     @ when_some (ba_swift_code b) ''SWIFT Code'' @ when_some (ba_iban b) ''IBAN''"
| "data_secret_keys (DriversLicense x) = when_some (dl_license_number x) ''License Number''"
| "data_secret_keys (Passport p) =
     when_some (pp_passport_number p) ''Passport Number''
     @ when_some (pp_national_identification_number p) ''National Identification Number''
     @ when_some (pp_date_of_birth p) ''Date of Birth''"
| "data_secret_keys (Identity i) =
     when_some (id_ssn i) ''SSN'' @ when_some (id_license_number i) ''License Number''
     @ when_some (id_passport_number i) ''Passport Number''"
| "data_secret_keys SecureNote = []"

definition field_secret_keys :: "field \<Rightarrow> string list" where
  "field_secret_keys f =
     (if f_ty f = Some FT_Hidden \<and> f_value f \<noteq> None
      then (case f_name f of Some n \<Rightarrow> [n] | None \<Rightarrow> []) else [])"

definition filled_secret_keys :: "entry \<Rightarrow> string list" where
  "filled_secret_keys e =
     data_secret_keys (e_data e) @ when_some (e_notes e) ''Notes''
     @ concat (map field_secret_keys (e_fields e))"

lemma mem_when_some [simp]: "j \<in> set (when_some x k) \<longleftrightarrow> x \<noteq> None \<and> j = k"
  by (auto simp: when_some_def)

lemma when_some_Nil [simp]: "when_some x k = [] \<longleftrightarrow> x = None"
  by (auto simp: when_some_def)

lemma mem_field_secret_keys [simp]:
  "k \<in> set (field_secret_keys f) \<longleftrightarrow> f_ty f = Some FT_Hidden \<and> f_value f \<noteq> None \<and> f_name f = Some k"
proof (cases "f_ty f = Some FT_Hidden \<and> f_value f \<noteq> None")
  case True
  then show ?thesis
    by (cases "f_name f") (simp_all only: field_secret_keys_def if_True option.case, auto)
next
  case False
  then show ?thesis
    by (simp only: field_secret_keys_def if_False) auto
qed

section \<open>Merging a redacted copy back\<close>

fun merge_data :: "entry_data \<Rightarrow> entry_data \<Rightarrow> entry_data" where
  "merge_data (Login l) (Login s) = Login (l
     \<lparr>lg_password := or_else (lg_password l) (lg_password s), lg_totp := or_else (lg_totp l) (lg_totp s)\<rparr>)"
| "merge_data (Card c) (Card s) = Card (c
     \<lparr>cd_number := or_else (cd_number c) (cd_number s), cd_code := or_else (cd_code c) (cd_code s)\<rparr>)"
| "merge_data (SshKey k) (SshKey s) = SshKey (k
     \<lparr>sk_private_key := or_else (sk_private_key k) (sk_private_key s)\<rparr>)"
| "merge_data (BankAccount b) (BankAccount s) = BankAccount (b
     \<lparr>ba_account_number := or_else (ba_account_number b) (ba_account_number s),
      ba_routing_number := or_else (ba_routing_number b) (ba_routing_number s),
      ba_pin := or_else (ba_pin b) (ba_pin s),
      ba_iban := or_else (ba_iban b) (ba_iban s),
      ba_swift_code := or_else (ba_swift_code b) (ba_swift_code s),
      ba_branch_number := or_else (ba_branch_number b) (ba_branch_number s)\<rparr>)"
| "merge_data (DriversLicense x) (DriversLicense s) = DriversLicense (x
     \<lparr>dl_license_number := or_else (dl_license_number x) (dl_license_number s)\<rparr>)"
| "merge_data (Passport p) (Passport s) = Passport (p
     \<lparr>pp_passport_number := or_else (pp_passport_number p) (pp_passport_number s),
      pp_national_identification_number :=
        or_else (pp_national_identification_number p) (pp_national_identification_number s),
      pp_date_of_birth := or_else (pp_date_of_birth p) (pp_date_of_birth s)\<rparr>)"
| "merge_data (Identity i) (Identity s) = Identity (i
     \<lparr>id_ssn := or_else (id_ssn i) (id_ssn s),
      id_license_number := or_else (id_license_number i) (id_license_number s),
      id_passport_number := or_else (id_passport_number i) (id_passport_number s)\<rparr>)"
| "merge_data d s = d"

definition merge_field :: "field list \<Rightarrow> field \<Rightarrow> field" where
  "merge_field stored f =
     (if f_ty f = Some FT_Hidden \<and> f_value f = None then
        (case List.find (\<lambda>g. f_name g = f_name f \<and> f_ty g = Some FT_Hidden) stored of
           Some g \<Rightarrow> f\<lparr>f_value := f_value g\<rparr> | None \<Rightarrow> f)
      else f)"

definition merge_fields :: "field list \<Rightarrow> field list \<Rightarrow> field list" where
  "merge_fields fs stored = map (merge_field stored) fs"

definition merge_redacted_secrets :: "entry \<Rightarrow> entry \<Rightarrow> entry" where
  "merge_redacted_secrets e stored =
     e\<lparr>e_key := or_else (e_key e) (e_key stored),
       e_data := merge_data (e_data e) (e_data stored),
       e_fields := merge_fields (e_fields e) (e_fields stored)\<rparr>"

section \<open>The laws of erasing and refilling\<close>

text \<open>
  \<open>erase\<close> blanks slots, \<open>refill\<close> fills blank slots from a second value. A value that went
  out erased and comes back is restored from the stored one, and what a refill adds is
  exactly what the next erasure takes out again.
\<close>

locale slot_erasure =
  fixes erase :: "'a \<Rightarrow> 'a"
    and refill :: "'a \<Rightarrow> 'a \<Rightarrow> 'a"
    and good :: "'a \<Rightarrow> bool"
  assumes refill_erase: "good x \<Longrightarrow> refill (erase x) x = x"
    and erase_refill: "erase (refill x y) = erase x"
    and erase_erase: "erase (erase x) = erase x"
begin

text \<open>Any two values with the same public part are interchangeable before an echo.\<close>

lemma echo_restores: "good x \<Longrightarrow> erase y = erase x \<Longrightarrow> refill (erase y) x = x"
  by (simp add: refill_erase)

lemma erase_inj_with_refill:
  "good x \<Longrightarrow> good y \<Longrightarrow> erase x = erase y \<Longrightarrow> refill (erase x) x = refill (erase y) y \<Longrightarrow> x = y"
  by (metis refill_erase)

text \<open>Refilling an erased value from anything leaks nothing to the next erased read.\<close>

lemma erased_view_stable: "erase (refill (erase x) y) = erase x"
  by (simp add: erase_refill erase_erase)

end

lemma redact_merge_data: "redact_data (merge_data x y) = redact_data x"
  by (cases "(x, y)" rule: merge_data.cases) auto

lemma merge_redact_data: "merge_data (redact_data x) x = x"
  by (cases x) auto

lemma redact_redact_data: "redact_data (redact_data x) = redact_data x"
  by (cases x) auto

interpretation data_erasure: slot_erasure redact_data merge_data "\<lambda>_. True"
  by unfold_locales (auto simp: redact_merge_data merge_redact_data redact_redact_data)

text \<open>Custom fields are matched by name, so a repeated hidden name is not restorable.\<close>

definition hidden_names :: "field list \<Rightarrow> string option list" where
  "hidden_names fs = map f_name (filter (\<lambda>f. f_ty f = Some FT_Hidden) fs)"

definition hidden_distinct :: "field list \<Rightarrow> bool" where
  "hidden_distinct fs \<longleftrightarrow> distinct (hidden_names fs)"

lemma find_hidden:
  assumes "hidden_distinct fs" and "f \<in> set fs" and "f_ty f = Some FT_Hidden"
  shows "List.find (\<lambda>g. f_name g = f_name f \<and> f_ty g = Some FT_Hidden) fs = Some f"
  using assms
proof (induction fs)
  case (Cons a fs)
  show ?case
  proof (cases "f_ty a = Some FT_Hidden \<and> f_name a = f_name f")
    case True
    with Cons.prems have "f_name f \<notin> set (hidden_names fs)"
      by (auto simp: hidden_distinct_def hidden_names_def)
    with Cons.prems True have "f = a"
      by (auto simp: hidden_names_def)
    with True show ?thesis
      by simp
  next
    case False
    with Cons.prems have "f \<in> set fs" and "hidden_distinct fs"
      by (auto simp: hidden_distinct_def hidden_names_def split: if_splits)
    with Cons.IH Cons.prems(3) False show ?thesis
      by auto
  qed
qed simp

lemma merge_redact_field:
  assumes "hidden_distinct fs" and "f \<in> set fs"
  shows "merge_field fs (redact_field f) = f"
  using find_hidden [OF assms] by (auto simp: merge_field_def redact_field_def)

lemma redact_merge_field: "redact_field (merge_field fs f) = redact_field f"
  by (auto simp: merge_field_def redact_field_def split: option.splits)

lemma redact_field_idem [simp]: "redact_field (redact_field f) = redact_field f"
  by (simp add: redact_field_def)

interpretation field_erasure: slot_erasure "map redact_field" merge_fields hidden_distinct
proof (unfold_locales, goal_cases)
  case (1 fs)
  then show ?case
    by (simp add: merge_fields_def comp_def merge_redact_field map_idI)
next
  case (2 fs gs)
  then show ?case
    by (simp add: merge_fields_def comp_def redact_merge_field)
next
  case (3 fs)
  then show ?case
    by (simp add: comp_def)
qed


section \<open>What a redacted entry shows\<close>

lemma hidden_names_redact [simp]: "hidden_names (map redact_field fs) = hidden_names fs"
  by (induction fs) (auto simp: hidden_names_def redact_field_def)

lemma merge_redact_entry:
  assumes "hidden_distinct (e_fields e)"
  shows "merge_redacted_secrets (redact_entry_secrets e) e = e\<lparr>e_notes := None\<rparr>"
  using field_erasure.refill_erase [OF assms]
  by (simp add: merge_redacted_secrets_def redact_entry_secrets_def merge_redact_data)

lemma redact_merge_entry:
  "redact_entry_secrets (merge_redacted_secrets e s) =
     (redact_entry_secrets e)\<lparr>e_key := or_else (e_key e) (e_key s)\<rparr>"
  by (simp add: merge_redacted_secrets_def redact_entry_secrets_def redact_merge_data
      field_erasure.erase_refill)

lemma redact_entry_idem [simp]: "redact_entry_secrets (redact_entry_secrets e) = redact_entry_secrets e"
  by (simp add: redact_entry_secrets_def redact_redact_data field_erasure.erase_erase)

lemma data_secret_keys_redact [secrecy]: "data_secret_keys (redact_data d) = []"
  by (cases d) (auto simp: when_some_def)

lemma redact_data_no_keys: "data_secret_keys d = [] \<Longrightarrow> redact_data d = d"
  by (cases d) (simp_all add: when_some_def split: if_splits)

lemma data_secret_keys_Nil [secrecy]: "data_secret_keys d = [] \<longleftrightarrow> redact_data d = d"
  by (metis redact_data_no_keys data_secret_keys_redact)

lemma field_secret_keys_redact [secrecy]: "field_secret_keys (redact_field f) = []"
  by (simp add: field_secret_keys_def redact_field_def)

lemma filled_secret_keys_redact [secrecy]: "filled_secret_keys (redact_entry_secrets e) = []"
  by (simp add: filled_secret_keys_def redact_entry_secrets_def when_some_def secrecy comp_def)

text \<open>Every hidden field that holds a value can be reported by name.\<close>

definition hidden_named :: "entry \<Rightarrow> bool" where
  "hidden_named e \<longleftrightarrow> (\<forall>f \<in> set (e_fields e). f_ty f = Some FT_Hidden \<longrightarrow> f_name f \<noteq> None)"

lemma field_secret_keys_Nil:
  "f_ty f = Some FT_Hidden \<longrightarrow> f_name f \<noteq> None \<Longrightarrow> field_secret_keys f = [] \<longleftrightarrow> redact_field f = f"
  by (cases f) (auto simp: field_secret_keys_def redact_field_def split: option.splits)

lemma filled_secret_keys_Nil_iff:
  assumes "hidden_named e"
  shows "filled_secret_keys e = [] \<longleftrightarrow> redact_entry_secrets e = e"
proof -
  have "map redact_field (e_fields e) = e_fields e \<longleftrightarrow> (\<forall>f \<in> set (e_fields e). redact_field f = f)"
    by (metis list.map_ident_strong map_eq_conv list.map_id id_apply)
  moreover have "(\<forall>f \<in> set (e_fields e). redact_field f = f) \<longleftrightarrow> (\<forall>f \<in> set (e_fields e). field_secret_keys f = [])"
    using assms field_secret_keys_Nil by (auto simp: hidden_named_def)
  ultimately show ?thesis
    by (cases e) (auto simp: filled_secret_keys_def redact_entry_secrets_def when_some_def
        data_secret_keys_Nil)
qed

end
