(* ===== verification/Field_Access.thy ===== *)
theory Field_Access
  imports Redaction Protocol
begin

text \<open>
  The detail pane's decisions of \<open>cosmarden-core/src/field_access.rs\<close>: which rows are masked,
  which request fetches a value, whether it is already there, and what a copy button copies.
  The rendering of an unexpected response in an error message (\<open>Debug\<close>) is the argument \<open>dbg\<close>.
\<close>

section \<open>Decisions\<close>

definition field_is_secret :: "string \<Rightarrow> bool \<Rightarrow> bool" where
  "field_is_secret label is_hidden =
     (if \<not> is_hidden \<and> eq_ignore_ascii_case label ''public key'' then False
      else is_hidden \<or> eq_ignore_ascii_case label ''TOTP''
        \<or> contains_str ''password'' (to_lowercase label) \<or> contains_str ''key'' (to_lowercase label))"

definition on_demand_secret :: "string \<Rightarrow> string \<Rightarrow> string option \<Rightarrow> action" where
  "on_demand_secret fld i reprompt_password =
     (if fld = ''Password'' then GetPassword i reprompt_password
      else if fld = ''TOTP'' then GetTotp i reprompt_password
      else GetEntry i reprompt_password)"

datatype on_demand_payload = OD_Password secret | OD_Totp secret | OD_Entry entry

definition parse_on_demand_response ::
  "(response \<Rightarrow> string) \<Rightarrow> string \<Rightarrow> response \<Rightarrow> string + on_demand_payload" where
  "parse_on_demand_response dbg fld r = (case r of
     Response_Password p \<Rightarrow>
       if fld = ''Password'' then Inr (OD_Password p) else Inl (''unexpected response: '' @ dbg r)
   | Totp c \<Rightarrow> if fld = ''TOTP'' then Inr (OD_Totp c) else Inl (''unexpected response: '' @ dbg r)
   | Response_Entry e \<Rightarrow>
       if fld \<noteq> ''Password'' \<and> fld \<noteq> ''TOTP'' then Inr (OD_Entry e)
       else Inl (''unexpected response: '' @ dbg r)
   | Error m \<Rightarrow> Inl m
   | _ \<Rightarrow> Inl (''unexpected response: '' @ dbg r))"

text \<open>
  The fixed slots of an entry by label. \<open>None\<close> is the fall-through to the custom fields, which
  an empty slot takes as well as an unknown label.
\<close>

fun slot_plaintext :: "entry_data \<Rightarrow> string \<Rightarrow> string option" where
  "slot_plaintext (Login l) k =
     (if k = ''Password'' then map_option expose (lg_password l) else None)"
| "slot_plaintext (SshKey s) k =
     (if k = ''Private Key'' then map_option expose (sk_private_key s)
      else if k = ''Public Key'' then sk_public_key s else None)"
| "slot_plaintext (Card c) k =
     (if k = ''Card Number'' then map_option expose (cd_number c)
      else if k = ''Security Code'' then map_option expose (cd_code c) else None)"
| "slot_plaintext (BankAccount b) k =
     (if k = ''Account Number'' then map_option expose (ba_account_number b)
      else if k = ''Routing Number'' then map_option expose (ba_routing_number b)
      else if k = ''PIN'' then map_option expose (ba_pin b)
      else if k = ''IBAN'' then ba_iban b
      else if k = ''SWIFT Code'' then ba_swift_code b
      else if k = ''Branch Number'' then ba_branch_number b else None)"
| "slot_plaintext (Identity i) k =
     (if k = ''SSN'' then id_ssn i
      else if k = ''License Number'' then id_license_number i
      else if k = ''Passport Number'' then id_passport_number i else None)"
| "slot_plaintext (DriversLicense d) k =
     (if k = ''License Number'' then map_option expose (dl_license_number d) else None)"
| "slot_plaintext (Passport p) k =
     (if k = ''Passport Number'' then map_option expose (pp_passport_number p)
      else if k = ''National Identification Number'' then pp_national_identification_number p
      else if k = ''Date of Birth'' then pp_date_of_birth p else None)"
| "slot_plaintext SecureNote k = None"

fun slot_loaded :: "entry_data \<Rightarrow> string \<Rightarrow> bool" where
  "slot_loaded (Login l) k = (k = ''Password'' \<and> lg_password l \<noteq> None)"
| "slot_loaded (SshKey s) k =
     (k = ''Private Key'' \<and> sk_private_key s \<noteq> None \<or> k = ''Public Key'' \<and> sk_public_key s \<noteq> None)"
| "slot_loaded (Card c) k =
     (k = ''Card Number'' \<and> cd_number c \<noteq> None \<or> k = ''Security Code'' \<and> cd_code c \<noteq> None)"
| "slot_loaded (BankAccount b) k =
     (k = ''Account Number'' \<and> ba_account_number b \<noteq> None
      \<or> k = ''Routing Number'' \<and> ba_routing_number b \<noteq> None
      \<or> k = ''PIN'' \<and> ba_pin b \<noteq> None \<or> k = ''IBAN'' \<and> ba_iban b \<noteq> None
      \<or> k = ''SWIFT Code'' \<and> ba_swift_code b \<noteq> None
      \<or> k = ''Branch Number'' \<and> ba_branch_number b \<noteq> None)"
| "slot_loaded (Identity i) k =
     (k = ''SSN'' \<and> id_ssn i \<noteq> None \<or> k = ''License Number'' \<and> id_license_number i \<noteq> None
      \<or> k = ''Passport Number'' \<and> id_passport_number i \<noteq> None)"
| "slot_loaded (DriversLicense d) k = (k = ''License Number'' \<and> dl_license_number d \<noteq> None)"
| "slot_loaded (Passport p) k =
     (k = ''Passport Number'' \<and> pp_passport_number p \<noteq> None
      \<or> k = ''National Identification Number'' \<and> pp_national_identification_number p \<noteq> None
      \<or> k = ''Date of Birth'' \<and> pp_date_of_birth p \<noteq> None)"
| "slot_loaded SecureNote k = False"

fun is_login :: "entry_data \<Rightarrow> bool" where
  "is_login (Login l) = True"
| "is_login d = False"

definition custom_plaintext :: "field list \<Rightarrow> string \<Rightarrow> string option" where
  "custom_plaintext fs k =
     find_map (\<lambda>f. if f_name f = Some k then map_option expose (f_value f) else None) fs"

definition secret_is_loaded :: "entry \<Rightarrow> string \<Rightarrow> bool" where
  "secret_is_loaded e k =
     (if k = ''Notes'' then e_notes e \<noteq> None
      else if slot_loaded (e_data e) k then True
      else if is_login (e_data e) \<and> k = ''TOTP'' then False
      else list_ex (\<lambda>f. f_name f = Some k \<and> f_value f \<noteq> None) (e_fields e))"

definition field_plaintext :: "entry \<Rightarrow> string \<Rightarrow> string option" where
  "field_plaintext e k =
     (if k = ''Notes'' then map_option expose (e_notes e)
      else or_else (slot_plaintext (e_data e) k) (custom_plaintext (e_fields e) k))"

section \<open>The two views agree\<close>

lemma slot_loaded_iff: "slot_loaded d k \<longleftrightarrow> slot_plaintext d k \<noteq> None"
  by (cases d) auto

lemma custom_plaintext_iff:
  "custom_plaintext fs k \<noteq> None \<longleftrightarrow> list_ex (\<lambda>f. f_name f = Some k \<and> f_value f \<noteq> None) fs"
  by (induction fs) (auto simp: custom_plaintext_def split: if_splits option.splits)

lemma loaded_iff_plaintext:
  "\<not> (is_login (e_data e) \<and> k = ''TOTP'') \<Longrightarrow> secret_is_loaded e k \<longleftrightarrow> field_plaintext e k \<noteq> None"
  unfolding secret_is_loaded_def field_plaintext_def slot_loaded_iff custom_plaintext_iff [symmetric]
  by (cases "slot_plaintext (e_data e) k") auto

lemma custom_plaintext_hidden:
  "f \<in> set fs \<Longrightarrow> f_name f = Some k \<Longrightarrow> f_value f \<noteq> None \<Longrightarrow> custom_plaintext fs k \<noteq> None"
  unfolding custom_plaintext_iff by (auto simp: list_ex_iff)

lemma data_secret_key_plaintext:
  "k \<in> set (data_secret_keys d) \<Longrightarrow> k \<noteq> ''TOTP'' \<Longrightarrow> slot_plaintext d k \<noteq> None"
  by (cases d) (simp_all, (elim disjE conjE exE; simp)+)

lemma data_secret_keys_not_notes: "''Notes'' \<notin> set (data_secret_keys d)"
  by (cases d) simp_all

text \<open>A row the agent reports as filled can be copied from the full entry.\<close>

lemma filled_key_has_plaintext:
  assumes "k \<in> set (filled_secret_keys e)" and "k \<noteq> ''TOTP''" and "k \<noteq> ''Notes''"
  shows "field_plaintext e k \<noteq> None"
proof -
  have "k \<in> set (data_secret_keys (e_data e))
      \<or> (\<exists>f \<in> set (e_fields e). k \<in> set (field_secret_keys f))"
    using assms(1,3) by (auto simp: filled_secret_keys_def)
  then show ?thesis
  proof
    assume "k \<in> set (data_secret_keys (e_data e))"
    then show ?thesis
      using data_secret_key_plaintext [of k "e_data e"] assms(2,3)
      by (cases "slot_plaintext (e_data e) k") (auto simp: field_plaintext_def)
  next
    assume "\<exists>f \<in> set (e_fields e). k \<in> set (field_secret_keys f)"
    then obtain f where "f \<in> set (e_fields e)" and "f_name f = Some k" and "f_value f \<noteq> None"
      by (simp only: mem_field_secret_keys) blast
    then have "custom_plaintext (e_fields e) k \<noteq> None"
      by (rule custom_plaintext_hidden)
    with assms(3) show ?thesis
      by (cases "slot_plaintext (e_data e) k") (simp_all add: field_plaintext_def)
  qed
qed

text \<open>
  After redaction a label reads nothing, unless it names a visible custom field or the public
  half of an SSH key.
\<close>

definition visible_label :: "entry \<Rightarrow> string \<Rightarrow> bool" where
  "visible_label e k \<longleftrightarrow>
     (\<exists>f \<in> set (e_fields e). f_name f = Some k \<and> f_ty f \<noteq> Some FT_Hidden \<and> f_value f \<noteq> None)"

lemma slot_plaintext_redact [secrecy]:
  "k \<noteq> ''Public Key'' \<Longrightarrow> slot_plaintext (redact_data d) k = None"
  by (cases d) auto

lemma custom_plaintext_redact:
  "(\<forall>f \<in> set fs. f_name f = Some k \<longrightarrow> f_ty f = Some FT_Hidden \<or> f_value f = None) \<Longrightarrow>
   custom_plaintext (map redact_field fs) k = None"
  unfolding custom_plaintext_def find_map_None_iff by (auto simp: redact_field_def)

lemma redacted_plaintext_None:
  assumes "k \<noteq> ''Public Key''" and "\<not> visible_label e k"
  shows "field_plaintext (redact_entry_secrets e) k = None"
proof -
  have "custom_plaintext (map redact_field (e_fields e)) k = None"
    using assms(2) by (intro custom_plaintext_redact) (auto simp: visible_label_def)
  then show ?thesis
    using assms(1) by (simp add: field_plaintext_def redact_entry_secrets_def slot_plaintext_redact)
qed

text \<open>A non-hidden label that mentions a key or a password is masked, except the public key.\<close>

lemma field_is_secret_hidden [simp]: "field_is_secret k True"
  by (simp add: field_is_secret_def)

text \<open>The response that answers a request is the one the parser accepts.\<close>

definition answers :: "action \<Rightarrow> response \<Rightarrow> bool" where
  "answers a r \<longleftrightarrow>
     (\<exists>i p s. a = GetPassword i p \<and> r = Response_Password s)
   \<or> (\<exists>i p s. a = GetTotp i p \<and> r = Totp s)
   \<or> (\<exists>i p e. a = GetEntry i p \<and> r = Response_Entry e)"

lemma parse_accepts_iff:
  "(\<exists>v. parse_on_demand_response dbg k r = Inr v) \<longleftrightarrow> answers (on_demand_secret k i p) r"
  by (cases r) (auto simp: parse_on_demand_response_def on_demand_secret_def answers_def)

end
