(* ===== verification/Vault_Query.thy ===== *)
theory Vault_Query
  imports Agent_State Identity_Keys Field_Access
begin

text \<open>
  The read handlers of \<open>cosmarden-agent/src/handler/vault/query.rs\<close>, \<open>GetPassword\<close> of
  \<open>handler/vault/mod.rs\<close>, \<open>handler/vault/totp.rs\<close> with \<open>handle_get_totp\<close> of \<open>ops.rs\<close>, and the
  login matching of \<open>browser_save.rs\<close>. They hold the state lock while they run and leave the
  state as it is, so each is a function of the state.

  \<open>cfg\<close> is what \<open>CosmardenConfig::load_legacy\<close> returns, \<open>psl\<close> the public suffix list, \<open>K\<close> the
  key derivation crates, \<open>T\<close> the crate \<open>totp-rs\<close> at the current time.
\<close>

abbreviation "agent_is_locked \<equiv> Error ''agent is locked''"
abbreviation "entry_not_found \<equiv> Error ''entry not found''"

section \<open>The master-password reprompt\<close>

definition locked_password :: "string \<Rightarrow> u8 list outcome" where
  "locked_password p = lvec_extend [] (as_bytes p)"

definition verify_reprompt ::
  "crypto \<Rightarrow> kdf_lib \<Rightarrow> error + config \<Rightarrow> string option \<Rightarrow> db \<Rightarrow> response option outcome" where
  "verify_reprompt C K cfg provided d = (case provided of
     None \<Rightarrow> Ret (Some (Error ''reprompt_required''))
   | Some password \<Rightarrow> (case cfg of
       Inl e \<Rightarrow> Ret (Some (Error (''failed to load config: '' @ error_display e)))
     | Inr config \<Rightarrow> (case cfg_email config of
         None \<Rightarrow> Ret (Some (Error ''email not set in config''))
       | Some email \<Rightarrow> (case locked_password password of
           Panic m \<Rightarrow> Panic m
         | Ret pw \<Rightarrow>
             (let kdf = (case db_kdf d of Some k \<Rightarrow> k | None \<Rightarrow> Pbkdf2);
                  iterations = (case db_iterations d of Some i \<Rightarrow> i | None \<Rightarrow> 100000)
              in case identity_new K email pw kdf iterations (db_memory d) (db_parallelism d) of
                Inl e \<Rightarrow> Ret (Some (Error (''identity derivation failed: '' @ error_display e)))
              | Inr ident \<Rightarrow>
                  (case unlock_from_keys C (ak_keys ident)
                      (case db_protected_key d of Some s \<Rightarrow> expose s | None \<Rightarrow> []) None [] of
                     Panic m \<Rightarrow> Panic m
                   | Ret (Inr v) \<Rightarrow> Ret None
                   | Ret (Inl e) \<Rightarrow> Ret (Some (Error ''incorrect password''))))))))"

section \<open>Lists\<close>

definition sidebar_match_query :: "string \<Rightarrow> sidebar_entry \<Rightarrow> bool" where
  "sidebar_match_query q e \<longleftrightarrow>
     (if contains_str q (to_lowercase (se_name e)) then True
      else if se_id e = q then True
      else (case se_username e of Some u \<Rightarrow> contains_str q (to_lowercase u) | None \<Rightarrow> False))"

definition sidebar_filter ::
  "(string \<Rightarrow> string option) \<Rightarrow> string option \<Rightarrow> entry_type option \<Rightarrow> bool \<Rightarrow> string option
    \<Rightarrow> cached_sidebar_entry \<Rightarrow> bool" where
  "sidebar_filter psl q entry_type only_pinned d c \<longleftrightarrow> (let e = ce_entry c in
     if only_pinned \<and> \<not> se_is_pinned e then False
     else if (case entry_type of Some et \<Rightarrow> se_entry_type e \<noteq> et | None \<Rightarrow> False) then False
     else (case q of
        Some q \<Rightarrow> sidebar_match_query q e
      | None \<Rightarrow> (case d of
          Some d \<Rightarrow> list_ex (\<lambda>h. hosts_match psl h d) (ce_hosts c)
        | None \<Rightarrow> True)))"

definition handle_get_sidebar_entries ::
  "(string \<Rightarrow> string option) \<Rightarrow> string option \<Rightarrow> entry_type option \<Rightarrow> bool \<Rightarrow> string option
    \<Rightarrow> agent \<Rightarrow> response" where
  "handle_get_sidebar_entries psl query entry_type only_pinned domain s =
     (if st_keys s = None then agent_is_locked
      else
        (let q = map_option to_lowercase query;
             d = (case q of None \<Rightarrow> Option.bind domain host_from_uri | Some _ \<Rightarrow> None)
         in SidebarEntries (map ce_entry
              (filter (sidebar_filter psl q entry_type only_pinned d) (st_sidebar_cache s)))))"

text \<open>The entries a bulk read decrypts, in order; a panic of one is a panic of the read.\<close>

fun decrypt_all :: "crypto \<Rightarrow> keys \<Rightarrow> org_keys \<Rightarrow> entry list \<Rightarrow> entry list outcome" where
  "decrypt_all C keys orgs [] = Ret []"
| "decrypt_all C keys orgs (e # es) = (case entry_decrypt C keys orgs e of
     Panic m \<Rightarrow> Panic m
   | Ret e' \<Rightarrow> (case decrypt_all C keys orgs es of
       Panic m \<Rightarrow> Panic m
     | Ret es' \<Rightarrow> Ret (redact_entry_secrets e' # es')))"

definition entry_match_query :: "string \<Rightarrow> entry \<Rightarrow> bool" where
  "entry_match_query q e \<longleftrightarrow>
     (if contains_str q (to_lowercase (e_name e)) \<or> e_id e = q then True
      else (case e_data e of
          Login l \<Rightarrow> (case lg_username l of Some u \<Rightarrow> contains_str q (to_lowercase u) | None \<Rightarrow> False)
        | _ \<Rightarrow> False))"

definition handle_get_entries ::
  "crypto \<Rightarrow> string option \<Rightarrow> entry_type option \<Rightarrow> bool \<Rightarrow> agent \<Rightarrow> response outcome" where
  "handle_get_entries C query entry_type only_pinned s = (case (st_db s, st_keys s) of
     (Some d, Some ks) \<Rightarrow>
       (let wanted = filter (\<lambda>e. (only_pinned \<longrightarrow> e_favorite e)
              \<and> (case entry_type of Some et \<Rightarrow> entry_type_of (e_data e) = et | None \<Rightarrow> True)) (db_entries d)
        in case decrypt_all C ks (orgs_or_empty (st_org_keys s)) wanted of
             Panic m \<Rightarrow> Panic m
           | Ret es \<Rightarrow> Ret (Entries (case query of
               Some q \<Rightarrow> filter (entry_match_query (to_lowercase q)) es
             | None \<Rightarrow> es)))
   | _ \<Rightarrow> Ret agent_is_locked)"

section \<open>One entry\<close>

definition find_entry :: "string \<Rightarrow> entry list \<Rightarrow> entry option" where
  "find_entry i es = List.find (\<lambda>e. e_id e = i) es"

definition handle_get_entry_meta :: "crypto \<Rightarrow> string \<Rightarrow> agent \<Rightarrow> response outcome" where
  "handle_get_entry_meta C i s = (case (st_db s, st_keys s) of
     (Some d, Some ks) \<Rightarrow> (case find_entry i (db_entries d) of
        Some e \<Rightarrow> (case entry_decrypt C ks (orgs_or_empty (st_org_keys s)) e of
            Panic m \<Rightarrow> Panic m
          | Ret de \<Rightarrow> Ret (EntryMeta (redact_entry_secrets de) (filled_secret_keys de)))
      | None \<Rightarrow> Ret entry_not_found)
   | _ \<Rightarrow> Ret agent_is_locked)"

definition handle_get_entry ::
  "crypto \<Rightarrow> kdf_lib \<Rightarrow> error + config \<Rightarrow> string \<Rightarrow> string option \<Rightarrow> agent \<Rightarrow> response outcome" where
  "handle_get_entry C K cfg i password s = (case (st_db s, st_keys s) of
     (Some d, Some ks) \<Rightarrow> (case find_entry i (db_entries d) of
        Some e \<Rightarrow>
          (case (if master_password_reprompt e then verify_reprompt C K cfg password d else Ret None) of
             Panic m \<Rightarrow> Panic m
           | Ret (Some err) \<Rightarrow> Ret err
           | Ret None \<Rightarrow> (case entry_decrypt C ks (orgs_or_empty (st_org_keys s)) e of
               Panic m \<Rightarrow> Panic m
             | Ret de \<Rightarrow> Ret (Response_Entry de)))
      | None \<Rightarrow> Ret entry_not_found)
   | _ \<Rightarrow> Ret agent_is_locked)"

text \<open>The secret that \<open>GetPassword\<close> takes from an entry, by its type.\<close>

definition password_of_entry :: "entry \<Rightarrow> response" where
  "password_of_entry e =
     (let no_password = Error ''entry has no password'';
          some_secret = (\<lambda>s. case s of Some p \<Rightarrow> Response_Password p | None \<Rightarrow> no_password)
      in case e_data e of
        Login l \<Rightarrow> some_secret (lg_password l)
      | SshKey k \<Rightarrow> some_secret (sk_private_key k)
      | Card c \<Rightarrow> some_secret (cd_number c)
      | BankAccount b \<Rightarrow> some_secret (ba_account_number b)
      | DriversLicense x \<Rightarrow> some_secret (dl_license_number x)
      | Passport p \<Rightarrow> some_secret (pp_passport_number p)
      | SecureNote \<Rightarrow> (case e_notes e of
          Some n \<Rightarrow> Response_Password n | None \<Rightarrow> Error ''entry has no notes'')
      | Identity i \<Rightarrow> no_password)"

definition handle_get_password ::
  "crypto \<Rightarrow> kdf_lib \<Rightarrow> error + config \<Rightarrow> string \<Rightarrow> string option \<Rightarrow> agent \<Rightarrow> response outcome" where
  "handle_get_password C K cfg i password s = (case handle_get_entry C K cfg i password s of
     Panic m \<Rightarrow> Panic m
   | Ret r \<Rightarrow> Ret (case r of Response_Entry e \<Rightarrow> password_of_entry e | _ \<Rightarrow> r))"

section \<open>One-time codes\<close>

datatype totp = Totp_From_Url string | Totp_Sha1_6_30 "u8 list"

record totp_lib =
  tl_from_url :: "string \<Rightarrow> string + unit"
  tl_base32 :: "string \<Rightarrow> string + u8 list"
  tl_generate_current :: "totp \<Rightarrow> string + string"

definition upper_char :: "char \<Rightarrow> char" where
  "upper_char c = (let n = of_char c :: nat in if 97 \<le> n \<and> n \<le> 122 then char_of (n - 32) else c)"

definition totp_build :: "totp_lib \<Rightarrow> string \<Rightarrow> string + totp" where
  "totp_build T secret =
     (if starts_with ''otpauth://'' secret
      then map_err (\<lambda>e. ''Invalid otpauth URL: '' @ e)
             (and_then (tl_from_url T secret) (\<lambda>_. Inr (Totp_From_Url secret)))
      else
        (let normalized = map upper_char (filter (\<lambda>c. \<not> is_ws c) secret) in
         and_then (map_err (\<lambda>e. ''Invalid TOTP secret: '' @ e) (tl_base32 T normalized))
           (\<lambda>key. Inr (Totp_Sha1_6_30 key))))"

definition generate_code :: "totp_lib \<Rightarrow> string \<Rightarrow> string + string" where
  "generate_code T secret = and_then (totp_build T secret) (\<lambda>totp.
     map_err (\<lambda>e. ''TOTP generation failed: '' @ e) (tl_generate_current T totp))"

definition handle_get_totp ::
  "crypto \<Rightarrow> kdf_lib \<Rightarrow> totp_lib \<Rightarrow> error + config \<Rightarrow> string \<Rightarrow> string option \<Rightarrow> agent
    \<Rightarrow> response outcome" where
  "handle_get_totp C K T cfg i password s =
     (let entry = Option.bind (st_db s) (\<lambda>d. find_entry i (db_entries d)) in
      case (case (entry, st_db s) of
              (Some e, Some d) \<Rightarrow> if master_password_reprompt e then verify_reprompt C K cfg password d
                                  else Ret None
            | _ \<Rightarrow> Ret None) of
        Panic m \<Rightarrow> Panic m
      | Ret (Some err) \<Rightarrow> Ret err
      | Ret None \<Rightarrow> (case (entry, st_keys s) of
          (Some e, Some ks) \<Rightarrow>
            (case entry_decrypt C ks (orgs_or_empty (st_org_keys s)) e of
               Panic m \<Rightarrow> Panic m
             | Ret de \<Rightarrow> Ret (case e_data de of
                 Login l \<Rightarrow> (case lg_totp l of
                     Some t \<Rightarrow> (case generate_code T (expose t) of
                        Inr code \<Rightarrow> Totp (Secret code) | Inl m \<Rightarrow> Error m)
                   | None \<Rightarrow> Error ''Entry has no TOTP secret'')
               | _ \<Rightarrow> Error ''Entry has no TOTP secret''))
        | _ \<Rightarrow> Ret (Error ''Agent is locked or entry not found'')))"

section \<open>The browser's save bar\<close>

definition entry_matches_domain ::
  "(string \<Rightarrow> string option) \<Rightarrow> string \<Rightarrow> uri list \<Rightarrow> string \<Rightarrow> bool" where
  "entry_matches_domain psl name uris domain \<longleftrightarrow>
     list_ex (\<lambda>u. u_match_type u \<noteq> Some UM_Never
        \<and> (case host_from_uri (u_uri u) of Some h \<Rightarrow> hosts_match psl h domain | None \<Rightarrow> False)) uris
     \<or> (case host_from_name name of Some h \<Rightarrow> hosts_match psl h domain | None \<Rightarrow> False)"

text \<open>The loop over the entries; \<open>first\<close> is the first match whose password differs.\<close>

fun login_match_loop ::
  "crypto \<Rightarrow> (string \<Rightarrow> string option) \<Rightarrow> keys \<Rightarrow> org_keys \<Rightarrow> string \<Rightarrow> string \<Rightarrow> string
    \<Rightarrow> (string \<times> string) option \<Rightarrow> entry list \<Rightarrow> response outcome" where
  "login_match_loop C psl keys orgs domain user password first [] =
     Ret (case first of Some (i, n) \<Rightarrow> LoginMatch (Some i) (Some n) False
        | None \<Rightarrow> LoginMatch None None False)"
| "login_match_loop C psl keys orgs domain user password first (e # es) =
     (if \<not> is_login (e_data e)
      then login_match_loop C psl keys orgs domain user password first es
      else case entry_decrypt C keys orgs e of
        Panic m \<Rightarrow> Panic m
      | Ret de \<Rightarrow> (case e_data de of
          Login l \<Rightarrow>
            (if \<not> (case lg_username l of Some u \<Rightarrow> to_lowercase (trim u) = user | None \<Rightarrow> False)
                \<or> \<not> entry_matches_domain psl (e_name de) (lg_uris l) domain
             then login_match_loop C psl keys orgs domain user password first es
             else if (case lg_password l of
                        Some p \<Rightarrow> as_bytes (expose p) = as_bytes password | None \<Rightarrow> False)
             then Ret (LoginMatch (Some (e_id de)) (Some (e_name de)) True)
             else login_match_loop C psl keys orgs domain user password
                    (if first = None then Some (e_id de, e_name de) else first) es)
        | _ \<Rightarrow> login_match_loop C psl keys orgs domain user password first es))"

definition handle_check_login_match ::
  "crypto \<Rightarrow> (string \<Rightarrow> string option) \<Rightarrow> string \<Rightarrow> string \<Rightarrow> string \<Rightarrow> agent \<Rightarrow> response outcome" where
  "handle_check_login_match C psl domain username password s = (case (st_db s, st_keys s) of
     (Some d, Some ks) \<Rightarrow>
       (let domain = to_lowercase (trim domain); user = to_lowercase (trim username) in
        if domain = [] \<or> user = [] then Ret (LoginMatch None None False)
        else login_match_loop C psl ks (orgs_or_empty (st_org_keys s)) domain user password None
               (db_entries d))
   | _ \<Rightarrow> Ret agent_is_locked)"


section \<open>Reads on a locked agent\<close>

lemma locked_reads [simp]:
  assumes "st_keys s = None"
  shows "handle_get_sidebar_entries psl q et p d s = agent_is_locked"
    "handle_get_entries C q et p s = Ret agent_is_locked"
    "handle_get_entry_meta C i s = Ret agent_is_locked"
    "handle_get_entry C K cfg i pw s = Ret agent_is_locked"
    "handle_get_password C K cfg i pw s = Ret agent_is_locked"
    "handle_check_login_match C psl page u w s = Ret agent_is_locked"
  using assms
  by (auto simp: handle_get_sidebar_entries_def handle_get_entries_def handle_get_entry_meta_def
      handle_get_entry_def handle_get_password_def handle_check_login_match_def split: option.splits)

lemma verify_reprompt_error: "verify_reprompt C K cfg pw d = Ret (Some r) \<Longrightarrow> \<exists>m. r = Error m"
  by (auto simp: verify_reprompt_def Let_def split: option.splits sum.splits outcome.splits)

lemma locked_totp:
  assumes "st_keys s = None" and "handle_get_totp C K T cfg i pw s = Ret r"
  shows "\<exists>m. r = Error m"
  using assms
  by (auto simp: handle_get_totp_def Let_def split: option.splits outcome.splits if_splits
      dest: verify_reprompt_error)

section \<open>Bulk reads are redacted\<close>

lemma decrypt_all_Ret:
  "decrypt_all C ks orgs es = Ret rs \<Longrightarrow>
     rs = map (\<lambda>e. redact_entry_secrets (decrypted C ks orgs e)) es"
  by (induction es arbitrary: rs)
     (auto simp: entry_decrypt_def decrypted_def Let_def split: outcome.splits if_splits)

lemma handle_get_entries_redacted:
  assumes "handle_get_entries C q et p s = Ret (Entries es)" and "e \<in> set es"
  shows "redact_entry_secrets e = e"
  using assms
  by (auto simp: handle_get_entries_def Let_def split: option.splits outcome.splits
      dest!: decrypt_all_Ret)

section \<open>The reprompt proves the password\<close>

lemma verify_reprompt_ok:
  assumes "verify_reprompt C K cfg provided d = Ret None"
  obtains pw config email a c where "provided = Some pw" and "cfg = Inr config"
    and "cfg_email config = Some email"
    and "identity_new K email (as_bytes pw) (case db_kdf d of Some k \<Rightarrow> k | None \<Rightarrow> Pbkdf2)
           (case db_iterations d of Some n \<Rightarrow> n | None \<Rightarrow> 100000) (db_memory d) (db_parallelism d) = Inr a"
    and "cipherstring_new C (case db_protected_key d of Some s \<Rightarrow> expose s | None \<Rightarrow> []) = Inr c"
    and "authentic C (ak_keys a) c"
proof -
  from assms obtain pw config email bs a v where *: "provided = Some pw" "cfg = Inr config"
    "cfg_email config = Some email" "locked_password pw = Ret bs"
    "identity_new K email bs (case db_kdf d of Some k \<Rightarrow> k | None \<Rightarrow> Pbkdf2)
       (case db_iterations d of Some n \<Rightarrow> n | None \<Rightarrow> 100000) (db_memory d) (db_parallelism d) = Inr a"
    "unlock_from_keys C (ak_keys a) (case db_protected_key d of Some s \<Rightarrow> expose s | None \<Rightarrow> []) None [] = Ret (Inr v)"
    unfolding verify_reprompt_def Let_def
    by (auto split: option.split_asm sum.split_asm outcome.split_asm)
  have "bs = as_bytes pw"
    using *(4) by (auto simp: locked_password_def lvec_extend_def split: if_splits)
  moreover obtain c where "cipherstring_new C (case db_protected_key d of Some s \<Rightarrow> expose s | None \<Rightarrow> []) = Inr c"
    and "authentic C (ak_keys a) c"
    using *(6) unlock_from_keys_authentic by (metis surj_pair)
  ultimately show thesis
    using that * by blast
qed

lemma handle_get_entry_Entry:
  assumes "handle_get_entry C K cfg i pw s = Ret (Response_Entry de)"
  obtains d ks e where "st_db s = Some d" and "st_keys s = Some ks"
    and "find_entry i (db_entries d) = Some e"
    and "de = decrypted C ks (orgs_or_empty (st_org_keys s)) e"
    and "master_password_reprompt e \<Longrightarrow> verify_reprompt C K cfg pw d = Ret None"
  using assms that
  by (auto simp: handle_get_entry_def entry_decrypt_def decrypted_def Let_def
      split: option.splits outcome.splits if_splits dest!: verify_reprompt_error)

section \<open>Sidebar rows and page domains\<close>

lemma login_hosts_mem:
  assumes "h \<in> set (login_hosts d us name)"
  shows "(\<exists>u \<in> set us. u_match_type u \<noteq> Some UM_Never
           \<and> Option.bind (d (u_uri u)) host_from_uri = Some h) \<or> host_from_name name = Some h"
  using assms by (auto simp: login_hosts_def Let_def set_map_filter split: if_splits option.splits)

lemma sidebar_row_hosts:
  "h \<in> set (ce_hosts (sidebar_row d full e)) \<Longrightarrow>
     \<exists>l. e_data e = Login l \<and> h \<in> set (login_hosts d (lg_uris l) (keep d (e_name e)))"
  by (cases "e_data e") (auto simp: sidebar_row_def Let_def)

lemma find_entry_mem: "find_entry i es = Some e \<Longrightarrow> e \<in> set es \<and> e_id e = i"
  by (auto simp: find_entry_def dest: find_Some_mem)

text \<open>
  A row the sidebar offers for a page belongs to a login that the save bar, deciding on the
  decrypted entry, recognises for the same page.
\<close>

lemma sidebar_domain_sound:
  assumes "build_row C ks orgs e = Ret r" and "h \<in> set (ce_hosts r)" and "hosts_match psl h page"
  obtains l where "e_data (decrypted C ks orgs e) = Login l"
    and "entry_matches_domain psl (e_name (decrypted C ks orgs e)) (lg_uris l) page"
proof -
  define d where "d = decrypt_slot C (entry_keys ks orgs e) (e_key e)"
  have r: "r = sidebar_row d (decrypted C (entry_keys ks orgs e) orgs e) e"
    using build_row_Ret [OF assms(1)] by (simp add: d_def)
  obtain l where l: "e_data e = Login l" and h: "h \<in> set (login_hosts d (lg_uris l) (keep d (e_name e)))"
    using sidebar_row_hosts assms(2) unfolding r by blast
  have data: "e_data (decrypted C ks orgs e) = Login (decrypt_login d l)"
    using l by (simp add: decrypted_def decrypt_with_def Let_def d_def)
  have name: "e_name (decrypted C ks orgs e) = keep d (e_name e)"
    by (simp add: decrypted_def decrypt_with_def Let_def d_def)
  from login_hosts_mem [OF h] have "entry_matches_domain psl (keep d (e_name e))
      (lg_uris (decrypt_login d l)) page"
  proof
    assume "\<exists>u \<in> set (lg_uris l). u_match_type u \<noteq> Some UM_Never
              \<and> Option.bind (d (u_uri u)) host_from_uri = Some h"
    then obtain u where u: "u \<in> set (lg_uris l)" "u_match_type u \<noteq> Some UM_Never"
      "Option.bind (d (u_uri u)) host_from_uri = Some h"
      by blast
    then have "host_from_uri (keep d (u_uri u)) = Some h"
      by (cases "d (u_uri u)") auto
    with u assms(3) show ?thesis
      by (auto simp: entry_matches_domain_def decrypt_login_def list_ex_iff intro!: bexI [of _ u])
  next
    assume "host_from_name (keep d (e_name e)) = Some h"
    with assms(3) show ?thesis
      by (simp add: entry_matches_domain_def)
  qed
  with data name show thesis
    using that by simp
qed

lemma login_hosts_complete:
  assumes "u \<in> set us" and "u_match_type u \<noteq> Some UM_Never" and "Option.bind (d (u_uri u)) host_from_uri = Some h"
  shows "h \<in> set (login_hosts d us name)"
proof -
  have "h \<in> set (List.map_filter (\<lambda>u. Option.bind (d (u_uri u)) host_from_uri)
      (filter (\<lambda>u. u_match_type u \<noteq> Some UM_Never) us))"
    using assms by (auto simp: set_map_filter)
  then show ?thesis
    by (auto simp: login_hosts_def Let_def)
qed

text \<open>The converse needs every URI to decrypt and a name that is no host of its own.\<close>

lemma sidebar_domain_complete:
  assumes "build_row C ks orgs e = Ret r" and "e_data (decrypted C ks orgs e) = Login l'"
    and "entry_matches_domain psl (e_name (decrypted C ks orgs e)) (lg_uris l') page"
    and "host_from_name (e_name (decrypted C ks orgs e)) = None"
    and "\<forall>s \<in> set (data_slots (e_data e)). decrypt_slot C (entry_keys ks orgs e) (e_key e) s \<noteq> None"
  shows "\<exists>h \<in> set (ce_hosts r). hosts_match psl h page"
proof -
  define d where "d = decrypt_slot C (entry_keys ks orgs e) (e_key e)"
  have r: "r = sidebar_row d (decrypted C (entry_keys ks orgs e) orgs e) e"
    using build_row_Ret [OF assms(1)] by (simp add: d_def)
  from assms(2) obtain l where l: "e_data e = Login l" and l': "l' = decrypt_login d l"
    by (cases "e_data e") (auto simp: decrypted_def decrypt_with_def Let_def d_def)
  from assms(3,4) have "list_ex (\<lambda>u. u_match_type u \<noteq> Some UM_Never
      \<and> (case host_from_uri (u_uri u) of Some h \<Rightarrow> hosts_match psl h page | None \<Rightarrow> False)) (lg_uris l')"
    by (simp add: entry_matches_domain_def)
  then obtain v h where v: "v \<in> set (lg_uris l')" "u_match_type v \<noteq> Some UM_Never"
    "host_from_uri (u_uri v) = Some h" and h: "hosts_match psl h page"
    by (auto simp: list_ex_iff split: option.splits)
  then obtain u where u: "u \<in> set (lg_uris l)" and v': "v = u\<lparr>u_uri := keep d (u_uri u)\<rparr>"
    by (auto simp: l' decrypt_login_def)
  have "u_uri u \<in> set (data_slots (e_data e))"
    using u l by simp
  then obtain s where "d (u_uri u) = Some s"
    using assms(5) by (auto simp: d_def)
  with v v' have "Option.bind (d (u_uri u)) host_from_uri = Some h" and "u_match_type u \<noteq> Some UM_Never"
    by simp_all
  then have "h \<in> set (login_hosts d (lg_uris l) (keep d (e_name e)))"
    using u by (intro login_hosts_complete) auto
  then show ?thesis
    using h l by (auto simp: r sidebar_row_def Let_def)
qed

section \<open>The save bar's answer\<close>

definition login_candidate ::
  "crypto \<Rightarrow> (string \<Rightarrow> string option) \<Rightarrow> keys \<Rightarrow> org_keys \<Rightarrow> string \<Rightarrow> string \<Rightarrow> entry \<Rightarrow> bool" where
  "login_candidate C psl ks orgs page user e \<longleftrightarrow> (case e_data (decrypted C ks orgs e) of
     Login l \<Rightarrow> (\<exists>u. lg_username l = Some u \<and> to_lowercase (trim u) = user)
       \<and> entry_matches_domain psl (e_name (decrypted C ks orgs e)) (lg_uris l) page
   | _ \<Rightarrow> False)"

definition has_password :: "crypto \<Rightarrow> keys \<Rightarrow> org_keys \<Rightarrow> string \<Rightarrow> entry \<Rightarrow> bool" where
  "has_password C ks orgs password e \<longleftrightarrow> (case e_data (decrypted C ks orgs e) of
     Login l \<Rightarrow> lg_password l = Some (Secret password) | _ \<Rightarrow> False)"

definition login_match_answer ::
  "(entry \<Rightarrow> string) \<Rightarrow> (string \<times> string) option \<Rightarrow> entry option \<Rightarrow> entry option \<Rightarrow> response" where
  "login_match_answer name first exact candidate = (case exact of
     Some e \<Rightarrow> LoginMatch (Some (e_id e)) (Some (name e)) True
   | None \<Rightarrow> (case or_else first (map_option (\<lambda>e. (e_id e, name e)) candidate) of
       Some (i, n) \<Rightarrow> LoginMatch (Some i) (Some n) False
     | None \<Rightarrow> LoginMatch None None False))"

lemma is_login_decrypted: "e_data (decrypted C ks orgs e) = Login l \<Longrightarrow> is_login (e_data e)"
  by (cases "e_data e") (auto simp: decrypted_def decrypt_with_def Let_def)

lemma login_match_loop_spec:
  assumes "login_match_loop C psl ks orgs page user pw first es = Ret r"
  shows "r = login_match_answer (\<lambda>e. e_name (decrypted C ks orgs e)) first
     (List.find (\<lambda>e. login_candidate C psl ks orgs page user e \<and> has_password C ks orgs pw e) es)
     (List.find (login_candidate C psl ks orgs page user) es)"
  using assms
proof (induction es arbitrary: first)
  case Nil
  then show ?case
    by (auto simp: login_match_answer_def split: option.splits)
next
  case (Cons e es)
  show ?case
  proof (cases "is_login (e_data e)")
    case False
    then have "\<not> login_candidate C psl ks orgs page user e"
      by (auto simp: login_candidate_def dest: is_login_decrypted split: entry_data.splits)
    with False Cons show ?thesis
      by simp
  next
    case True
    then obtain l where l: "e_data (decrypted C ks orgs e) = Login l"
      by (cases "e_data e") (auto simp: decrypted_def decrypt_with_def Let_def)
    from Cons.prems True have ret: "entry_decrypt C ks orgs e = Ret (decrypted C ks orgs e)"
      by (auto simp: entry_decrypt_def decrypted_def Let_def split: if_splits)
    have pw: "(case lg_password l of Some p \<Rightarrow> as_bytes (expose p) = as_bytes pw | None \<Rightarrow> False)
        \<longleftrightarrow> has_password C ks orgs pw e"
      using l secret.collapse by (fastforce simp: has_password_def as_bytes_inj split: option.splits)
    have cand: "(case lg_username l of Some u \<Rightarrow> to_lowercase (trim u) = user | None \<Rightarrow> False)
        \<and> entry_matches_domain psl (e_name (decrypted C ks orgs e)) (lg_uris l) page
        \<longleftrightarrow> login_candidate C psl ks orgs page user e"
      using l by (auto simp: login_candidate_def split: option.splits)
    show ?thesis
      using Cons.prems True ret l pw cand Cons.IH [of first] Cons.IH [of "Some (e_id e, e_name (decrypted C ks orgs e))"]
      by (auto simp: login_match_answer_def split: if_splits option.splits)
  qed
qed

end
