(* ===== verification/Sample_Crates.thy ===== *)
theory Sample_Crates
  imports Vault_Crypto Identity_Keys
begin

text \<open>
  Concrete functions in the place of the external crates, to evaluate the model on: \<open>base64\<close> as
  two letters per byte, \<open>hmac\<close> as the padded key, \<open>aes\<close> in CBC mode as the PKCS#7 padding alone,
  the key derivations as the padded input. They satisfy what the model assumes of the crates.
\<close>

definition nibble :: "nat \<Rightarrow> char" where
  "nibble n = char_of (97 + n)"

definition sample_b64_encode :: "u8 list \<Rightarrow> string" where
  "sample_b64_encode bs = concat (map (\<lambda>b. [nibble (unat b div 16), nibble (unat b mod 16)]) bs)"

fun sample_b64_decode :: "string \<Rightarrow> u8 list option" where
  "sample_b64_decode [] = Some []"
| "sample_b64_decode [c] = None"
| "sample_b64_decode (c # d # cs) =
     (let h = of_char c :: nat; l = of_char d :: nat in
      if 97 \<le> h \<and> h < 113 \<and> 97 \<le> l \<and> l < 113
      then map_option (\<lambda>bs. word_of_nat ((h - 97) * 16 + (l - 97)) # bs) (sample_b64_decode cs)
      else None)"

definition pad32 :: "u8 list \<Rightarrow> u8 list" where
  "pad32 bs = take 32 (bs @ replicate 32 0)"

definition sample_crypto :: crypto where
  "sample_crypto =
     \<lparr>b64_encode = sample_b64_encode, b64_decode = sample_b64_decode,
      hmac_sha256 = (\<lambda>k m. Some (pad32 k)),
      aes_cbc_encrypt = (\<lambda>k iv p. p @ pkcs7_pad p),
      aes_cbc_decrypt = (\<lambda>k iv ct. map_option (\<lambda>p. (ct, p)) (pkcs7_unpad ct)),
      rsa_oaep_decrypt = (\<lambda>k c. Inr c)\<rparr>"

definition sample_kdf :: kdf_lib where
  "sample_kdf =
     \<lparr>kl_pbkdf2 = (\<lambda>pw salt n. Some (pad32 pw)), kl_argon2_params = (\<lambda>m i p. Inr ()),
      kl_argon2id = (\<lambda>pw salt m i p. Some (pad32 pw)), kl_sha256 = pad32,
      kl_hkdf_from_prk = (\<lambda>prk. 32 \<le> length prk), kl_hkdf_expand = (\<lambda>prk info. Some (pad32 prk))\<rparr>"

lemma length_pad32 [simp]: "length (pad32 bs) = 32"
  by (simp add: pad32_def)

lemma of_char_nibble: "n < 16 \<Longrightarrow> of_char (nibble n) = 97 + n"
  by (simp add: nibble_def)

lemma nibble_not_sep: "n < 16 \<Longrightarrow> nibble n \<noteq> CHR ''.'' \<and> nibble n \<noteq> CHR ''|''"
proof -
  assume n: "n < 16"
  then have "of_char (nibble n) = 97 + n"
    by (rule of_char_nibble)
  moreover have "of_char (CHR ''.'') = (46 :: nat)" and "of_char (CHR ''|'') = (124 :: nat)"
    by simp_all
  ultimately show ?thesis
    using n by (auto dest!: arg_cong [where f = "of_char :: char \<Rightarrow> nat"])
qed

lemma sample_b64_roundtrip: "sample_b64_decode (sample_b64_encode bs) = Some bs"
proof (induction bs)
  case (Cons b bs)
  have "unat b < 256"
    using unsigned_less [of b, where 'a = nat] by simp
  then have "unat b div 16 < 16" and "unat b mod 16 < 16"
    by auto
  moreover have "word_of_nat (unat b div 16 * 16 + unat b mod 16) = b"
    by (simp only: div_mult_mod_eq) simp
  ultimately show ?case
    using Cons by (simp add: sample_b64_encode_def of_char_nibble Let_def)
qed (simp add: sample_b64_encode_def)

lemma sample_b64_no_sep:
  "CHR ''.'' \<notin> set (sample_b64_encode bs) \<and> CHR ''|'' \<notin> set (sample_b64_encode bs)"
proof -
  have "nibble (unat b div 16) \<noteq> CHR ''.'' \<and> nibble (unat b div 16) \<noteq> CHR ''|''" for b :: u8
    using unsigned_less [of b, where 'a = nat] by (intro nibble_not_sep) auto
  moreover have "nibble (unat b mod 16) \<noteq> CHR ''.'' \<and> nibble (unat b mod 16) \<noteq> CHR ''|''" for b :: u8
    by (intro nibble_not_sep) auto
  ultimately show ?thesis
    by (fastforce simp: sample_b64_encode_def)
qed

lemma sample_crypto_ok: "crypto_ok sample_crypto"
  using sample_b64_roundtrip sample_b64_no_sep
  by (simp add: crypto_ok_def sample_crypto_def pkcs7_unpad_pad)

lemma sample_kdf_ok: "kdf_lib_ok sample_kdf"
  by (simp add: kdf_lib_ok_def sample_kdf_def)

text \<open>Vault keys, and one string encrypted with them.\<close>

definition sample_keys :: keys where
  "sample_keys = replicate 32 1 @ replicate 32 2"

definition sample_iv :: "u8 list" where
  "sample_iv = replicate 16 7"

definition sample_encrypt :: "string \<Rightarrow> string" where
  "sample_encrypt s = (let ct = as_bytes s @ pkcs7_pad (as_bytes s) in
     cipherstring_display sample_crypto (Symmetric sample_iv ct (Some (replicate 32 2))))"

lemma length_sample_keys [simp]: "length sample_keys = 64"
  by (simp add: sample_keys_def)

lemma sample_encrypt_symmetric:
  "encrypt_symmetric sample_crypto sample_iv sample_keys (as_bytes s) =
     Okay (Symmetric sample_iv (as_bytes s @ pkcs7_pad (as_bytes s)) (Some (replicate 32 2)))"
  by (simp add: encrypt_symmetric_def enc_key_def mac_key_def Let_def sample_crypto_def sample_keys_def pad32_def)

lemma sample_decrypt: "utf8 s \<Longrightarrow> vault_decrypt sample_crypto (sample_encrypt s) sample_keys None = Okay s"
  using vault_decrypt_encrypt [OF sample_crypto_ok, of s sample_iv sample_keys None None
      "Symmetric sample_iv (as_bytes s @ pkcs7_pad (as_bytes s)) (Some (replicate 32 2))"]
    sample_encrypt_symmetric [of s]
  by (simp add: sample_iv_def open_item_key_def crypt_keys_def sample_encrypt_def Let_def)

end
