(* ===== verification/Vault_Properties.thy ===== *)
theory Vault_Properties
  imports Server_Roundtrip Vault_Query Sample_Crates
begin

text \<open>
  The properties of the vault's data: what the server gets and returns, authenticity, redaction,
  on-demand reads, site matching. Each is stated over the definitions of the component theories
  and evaluated on a small vault.
\<close>

section \<open>A small vault\<close>

definition plain_entry :: entry where
  "plain_entry = \<lparr>e_id = ''1'', e_org_id = None, e_folder = None, e_folder_id = None,
     e_name = ''bank'', e_favorite = True,
     e_data = Login \<lparr>lg_username = Some ''alice'', lg_password = Some (Secret ''hunter2''),
                     lg_totp = Some (Secret ''JBSW''),
                     lg_uris = [\<lparr>u_uri = ''https://bank.example/login'', u_match_type = Some UM_Domain\<rparr>]\<rparr>,
     e_fields = [\<lparr>f_ty = Some FT_Hidden, f_name = Some ''pin'', f_value = Some (Secret ''1234''), f_linked_id = None\<rparr>],
     e_notes = Some (Secret ''note''),
     e_history = [\<lparr>h_last_used_date = ''2024-01-01'', h_password = Secret ''old''\<rparr>],
     e_key = None, e_reprompt = Reprompt_Password\<rparr>"

lemma plain_entry_slots:
  "set (entry_slots plain_entry) =
     {''bank'', ''note'', ''alice'', ''hunter2'', ''JBSW'', ''https://bank.example/login'', ''pin'', ''1234''}"
  by (auto simp: entry_slots_def plain_entry_def)

lemma plain_entry_utf8: "s \<in> set (entry_slots plain_entry) \<Longrightarrow> utf8 s"
  by (intro ascii_utf8) (auto simp: plain_entry_slots)

lemma slot_safe_sample_encrypt: "slot_safe sample_crypto (sample_encrypt s)"
  unfolding slot_safe_def sample_encrypt_def Let_def parse_display_mac [OF sample_crypto_ok] by simp

lemma slot_safe_plain: "s \<in> set (entry_slots plain_entry) \<Longrightarrow> slot_safe sample_crypto s"
  by (auto simp: plain_entry_slots slot_safe_def cipherstring_new_def)

text \<open>A server that stores an update as sent, and one that stores a new cipher under an id.\<close>

definition stored_update :: "string \<Rightarrow> ciphers_put_req \<Rightarrow> sync_cipher" where
  "stored_update i r = \<lparr>sc_id = i, sc_ty = pu_ty r, sc_folder_id = pu_folder_id r,
     sc_organization_id = pu_organization_id r, sc_favorite = pu_favorite r, sc_name = pu_name r,
     sc_login = Option.bind (pu_login r) de_cipher_login, sc_card = pu_card r,
     sc_identity = pu_identity r, sc_ssh_key = pu_ssh_key r, sc_bank_account = pu_bank_account r,
     sc_drivers_license = pu_drivers_license r, sc_passport = pu_passport r, sc_notes = pu_notes r,
     sc_password_history = Some (map (\<lambda>(d, p). \<lparr>sh_password = Some p, sh_last_used_date = d\<rparr>)
                                   (pu_password_history r)),
     sc_fields = Some (pu_fields r), sc_deleted_date = None, sc_key = pu_key r, sc_reprompt = pu_reprompt r\<rparr>"

lemma stored_update_echoes: "echoes_put i r (stored_update i r)"
  by (simp add: echoes_put_def stored_update_def)


section \<open>The vault and the server\<close>

text \<open>
  C1: An update is lossless up to what \<open>after_update\<close> names. Whatever the type of the entry, the
  request can be built, and when the server returns it as stored, reading and decrypting it gives
  the entry that was sent, except for the folder, the organization, the match types of the URIs
  and the fingerprint of an SSH key, which no update sends.
\<close>

theorem updated_entry_reads_back:
  assumes "crypto_ok C" and "\<And>n. length (rnd n) = 16"
    and "item_key_of C keys (e_key e) = Okay ik" and "64 \<le> length (crypt_keys keys ik)"
    and "\<And>s. s \<in> set (entry_slots e) \<Longrightarrow> utf8 s"
  shows "\<exists>mk n'. update_request C rnd keys e n = (Okay mk, n')
     \<and> (\<forall>uid c folders orgs. echoes_put (e_id e) (mk uid) c \<longrightarrow>
          (\<exists>e'. to_entry folders c = Some e' \<and> decrypted C keys orgs e' = after_update e))"
proof -
  obtain mk n' where mk: "update_request C rnd keys e n = (Okay mk, n')"
    using update_request_Okay [OF assms(1,3,4)] by blast
  have "slot_good C rnd keys (e_key e) jk s"
    if "open_item_key C keys (e_key e) = Okay jk" and "s \<in> set (entry_slots e)" for jk s
    using that assms item_key_of_Okay [OF assms(3)] by (auto simp: slot_good_def)
  with mk show ?thesis
    using update_roundtrip [OF mk] by blast
qed

theorem updated_entry_reads_back_witness:
  "\<exists>mk n' e'. update_request sample_crypto (\<lambda>n. sample_iv) sample_keys plain_entry 0 = (Okay mk, n')
     \<and> to_entry [] (stored_update ''1'' (mk ''uid'')) = Some e'
     \<and> decrypted sample_crypto sample_keys Map.empty e' = plain_entry"
proof -
  have "after_update plain_entry = plain_entry" and "e_id plain_entry = ''1''"
    by (simp_all add: after_update_def plain_entry_def)
  moreover have "item_key_of sample_crypto sample_keys (e_key plain_entry) = Okay None"
    by (simp add: item_key_of_def plain_entry_def)
  moreover have "64 \<le> length (crypt_keys sample_keys None)" and "length sample_iv = 16"
    by (simp_all add: crypt_keys_def sample_iv_def)
  ultimately show ?thesis
    using updated_entry_reads_back [OF sample_crypto_ok, of "\<lambda>n. sample_iv" sample_keys plain_entry None 0]
      plain_entry_utf8 stored_update_echoes by metis
qed

text \<open>
  A new entry is created losslessly up to what \<open>after_add\<close> names: the id is the server's, and
  of an identity only the nine slots of the add request arrive.
\<close>

theorem created_entry_reads_back:
  assumes "crypto_ok C" and "\<And>n. length (rnd n) = 16" and "64 \<le> length keys"
    and "\<And>s. s \<in> set (entry_slots e) \<Longrightarrow> utf8 s"
  shows "\<exists>mk n'. add_request C rnd keys e n = (Okay mk, n')
     \<and> (\<forall>i uid c folders orgs. echoes_post i (mk uid) c \<longrightarrow>
          (\<exists>e'. to_entry folders c = Some e' \<and> decrypted C keys orgs e' = after_add i e))"
proof -
  obtain mk n' where mk: "add_request C rnd keys e n = (Okay mk, n')"
    using add_request_Okay [OF assms(1,3)] by blast
  have "slot_good C rnd keys None None s" if "s \<in> set (entry_slots e)" for s
    using that assms by (auto simp: slot_good_def open_item_key_def crypt_keys_def)
  with mk show ?thesis
    using add_roundtrip [OF mk] by blast
qed

theorem created_entry_reads_back_witness:
  "\<exists>mk n'. add_request sample_crypto (\<lambda>n. sample_iv) sample_keys plain_entry 0 = (Okay mk, n')
     \<and> (\<forall>uid c. echoes_post ''9'' (mk uid) c \<longrightarrow>
          (\<exists>e'. to_entry [] c = Some e' \<and> decrypted sample_crypto sample_keys Map.empty e' =
             plain_entry\<lparr>e_id := ''9'', e_history := [], e_reprompt := Reprompt_None\<rparr>))"
proof -
  have "after_add ''9'' plain_entry = plain_entry\<lparr>e_id := ''9'', e_history := [], e_reprompt := Reprompt_None\<rparr>"
    by (simp add: after_add_def plain_entry_def)
  moreover have "64 \<le> length sample_keys" and "length sample_iv = 16"
    by (simp_all add: sample_iv_def)
  ultimately show ?thesis
    using created_entry_reads_back [OF sample_crypto_ok, of "\<lambda>n. sample_iv" sample_keys plain_entry 0]
      plain_entry_utf8 by metis
qed

section \<open>Cryptography\<close>



text \<open>
  Every cipherstring the program writes is read back as itself, the symmetric form with its MAC
  as well as the asymmetric form of the organization keys.
\<close>

theorem cipherstring_roundtrip:
  assumes "crypto_ok C"
  shows "cipherstring_new C (cipherstring_display C (Symmetric iv ct (Some mac))) = Inr (Symmetric iv ct (Some mac))
     \<and> cipherstring_new C (cipherstring_display C (Asymmetric ct)) = Inr (Asymmetric ct)"
  using parse_display_mac [OF assms] parse_display_asymmetric [OF assms] by blast

theorem cipherstring_roundtrip_witness:
  "cipherstring_new sample_crypto (cipherstring_display sample_crypto (Symmetric [1] [2, 3] (Some [4])))
     = Inr (Symmetric [1] [2, 3] (Some [4]))"
  using cipherstring_roundtrip [OF sample_crypto_ok, of "[1]" "[2, 3]" "[4]"] by blast

text \<open>
  With keys of 64 bytes, an item key that is well formed and slots whose MACs have 32 bytes, the
  decryption of an entry returns: a slot that does not open is left out or kept, never a panic.
\<close>

theorem entry_decryption_returns:
  assumes "64 \<le> length (entry_keys keys orgs e)"
    and "item_key_safe C (entry_keys keys orgs e) (e_key e)"
    and "\<And>s. s \<in> set (entry_slots e) \<Longrightarrow> slot_safe C s"
  shows "\<exists>e'. entry_decrypt C keys orgs e = Ret e'"
  using entry_decrypt_returns [OF assms] by blast

theorem entry_decryption_returns_witness:
  "\<exists>e'. entry_decrypt sample_crypto sample_keys Map.empty (plain_entry\<lparr>e_notes := Some (Secret (sample_encrypt ''n''))\<rparr>) = Ret e'"
proof (rule entry_decryption_returns)
  let ?e = "plain_entry\<lparr>e_notes := Some (Secret (sample_encrypt ''n''))\<rparr>"
  show "64 \<le> length (entry_keys sample_keys Map.empty ?e)"
    by (simp add: entry_keys_def plain_entry_def)
  show "item_key_safe sample_crypto (entry_keys sample_keys Map.empty ?e) (e_key ?e)"
    by (simp add: item_key_safe_def plain_entry_def)
  fix s assume "s \<in> set (entry_slots ?e)"
  then have "s = sample_encrypt ''n'' \<or> s \<in> set (entry_slots plain_entry)"
    by (auto simp: entry_slots_def plain_entry_def)
  then show "slot_safe sample_crypto s"
    using slot_safe_sample_encrypt slot_safe_plain by blast
qed

text \<open>
  A MAC whose length is not 32 bytes is not an error but a panic: the server can stop a decryption
  with one cipherstring.
\<close>

theorem short_mac_panics:
  assumes "crypto_ok C" and "64 \<le> length keys" and "length mac \<noteq> 32"
  shows "panics (vault_decrypt C (cipherstring_display C (Symmetric iv ct (Some mac))) keys None)"
  using vault_decrypt_short_mac_panics [OF assms(1,2) parse_display_mac [OF assms(1)] assms(3)] .

theorem short_mac_panics_witness:
  "panics (vault_decrypt sample_crypto
     (cipherstring_display sample_crypto (Symmetric sample_iv [] (Some [1, 2, 3]))) sample_keys None)"
  by (rule short_mac_panics [OF sample_crypto_ok]) simp_all

text \<open>
  The parameters a server may choose for the key derivation are held to the ranges of the
  code; within them the derived vault keys are the 64 bytes every cipher operation needs, and
  the email is normalised before it becomes the salt; outside of them nothing is derived.
\<close>

theorem identity_new_params:
  assumes "kdf_lib_ok K"
  shows "(\<forall>a. identity_new K email pw kdf it mem par = Inr a \<longrightarrow>
       kdf_params_ok kdf it mem par \<and> length (ak_keys a) = 64 \<and> ak_email a = to_lowercase (trim email))
     \<and> (\<not> kdf_params_ok kdf it mem par \<longrightarrow> (\<exists>e. identity_new K email pw kdf it mem par = Inl (Other e)))"
  using identity_new_Inr [of K email pw kdf it mem par] identity_new_rejects assms by blast

theorem identity_new_params_witness:
  "length (ak_keys (projr (identity_new sample_kdf ''A@b.c'' [1, 2] Pbkdf2 600000 None None))) = 64
   \<and> (\<exists>e. identity_new sample_kdf ''A@b.c'' [1, 2] Pbkdf2 0 None None = Inl (Other e))"
proof -
  have "identity_new sample_kdf ''A@b.c'' [1, 2] Pbkdf2 600000 None None
      = Inr (projr (identity_new sample_kdf ''A@b.c'' [1, 2] Pbkdf2 600000 None None))"
    by (simp add: identity_new_def derive_pbkdf2_def expand_keys_def sample_kdf_def Let_def)
  moreover have "\<not> kdf_params_ok Pbkdf2 0 None None"
    by (simp add: kdf_params_ok_def)
  ultimately show ?thesis
    using identity_new_params [OF sample_kdf_ok] by blast
qed


section \<open>Redaction and reveal\<close>

text \<open>
  C27: A client that echoes a redacted entry back through \<open>UpdateEntry\<close> destroys no secret: the
  merge with the stored entry restores it exactly, except for the notes, provided the hidden
  custom fields have different names; and whatever it edits, the next redacted read shows
  nothing the merge brought back.
\<close>

theorem redacted_echo_restored:
  assumes "hidden_distinct (e_fields e)"
  shows "merge_redacted_secrets (redact_entry_secrets e) e = e\<lparr>e_notes := None\<rparr>
     \<and> (\<forall>edited. redact_entry_secrets (merge_redacted_secrets (redact_entry_secrets edited) e)
            = (redact_entry_secrets edited)\<lparr>e_key := or_else (e_key edited) (e_key e)\<rparr>)"
proof -
  have "e_key (redact_entry_secrets x) = e_key x" for x
    by (simp add: redact_entry_secrets_def)
  then show ?thesis
    using merge_redact_entry [OF assms] by (simp add: redact_merge_entry)
qed

theorem redacted_echo_restored_witness:
  "merge_redacted_secrets (redact_entry_secrets plain_entry) plain_entry = plain_entry\<lparr>e_notes := None\<rparr>"
  using redacted_echo_restored [of plain_entry]
  by (simp add: hidden_distinct_def hidden_names_def plain_entry_def)

text \<open>
  C6: A bulk read gives exactly the wanted entries, decrypted in order, without any of their secrets:
  no key of a secret row is left in an answer.
\<close>

theorem bulk_read_redacted:
  assumes "handle_get_entries C q et pinned s = Ret (Entries es)"
  shows "\<exists>d ks. st_db s = Some d \<and> st_keys s = Some ks
     \<and> es = filter (\<lambda>e. case q of Some q \<Rightarrow> entry_match_query (to_lowercase q) e | None \<Rightarrow> True)
         (map (\<lambda>e. redact_entry_secrets (decrypted C ks (orgs_or_empty (st_org_keys s)) e))
           (filter (\<lambda>e. (pinned \<longrightarrow> e_favorite e)
              \<and> (case et of Some t \<Rightarrow> entry_type_of (e_data e) = t | None \<Rightarrow> True)) (db_entries d)))
     \<and> (\<forall>e \<in> set es. filled_secret_keys e = [])"
proof -
  from assms obtain d ks where d: "st_db s = Some d" and ks: "st_keys s = Some ks"
    by (auto simp: handle_get_entries_def split: option.splits)
  from assms d ks obtain rs where
    "decrypt_all C ks (orgs_or_empty (st_org_keys s))
       (filter (\<lambda>e. (pinned \<longrightarrow> e_favorite e)
          \<and> (case et of Some t \<Rightarrow> entry_type_of (e_data e) = t | None \<Rightarrow> True)) (db_entries d)) = Ret rs"
    and es: "es = filter (\<lambda>e. case q of Some q \<Rightarrow> entry_match_query (to_lowercase q) e | None \<Rightarrow> True) rs"
    by (cases q) (auto simp: handle_get_entries_def Let_def split: outcome.splits)
  from decrypt_all_Ret [OF this(1)] es d ks show ?thesis
    by (auto simp: filled_secret_keys_redact)
qed

theorem bulk_read_redacted_witness:
  "\<exists>es. handle_get_entries sample_crypto (Some ''BANK'') None True
     ((agent_new 1)\<lparr>st_db := Some (db_new\<lparr>db_entries := [plain_entry]\<rparr>), st_keys := Some sample_keys\<rparr>)
     = Ret (Entries es) \<and> length es = 1 \<and> (\<forall>e \<in> set es. filled_secret_keys e = [])"
proof -
  let ?s = "(agent_new 1)\<lparr>st_db := Some (db_new\<lparr>db_entries := [plain_entry]\<rparr>), st_keys := Some sample_keys\<rparr>"
  let ?e = "redact_entry_secrets (decrypted sample_crypto sample_keys Map.empty plain_entry)"
  have "entry_decrypt sample_crypto sample_keys Map.empty plain_entry
      = Ret (decrypted sample_crypto sample_keys Map.empty plain_entry)"
    by (intro entry_decrypt_returns slot_safe_plain) (simp_all add: entry_keys_def item_key_safe_def plain_entry_def)
  moreover have "e_name ?e = ''bank''"
    by (simp add: redact_entry_secrets_def decrypted_def decrypt_with_def Let_def plain_entry_def
        decrypt_slot_def vault_decrypt_def cipherstring_new_def)
  moreover have "e_favorite plain_entry"
    by (simp add: plain_entry_def)
  moreover have "contains_str (to_lowercase ''BANK'') (to_lowercase ''bank'')"
    by code_simp
  ultimately have run: "handle_get_entries sample_crypto (Some ''BANK'') None True ?s = Ret (Entries [?e])"
    by (simp add: handle_get_entries_def Let_def agent_new_def orgs_or_empty_def entry_match_query_def)
  from bulk_read_redacted [OF this] have "\<forall>e \<in> set [?e]. filled_secret_keys e = []"
    by blast
  with run show ?thesis
    by auto
qed

text \<open>
  The rows the agent reports as filled are those the full entry can fill: each has a plaintext
  there and none in the redacted entry, and the pane knows which of the two it holds. Nothing
  reported means nothing was redacted.
\<close>

theorem filled_rows_are_the_redacted_ones:
  assumes "hidden_named e"
  shows "(filled_secret_keys e = [] \<longleftrightarrow> redact_entry_secrets e = e)
     \<and> (\<forall>k \<in> set (filled_secret_keys e). k \<notin> {''TOTP'', ''Notes'', ''Public Key''} \<and> \<not> visible_label e k \<longrightarrow>
          secret_is_loaded e k \<and> field_plaintext e k \<noteq> None
          \<and> \<not> secret_is_loaded (redact_entry_secrets e) k \<and> field_plaintext (redact_entry_secrets e) k = None)"
proof (intro conjI ballI impI, goal_cases)
  case 1
  then show ?case
    using assms by (rule filled_secret_keys_Nil_iff)
next
  case (2 k)
  then show ?case
    using filled_key_has_plaintext [of k e] loaded_iff_plaintext [of e k] by auto
next
  case (3 k)
  then show ?case
    using filled_key_has_plaintext [of k e] by auto
next
  case (4 k)
  then show ?case
    using redacted_plaintext_None [of k e] loaded_iff_plaintext [of "redact_entry_secrets e" k] by auto
next
  case (5 k)
  then show ?case
    using redacted_plaintext_None [of k e] by auto
qed

theorem filled_rows_are_the_redacted_ones_witness:
  "secret_is_loaded plain_entry ''pin'' \<and> \<not> secret_is_loaded (redact_entry_secrets plain_entry) ''pin''"
proof -
  have "hidden_named plain_entry" and "''pin'' \<in> set (filled_secret_keys plain_entry)"
    and "\<not> visible_label plain_entry ''pin''"
    by (auto simp: hidden_named_def filled_secret_keys_def visible_label_def field_secret_keys_def plain_entry_def)
  then show ?thesis
    using filled_rows_are_the_redacted_ones [of plain_entry] by auto
qed

text \<open>
  The detail pane accepts exactly the answer to its own question: of the three requests it may
  send for a row, the response of the right kind, and no other, is taken for the value.
\<close>

theorem on_demand_answer_accepted:
  "(\<exists>v. parse_on_demand_response dbg k r = Inr v) \<longleftrightarrow> answers (on_demand_secret k i p) r"
  by (rule parse_accepts_iff)

text \<open>
  The custom fields are a store keyed by name: a field that was set reads back, setting
  changes no other name, a removed name is gone.
\<close>

theorem custom_fields_store:
  "field_value_at (set_field e n v ty) m = (if m = n then Some v else field_value_at e m)
   \<and> field_value_at (remove_field e n) m = (if m = n then None else field_value_at e m)"
  by (simp add: fields.value_at_put fields.value_at_del)

section \<open>Sites\<close>

lemma sample_sites:
  "hosts_match (\<lambda>h. None) ''y.x.net'' ''x.net''"
  "hosts_match (\<lambda>h. None) ''x.net'' ''y.x.net''"
  by code_simp+

text \<open>
  Site matching is symmetric and never crosses sites: two hosts match only when both lie under a
  common domain that is one of them or the registrable domain of both. An address in digits
  matches nothing but itself.
\<close>

theorem hosts_match_within_site:
  assumes "psl_ok psl"
  shows "(hosts_match psl a b \<longleftrightarrow> hosts_match psl b a)
     \<and> (hosts_match psl a b \<longrightarrow>
          (\<exists>d. under d a \<and> under d b \<and> (d \<in> {a, b} \<or> (psl a = Some d \<and> psl b = Some d))))
     \<and> (hosts_match psl a b \<and> is_ip_addr a \<longrightarrow> a = b)"
  using hosts_match_sym [of psl a b] hosts_match_iff [of psl a b] hosts_match_common_site [of psl a b] assms
  by metis

theorem hosts_match_within_site_witness:
  "hosts_match (\<lambda>h. None) ''y.x.net'' ''x.net''
   \<and> (\<exists>d. under d ''y.x.net'' \<and> under d ''x.net'')"
proof -
  have "psl_ok (\<lambda>h. None)"
    by (simp add: psl_ok_def)
  moreover have "hosts_match (\<lambda>h. None) ''y.x.net'' ''x.net''"
    by (rule sample_sites)
  ultimately show ?thesis
    using hosts_match_within_site by blast
qed


text \<open>
  A login the sidebar offers for a page, by the hosts it cached, is one the save bar, deciding
  on the decrypted entry, recognises for the same page; when every URI decrypts and the name is
  no host, the two agree.
\<close>

theorem sidebar_agrees_with_save_bar:
  assumes "build_row C ks orgs e = Ret r"
  shows "((\<exists>h \<in> set (ce_hosts r). hosts_match psl h page) \<longrightarrow>
       (\<exists>l. e_data (decrypted C ks orgs e) = Login l
          \<and> entry_matches_domain psl (e_name (decrypted C ks orgs e)) (lg_uris l) page))
     \<and> (\<forall>l. e_data (decrypted C ks orgs e) = Login l
          \<and> entry_matches_domain psl (e_name (decrypted C ks orgs e)) (lg_uris l) page
          \<and> host_from_name (e_name (decrypted C ks orgs e)) = None
          \<and> (\<forall>s \<in> set (data_slots (e_data e)). decrypt_slot C (entry_keys ks orgs e) (e_key e) s \<noteq> None)
          \<longrightarrow> (\<exists>h \<in> set (ce_hosts r). hosts_match psl h page))"
proof (intro conjI impI allI, goal_cases)
  case 1
  then show ?case
    by (auto elim: sidebar_domain_sound [OF assms])
next
  case (2 l)
  then show ?case
    by (intro sidebar_domain_complete [OF assms, of l]) blast+
qed

theorem sidebar_agrees_with_save_bar_witness:
  "\<exists>l. e_data (decrypted sample_crypto sample_keys Map.empty (plain_entry\<lparr>e_name := ''x.net''\<rparr>)) = Login l
     \<and> entry_matches_domain (\<lambda>h. None)
         (e_name (decrypted sample_crypto sample_keys Map.empty (plain_entry\<lparr>e_name := ''x.net''\<rparr>)))
         (lg_uris l) ''y.x.net''"
proof -
  let ?e = "plain_entry\<lparr>e_name := ''x.net''\<rparr>"
  let ?d = "decrypt_slot sample_crypto sample_keys None"
  let ?r = "sidebar_row ?d (decrypted sample_crypto sample_keys Map.empty ?e) ?e"
  have slots: "vault_decrypt sample_crypto s sample_keys None = Fail e"
    if "cipherstring_new sample_crypto s = Inl e" for s e
    using that by (simp add: vault_decrypt_def)
  have x: "cipherstring_new sample_crypto ''x.net'' = Inl (UnimplementedCipherStringType ''x'')"
    by code_simp
  have "build_row sample_crypto sample_keys Map.empty ?e = Ret ?r"
    by (simp add: build_row_def Let_def entry_keys_def row_slots_def plain_entry_def strs_def
        List.map_filter_def slots [OF x] slots cipherstring_new_def)
  moreover have "ce_hosts ?r = [''x.net'']"
  proof -
    have "host_from_name ''x.net'' = Some ''x.net''"
      by code_simp
    then show ?thesis
      by (simp add: sidebar_row_def login_hosts_def Let_def plain_entry_def List.map_filter_def
          decrypt_slot_def slots [OF x] slots cipherstring_new_def)
  qed
  moreover have "hosts_match (\<lambda>h. None) ''x.net'' ''y.x.net''"
    by (rule sample_sites)
  ultimately show ?thesis
    using sidebar_agrees_with_save_bar [of sample_crypto sample_keys Map.empty ?e ?r] by simp
qed


text \<open>
  The save bar's loop computes what its specification says: the first entry with the page's
  site, the user and the password, or else the first with the site and the user, or nothing.
\<close>

theorem login_match_reference:
  assumes "handle_check_login_match C psl page user pw s = Ret r"
    and "st_db s = Some d" and "st_keys s = Some ks"
  defines "page' \<equiv> to_lowercase (trim page)" and "user' \<equiv> to_lowercase (trim user)"
    and "orgs \<equiv> orgs_or_empty (st_org_keys s)"
  shows "r = (if page' = [] \<or> user' = [] then LoginMatch None None False
     else login_match_answer (\<lambda>e. e_name (decrypted C ks orgs e)) None
       (List.find (\<lambda>e. login_candidate C psl ks orgs page' user' e \<and> has_password C ks orgs pw e) (db_entries d))
       (List.find (login_candidate C psl ks orgs page' user') (db_entries d)))"
proof (cases "page' = [] \<or> user' = []")
  case False
  then have "login_match_loop C psl ks orgs page' user' pw None (db_entries d) = Ret r"
    using assms by (auto simp: handle_check_login_match_def Let_def)
  with False show ?thesis
    using login_match_loop_spec by simp
qed (use assms in \<open>auto simp: handle_check_login_match_def Let_def\<close>)

definition site_entry :: entry where
  "site_entry = plain_entry\<lparr>e_name := ''x.net'', e_fields := [], e_notes := None,
     e_data := Login \<lparr>lg_username = Some (sample_encrypt ''Alice''), lg_password = Some (Secret (sample_encrypt ''pw'')),
                      lg_totp = None, lg_uris = []\<rparr>\<rparr>"

lemma site_entry_decrypted:
  "decrypted sample_crypto sample_keys Map.empty site_entry = site_entry
     \<lparr>e_data := Login \<lparr>lg_username = Some ''Alice'', lg_password = Some (Secret ''pw''), lg_totp = None, lg_uris = []\<rparr>\<rparr>"
proof -
  have "decrypt_slot sample_crypto sample_keys None (sample_encrypt ''Alice'') = Some ''Alice''"
    and "decrypt_slot sample_crypto sample_keys None (sample_encrypt ''pw'') = Some ''pw''"
    by (simp_all add: decrypt_slot_def sample_decrypt ascii_utf8)
  moreover have "cipherstring_new sample_crypto ''x.net'' = Inl (UnimplementedCipherStringType ''x'')"
    by code_simp
  then have "decrypt_slot sample_crypto sample_keys None ''x.net'' = None"
    by (simp add: decrypt_slot_def vault_decrypt_def)
  ultimately show ?thesis
    by (simp add: decrypted_def entry_keys_def decrypt_with_def Let_def site_entry_def plain_entry_def decrypt_login_def)
qed

lemma site_entry_runs:
  "entry_decrypt sample_crypto sample_keys Map.empty site_entry = Ret (decrypted sample_crypto sample_keys Map.empty site_entry)"
proof (rule entry_decrypt_returns)
  have "cipherstring_new sample_crypto ''x.net'' = Inl (UnimplementedCipherStringType ''x'')"
    by code_simp
  then have "slot_safe sample_crypto ''x.net''"
    by (simp add: slot_safe_def)
  then show "slot_safe sample_crypto s" if "s \<in> set (entry_slots site_entry)" for s
    using that slot_safe_sample_encrypt by (auto simp: entry_slots_def site_entry_def plain_entry_def)
qed (simp_all add: site_entry_def plain_entry_def entry_keys_def item_key_safe_def)

theorem login_match_reference_witness:
  "handle_check_login_match sample_crypto (\<lambda>h. None) '' Y.x.net '' ''alice'' ''pw''
     ((agent_new 1)\<lparr>st_db := Some (db_new\<lparr>db_entries := [site_entry]\<rparr>), st_keys := Some sample_keys\<rparr>)
     = Ret (LoginMatch (Some ''1'') (Some ''x.net'') True)"
proof -
  let ?s = "(agent_new 1)\<lparr>st_db := Some (db_new\<lparr>db_entries := [site_entry]\<rparr>), st_keys := Some sample_keys\<rparr>"
  let ?e = "decrypted sample_crypto sample_keys Map.empty site_entry"
  have low: "to_lowercase (trim '' Y.x.net '') = ''y.x.net''" "to_lowercase (trim ''alice'') = ''alice''"
    "to_lowercase (trim ''Alice'') = ''alice''" "host_from_name ''x.net'' = Some ''x.net''"
    by code_simp+
  have login: "is_login (e_data site_entry)" and id: "e_id site_entry = ''1''"
    by (simp_all add: site_entry_def plain_entry_def)
  have name: "e_name ?e = ''x.net''"
    unfolding site_entry_decrypted by (simp add: site_entry_def)
  have "\<exists>r. login_match_loop sample_crypto (\<lambda>h. None) sample_keys Map.empty ''y.x.net'' ''alice'' ''pw'' None [site_entry] = Ret r"
    using login by (cases "e_data ?e") (simp_all add: site_entry_runs)
  then obtain r where r: "handle_check_login_match sample_crypto (\<lambda>h. None) '' Y.x.net '' ''alice'' ''pw'' ?s = Ret r"
    by (auto simp: handle_check_login_match_def Let_def low orgs_or_empty_def agent_new_def)
  have "entry_matches_domain (\<lambda>h. None) ''x.net'' [] ''y.x.net''"
    using sample_sites by (simp add: entry_matches_domain_def low)
  then have "login_candidate sample_crypto (\<lambda>h. None) sample_keys Map.empty ''y.x.net'' ''alice'' site_entry"
    and "has_password sample_crypto sample_keys Map.empty ''pw'' site_entry"
    using name by (simp_all add: login_candidate_def has_password_def low site_entry_decrypted)
  then show ?thesis
    using login_match_reference [OF r, of "db_new\<lparr>db_entries := [site_entry]\<rparr>" sample_keys] r name id
    by (simp add: agent_new_def low login_match_answer_def orgs_or_empty_def)
qed

section \<open>Saving\<close>

text \<open>
  The save button of the editor adds exactly the entries that the server has not seen, those
  without an id or with a minted one; every other entry is updated as it stands.
\<close>

lemma save_adds_or_updates:
  "(save_action e = UpdateEntry e' \<longleftrightarrow> \<not> is_new e \<and> e' = e)
   \<and> is_new (e\<lparr>e_id := new_placeholder_id t\<rparr>) \<and> is_new (e\<lparr>e_id := []\<rparr>)"
  by (simp add: save_action_update_iff minted_id_is_new) (simp add: is_new_def)

end
