(* ===== verification/Session_Envelope.thy ===== *)
theory Session_Envelope
  imports Identity_Keys
begin

text \<open>
  \<open>cosmarden-core/src/session_envelope.rs\<close>: the refresh token at rest. The AEAD
  XChaCha20-Poly1305 is the parameter \<open>A\<close>, with the laws of \<open>aead_ok\<close>; the HKDF is the one of
  \<open>kdf_lib\<close>. The nonce that \<open>seal\<close> draws is an argument, \<open>Inl\<close> a failure of the generator.
\<close>

record aead_lib =
  ae_new_from_slice :: "u8 list \<Rightarrow> bool"
  ae_encrypt :: "u8 list \<Rightarrow> u8 list \<Rightarrow> u8 list \<Rightarrow> u8 list \<Rightarrow> u8 list option"
  ae_decrypt :: "u8 list \<Rightarrow> u8 list \<Rightarrow> u8 list \<Rightarrow> u8 list \<Rightarrow> u8 list option"

text \<open>
  \<open>ae_encrypt key nonce msg aad\<close> appends a tag of 16 bytes; decryption inverts it and accepts
  nothing else.
\<close>

definition aead_ok :: "aead_lib \<Rightarrow> bool" where
  "aead_ok A \<longleftrightarrow>
     (\<forall>k n m aad c. ae_encrypt A k n m aad = Some c \<longrightarrow>
        ae_decrypt A k n c aad = Some m \<and> length c = length m + 16) \<and>
     (\<forall>k n m aad c. ae_decrypt A k n c aad = Some m \<longrightarrow> ae_encrypt A k n m aad = Some c)"

definition ENVELOPE_VERSION :: u8 where "ENVELOPE_VERSION = 1"
definition NONCE_LEN :: nat where "NONCE_LEN = 24"
definition TAG_LEN :: nat where "TAG_LEN = 16"
definition MAX_ENVELOPE_BYTES :: nat where "MAX_ENVELOPE_BYTES = 16 * 1024"

definition HKDF_INFO :: "u8 list" where
  "HKDF_INFO = as_bytes ''cosmarden session-envelope v1''"

definition account_aad :: "string \<Rightarrow> string \<Rightarrow> u8 list" where
  "account_aad server email = [ENVELOPE_VERSION] @ as_bytes server @ [0] @ as_bytes email"

definition derive_key :: "kdf_lib \<Rightarrow> u8 list \<Rightarrow> error + u8 list" where
  "derive_key K keys =
     (if length keys < 64 then Inl (SessionEnvelope ''vault keys too short to derive an envelope key'')
      else if \<not> kl_hkdf_from_prk K (take 32 keys)
      then Inl (SessionEnvelope ''vault encryption key too short for HKDF'')
      else ok_or (SessionEnvelope ''HKDF expand failed'') (kl_hkdf_expand K (take 32 keys) HKDF_INFO))"

definition cipher_for :: "kdf_lib \<Rightarrow> aead_lib \<Rightarrow> u8 list \<Rightarrow> error + u8 list" where
  "cipher_for K A keys = and_then (derive_key K keys) (\<lambda>subkey.
     if ae_new_from_slice A subkey then Inr subkey else Inl (SessionEnvelope ''invalid AEAD key length''))"

definition seal ::
  "kdf_lib \<Rightarrow> aead_lib \<Rightarrow> string + u8 list \<Rightarrow> u8 list \<Rightarrow> u8 list \<Rightarrow> u8 list \<Rightarrow> error + u8 list" where
  "seal K A rng keys plaintext aad =
     and_then (cipher_for K A keys) (\<lambda>cipher.
     and_then (map_err (\<lambda>e. SessionEnvelope (''OS RNG failed while generating a nonce: '' @ e)) rng) (\<lambda>nonce.
     and_then (ok_or (SessionEnvelope ''AEAD encryption failed'') (ae_encrypt A cipher nonce plaintext aad)) (\<lambda>ct.
       Inr ([ENVELOPE_VERSION] @ nonce @ ct))))"

definition open_envelope ::
  "kdf_lib \<Rightarrow> aead_lib \<Rightarrow> u8 list \<Rightarrow> u8 list \<Rightarrow> u8 list \<Rightarrow> error + u8 list" where
  "open_envelope K A keys blob aad =
     (if MAX_ENVELOPE_BYTES < length blob
      then Inl (SessionEnvelope (''envelope of '' @ show_nat (length blob) @ '' bytes exceeds the ''
             @ show_nat MAX_ENVELOPE_BYTES @ ''-byte cap''))
      else if length blob < 1 + NONCE_LEN + TAG_LEN
      then Inl (SessionEnvelope (''envelope truncated ('' @ show_nat (length blob) @ '' bytes)''))
      else if hd blob \<noteq> ENVELOPE_VERSION
      then Inl (SessionEnvelope (''unsupported envelope version '' @ show_nat (unat (hd blob))
             @ '' (expected 1)''))
      else and_then (cipher_for K A keys) (\<lambda>cipher.
        and_then (ok_or (SessionEnvelope (''envelope authentication failed (wrong account, wrong vault keys, ''
                   @ ''or the file was modified)''))
                   (ae_decrypt A cipher (take NONCE_LEN (drop 1 blob)) (drop (1 + NONCE_LEN) blob) aad)) (\<lambda>plaintext.
          if length plaintext \<le> LEN then Inr plaintext
          else Inl (SessionEnvelope (''decrypted session of '' @ show_nat (length plaintext)
             @ '' bytes exceeds the '' @ show_nat LEN @ ''-byte locked buffer'')))))"

section \<open>Facts\<close>

lemmas envelope_consts = ENVELOPE_VERSION_def NONCE_LEN_def TAG_LEN_def MAX_ENVELOPE_BYTES_def LEN_def

lemma open_seal:
  assumes "aead_ok A" and "seal K A (Inr nonce) keys p aad = Inr blob" and "length nonce = NONCE_LEN"
    and "length p \<le> LEN"
  shows "open_envelope K A keys blob aad = Inr p"
proof -
  from assms(2) obtain k ct where k: "cipher_for K A keys = Inr k"
    and ct: "ae_encrypt A k nonce p aad = Some ct" and blob: "blob = ENVELOPE_VERSION # nonce @ ct"
    by (auto simp: seal_def and_then_Inr_iff)
  have "ae_decrypt A k nonce ct aad = Some p" and "length ct = length p + 16"
    using assms(1) ct unfolding aead_ok_def by blast+
  with assms(3,4) show ?thesis
    by (simp add: open_envelope_def blob k envelope_consts)
qed

text \<open>Whatever opens was sealed with the same keys for the same account.\<close>

lemma open_authentic:
  assumes "aead_ok A" and "open_envelope K A keys blob aad = Inr p"
  shows "seal K A (Inr (take NONCE_LEN (drop 1 blob))) keys p aad = Inr blob" and "length p \<le> LEN"
proof -
  from assms(2) obtain k where k: "cipher_for K A keys = Inr k"
    and d: "ae_decrypt A k (take NONCE_LEN (drop 1 blob)) (drop (1 + NONCE_LEN) blob) aad = Some p"
    and v: "hd blob = ENVELOPE_VERSION" and l: "\<not> length blob < 1 + NONCE_LEN + TAG_LEN"
    and p: "length p \<le> LEN"
    by (auto simp: open_envelope_def and_then_Inr_iff split: if_splits)
  have "ae_encrypt A k (take NONCE_LEN (drop 1 blob)) p aad = Some (drop (1 + NONCE_LEN) blob)"
    using assms(1) d unfolding aead_ok_def by blast
  moreover have "ENVELOPE_VERSION # take NONCE_LEN (drop 1 blob) @ drop (1 + NONCE_LEN) blob = blob"
    using v l by (cases blob) (auto simp: drop_drop [symmetric] simp del: drop_drop)
  ultimately show "seal K A (Inr (take NONCE_LEN (drop 1 blob))) keys p aad = Inr blob"
    by (simp add: seal_def k)
  show "length p \<le> LEN"
    by (rule p)
qed

text \<open>The associated data tells accounts apart; a server name has no NUL byte.\<close>

lemma append_sep_inj:
  "a @ z # b = c @ z # d \<Longrightarrow> z \<notin> set a \<Longrightarrow> z \<notin> set c \<Longrightarrow> a = c \<and> b = d"
proof (induction a arbitrary: c)
  case Nil
  then show ?case
    by (cases c) auto
next
  case (Cons x a)
  then show ?case
    by (cases c) auto
qed

lemma byte_of_zero: "byte_of c = 0 \<Longrightarrow> c = CHR 0x00"
proof -
  assume "byte_of c = 0"
  then have "of_char c = (of_char (CHR 0x00) :: nat)"
    using unat_byte_of [of c] by simp
  then show "c = CHR 0x00"
    by (simp only: of_char_eq_iff)
qed

lemma no_zero_byte: "CHR 0x00 \<notin> set s \<Longrightarrow> 0 \<notin> set (as_bytes s)"
  by (metis as_bytes_def byte_of_zero imageE list.set_map)

lemma account_aad_inj:
  assumes "CHR 0x00 \<notin> set s" and "CHR 0x00 \<notin> set t" and "account_aad s e = account_aad t f"
  shows "s = t \<and> e = f"
proof -
  have "(0 :: u8) \<notin> set (as_bytes s)" and "(0 :: u8) \<notin> set (as_bytes t)"
    using assms(1,2) by (simp_all add: no_zero_byte)
  with assms(3) append_sep_inj [of "as_bytes s" 0 "as_bytes e" "as_bytes t" "as_bytes f"] show ?thesis
    by (simp add: account_aad_def as_bytes_inj)
qed

end
