(* ===== verification/Agent_Env.thy ===== *)
theory Agent_Env
  imports Vault_Query Session_Envelope Wire_Format
begin

text \<open>
  How the agent's handlers run: against the shared state, and against what lies outside the
  process (files, keyring, clock, network), which is a value of type \<open>'w\<close> that the operations of
  \<open>env\<close> read and change.

  A \<open>('w, 'a) task\<close> is an asynchronous function of the agent. It acquires the state lock with
  \<open>t_lock\<close>: before the lock is granted other tasks may have run, and \<open>en_sched\<close> is whatever they
  did to the state. The text between two lock acquisitions runs without interference. A panic
  ends the task and leaves the state as it is at that point (a \<open>tokio\<close> mutex is not poisoned).
\<close>

section \<open>Outside the process\<close>

datatype url_host = Host_Domain string | Host_Ipv4 "nat list" | Host_Ipv6 "nat list"

record parsed_url =
  ul_scheme :: string
  ul_host :: "url_host option"

datatype http_body =
    No_Body
  | Form_Body "(string \<times> string) list"
  | Json_Body json
  | Post_Body ciphers_post_req
  | Put_Body ciphers_put_req

record http_request =
  hq_method :: string
  hq_url :: string
  hq_bearer :: "string option"
  hq_body :: http_body

record http_response =
  hr_status :: nat
  hr_body :: string

record organization =
  og_id :: string
  og_key :: string

record sync_res =
  sr_ciphers :: "sync_cipher list"
  sr_folders :: "sync_folder list"
  sr_profile_id :: string
  sr_profile_key :: string
  sr_protected_private_key :: "string option"
  sr_organizations :: "organization list"

record token_res =
  tr_access_token :: string
  tr_refresh_token :: "string option"
  tr_key :: "string option"

record connect_error =
  xe_error :: string
  xe_error_description :: "string option"
  xe_error_model_message :: "string option"
  xe_two_factor_providers :: "nat list option"
  xe_sso_email_2fa_session_token :: "string option"

record prelogin_res =
  pl_kdf :: kdf_type
  pl_iterations :: u32
  pl_memory :: "u32 option"
  pl_parallelism :: "u32 option"

text \<open>
  The TPM (the crate \<open>tss-esapi\<close> under \<open>seal_bytes\<close> and \<open>unseal_bytes\<close> of \<open>tpm/ops.rs\<close>).
  \<open>tp_compiled\<close> is the cargo feature. A failed unseal is its error chain; the arguments of both
  are the PIN and the account (server and email) whose blob it is.
\<close>

datatype tss_code = Tss_AuthFail | Tss_PolicyFail | Tss_FormatOne nat | Tss_Lockout | Tss_Warning nat | Tss_Other nat

datatype chain_link = Tss_Error tss_code | Other_Error string

datatype tpm_property = Prop_MaxAuthFail | Prop_LockoutCounter | Prop_LockoutInterval | Prop_Permanent

record 'w tpm_env =
  tp_compiled :: bool
  tp_open :: "'w \<Rightarrow> bool"
  tp_property :: "tpm_property \<Rightarrow> 'w \<Rightarrow> u32 option"
  tp_path_exists :: "string \<Rightarrow> 'w \<Rightarrow> bool"
  tp_path_readable :: "string \<Rightarrow> 'w \<Rightarrow> bool"
  tp_blob_exists :: "string \<Rightarrow> string \<Rightarrow> 'w \<Rightarrow> bool"
  tp_seal_bytes :: "u8 list \<Rightarrow> string \<Rightarrow> string \<Rightarrow> string \<Rightarrow> 'w \<Rightarrow> (string + unit) \<times> 'w"
  tp_unseal_bytes :: "string \<Rightarrow> string \<Rightarrow> string \<Rightarrow> 'w \<Rightarrow> (chain_link list + u8 list) \<times> 'w"
  tp_remove_blob :: "string \<Rightarrow> string \<Rightarrow> 'w \<Rightarrow> (string + unit) \<times> 'w"

text \<open>
  The files, clock and randomness of the password generator. A write makes the directory, writes
  and renames; its error is the text with the context the code adds. \<open>rg_choose\<close> is given the
  number of the call.
\<close>

record stored_entry =
  sn_created_at :: u64
  sn_ciphertext :: string

record rng =
  rg_choose :: "nat \<Rightarrow> string \<Rightarrow> char option"
  rg_shuffle :: "string \<Rightarrow> string"

record 'w gen_env =
  ge_load_settings :: "'w \<Rightarrow> error + generator_settings option"
  ge_save_settings :: "generator_settings \<Rightarrow> 'w \<Rightarrow> (error + unit) \<times> 'w"
  ge_read_key :: "'w \<Rightarrow> string + u8 list option"
  ge_write_key :: "u8 list \<Rightarrow> 'w \<Rightarrow> (string + unit) \<times> 'w"
  ge_read_history :: "'w \<Rightarrow> string + stored_entry list option"
  ge_write_history :: "stored_entry list \<Rightarrow> 'w \<Rightarrow> (string + unit) \<times> 'w"
  ge_now :: "'w \<Rightarrow> u64 \<times> 'w"
  ge_key_bytes :: "'w \<Rightarrow> (string + u8 list) \<times> 'w"
  ge_rng :: "'w \<Rightarrow> rng \<times> 'w"

text \<open>
  The crates \<open>ssh-key\<close> and \<open>rsa\<close>. A private key is its kind with its text; a signature is the
  name of its algorithm and its bytes.
\<close>

datatype ssh_private = Ed25519_Key string | Rsa_Key string | Unsupported_Key string

datatype rsa_hash = Rsa_Sha512 | Rsa_Sha256 | Rsa_Sha1

record 'w ssh_lib =
  sl_from_openssh :: "string \<Rightarrow> string + ssh_private"
  sl_ed25519_sign :: "string \<Rightarrow> u8 list \<Rightarrow> string + string \<times> u8 list"
  sl_rsa_from_components :: "string \<Rightarrow> string + string"
  sl_rsa_sign :: "rsa_hash \<Rightarrow> string \<Rightarrow> u8 list \<Rightarrow> 'w \<Rightarrow> (string + u8 list) \<times> 'w"
  sl_signature_new :: "string \<Rightarrow> u8 list \<Rightarrow> string + string \<times> u8 list"

text \<open>How a wait on the session channel, bounded by a deadline, ends.\<close>

datatype wait_result = Wait_Timeout | Wait_Closed | Wait_Unlocked | Wait_LoggedOut

text \<open>The bodies a handler hands to \<open>tokio::spawn\<close>.\<close>

datatype job = Job_Sync | Job_Delete_Tokens string string

text \<open>
  Errors of other crates are their text. \<open>en_parse_sync\<close> and its siblings are the derived
  JSON parsers; \<open>en_config_file\<close> is the content of the configuration file, \<open>None\<close> when there is
  none. \<open>en_spawn\<close> puts a job on the runtime's queue: it runs later, as one of the other tasks.
\<close>

record 'w env =
  en_crypto :: crypto
  en_kdf :: kdf_lib
  en_aead :: aead_lib
  en_totp :: "'w \<Rightarrow> totp_lib"
  en_psl :: "string \<Rightarrow> string option"
  en_parse_pk :: "string \<Rightarrow> string option"
  en_parse_url :: "string \<Rightarrow> string + parsed_url"
  en_parse_sync :: "string \<Rightarrow> string + sync_res"
  en_parse_token :: "string \<Rightarrow> string + token_res"
  en_parse_connect_error :: "string \<Rightarrow> string + connect_error"
  en_parse_prelogin :: "string \<Rightarrow> string + prelogin_res"
  en_parse_text :: "string \<Rightarrow> string + string"
  en_build_client :: "string + unit"
  en_config_file :: "'w \<Rightarrow> error + config option"
  en_save_config :: "config \<Rightarrow> 'w \<Rightarrow> (error + unit) \<times> 'w"
  en_load_db :: "string \<Rightarrow> string \<Rightarrow> 'w \<Rightarrow> error + db"
  en_save_db :: "string \<Rightarrow> string \<Rightarrow> db \<Rightarrow> 'w \<Rightarrow> (error + unit) \<times> 'w"
  en_session_path :: "string \<Rightarrow> string \<Rightarrow> string"
  en_read_session :: "string \<Rightarrow> string \<Rightarrow> 'w \<Rightarrow> string + u8 list option"
  en_write_session :: "string \<Rightarrow> string \<Rightarrow> u8 list \<Rightarrow> 'w \<Rightarrow> (string + unit) \<times> 'w"
  en_clear_session :: "string \<Rightarrow> string \<Rightarrow> 'w \<Rightarrow> (string + unit) \<times> 'w"
  en_keyring_get :: "string \<Rightarrow> string \<Rightarrow> 'w \<Rightarrow> (string + (string \<times> string) option) \<times> 'w"
  en_keyring_store :: "string \<Rightarrow> string \<Rightarrow> string \<Rightarrow> string \<Rightarrow> 'w \<Rightarrow> (string + unit) \<times> 'w"
  en_keyring_delete :: "string \<Rightarrow> string \<Rightarrow> 'w \<Rightarrow> (string + unit) \<times> 'w"
  en_device_id :: "config \<Rightarrow> 'w \<Rightarrow> (string + string) \<times> 'w"
  en_random :: "nat \<Rightarrow> 'w \<Rightarrow> (string + u8 list) \<times> 'w"
  en_ivs :: "'w \<Rightarrow> (nat \<Rightarrow> u8 list) \<times> 'w"
  en_version :: string
  en_tpm :: "'w tpm_env"
  en_gen :: "'w gen_env"
  en_ssh :: "'w ssh_lib"
  en_instant :: "'w \<Rightarrow> nat"
  en_wait_session :: "nat \<Rightarrow> 'w \<Rightarrow> wait_result \<times> 'w"
  en_now_secs :: "'w \<Rightarrow> u64"
  en_decode_action :: "u8 list \<Rightarrow> string + action"
  en_encode_response :: "response \<Rightarrow> u8 list"
  en_spawn :: "job \<Rightarrow> 'w \<Rightarrow> 'w"
  en_http :: "http_request \<Rightarrow> 'w \<Rightarrow> (string + http_response) \<times> 'w"
  en_sched :: "agent \<times> 'w \<Rightarrow> agent \<times> 'w"

definition load_config :: "'w env \<Rightarrow> 'w \<Rightarrow> error + config" where
  "load_config E w = (case en_config_file E w of Inl e \<Rightarrow> Inl e | Inr f \<Rightarrow> Inr (load_legacy f))"

section \<open>Tasks\<close>

type_synonym ('w, 'a) task = "agent \<times> 'w \<Rightarrow> 'a outcome \<times> agent \<times> 'w"

definition t_ret :: "'a \<Rightarrow> ('w, 'a) task" where
  "t_ret a x = (Ret a, x)"

definition t_bind :: "('w, 'a) task \<Rightarrow> ('a \<Rightarrow> ('w, 'b) task) \<Rightarrow> ('w, 'b) task" where
  "t_bind m f x = (case m x of (Panic e, y) \<Rightarrow> (Panic e, y) | (Ret a, y) \<Rightarrow> f a y)"

text \<open>The \<open>?\<close> operator.\<close>

definition t_try :: "('w, 'e + 'a) task \<Rightarrow> ('a \<Rightarrow> ('w, 'e + 'b) task) \<Rightarrow> ('w, 'e + 'b) task" where
  "t_try m f = t_bind m (\<lambda>r. case r of Inl e \<Rightarrow> t_ret (Inl e) | Inr a \<Rightarrow> f a)"

definition t_lock :: "'w env \<Rightarrow> ('w, unit) task" where
  "t_lock E x = (Ret (), en_sched E x)"

definition t_get :: "(agent \<Rightarrow> 'a) \<Rightarrow> ('w, 'a) task" where
  "t_get g x = (Ret (g (fst x)), x)"

definition t_mod :: "(agent \<Rightarrow> agent) \<Rightarrow> ('w, unit) task" where
  "t_mod f x = (Ret (), f (fst x), snd x)"

text \<open>A change of the state that may panic.\<close>

definition t_run :: "(agent \<Rightarrow> agent outcome) \<Rightarrow> ('w, unit) task" where
  "t_run f x = (case f (fst x) of Panic m \<Rightarrow> (Panic m, x) | Ret s \<Rightarrow> (Ret (), s, snd x))"

definition t_out :: "'a outcome \<Rightarrow> ('w, 'a) task" where
  "t_out r x = (r, x)"

definition t_look :: "('w \<Rightarrow> 'a) \<Rightarrow> ('w, 'a) task" where
  "t_look g x = (Ret (g (snd x)), x)"

definition t_io :: "('w \<Rightarrow> 'a \<times> 'w) \<Rightarrow> ('w, 'a) task" where
  "t_io h x = (case h (snd x) of (a, w) \<Rightarrow> (Ret a, fst x, w))"

definition t_seq :: "('w, unit) task \<Rightarrow> ('w, 'b) task \<Rightarrow> ('w, 'b) task" where
  "t_seq m k = t_bind m (\<lambda>_. k)"

definition t_when :: "bool \<Rightarrow> ('w, unit) task \<Rightarrow> ('w, unit) task" where
  "t_when b m = (if b then m else t_ret ())"

definition t_ignore :: "('w, 'a) task \<Rightarrow> ('w, unit) task" where
  "t_ignore m = t_bind m (\<lambda>_. t_ret ())"

section \<open>Runs that return\<close>

named_theorems runs

lemma t_ret_run [runs]: "t_ret a x = (r, y) \<longleftrightarrow> Ret a = r \<and> y = x"
  by (auto simp: t_ret_def)

lemma t_bind_run [runs]: "t_bind m f x = (Ret b, y) \<longleftrightarrow> (\<exists>a z. m x = (Ret a, z) \<and> f a z = (Ret b, y))"
  by (auto simp: t_bind_def split: prod.splits outcome.splits)

lemma t_seq_run [runs]: "t_seq m k x = (Ret b, y) \<longleftrightarrow> (\<exists>a z. m x = (Ret a, z) \<and> k z = (Ret b, y))"
  by (simp add: t_seq_def runs)

lemma t_try_run [runs]:
  "t_try m f x = (Ret (Inr b), y) \<longleftrightarrow> (\<exists>a z. m x = (Ret (Inr a), z) \<and> f a z = (Ret (Inr b), y))"
proof -
  have *: "(case r of Inl e \<Rightarrow> t_ret (Inl e) | Inr a \<Rightarrow> f a) z = (Ret (Inr b), y)
      \<longleftrightarrow> (\<exists>a. r = Inr a \<and> f a z = (Ret (Inr b), y))" for r z
    by (cases r) (auto simp: t_ret_run)
  show ?thesis
    unfolding t_try_def t_bind_run * by auto
qed

lemma t_lock_run [runs]: "t_lock E x = (r, y) \<longleftrightarrow> r = Ret () \<and> y = en_sched E x"
  by (auto simp: t_lock_def)

lemma t_get_run [runs]: "t_get g x = (r, y) \<longleftrightarrow> r = Ret (g (fst x)) \<and> y = x"
  by (auto simp: t_get_def)

lemma t_mod_run [runs]: "t_mod f x = (r, y) \<longleftrightarrow> r = Ret () \<and> y = (f (fst x), snd x)"
  by (auto simp: t_mod_def)

lemma t_look_run [runs]: "t_look g x = (r, y) \<longleftrightarrow> r = Ret (g (snd x)) \<and> y = x"
  by (auto simp: t_look_def)

lemma t_out_run [runs]: "t_out o' x = (r, y) \<longleftrightarrow> o' = r \<and> y = x"
  by (auto simp: t_out_def)

lemma t_run_run [runs]:
  "t_run f x = (Ret u, y) \<longleftrightarrow> (\<exists>s. f (fst x) = Ret s \<and> y = (s, snd x))"
  by (auto simp: t_run_def split: outcome.splits)

lemma t_io_run [runs]: "t_io h x = (r, y) \<longleftrightarrow> (\<exists>a w. h (snd x) = (a, w) \<and> r = Ret a \<and> y = (fst x, w))"
  by (auto simp: t_io_def split: prod.splits)

section \<open>Tokens\<close>

text \<open>
  \<open>Token::from_string\<close> never panics, and \<open>expose\<close> does not on a token it made
  (\<open>token_from_string_expose\<close>); the model drops the two impossible outcomes here.
\<close>

definition token_of :: "string \<Rightarrow> token" where
  "token_of s = ret_or (Token_Heap s) (token_from_string s)"

definition token_text :: "token \<Rightarrow> string" where
  "token_text t = ret_or [] (token_expose t)"

lemma token_text_of: "utf8 s \<Longrightarrow> token_text (token_of s) = s"
  using token_from_string_expose [of s] by (auto simp: token_text_def token_of_def)

section \<open>A task that keeps an invariant\<close>

text \<open>
  Rely and guarantee: if what the other tasks do keeps \<open>P\<close>, so does this one, whatever it
  returns and also when it panics.
\<close>

definition keeps :: "(agent \<Rightarrow> bool) \<Rightarrow> ('w, 'a) task \<Rightarrow> bool" where
  "keeps P m \<longleftrightarrow> (\<forall>x. P (fst x) \<longrightarrow> P (fst (snd (m x))))"

definition sched_keeps :: "(agent \<Rightarrow> bool) \<Rightarrow> 'w env \<Rightarrow> bool" where
  "sched_keeps P E \<longleftrightarrow> (\<forall>x. P (fst x) \<longrightarrow> P (fst (en_sched E x)))"

named_theorems keeps_rules

lemma keeps_ret [keeps_rules]: "keeps P (t_ret a)"
  by (simp add: keeps_def t_ret_def)

lemma keepsD: "keeps P m \<Longrightarrow> m x = (r, y) \<Longrightarrow> P (fst x) \<Longrightarrow> P (fst y)"
  unfolding keeps_def by (metis snd_conv)

lemma keeps_bind [keeps_rules]:
  assumes "keeps P m" and "\<And>a. keeps P (f a)"
  shows "keeps P (t_bind m f)"
  unfolding keeps_def
proof (intro allI impI)
  fix x :: "agent \<times> 'a"
  assume x: "P (fst x)"
  obtain r y where m: "m x = (r, y)"
    by (cases "m x")
  have y: "P (fst y)"
    by (rule keepsD [OF assms(1) m x])
  show "P (fst (snd (t_bind m f x)))"
  proof (cases r)
    case (Ret a)
    have "P (fst (snd (f a y)))"
      using assms(2) [of a] y unfolding keeps_def by blast
    with m Ret show ?thesis
      by (simp add: t_bind_def)
  qed (use m y in \<open>simp add: t_bind_def\<close>)
qed

lemma keeps_try [keeps_rules]: "keeps P m \<Longrightarrow> (\<And>a. keeps P (f a)) \<Longrightarrow> keeps P (t_try m f)"
  by (auto simp: t_try_def intro!: keeps_rules split: sum.splits)

lemma keeps_lock [keeps_rules]: "sched_keeps P E \<Longrightarrow> keeps P (t_lock E)"
  by (simp add: keeps_def t_lock_def sched_keeps_def)

lemma keeps_get [keeps_rules]: "keeps P (t_get g)"
  by (simp add: keeps_def t_get_def)

lemma keeps_mod [keeps_rules]: "(\<And>s. P s \<Longrightarrow> P (f s)) \<Longrightarrow> keeps P (t_mod f)"
  by (simp add: keeps_def t_mod_def)

lemma keeps_run [keeps_rules]: "(\<And>s s'. P s \<Longrightarrow> f s = Ret s' \<Longrightarrow> P s') \<Longrightarrow> keeps P (t_run f)"
  by (auto simp: keeps_def t_run_def split: outcome.splits)

lemma keeps_out [keeps_rules]: "keeps P (t_out r)"
  by (simp add: keeps_def t_out_def)

lemma keeps_look [keeps_rules]: "keeps P (t_look g)"
  by (simp add: keeps_def t_look_def)

lemma keeps_io [keeps_rules]: "keeps P (t_io h)"
  by (simp add: keeps_def t_io_def split: prod.splits)

lemma keeps_seq [keeps_rules]: "keeps P m \<Longrightarrow> keeps P k \<Longrightarrow> keeps P (t_seq m k)"
  by (auto simp: t_seq_def intro!: keeps_rules)

lemma keeps_when [keeps_rules]: "(b \<Longrightarrow> keeps P m) \<Longrightarrow> keeps P (t_when b m)"
  by (auto simp: t_when_def intro!: keeps_rules)

lemma keeps_ignore [keeps_rules]: "keeps P m \<Longrightarrow> keeps P (t_ignore m)"
  by (auto simp: t_ignore_def intro!: keeps_rules)

end
