(* ===== verification/Api_Client.thy ===== *)
theory Api_Client
  imports Agent_Env
begin

text \<open>
  The HTTP client of \<open>cosmarden-core/src/api/client/\<close>: the transport check every request
  passes, and the calls the agent makes. The URL parser, the HTTP stack and the JSON parsers are
  operations of the environment.
\<close>

section \<open>Transport security\<close>

fun host_is_loopback :: "url_host \<Rightarrow> bool" where
  "host_is_loopback (Host_Domain d) =
     (eq_ignore_ascii_case d ''localhost'' \<or> ends_with ''.localhost'' (to_lowercase d))"
| "host_is_loopback (Host_Ipv4 octets) = (hd octets = 127)"
| "host_is_loopback (Host_Ipv6 groups) = (groups = [0, 0, 0, 0, 0, 0, 0, 1])"

definition ensure_transport_security :: "'w env \<Rightarrow> string \<Rightarrow> error + unit" where
  "ensure_transport_security E url = (case en_parse_url E url of
     Inl source \<Rightarrow> Inl (InvalidServerUrl url source)
   | Inr parsed \<Rightarrow>
       if ul_scheme parsed = ''https'' then Inr ()
       else if ul_scheme parsed = ''http''
         \<and> (case ul_host parsed of Some h \<Rightarrow> host_is_loopback h | None \<Rightarrow> False) then Inr ()
       else Inl (InsecureServerUrl url))"

record client =
  ac_base_url :: string
  ac_identity_url :: string

definition client_of :: "config \<Rightarrow> client" where
  "client_of c = \<lparr>ac_base_url = base_url c, ac_identity_url = identity_url c\<rparr>"

definition reqwest_client :: "'w env \<Rightarrow> client \<Rightarrow> error + unit" where
  "reqwest_client E c =
     and_then (ensure_transport_security E (ac_base_url c)) (\<lambda>_.
     and_then (ensure_transport_security E (ac_identity_url c)) (\<lambda>_.
       map_err CreateReqwestClient (en_build_client E)))"

text \<open>Building the client, then sending one request.\<close>

definition api_send :: "'w env \<Rightarrow> client \<Rightarrow> http_request \<Rightarrow> ('w, error + http_response) task" where
  "api_send E c req = (case reqwest_client E c of
     Inl e \<Rightarrow> t_ret (Inl e)
   | Inr _ \<Rightarrow> t_bind (t_io (en_http E req)) (\<lambda>r. t_ret (map_err Reqwest r)))"

definition bearer_request :: "string \<Rightarrow> string \<Rightarrow> string \<Rightarrow> http_body \<Rightarrow> http_request" where
  "bearer_request method url access_token body =
     \<lparr>hq_method = method, hq_url = url, hq_bearer = Some access_token, hq_body = body\<rparr>"

definition form_request :: "string \<Rightarrow> (string \<times> string) list \<Rightarrow> http_request" where
  "form_request url form =
     \<lparr>hq_method = ''POST'', hq_url = url, hq_bearer = None, hq_body = Form_Body form\<rparr>"

text \<open>
  The mutating calls differ in the statuses they accept and in whether a 401 is the special
  error; any other status is \<open>request_failed\<close>.
\<close>

definition expect_status :: "nat list \<Rightarrow> bool \<Rightarrow> http_response \<Rightarrow> error + unit" where
  "expect_status accepted special_401 res =
     (if hr_status res \<in> set accepted then Inr ()
      else if special_401 \<and> hr_status res = 401 then Inl RequestUnauthorized
      else Inl (RequestFailed (hr_status res)))"

definition api_mutate ::
  "'w env \<Rightarrow> client \<Rightarrow> http_request \<Rightarrow> nat list \<Rightarrow> bool \<Rightarrow> ('w, error + unit) task" where
  "api_mutate E c req accepted special_401 =
     t_try (api_send E c req) (\<lambda>res. t_ret (expect_status accepted special_401 res))"

section \<open>Ciphers\<close>

text \<open>\<open>add_cipher\<close> and \<open>add_ssh_key\<close> special-case 401, the other creates do not.\<close>

definition post_cipher :: "'w env \<Rightarrow> client \<Rightarrow> string \<Rightarrow> ciphers_post_req \<Rightarrow> ('w, error + unit) task" where
  "post_cipher E c at req =
     api_mutate E c (bearer_request ''POST'' (ac_base_url c @ ''/ciphers'') at (Post_Body req)) [200]
       (po_ty req \<in> {1, 2, 5})"

definition update_cipher :: "'w env \<Rightarrow> client \<Rightarrow> string \<Rightarrow> string \<Rightarrow> ciphers_put_req \<Rightarrow> ('w, error + unit) task" where
  "update_cipher E c at i req =
     api_mutate E c (bearer_request ''PUT'' (ac_base_url c @ ''/ciphers/'' @ i) at (Put_Body req)) [200] False"

definition update_favorite ::
  "'w env \<Rightarrow> client \<Rightarrow> string \<Rightarrow> string \<Rightarrow> bool \<Rightarrow> string option \<Rightarrow> ('w, error + unit) task" where
  "update_favorite E c at i favorite folder_id =
     api_mutate E c (bearer_request ''PUT'' (ac_base_url c @ ''/ciphers/'' @ i @ ''/partial'') at
       (Json_Body (JObj [(''folderId'', json_opt folder_id),
                         (''favorite'', JBool favorite)]))) [200, 204] False"

definition delete_cipher :: "'w env \<Rightarrow> client \<Rightarrow> string \<Rightarrow> string \<Rightarrow> ('w, error + unit) task" where
  "delete_cipher E c at i =
     api_mutate E c (bearer_request ''DELETE'' (ac_base_url c @ ''/ciphers/'' @ i) at No_Body) [200, 204] False"

section \<open>Sync\<close>

record sync_result =
  sy_key :: string
  sy_protected_private_key :: "string option"
  sy_org_keys :: "(string \<times> string) list"
  sy_user_id :: string
  sy_entries :: "entry list"

text \<open>Collecting pairs into a \<open>HashMap\<close>: a later pair replaces an earlier one with the key.\<close>

fun hash_collect :: "('k \<times> 'v) list \<Rightarrow> ('k \<times> 'v) list" where
  "hash_collect [] = []"
| "hash_collect ((k, v) # r) =
     (if list_ex (\<lambda>p. fst p = k) r then hash_collect r else (k, v) # hash_collect r)"

definition sync_result_of :: "sync_res \<Rightarrow> sync_result" where
  "sync_result_of r =
     \<lparr>sy_key = sr_profile_key r, sy_protected_private_key = sr_protected_private_key r,
      sy_org_keys = hash_collect (map (\<lambda>g. (og_id g, og_key g)) (sr_organizations r)),
      sy_user_id = sr_profile_id r,
      sy_entries = List.map_filter (to_entry (sr_folders r)) (sr_ciphers r)\<rparr>"

definition client_sync :: "'w env \<Rightarrow> client \<Rightarrow> string \<Rightarrow> ('w, error + sync_result) task" where
  "client_sync E c at =
     t_try (api_send E c (bearer_request ''GET'' (ac_base_url c @ ''/sync'') at No_Body)) (\<lambda>res.
       t_ret (if hr_status res = 200
              then map_err Json (and_then (en_parse_sync E (hr_body res)) (\<lambda>r. Inr (sync_result_of r)))
              else if hr_status res = 401 then Inl RequestUnauthorized
              else Inl (RequestFailed (hr_status res))))"

section \<open>Tokens\<close>

definition exchange_refresh_token ::
  "'w env \<Rightarrow> client \<Rightarrow> string \<Rightarrow> ('w, error + token_res) task" where
  "exchange_refresh_token E c refresh_token =
     t_try (api_send E c (form_request (ac_identity_url c @ ''/connect/token'')
              [(''grant_type'', ''refresh_token''), (''client_id'', ''browser''),
               (''refresh_token'', refresh_token)])) (\<lambda>res.
       t_ret (if hr_status res = 200 then map_err Json (en_parse_token E (hr_body res))
              else Inl (RequestFailed (hr_status res))))"

definition map_connect_error :: "connect_error \<Rightarrow> error" where
  "map_connect_error err =
     (if xe_error err = ''invalid_grant'' then
        (case xe_sso_email_2fa_session_token err of
           Some token \<Rightarrow> TwoFactorRequired
             (case xe_two_factor_providers err of Some ps \<Rightarrow> ps | None \<Rightarrow> []) token
         | None \<Rightarrow> Other ''Invalid credentials'')
      else if xe_error err = ''invalid_token''
         \<and> xe_error_description err = Some ''Device verification required.''
      then NewDeviceVerificationRequired
      else Other (case xe_error_description err of Some d \<Rightarrow> d
        | None \<Rightarrow> (case xe_error_model_message err of Some m \<Rightarrow> m | None \<Rightarrow> xe_error err)))"

definition form_opt :: "string \<Rightarrow> string option \<Rightarrow> (string \<times> string) list" where
  "form_opt k v = (case v of None \<Rightarrow> [] | Some s \<Rightarrow> [(k, s)])"

definition client_login ::
  "'w env \<Rightarrow> client \<Rightarrow> string \<Rightarrow> string \<Rightarrow> u8 list \<Rightarrow> string option \<Rightarrow> u32 option \<Rightarrow> string option
    \<Rightarrow> string option \<Rightarrow> ('w, error + token_res) task" where
  "client_login E c email device_id password_hash tf_token tf_provider tf_code dv_code =
     (let password = b64_encode (en_crypto E) password_hash
            @ (case tf_code of Some code \<Rightarrow> '':'' @ code | None \<Rightarrow> []);
          form = [(''grant_type'', ''password''), (''scope'', ''api offline_access''),
                  (''client_id'', ''browser''), (''deviceType'', ''8''),
                  (''deviceIdentifier'', device_id), (''deviceName'', ''cosmarden''),
                  (''devicePushToken'', [])]
                 @ form_opt ''twoFactorToken'' tf_token
                 @ form_opt ''twoFactorProvider'' (map_option show_u32 tf_provider)
                 @ form_opt ''newDeviceOtp'' dv_code
                 @ [(''username'', email), (''password'', password)]
      in t_try (api_send E c (form_request (ac_identity_url c @ ''/connect/token'') form)) (\<lambda>res.
           t_ret (if hr_status res = 200 then map_err Json (en_parse_token E (hr_body res))
                  else if hr_status res = 400
                  then and_then (map_err Json (en_parse_connect_error E (hr_body res)))
                         (\<lambda>err. Inl (map_connect_error err))
                  else Inl (RequestFailed (hr_status res)))))"

section \<open>Facts\<close>

text \<open>Both addresses of the client are https or loopback whenever a request goes out.\<close>

definition secure_url :: "'w env \<Rightarrow> string \<Rightarrow> bool" where
  "secure_url E url \<longleftrightarrow> (\<exists>p. en_parse_url E url = Inr p \<and>
     (ul_scheme p = ''https'' \<or> ul_scheme p = ''http'' \<and> (\<exists>h. ul_host p = Some h \<and> host_is_loopback h)))"

lemma ensure_transport_security_iff: "ensure_transport_security E url = Inr () \<longleftrightarrow> secure_url E url"
  by (auto simp: ensure_transport_security_def secure_url_def split: sum.splits option.splits)

lemma reqwest_client_secure:
  "reqwest_client E c = Inr u \<Longrightarrow> secure_url E (ac_base_url c) \<and> secure_url E (ac_identity_url c)"
  by (auto simp: reqwest_client_def and_then_Inr_iff ensure_transport_security_iff)

text \<open>An insecure address: the request is refused and nothing outside has changed.\<close>

lemma api_send_insecure:
  assumes "\<not> secure_url E (ac_base_url c) \<or> \<not> secure_url E (ac_identity_url c)"
  shows "\<exists>e. api_send E c req x = (Ret (Inl e), x)"
proof (cases "reqwest_client E c")
  case (Inl e)
  then show ?thesis
    by (simp add: api_send_def t_ret_def)
next
  case (Inr u)
  with reqwest_client_secure [OF this] assms show ?thesis
    by blast
qed

lemma keeps_send [keeps_rules]: "keeps P (api_send E c req)"
  by (auto simp: api_send_def intro!: keeps_rules split: sum.splits)

lemma keeps_api [keeps_rules]:
  "keeps P (api_mutate E c req acc b)" "keeps P (client_sync E c at)"
  "keeps P (exchange_refresh_token E c rt)"
  "keeps P (client_login E c em dev h tt tp tc dv)" "keeps P (post_cipher E c at po)"
  "keeps P (update_cipher E c at i pu)" "keeps P (update_favorite E c at i fav fo)"
  "keeps P (delete_cipher E c at i)"
  by (auto simp: api_mutate_def client_sync_def exchange_refresh_token_def client_login_def Let_def
      post_cipher_def update_cipher_def update_favorite_def delete_cipher_def intro!: keeps_rules)

end
