(* ===== verification/Server_Session.thy ===== *)
theory Server_Session
  imports Api_Client
begin

text \<open>
  The agent's server session: the persisted refresh token (\<open>cosmarden-agent/src/session_store.rs\<close>),
  restoring a session after an unlock (\<open>handler/auth/reauth.rs\<close>) and running a request with a
  live access token (\<open>server/auth.rs\<close>).

  Errors that are only logged are dropped. \<open>refresh_lock\<close> orders the tasks that refresh; it adds
  no data, and what the others did before it was granted is part of the next \<open>t_lock\<close>.
\<close>

section \<open>The stored session\<close>

definition save_session :: "'w env \<Rightarrow> keys \<Rightarrow> string \<Rightarrow> string \<Rightarrow> string \<Rightarrow> ('w, string + unit) task" where
  "save_session E keys server email refresh_token =
     (case cipher_for (en_kdf E) (en_aead E) keys of
        Inl e \<Rightarrow> t_ret (Inl (error_display e))
      | Inr _ \<Rightarrow> t_bind (t_io (en_random E NONCE_LEN)) (\<lambda>rng.
          case seal (en_kdf E) (en_aead E) rng keys (as_bytes refresh_token) (account_aad server email) of
            Inl e \<Rightarrow> t_ret (Inl (error_display e))
          | Inr blob \<Rightarrow> t_io (en_write_session E server email blob)))"

definition load_session :: "'w env \<Rightarrow> keys \<Rightarrow> string \<Rightarrow> string \<Rightarrow> 'w \<Rightarrow> string + token option" where
  "load_session E keys server email w =
     and_then (en_read_session E server email w) (\<lambda>file. case file of
       None \<Rightarrow> Inr None
     | Some blob \<Rightarrow>
         if MAX_ENVELOPE_BYTES < length blob
         then Inl (''session envelope '' @ en_session_path E server email @ '' is '' @ show_nat (length blob)
                @ '' bytes, past the '' @ show_nat MAX_ENVELOPE_BYTES @ ''-byte cap'')
         else and_then (map_err error_display
                (open_envelope (en_kdf E) (en_aead E) keys blob (account_aad server email))) (\<lambda>plaintext.
           case from_utf8 plaintext of
             None \<Rightarrow> Inl ''stored session is not valid UTF-8''
           | Some s \<Rightarrow> Inr (Some (token_of s))))"

definition access_of :: "agent \<Rightarrow> string option" where
  "access_of s = map_option token_text (Option.bind (st_db s) db_access_token)"

definition refresh_of :: "agent \<Rightarrow> string option" where
  "refresh_of s = map_option token_text (Option.bind (st_db s) db_refresh_token)"

definition persist_current :: "'w env \<Rightarrow> string \<Rightarrow> string \<Rightarrow> ('w, unit) task" where
  "persist_current E server email =
     t_seq (t_lock E) (t_bind (t_get (\<lambda>s. (st_keys s, refresh_of s))) (\<lambda>(keys, token).
       case keys of None \<Rightarrow> t_ret ()
       | Some ks \<Rightarrow> (case token of None \<Rightarrow> t_ret ()
          | Some t \<Rightarrow> t_ignore (save_session E ks server email t))))"

section \<open>Restoring a session\<close>

definition EM_DASH :: string where
  "EM_DASH = map char_of [226 :: nat, 128, 148]"

fun describe_login_failure :: "error \<Rightarrow> string" where
  "describe_login_failure (TwoFactorRequired ps t) =
     ''two-factor authentication is required, which a silent re-auth cannot satisfy '' @ EM_DASH
       @ '' unlock with your master password to restore sync''"
| "describe_login_failure NewDeviceVerificationRequired =
     ''this device needs verification before it can log in '' @ EM_DASH
       @ '' unlock with your master password to restore sync''"
| "describe_login_failure e = error_display e"

definition set_tokens :: "string \<Rightarrow> string option \<Rightarrow> db \<Rightarrow> db" where
  "set_tokens access refresh d =
     (let d = d\<lparr>db_access_token := Some (token_of access)\<rparr>
      in case refresh of Some rt \<Rightarrow> d\<lparr>db_refresh_token := Some (token_of rt)\<rparr> | None \<Rightarrow> d)"

definition upd_db :: "(db \<Rightarrow> db) \<Rightarrow> agent \<Rightarrow> agent" where
  "upd_db f s = s\<lparr>st_db := map_option f (st_db s)\<rparr>"

definition adopt_tokens :: "'w env \<Rightarrow> config \<Rightarrow> string \<Rightarrow> string \<Rightarrow> string option \<Rightarrow> ('w, unit) task" where
  "adopt_tokens E cfg email access refresh =
     t_seq (case (cfg_persist_session cfg, refresh) of
              (True, Some rt) \<Rightarrow> t_ignore (t_io (en_keyring_store E (server_name cfg) email access rt))
            | _ \<Rightarrow> t_ret ())
    (t_seq (t_lock E)
    (t_seq (t_mod (upd_db (set_tokens access refresh)))
           (persist_current E (server_name cfg) email)))"

definition try_stored_refresh_token ::
  "'w env \<Rightarrow> config \<Rightarrow> string \<Rightarrow> keys \<Rightarrow> ('w, string + bool) task" where
  "try_stored_refresh_token E cfg email keys =
     t_try (t_look (load_session E keys (server_name cfg) email)) (\<lambda>stored. case stored of
       None \<Rightarrow> t_ret (Inr False)
     | Some rt \<Rightarrow>
         t_try (t_bind (exchange_refresh_token E (client_of cfg) (token_text rt))
                  (\<lambda>r. t_ret (map_err error_display r))) (\<lambda>tr.
           t_seq (adopt_tokens E cfg email (tr_access_token tr) (tr_refresh_token tr))
                 (t_ret (Inr True))))"

definition try_password_grant ::
  "'w env \<Rightarrow> config \<Rightarrow> string \<Rightarrow> u8 list \<Rightarrow> ('w, string + unit) task" where
  "try_password_grant E cfg email hash =
     t_try (t_bind (t_io (en_device_id E cfg))
              (\<lambda>r. t_ret (map_err (\<lambda>e. ''could not obtain device_id: '' @ e) r))) (\<lambda>device_id.
     t_try (t_bind (client_login E (client_of cfg) email device_id hash None None None None)
              (\<lambda>r. t_ret (map_err describe_login_failure r))) (\<lambda>tr.
       t_seq (adopt_tokens E cfg email (tr_access_token tr) (tr_refresh_token tr)) (t_ret (Inr ()))))"

definition restore_session ::
  "'w env \<Rightarrow> config \<Rightarrow> string \<Rightarrow> keys \<Rightarrow> u8 list option \<Rightarrow> ('w, string + unit) task" where
  "restore_session E cfg email keys hash =
     t_bind (try_stored_refresh_token E cfg email keys) (\<lambda>r.
       if r = Inr True then t_ret (Inr ())
       else (case hash of
          Some h \<Rightarrow> try_password_grant E cfg email h
        | None \<Rightarrow> t_ret (Inl (case r of Inl e \<Rightarrow> e
            | Inr _ \<Rightarrow> ''no saved session on this device '' @ EM_DASH
                @ '' unlock with your master password to restore sync''))))"

section \<open>Requests with a live access token\<close>

fun is_unauthorized :: "error \<Rightarrow> bool" where
  "is_unauthorized RequestUnauthorized = True"
| "is_unauthorized (RequestFailed status) = (status = 401)"
| "is_unauthorized (Other msg) = contains_str ''401'' msg"
| "is_unauthorized e = False"

definition ERR_NO_SESSION :: string where
  "ERR_NO_SESSION = ''no server session''"

definition no_session :: "string \<Rightarrow> string" where
  "no_session reason = ERR_NO_SESSION @ '': '' @ reason"

text \<open>The first critical section: tokens from the keyring when memory has none.\<close>

definition load_keyring_tokens :: "'w env \<Rightarrow> config \<Rightarrow> db \<Rightarrow> ('w, unit) task" where
  "load_keyring_tokens E cfg d =
     (if db_access_token d = None \<and> cfg_persist_session cfg then
        (case cfg_email cfg of
           None \<Rightarrow> t_ret ()
         | Some email \<Rightarrow> t_bind (t_io (en_keyring_get E (server_name cfg) email)) (\<lambda>r. case r of
             Inr (Some (at, rt)) \<Rightarrow> t_mod (upd_db (set_tokens at (Some rt)))
           | _ \<Rightarrow> t_ret ()))
      else t_ret ())"

definition first_token :: "'w env \<Rightarrow> config \<Rightarrow> ('w, string + string option \<times> keys option) task" where
  "first_token E cfg =
     t_seq (t_lock E) (t_bind (t_get st_db) (\<lambda>d. case d of
       None \<Rightarrow> t_ret (Inl ''agent is locked'')
     | Some d \<Rightarrow> t_seq (load_keyring_tokens E cfg d)
         (t_bind (t_get (\<lambda>s. (access_of s, st_keys s))) (\<lambda>r. t_ret (Inr r)))))"

definition mint_token :: "'w env \<Rightarrow> config \<Rightarrow> keys option \<Rightarrow> ('w, string + string) task" where
  "mint_token E cfg vault_keys = (case cfg_email cfg of
     None \<Rightarrow> t_ret (Inl ''email not set in config'')
   | Some email \<Rightarrow> (case vault_keys of
       None \<Rightarrow> t_ret (Inl (ERR_NO_SESSION @ '' '' @ EM_DASH
                @ '' the vault is locked, so the saved session cannot be opened''))
     | Some keys \<Rightarrow>
         t_seq (t_lock E) (t_bind (t_get access_of) (\<lambda>already. case already of
           Some token \<Rightarrow> t_ret (Inr token)
         | None \<Rightarrow>
             t_try (t_bind (restore_session E cfg email keys None) (\<lambda>r. t_ret (map_err no_session r))) (\<lambda>_.
             t_seq (t_lock E) (t_bind (t_get access_of) (\<lambda>token. t_ret
               (ok_or (ERR_NO_SESSION @ '' '' @ EM_DASH
                       @ '' session restore reported success but left no token'') token))))))))"

definition adopt_refreshed :: "'w env \<Rightarrow> config \<Rightarrow> token_res \<Rightarrow> ('w, unit) task" where
  "adopt_refreshed E cfg tr =
     t_seq (t_lock E)
    (t_seq (t_bind (t_get st_db) (\<lambda>d. if d = None then t_ret () else
       t_seq (t_mod (upd_db (set_tokens (tr_access_token tr) (tr_refresh_token tr))))
      (t_seq (case (cfg_persist_session cfg, cfg_email cfg) of
                (True, Some email) \<Rightarrow> t_bind (t_get (\<lambda>s. (access_of s, refresh_of s))) (\<lambda>(at, rt).
                   case (at, rt) of
                     (Some at, Some rt) \<Rightarrow> t_ignore (t_io (en_keyring_store E (server_name cfg) email at rt))
                   | _ \<Rightarrow> t_ret ())
              | _ \<Rightarrow> t_ret ())
             (case cfg_email cfg of None \<Rightarrow> t_ret ()
              | Some email \<Rightarrow> t_bind (t_get st_db) (\<lambda>d. case d of None \<Rightarrow> t_ret ()
                  | Some d \<Rightarrow> t_ignore (t_io (en_save_db E (server_name cfg) email d)))))))
     (case cfg_email cfg of None \<Rightarrow> t_ret ()
      | Some email \<Rightarrow> persist_current E (server_name cfg) email))"

definition retry_refreshed ::
  "'w env \<Rightarrow> config \<Rightarrow> (string \<Rightarrow> ('w, error + 'a) task) \<Rightarrow> string \<Rightarrow> ('w, string + 'a) task" where
  "retry_refreshed E cfg f access_token =
     (let final = (\<lambda>tok. t_bind (f tok) (\<lambda>r. t_ret (map_err error_display r))) in
      t_seq (t_lock E) (t_bind (t_get access_of) (\<lambda>current.
        if current \<noteq> None \<and> current \<noteq> Some access_token then final (the current)
        else t_seq (t_lock E) (t_try (t_bind (t_get refresh_of) (\<lambda>rt. t_ret (ok_or ''no refresh token'' rt))) (\<lambda>rt.
          t_bind (exchange_refresh_token E (client_of cfg) rt) (\<lambda>r. case r of
            Inl e \<Rightarrow> t_ret (Inl (''refresh failed: '' @ error_display e))
          | Inr tr \<Rightarrow> t_seq (adopt_refreshed E cfg tr) (final (tr_access_token tr))))))))"

definition with_refresh ::
  "'w env \<Rightarrow> (string \<Rightarrow> ('w, error + 'a) task) \<Rightarrow> ('w, string + 'a) task" where
  "with_refresh E f =
     t_try (t_look (\<lambda>w. map_err error_display (load_config E w))) (\<lambda>cfg.
     t_try (first_token E cfg) (\<lambda>(current, vault_keys).
     t_try (case current of Some token \<Rightarrow> t_ret (Inr token) | None \<Rightarrow> mint_token E cfg vault_keys) (\<lambda>access_token.
       t_bind (f access_token) (\<lambda>r. case r of
         Inr a \<Rightarrow> t_ret (Inr a)
       | Inl e \<Rightarrow> if is_unauthorized e then retry_refreshed E cfg f access_token
                   else t_ret (Inl (error_display e))))))"

section \<open>What a session task leaves of an invariant\<close>

text \<open>Invariants that do not speak of the tokens of the database.\<close>

definition ignores_tokens :: "(agent \<Rightarrow> bool) \<Rightarrow> bool" where
  "ignores_tokens P \<longleftrightarrow> (\<forall>s a r. P s \<longrightarrow> P (upd_db (set_tokens a r) s))"

lemma keeps_tokens [keeps_rules]: "ignores_tokens P \<Longrightarrow> keeps P (t_mod (upd_db (set_tokens a r)))"
  by (auto simp: ignores_tokens_def intro: keeps_mod)

lemma keeps_save_session [keeps_rules]: "keeps P (save_session E ks server email t)"
  by (auto simp: save_session_def intro!: keeps_rules split: sum.splits)

lemma keeps_persist_current [keeps_rules]: "sched_keeps P E \<Longrightarrow> keeps P (persist_current E server email)"
  by (auto simp: persist_current_def intro!: keeps_rules split: option.splits)

lemma keeps_adopt_tokens [keeps_rules]:
  "sched_keeps P E \<Longrightarrow> ignores_tokens P \<Longrightarrow> keeps P (adopt_tokens E cfg email a r)"
  by (auto simp: adopt_tokens_def intro!: keeps_rules split: option.splits bool.splits)

lemma keeps_restore_session [keeps_rules]:
  "sched_keeps P E \<Longrightarrow> ignores_tokens P \<Longrightarrow> keeps P (restore_session E cfg email ks h)"
  by (auto simp: restore_session_def try_stored_refresh_token_def try_password_grant_def
      intro!: keeps_rules split: option.splits)

lemma keeps_first_token [keeps_rules]:
  "sched_keeps P E \<Longrightarrow> ignores_tokens P \<Longrightarrow> keeps P (first_token E cfg)"
  by (auto simp: first_token_def load_keyring_tokens_def intro!: keeps_rules
      split: option.splits sum.splits)

lemma keeps_mint_token [keeps_rules]:
  "sched_keeps P E \<Longrightarrow> ignores_tokens P \<Longrightarrow> keeps P (mint_token E cfg ks)"
  by (auto simp: mint_token_def intro!: keeps_rules split: option.splits)

lemma keeps_adopt_refreshed [keeps_rules]:
  "sched_keeps P E \<Longrightarrow> ignores_tokens P \<Longrightarrow> keeps P (adopt_refreshed E cfg tr)"
  by (auto simp: adopt_refreshed_def intro!: keeps_rules split: option.splits bool.splits)

lemma keeps_with_refresh [keeps_rules]:
  assumes "sched_keeps P E" and "ignores_tokens P" and "\<And>t. keeps P (f t)"
  shows "keeps P (with_refresh E f)"
  unfolding with_refresh_def retry_refreshed_def Let_def
  by (auto intro!: keeps_rules assms split: option.splits sum.splits)

end
