(* ===== verification/Vault_Ops.thy ===== *)
theory Vault_Ops
  imports Server_Session Server_Payload
begin

text \<open>
  The handlers that change the vault: \<open>handle_sync\<close> of \<open>handler/vault/sync.rs\<close>, delete, update
  and favorite of \<open>ops.rs\<close>, the creations of \<open>add.rs\<close>, the password update of
  \<open>browser_save.rs\<close>, and the dispatch of \<open>handler/vault/mod.rs\<close> over them and the reads.
\<close>

section \<open>Sync\<close>

definition failed_sync_is_lock_race :: "bool \<Rightarrow> bool \<Rightarrow> bool" where
  "failed_sync_is_lock_race locked_now locked_at_entry \<longleftrightarrow> locked_now \<and> \<not> locked_at_entry"

definition mark_failed :: "string \<Rightarrow> agent \<Rightarrow> agent" where
  "mark_failed e s = s\<lparr>st_sync_failed := True, st_last_sync_error := Some e\<rparr>"

definition apply_sync :: "sync_result \<Rightarrow> db \<Rightarrow> db" where
  "apply_sync r d = d\<lparr>db_protected_key := Some (Secret (sy_key r)),
     db_protected_private_key := map_option Secret (sy_protected_private_key r),
     db_protected_org_keys := map (\<lambda>(k, v). (k, Secret v)) (sy_org_keys r),
     db_entries := sy_entries r\<rparr>"

definition favorite_ids :: "entry list \<Rightarrow> string set" where
  "favorite_ids es = set (map e_id (filter e_favorite es))"

text \<open>Rebuilding the caches of the state, in place.\<close>

definition t_rebuild :: "'w env \<Rightarrow> ('w, unit) task" where
  "t_rebuild E = t_run (rebuild_sidebar_cache (en_crypto E) (en_parse_pk E))"

definition finish_sync :: "'w env \<Rightarrow> sync_result \<Rightarrow> ('w, response) task" where
  "finish_sync E r =
     t_seq (t_mod (\<lambda>s. s\<lparr>st_pinned_ids := favorite_ids (sy_entries r), st_sync_failed := False,
                          st_last_sync_error := None\<rparr>))
    (t_seq (t_rebuild E)
    (t_seq (t_mod (broadcast VaultChanged))
           (t_ret Ack)))"

definition config_error :: "error \<Rightarrow> response" where
  "config_error e = Error (''failed to load config: '' @ error_display e)"

definition store_sync :: "'w env \<Rightarrow> sync_result \<Rightarrow> ('w, response) task" where
  "store_sync E r =
     t_seq (t_lock E)
    (t_seq (t_mod (\<lambda>s. s\<lparr>st_user_id := Some (sy_user_id r)\<rparr>))
    (t_bind (t_get st_db) (\<lambda>d. case d of
       None \<Rightarrow> finish_sync E r
     | Some d \<Rightarrow>
         t_seq (t_mod (upd_db (apply_sync r)))
        (t_bind (t_look (load_config E)) (\<lambda>cfg. case cfg of
           Inl e \<Rightarrow> t_ret (config_error e)
         | Inr cfg \<Rightarrow> (case cfg_email cfg of
             None \<Rightarrow> t_ret (Error ''email not set in config'')
           | Some email \<Rightarrow>
               t_seq (t_ignore (t_io (en_save_db E (server_name cfg) email (apply_sync r d))))
                     (finish_sync E r)))))))"

definition handle_sync :: "'w env \<Rightarrow> ('w, response) task" where
  "handle_sync E =
     t_seq (t_lock E) (t_bind (t_get (\<lambda>s. st_keys s = None)) (\<lambda>locked_at_entry.
     t_bind (with_refresh E (\<lambda>at. t_try (t_look (load_config E)) (\<lambda>cfg. client_sync E (client_of cfg) at))) (\<lambda>res.
       case res of
         Inr r \<Rightarrow> store_sync E r
       | Inl e \<Rightarrow>
           t_seq (t_lock E) (t_bind (t_get (\<lambda>s. st_keys s = None)) (\<lambda>locked_now.
             if failed_sync_is_lock_race locked_now locked_at_entry then t_ret Ack
             else t_seq (t_mod (mark_failed e)) (t_ret (Error (''sync failed: '' @ e))))))))"

section \<open>Mutations on the server\<close>

text \<open>What the mutating handlers do with the result of the server call.\<close>

definition server_failed :: "'w env \<Rightarrow> string \<Rightarrow> string \<Rightarrow> ('w, response) task" where
  "server_failed E what e =
     t_seq (t_lock E) (t_seq (t_mod (mark_failed e)) (t_ret (Error (what @ '': '' @ e))))"

definition then_sync :: "'w env \<Rightarrow> string \<Rightarrow> ('w, string + unit) task \<Rightarrow> ('w, response) task" where
  "then_sync E what m = t_bind m (\<lambda>r. case r of
     Inr _ \<Rightarrow> handle_sync E | Inl e \<Rightarrow> server_failed E what e)"

definition with_config :: "'w env \<Rightarrow> (config \<Rightarrow> ('w, response) task) \<Rightarrow> ('w, response) task" where
  "with_config E f = t_bind (t_look (load_config E)) (\<lambda>cfg. case cfg of
     Inl e \<Rightarrow> t_ret (config_error e) | Inr c \<Rightarrow> f c)"

definition handle_delete_entry :: "'w env \<Rightarrow> string \<Rightarrow> ('w, response) task" where
  "handle_delete_entry E i = with_config E (\<lambda>cfg.
     then_sync E ''delete failed'' (with_refresh E (\<lambda>at. delete_cipher E (client_of cfg) at i)))"

text \<open>Encrypting with fresh initialisation vectors.\<close>

definition t_enc :: "'w env \<Rightarrow> ((nat \<Rightarrow> u8 list) \<Rightarrow> 'a enc) \<Rightarrow> ('w, string + 'a) task" where
  "t_enc E m = t_bind (t_io (en_ivs E)) (\<lambda>rnd. t_out (fst (m rnd 0)))"

definition with_user_id :: "'w env \<Rightarrow> string \<Rightarrow> (string \<Rightarrow> ('w, string + 'a) task) \<Rightarrow> ('w, string + 'a) task" where
  "with_user_id E missing f =
     t_seq (t_lock E) (t_bind (t_get st_user_id) (\<lambda>uid. case uid of
       None \<Rightarrow> t_ret (Inl missing) | Some u \<Rightarrow> f u))"

definition update_entry_on_server :: "'w env \<Rightarrow> entry \<Rightarrow> config \<Rightarrow> keys \<Rightarrow> ('w, string + unit) task" where
  "update_entry_on_server E e cfg ks =
     t_try (t_enc E (\<lambda>rnd. update_request (en_crypto E) rnd ks e)) (\<lambda>mk.
       with_user_id E ''account user id not cached; sync before editing entries'' (\<lambda>uid.
         with_refresh E (\<lambda>at. update_cipher E (client_of cfg) at (e_id e) (mk uid))))"

definition add_entry_on_server :: "'w env \<Rightarrow> entry \<Rightarrow> config \<Rightarrow> keys \<Rightarrow> ('w, string + unit) task" where
  "add_entry_on_server E e cfg ks =
     t_try (t_enc E (\<lambda>rnd. add_request (en_crypto E) rnd ks e)) (\<lambda>mk.
       with_user_id E ''account user id not cached; sync before adding entries'' (\<lambda>uid.
         with_refresh E (\<lambda>at. post_cipher E (client_of cfg) at (mk uid))))"

definition with_keys :: "'w env \<Rightarrow> (keys \<Rightarrow> ('w, response) task) \<Rightarrow> ('w, response) task" where
  "with_keys E f = t_seq (t_lock E) (t_bind (t_get st_keys) (\<lambda>ks. case ks of
     Some k \<Rightarrow> f k | None \<Rightarrow> t_ret agent_is_locked))"

text \<open>Filling the redacted slots of an incoming entry from the stored one.\<close>

definition merge_stored :: "'w env \<Rightarrow> entry \<Rightarrow> ('w, entry) task" where
  "merge_stored E e =
     t_seq (t_lock E) (t_bind (t_get (\<lambda>s. (st_db s, st_keys s, orgs_or_empty (st_org_keys s)))) (\<lambda>(d, ks, orgs).
       case (d, ks) of
         (Some d, Some ks) \<Rightarrow> (case find_entry (e_id e) (db_entries d) of
             Some stored \<Rightarrow> t_bind (t_out (entry_decrypt (en_crypto E) ks orgs stored)) (\<lambda>de.
               t_ret (merge_redacted_secrets e de))
           | None \<Rightarrow> t_ret e)
       | _ \<Rightarrow> t_ret e))"

definition ssh_compat_fields :: "entry \<Rightarrow> entry" where
  "ssh_compat_fields e = (case e_data e of
     SshKey k \<Rightarrow>
       (let e = (case sk_private_key k of Some pk \<Rightarrow> set_field e ''private_key'' (expose pk) FT_Hidden | None \<Rightarrow> e)
        in case sk_public_key k of Some pk \<Rightarrow> set_field e ''public_key'' pk FT_Text | None \<Rightarrow> e)
   | _ \<Rightarrow> e)"

definition handle_update_entry :: "'w env \<Rightarrow> entry \<Rightarrow> ('w, response) task" where
  "handle_update_entry E e =
     t_bind (merge_stored E e) (\<lambda>merged.
       let e = ssh_compat_fields merged in
       with_config E (\<lambda>cfg. with_keys E (\<lambda>ks.
         then_sync E ''failed to update entry on server'' (update_entry_on_server E e cfg ks))))"

text \<open>The favorite flag of the first entry with the id.\<close>

fun set_favorite_in :: "string \<Rightarrow> bool \<Rightarrow> entry list \<Rightarrow> entry list" where
  "set_favorite_in i fav [] = []"
| "set_favorite_in i fav (e # es) =
     (if e_id e = i then e\<lparr>e_favorite := fav\<rparr> # es else e # set_favorite_in i fav es)"

definition favorite_locally :: "string \<Rightarrow> bool \<Rightarrow> agent \<Rightarrow> agent" where
  "favorite_locally i fav s =
     upd_db (\<lambda>d. d\<lparr>db_entries := set_favorite_in i fav (db_entries d)\<rparr>)
       (s\<lparr>st_pinned_ids := (if fav then insert i (st_pinned_ids s) else st_pinned_ids s - {i})\<rparr>)"

definition set_favorite :: "'w env \<Rightarrow> string \<Rightarrow> bool \<Rightarrow> ('w, response) task" where
  "set_favorite E i fav = with_config E (\<lambda>cfg.
     t_seq (t_lock E) (t_bind (t_get (\<lambda>s. (st_keys s, st_db s))) (\<lambda>(ks, d). case (ks, d) of
       (Some _, Some d) \<Rightarrow> (case find_entry i (db_entries d) of
         None \<Rightarrow> t_ret entry_not_found
       | Some e \<Rightarrow>
           t_seq (t_mod (favorite_locally i fav))
          (t_seq (t_rebuild E)
          (t_seq (t_bind (t_get st_db) (\<lambda>d. case d of
                    Some d \<Rightarrow> t_ignore (t_io (en_save_db E (server_name cfg)
                      (case cfg_email cfg of Some m \<Rightarrow> m | None \<Rightarrow> []) d))
                  | None \<Rightarrow> t_ret ()))
          (t_bind (with_refresh E (\<lambda>at. update_favorite E (client_of cfg) at i fav (e_folder_id e))) (\<lambda>r.
             case r of
               Inr _ \<Rightarrow> t_seq (t_lock E) (t_seq (t_mod (broadcast VaultChanged)) (t_ret Ack))
             | Inl err \<Rightarrow> server_failed E ''failed to update favorite on server'' err)))))
     | _ \<Rightarrow> t_ret agent_is_locked)))"

section \<open>Creations\<close>

definition fresh_entry :: "string \<Rightarrow> entry_data \<Rightarrow> field list \<Rightarrow> secret option \<Rightarrow> entry" where
  "fresh_entry name data flds nts =
     \<lparr>e_id = [], e_org_id = None, e_folder = None, e_folder_id = None, e_name = name, e_favorite = False,
      e_data = data, e_fields = flds, e_notes = nts, e_history = [], e_key = None, e_reprompt = Reprompt_None\<rparr>"

definition add_entry_to_server :: "'w env \<Rightarrow> entry \<Rightarrow> ('w, response) task" where
  "add_entry_to_server E e = with_config E (\<lambda>cfg. with_keys E (\<lambda>ks.
     then_sync E ''add failed'' (add_entry_on_server E e cfg ks)))"

fun entry_type_debug :: "entry_type \<Rightarrow> string" where
  "entry_type_debug ET_Login = ''Login''"
| "entry_type_debug ET_Card = ''Card''"
| "entry_type_debug ET_Identity = ''Identity''"
| "entry_type_debug ET_SecureNote = ''SecureNote''"
| "entry_type_debug ET_SshKey = ''SshKey''"
| "entry_type_debug ET_BankAccount = ''BankAccount''"
| "entry_type_debug ET_DriversLicense = ''DriversLicense''"
| "entry_type_debug ET_Passport = ''Passport''"

definition handle_add_entry :: "'w env \<Rightarrow> new_entry \<Rightarrow> ('w, response) task" where
  "handle_add_entry E n = (case ne_entry_type n of
     ET_Login \<Rightarrow> add_entry_to_server E (fresh_entry (ne_name n)
        (Login \<lparr>lg_username = ne_username n, lg_password = ne_password n, lg_totp = ne_totp n,
                lg_uris = ne_uris n\<rparr>) (ne_fields n) (ne_notes n))
   | ET_SecureNote \<Rightarrow> add_entry_to_server E (fresh_entry (ne_name n) SecureNote (ne_fields n) (ne_notes n))
   | ty \<Rightarrow> t_ret (Error (''unsupported entry type for AddEntry: '' @ entry_type_debug ty)))"

definition ssh_key_entry :: "string \<Rightarrow> secret \<Rightarrow> string option \<Rightarrow> secret option \<Rightarrow> field list \<Rightarrow> entry" where
  "ssh_key_entry name private_key public_key nts flds =
     fresh_entry name
       (SshKey \<lparr>sk_private_key = Some private_key, sk_public_key = public_key, sk_fingerprint = None\<rparr>)
       (flds @ [\<lparr>f_ty = Some FT_Hidden, f_name = Some ''private_key'', f_value = Some private_key, f_linked_id = None\<rparr>]
        @ (case public_key of None \<Rightarrow> []
           | Some pk \<Rightarrow> [\<lparr>f_ty = Some FT_Text, f_name = Some ''public_key'', f_value = Some (Secret pk), f_linked_id = None\<rparr>]))
       nts"

definition identity_of_new :: "new_identity \<Rightarrow> identity" where
  "identity_of_new n =
     \<lparr>id_title = None, id_first_name = ni_first_name n, id_middle_name = None, id_last_name = ni_last_name n,
      id_address1 = ni_address1 n, id_address2 = None, id_address3 = None, id_city = ni_city n,
      id_state = ni_state n, id_postal_code = ni_postal_code n, id_country = ni_country n,
      id_phone = ni_phone n, id_email = ni_email n, id_ssn = None, id_license_number = None,
      id_passport_number = None, id_username = None\<rparr>"

definition handle_add_ssh_key ::
  "'w env \<Rightarrow> string \<Rightarrow> secret \<Rightarrow> string option \<Rightarrow> secret option \<Rightarrow> field list \<Rightarrow> ('w, response) task" where
  "handle_add_ssh_key E name private_key public_key nts flds =
     add_entry_to_server E (ssh_key_entry name private_key public_key nts flds)"

definition handle_add_card ::
  "'w env \<Rightarrow> string \<Rightarrow> card \<Rightarrow> secret option \<Rightarrow> field list \<Rightarrow> ('w, response) task" where
  "handle_add_card E name c nts flds = add_entry_to_server E (fresh_entry name (Card c) flds nts)"

definition handle_add_identity ::
  "'w env \<Rightarrow> string \<Rightarrow> new_identity \<Rightarrow> secret option \<Rightarrow> field list \<Rightarrow> ('w, response) task" where
  "handle_add_identity E name i nts flds =
     add_entry_to_server E (fresh_entry name (Identity (identity_of_new i)) flds nts)"

definition handle_add_bank_account ::
  "'w env \<Rightarrow> string \<Rightarrow> bank_account \<Rightarrow> secret option \<Rightarrow> field list \<Rightarrow> ('w, response) task" where
  "handle_add_bank_account E name b nts flds = add_entry_to_server E (fresh_entry name (BankAccount b) flds nts)"

definition handle_add_drivers_license ::
  "'w env \<Rightarrow> string \<Rightarrow> drivers_license \<Rightarrow> secret option \<Rightarrow> field list \<Rightarrow> ('w, response) task" where
  "handle_add_drivers_license E name d nts flds = add_entry_to_server E (fresh_entry name (DriversLicense d) flds nts)"

definition handle_add_passport ::
  "'w env \<Rightarrow> string \<Rightarrow> passport \<Rightarrow> secret option \<Rightarrow> field list \<Rightarrow> ('w, response) task" where
  "handle_add_passport E name p nts flds = add_entry_to_server E (fresh_entry name (Passport p) flds nts)"

lemmas creations = handle_add_ssh_key_def handle_add_card_def handle_add_identity_def
  handle_add_bank_account_def handle_add_drivers_license_def handle_add_passport_def

section \<open>The browser's password update\<close>

definition handle_update_login_password :: "'w env \<Rightarrow> string \<Rightarrow> string \<Rightarrow> ('w, response) task" where
  "handle_update_login_password E i password =
     t_seq (t_lock E) (t_bind (t_get (\<lambda>s. (st_db s, st_keys s, orgs_or_empty (st_org_keys s)))) (\<lambda>(d, ks, orgs).
       case (d, ks) of
         (Some d, Some ks) \<Rightarrow> (case find_entry i (db_entries d) of
             None \<Rightarrow> t_ret entry_not_found
           | Some e \<Rightarrow> t_bind (t_out (entry_decrypt (en_crypto E) ks orgs e)) (\<lambda>de. case e_data de of
               Login l \<Rightarrow> handle_update_entry E (de\<lparr>e_data := Login (l\<lparr>lg_password := Some (Secret password)\<rparr>)\<rparr>)
             | _ \<Rightarrow> t_ret (Error ''entry is not a Login'')))
       | _ \<Rightarrow> t_ret agent_is_locked))"

section \<open>Dispatch\<close>

text \<open>A read: it holds the lock, sees the configuration file as it is then, and changes nothing.\<close>

definition t_read :: "'w env \<Rightarrow> ('w \<Rightarrow> agent \<Rightarrow> 'a outcome) \<Rightarrow> ('w, 'a) task" where
  "t_read E f = t_seq (t_lock E) (\<lambda>x. (f (snd x) (fst x), x))"

fun vault_request :: "'w env \<Rightarrow> action \<Rightarrow> ('w, response) task" where
  "vault_request E Action_Sync = handle_sync E"
| "vault_request E (GetEntries q t p) = t_read E (\<lambda>w. handle_get_entries (en_crypto E) q t p)"
| "vault_request E (GetSidebarEntries q t p d) =
     t_read E (\<lambda>w s. Ret (handle_get_sidebar_entries (en_psl E) q t p d s))"
| "vault_request E (GetEntry i pw) =
     t_read E (\<lambda>w. handle_get_entry (en_crypto E) (en_kdf E) (load_config E w) i pw)"
| "vault_request E (GetEntryMeta i) = t_read E (\<lambda>w. handle_get_entry_meta (en_crypto E) i)"
| "vault_request E (GetPassword i pw) =
     t_read E (\<lambda>w. handle_get_password (en_crypto E) (en_kdf E) (load_config E w) i pw)"
| "vault_request E (GetTotp i pw) =
     t_read E (\<lambda>w. handle_get_totp (en_crypto E) (en_kdf E) (en_totp E w) (load_config E w) i pw)"
| "vault_request E (DeleteEntry i) = handle_delete_entry E i"
| "vault_request E (UpdateEntry e) = handle_update_entry E e"
| "vault_request E (CopyToClipboard i) =
     t_ret (Error ''CopyToClipboard not implemented in agent; handle in client'')"
| "vault_request E (PinEntry i) = set_favorite E i True"
| "vault_request E (UnpinEntry i) = set_favorite E i False"
| "vault_request E (AddEntry n) = handle_add_entry E n"
| "vault_request E (AddSecureNote n nts fs) = handle_add_entry E
     \<lparr>ne_name = n, ne_entry_type = ET_SecureNote, ne_username = None, ne_password = None,
      ne_notes = Some nts, ne_fields = fs, ne_totp = None, ne_uris = []\<rparr>"
| "vault_request E (AddSshKey n k pk nts fs) = handle_add_ssh_key E n k pk nts fs"
| "vault_request E (AddCard n c nts fs) = handle_add_card E n c nts fs"
| "vault_request E (AddIdentity n i nts fs) = handle_add_identity E n i nts fs"
| "vault_request E (AddBankAccount n b nts fs) = handle_add_bank_account E n b nts fs"
| "vault_request E (AddDriversLicense n d nts fs) = handle_add_drivers_license E n d nts fs"
| "vault_request E (AddPassport n p nts fs) = handle_add_passport E n p nts fs"
| "vault_request E (CheckLoginMatch d u p) =
     t_read E (\<lambda>w. handle_check_login_match (en_crypto E) (en_psl E) d u p)"
| "vault_request E (UpdateLoginPassword i p) = handle_update_login_password E i p"
| "vault_request E a = t_ret (Error ''not implemented in vault handler'')"

end
