(* ===== verification/Auth_Handlers.thy ===== *)
theory Auth_Handlers
  imports Vault_Ops
begin

text \<open>
  The account actions of \<open>cosmarden-agent/src/handler/auth/\<close>: unlocking with the master password
  (\<open>unlock.rs\<close>), logging in (\<open>login.rs\<close>), registering (\<open>register.rs\<close>), and version, config, lock and
  logout (\<open>config.rs\<close>), with the two client calls only they use (\<open>prelogin\<close> and \<open>register\<close> of
  \<open>api/client/auth.rs\<close>) and \<open>unlock\<close> of \<open>cosmarden-core/src/vault.rs\<close>.
\<close>

section \<open>Client calls\<close>

definition json_request :: "string \<Rightarrow> json \<Rightarrow> http_request" where
  "json_request url body = \<lparr>hq_method = ''POST'', hq_url = url, hq_bearer = None, hq_body = Json_Body body\<rparr>"

text \<open>The status of a prelogin response is not looked at.\<close>

definition client_prelogin :: "'w env \<Rightarrow> client \<Rightarrow> string \<Rightarrow> ('w, error + prelogin_res) task" where
  "client_prelogin E c email =
     t_try (api_send E c (json_request (ac_identity_url c @ ''/accounts/prelogin'') (JObj [(''email'', JStr email)])))
       (\<lambda>res. t_ret (map_err Json (en_parse_prelogin E (hr_body res))))"

fun kdf_repr :: "kdf_type \<Rightarrow> nat" where
  "kdf_repr Pbkdf2 = 0"
| "kdf_repr Argon2id = 1"

definition register_base ::
  "string \<Rightarrow> string \<Rightarrow> string \<Rightarrow> string \<Rightarrow> kdf_type \<Rightarrow> u32 \<Rightarrow> (string \<times> json) list" where
  "register_base email name hash protected_key kdf iterations =
     [(''email'', JStr email), (''name'', JStr name), (''masterPasswordHash'', JStr hash),
      (''masterPasswordHint'', JStr []), (''key'', JStr protected_key),
      (''kdf'', JNum (kdf_repr kdf)), (''kdfIterations'', JNum (unat iterations))]"

definition created_or_failed :: "http_response \<Rightarrow> error + unit" where
  "created_or_failed res = (if hr_status res = 200 \<or> hr_status res = 204 then Inr () else Inl (RequestFailed (hr_status res)))"

text \<open>Requests on the one HTTP client that \<open>register\<close> builds.\<close>

definition http_send :: "'w env \<Rightarrow> http_request \<Rightarrow> ('w, error + http_response) task" where
  "http_send E req = t_bind (t_io (en_http E req)) (\<lambda>r. t_ret (map_err Reqwest r))"

definition register_legacy :: "'w env \<Rightarrow> client \<Rightarrow> (string \<times> json) list \<Rightarrow> ('w, error + unit) task" where
  "register_legacy E c base =
     t_try (http_send E (json_request (ac_identity_url c @ ''/accounts/register'') (JObj base))) (\<lambda>res.
     t_try (if hr_status res = 404
            then http_send E (json_request (ac_base_url c @ ''/accounts/register'') (JObj base))
            else t_ret (Inr res)) (\<lambda>res.
       t_ret (created_or_failed res)))"

definition client_register ::
  "'w env \<Rightarrow> client \<Rightarrow> string \<Rightarrow> string \<Rightarrow> string \<Rightarrow> string \<Rightarrow> kdf_type \<Rightarrow> u32 \<Rightarrow> ('w, error + unit) task" where
  "client_register E c email name hash protected_key kdf iterations =
     t_try (t_ret (reqwest_client E c)) (\<lambda>_.
       let base = register_base email name hash protected_key kdf iterations in
       t_try (http_send E (json_request (ac_identity_url c @ ''/accounts/register/send-verification-email'')
                (JObj [(''email'', JStr email), (''name'', JStr name)]))) (\<lambda>res.
       if hr_status res = 404 then register_legacy E c base
       else if \<not> (200 \<le> hr_status res \<and> hr_status res < 300) then t_ret (Inl (RequestFailed (hr_status res)))
       else if hr_status res = 204
       then t_ret (Inl (Other (''server requires email verification to register; the server ''
                        @ ''emailed a verification token rather than returning it'')))
       else t_try (t_ret (map_err Reqwest (en_parse_text E (hr_body res)))) (\<lambda>tok.
            t_try (http_send E (json_request (ac_identity_url c @ ''/accounts/register/finish'')
                     (JObj (base @ [(''emailVerificationToken'', JStr tok)])))) (\<lambda>res.
              t_ret (created_or_failed res)))))"

section \<open>Opening the vault\<close>

text \<open>\<open>vault::unlock\<close>.\<close>

definition vault_unlock ::
  "crypto \<Rightarrow> kdf_lib \<Rightarrow> string \<Rightarrow> u8 list \<Rightarrow> kdf_type \<Rightarrow> u32 \<Rightarrow> u32 option \<Rightarrow> u32 option \<Rightarrow> string
    \<Rightarrow> string option \<Rightarrow> (string \<times> string) list \<Rightarrow> (error, keys \<times> org_keys) fallible" where
  "vault_unlock C K email pw kdf it mem par protected_key ppk poks =
     and_try (Ret (identity_new K email pw kdf it mem par)) (\<lambda>ident.
       unlock_from_keys C (ak_keys ident) protected_key ppk poks)"

definition expose_or_empty :: "secret option \<Rightarrow> string" where
  "expose_or_empty s = (case s of Some v \<Rightarrow> expose v | None \<Rightarrow> [])"

definition exposed_org_keys :: "db \<Rightarrow> (string \<times> string) list" where
  "exposed_org_keys d = map (\<lambda>(k, v). (k, expose v)) (db_protected_org_keys d)"

definition unlock_db ::
  "crypto \<Rightarrow> kdf_lib \<Rightarrow> string \<Rightarrow> u8 list \<Rightarrow> kdf_type \<Rightarrow> u32 \<Rightarrow> db \<Rightarrow> (error, keys \<times> org_keys) fallible" where
  "unlock_db C K email pw kdf it d =
     vault_unlock C K email pw kdf it (db_memory d) (db_parallelism d)
       (expose_or_empty (db_protected_key d)) (map_option expose (db_protected_private_key d))
       (exposed_org_keys d)"

definition kdf_or_default :: "db \<Rightarrow> kdf_type" where
  "kdf_or_default d = (case db_kdf d of Some k \<Rightarrow> k | None \<Rightarrow> Pbkdf2)"

definition iterations_or_default :: "db \<Rightarrow> u32" where
  "iterations_or_default d = (case db_iterations d of Some i \<Rightarrow> i | None \<Rightarrow> 100000)"

text \<open>
  The critical section of an unlock, up to the rebuild of the caches: the new database keeps the
  tokens of the one in memory when it has none itself.
\<close>

definition with_prev_tokens :: "db option \<Rightarrow> db \<Rightarrow> db" where
  "with_prev_tokens prev d =
     (if db_access_token d = None
      then (case prev of None \<Rightarrow> d
        | Some p \<Rightarrow> d\<lparr>db_access_token := db_access_token p, db_refresh_token := db_refresh_token p\<rparr>)
      else d)"

definition install_vault :: "keys \<Rightarrow> org_keys \<Rightarrow> db \<Rightarrow> agent \<Rightarrow> agent" where
  "install_vault ks orgs d s =
     (bump_epoch (s\<lparr>st_keys := Some ks, st_org_keys := Some orgs\<rparr>))
       \<lparr>st_pinned_ids := favorite_ids (db_entries d), st_db := Some d\<rparr>"

definition announce_unlocked :: "'w env \<Rightarrow> ('w, unit) task" where
  "announce_unlocked E =
     t_seq (t_rebuild E) (t_mod (broadcast Unlocked))"

text \<open>Returns whether the installed database has an access token.\<close>

definition commit_unlock :: "'w env \<Rightarrow> keys \<Rightarrow> org_keys \<Rightarrow> db \<Rightarrow> ('w, bool) task" where
  "commit_unlock E ks orgs d =
     t_seq (t_lock E) (t_bind (t_get (\<lambda>s. with_prev_tokens (st_db s) d)) (\<lambda>d'.
       t_seq (t_mod (install_vault ks orgs d'))
      (t_seq (announce_unlocked E) (t_ret (db_access_token d' \<noteq> None)))))"

text \<open>What a look into the keyring adds to a database.\<close>

definition adopt_keyring :: "string + (string \<times> string) option \<Rightarrow> db \<Rightarrow> db" where
  "adopt_keyring r d = (case r of
     Inr (Some (at, rt)) \<Rightarrow> d\<lparr>db_access_token := Some (token_of at), db_refresh_token := Some (token_of rt)\<rparr>
   | _ \<Rightarrow> d)"

definition keyring_tokens :: "'w env \<Rightarrow> config \<Rightarrow> string \<Rightarrow> db \<Rightarrow> ('w, db) task" where
  "keyring_tokens E cfg email d =
     (if db_access_token d = None \<and> cfg_persist_session cfg
      then t_bind (t_io (en_keyring_get E (server_name cfg) email)) (\<lambda>r. t_ret (adopt_keyring r d))
      else t_ret d)"

text \<open>After the commit: a catch-up sync is spawned, or the missing session is recorded.\<close>

definition after_unlock :: "'w env \<Rightarrow> string + unit \<Rightarrow> ('w, response) task" where
  "after_unlock E restored = (case restored of
     Inr _ \<Rightarrow> t_seq (t_io (\<lambda>w. ((), en_spawn E Job_Sync w))) (t_ret Ack)
   | Inl reason \<Rightarrow>
       t_seq (t_lock E)
      (t_seq (t_mod (mark_failed (ERR_NO_SESSION @ '': '' @ reason))) (t_ret Ack)))"

text \<open>The spawned jobs.\<close>

definition run_job :: "'w env \<Rightarrow> job \<Rightarrow> ('w, unit) task" where
  "run_job E j = (case j of
     Job_Sync \<Rightarrow>
       t_seq (t_lock E) (t_bind (t_get (\<lambda>s. Option.bind (st_db s) db_access_token \<noteq> None)) (\<lambda>has_token.
         t_when has_token (t_ignore (handle_sync E))))
   | Job_Delete_Tokens server email \<Rightarrow> t_ignore (t_io (en_keyring_delete E server email)))"

definition load_account ::
  "'w env \<Rightarrow> string \<Rightarrow> string \<Rightarrow> config \<Rightarrow> (string \<Rightarrow> db \<Rightarrow> ('w, response) task) \<Rightarrow> ('w, response) task" where
  "load_account E no_email no_account cfg f = (case cfg_email cfg of
     None \<Rightarrow> t_ret (Error no_email)
   | Some email \<Rightarrow> t_bind (t_look (en_load_db E (server_name cfg) email)) (\<lambda>r. case r of
       Inl e \<Rightarrow> t_ret (Error (''failed to load db: '' @ error_display e))
     | Inr d \<Rightarrow> if \<not> has_account d then t_ret (Error no_account) else f email d))"

text \<open>With a token of its own the vault's session is refreshed on disk, without one it is restored.\<close>

definition settle_session ::
  "'w env \<Rightarrow> config \<Rightarrow> string \<Rightarrow> keys \<Rightarrow> u8 list \<Rightarrow> bool \<Rightarrow> ('w, string + unit) task" where
  "settle_session E cfg email ks hash has_token =
     (if \<not> has_token then restore_session E cfg email ks (Some hash)
      else t_seq (persist_current E (server_name cfg) email) (t_ret (Inr ())))"

definition unlock_with_password ::
  "'w env \<Rightarrow> string \<Rightarrow> config \<Rightarrow> string \<Rightarrow> db \<Rightarrow> ('w, response) task" where
  "unlock_with_password E password cfg email d =
     t_bind (keyring_tokens E cfg email d) (\<lambda>d.
     t_bind (t_out (locked_password password)) (\<lambda>pw.
       let kdf = kdf_or_default d; it = iterations_or_default d in
       case identity_new (en_kdf E) email pw kdf it (db_memory d) (db_parallelism d) of
         Inl e \<Rightarrow> t_ret (Error (''identity derivation failed: '' @ error_display e))
       | Inr ident \<Rightarrow>
           t_bind (t_out (unlock_db (en_crypto E) (en_kdf E) email pw kdf it d)) (\<lambda>r. case r of
             Inl e \<Rightarrow> t_ret (Error (''unlock failed: '' @ error_display e))
           | Inr (ks, orgs) \<Rightarrow>
               t_bind (commit_unlock E ks orgs d) (\<lambda>has_token.
               t_bind (settle_session E cfg email ks (ak_master_password_hash ident) has_token)
                 (after_unlock E)))))"

definition handle_unlock :: "'w env \<Rightarrow> string \<Rightarrow> ('w, response) task" where
  "handle_unlock E password = with_config E (\<lambda>cfg.
     load_account E ''email not set in config. Please login.''
       ''No account configured on this agent. Please login first.'' cfg (unlock_with_password E password cfg))"

section \<open>Logging in\<close>

definition login_config :: "error + config \<Rightarrow> login_request \<Rightarrow> config" where
  "login_config loaded r =
     (let cfg = (case loaded of Inr c \<Rightarrow> c | Inl e \<Rightarrow> default_config);
          cfg = (case lr_server_url r of Some url \<Rightarrow> cfg\<lparr>cfg_base_url := Some url\<rparr> | None \<Rightarrow> cfg)
      in cfg\<lparr>cfg_email := Some (lr_email r), cfg_persist_session := lr_remember_me r\<rparr>)"

definition login_db :: "db \<Rightarrow> prelogin_res \<Rightarrow> token_res \<Rightarrow> db" where
  "login_db d pre tr = d\<lparr>db_access_token := Some (token_of (tr_access_token tr)),
     db_refresh_token := map_option token_of (tr_refresh_token tr), db_kdf := Some (pl_kdf pre),
     db_iterations := Some (pl_iterations pre), db_memory := pl_memory pre,
     db_parallelism := pl_parallelism pre, db_protected_key := map_option Secret (tr_key tr)\<rparr>"

definition install_login :: "keys \<Rightarrow> org_keys \<Rightarrow> string \<Rightarrow> db \<Rightarrow> agent \<Rightarrow> agent" where
  "install_login ks orgs uid d s =
     (install_vault ks orgs d (s\<lparr>st_user_id := Some uid\<rparr>))\<lparr>st_sync_failed := False, st_last_sync_error := None\<rparr>"

text \<open>From the initial sync on.\<close>

definition finish_login ::
  "'w env \<Rightarrow> config \<Rightarrow> string \<Rightarrow> u8 list \<Rightarrow> db \<Rightarrow> sync_result \<Rightarrow> ('w, response) task" where
  "finish_login E cfg email pw d sync =
     (let d = apply_sync sync d in
      t_bind (t_io (en_save_db E (server_name cfg) email d)) (\<lambda>r. case r of
        Inl e \<Rightarrow> t_ret (Error (''failed to save db: '' @ error_display e))
      | Inr _ \<Rightarrow> t_bind (t_io (en_save_config E cfg)) (\<lambda>r. case r of
        Inl e \<Rightarrow> t_ret (Error (''failed to save config: '' @ error_display e))
      | Inr _ \<Rightarrow>
          t_bind (t_out (unlock_db (en_crypto E) (en_kdf E) email pw (kdf_or_default d) (iterations_or_default d) d))
            (\<lambda>r. case r of
            Inl e \<Rightarrow> t_ret (Error (''unlock failed after login: '' @ error_display e))
          | Inr (ks, orgs) \<Rightarrow>
              t_seq (case db_refresh_token d of
                       Some rt \<Rightarrow> t_ignore (save_session E ks (server_name cfg) email (token_text rt))
                     | None \<Rightarrow> t_ret ())
             (t_seq (t_lock E)
             (t_seq (t_mod (install_login ks orgs (sy_user_id sync) d))
             (t_seq (announce_unlocked E) (t_ret Ack))))))))"

definition handle_login :: "'w env \<Rightarrow> login_request \<Rightarrow> ('w, response) task" where
  "handle_login E q = t_bind (t_look (load_config E)) (\<lambda>loaded.
     let cfg = login_config loaded q; email = lr_email q; c = client_of cfg in
     t_bind (client_prelogin E c email) (\<lambda>r. case r of
       Inl e \<Rightarrow> t_ret (Error (''prelogin failed: '' @ error_display e))
     | Inr pre \<Rightarrow> t_bind (t_out (locked_password (lr_password q))) (\<lambda>pw.
       t_bind (t_io (en_device_id E cfg)) (\<lambda>r. case r of
         Inl e \<Rightarrow> t_ret (Error (''failed to get device id: '' @ e))
       | Inr device_id \<Rightarrow>
         (case identity_new (en_kdf E) email pw (pl_kdf pre) (pl_iterations pre) (pl_memory pre) (pl_parallelism pre) of
            Inl e \<Rightarrow> t_ret (Error (''identity derivation failed: '' @ error_display e))
          | Inr ident \<Rightarrow>
            t_bind (client_login E c email device_id (ak_master_password_hash ident)
                      (lr_two_factor_token q) (lr_two_factor_provider q) (lr_two_factor_code q)
                      (lr_device_verification_code q)) (\<lambda>r. case r of
              Inl (TwoFactorRequired providers tok) \<Rightarrow>
                t_ret (Response_TwoFactorRequired tok (map word_of_nat providers))
            | Inl NewDeviceVerificationRequired \<Rightarrow> t_ret Response_NewDeviceVerificationRequired
            | Inl e \<Rightarrow> t_ret (Error (''login failed: '' @ error_display e))
            | Inr tr \<Rightarrow>
                t_seq (case (cfg_persist_session cfg, tr_refresh_token tr) of
                         (True, Some rt) \<Rightarrow> t_ignore (t_io (en_keyring_store E (server_name cfg) email
                                                    (tr_access_token tr) rt))
                       | _ \<Rightarrow> t_ret ())
               (t_bind (t_look (en_load_db E (server_name cfg) email)) (\<lambda>loaded_db.
                  let d = login_db (case loaded_db of Inr d \<Rightarrow> d | Inl e \<Rightarrow> db_new) pre tr in
                  t_bind (client_sync E c (tr_access_token tr)) (\<lambda>r. case r of
                    Inl e \<Rightarrow> t_ret (Error (''initial sync failed: '' @ error_display e))
                  | Inr sync \<Rightarrow> finish_login E cfg email pw d sync)))))))))"

section \<open>Registering\<close>

definition register_config :: "string \<Rightarrow> string \<Rightarrow> config" where
  "register_config email server_url = default_config\<lparr>cfg_base_url := Some server_url, cfg_email := Some email\<rparr>"

definition handle_register :: "'w env \<Rightarrow> string \<Rightarrow> string \<Rightarrow> string \<Rightarrow> ('w, response) task" where
  "handle_register E email password server_url =
     (let c = client_of (register_config email server_url) in
      t_bind (t_out (locked_password password)) (\<lambda>pw.
        case identity_new (en_kdf E) email pw Pbkdf2 600000 None None of
          Inl e \<Rightarrow> t_ret (Error (''identity derivation failed: '' @ error_display e))
        | Inr ident \<Rightarrow>
            t_bind (t_io (en_ivs E)) (\<lambda>rnd.
            t_bind (t_out (encrypt_symmetric (en_crypto E) (rnd 0) (ak_keys ident) (ak_keys ident))) (\<lambda>r. case r of
              Inl e \<Rightarrow> t_ret (Error (''encryption failed: '' @ error_display e))
            | Inr cs \<Rightarrow>
                t_bind (client_register E c email ''Cosmic User''
                  (b64_encode (en_crypto E) (ak_master_password_hash ident))
                  (cipherstring_display (en_crypto E) cs) Pbkdf2 600000) (\<lambda>r. t_ret (case r of
                    Inr _ \<Rightarrow> Ack
                  | Inl e \<Rightarrow> Error (''registration failed: '' @ error_display e)))))))"

section \<open>Version, configuration, lock, logout\<close>

definition PROTOCOL_VERSION :: string where
  "PROTOCOL_VERSION = ''7''"

definition handle_version :: "'w env \<Rightarrow> ('w, response) task" where
  "handle_version E = t_ret (Response_Version (en_version E) PROTOCOL_VERSION)"

text \<open>The database is loaded, with the keyring's tokens, when memory has none.\<close>

definition load_missing_db :: "'w env \<Rightarrow> ('w, unit) task" where
  "load_missing_db E = t_bind (t_get st_db) (\<lambda>d. if d \<noteq> None then t_ret () else
     t_bind (t_look (load_config E)) (\<lambda>cfg. case cfg of Inl e \<Rightarrow> t_ret ()
     | Inr cfg \<Rightarrow> (case cfg_email cfg of None \<Rightarrow> t_ret ()
       | Some email \<Rightarrow> t_bind (t_look (en_load_db E (server_name cfg) email)) (\<lambda>r. case r of
           Inl e \<Rightarrow> t_ret ()
         | Inr d \<Rightarrow> t_bind (t_io (en_keyring_get E (server_name cfg) email)) (\<lambda>r.
             t_mod (\<lambda>s. s\<lparr>st_db := Some (adopt_keyring r d)\<rparr>))))))"

definition config_response :: "config \<Rightarrow> agent \<Rightarrow> response" where
  "config_response cfg s = Config cfg
     (case st_db s of None \<Rightarrow> True | Some d \<Rightarrow> needs_login d)
     (case st_db s of None \<Rightarrow> False | Some d \<Rightarrow> has_account d)
     (st_keys s = None) (st_sync_failed s) (st_session_id s) (st_lock_epoch s)"

definition handle_get_config :: "'w env \<Rightarrow> ('w, response) task" where
  "handle_get_config E = t_seq (t_lock E) (t_seq (load_missing_db E)
     (with_config E (\<lambda>cfg. t_get (config_response cfg))))"

definition handle_lock :: "'w env \<Rightarrow> ('w, response) task" where
  "handle_lock E = t_seq (t_lock E) (t_seq (t_mod lock) (t_ret Ack))"

definition handle_logout :: "'w env \<Rightarrow> ('w, response) task" where
  "handle_logout E = with_config E (\<lambda>cfg.
     t_seq (case cfg_email cfg of None \<Rightarrow> t_ret ()
       | Some email \<Rightarrow>
           t_seq (t_when (cfg_persist_session cfg)
                    (t_io (\<lambda>w. ((), en_spawn E (Job_Delete_Tokens (server_name cfg) email) w))))
          (t_seq (t_ignore (t_io (en_clear_session E (server_name cfg) email)))
                 (t_ignore (t_io (en_save_db E (server_name cfg) email db_new)))))
    (t_seq (t_lock E) (t_seq (t_mod clear_account) (t_ret Ack))))"

end
