(* ===== verification/Tpm_Pin.thy ===== *)
theory Tpm_Pin
  imports Auth_Handlers
begin

text \<open>
  Unlocking with a PIN: \<open>cosmarden-agent/src/tpm/\<close> above \<open>seal_bytes\<close> and \<open>unseal_bytes\<close>, and the
  handlers of \<open>handler/auth/tpm_pin/\<close>. A build without the cargo feature \<open>tpm\<close> answers every
  request with the same refusal.
\<close>

section \<open>The TPM\<close>

datatype unseal_failure = UF_WrongPin | UF_StateChanged | UF_Lockout | UF_Other

fun classify_code :: "tss_code \<Rightarrow> unseal_failure" where
  "classify_code Tss_AuthFail = UF_WrongPin"
| "classify_code Tss_PolicyFail = UF_StateChanged"
| "classify_code Tss_Lockout = UF_Lockout"
| "classify_code c = UF_Other"

text \<open>The first TSS error of the chain decides.\<close>

fun classify_unseal_failure :: "chain_link list \<Rightarrow> unseal_failure" where
  "classify_unseal_failure [] = UF_Other"
| "classify_unseal_failure (Tss_Error c # r) = classify_code c"
| "classify_unseal_failure (Other_Error m # r) = classify_unseal_failure r"

definition TPMA_PERMANENT_IN_LOCKOUT :: u32 where
  "TPMA_PERMANENT_IN_LOCKOUT = 0x200"

definition default_da_status :: tpm_da_status where
  "default_da_status = \<lparr>da_available = False, da_max_tries = None, da_lockout_counter = None,
     da_remaining = None, da_in_lockout = False, da_recovery_interval_secs = None\<rparr>"

definition da_status :: "'w tpm_env \<Rightarrow> 'w \<Rightarrow> tpm_da_status" where
  "da_status T w =
     (if \<not> tp_open T w then default_da_status
      else let max_tries = tp_property T Prop_MaxAuthFail w;
               counter = tp_property T Prop_LockoutCounter w
        in \<lparr>da_available = True, da_max_tries = max_tries, da_lockout_counter = counter,
            da_remaining = (case (max_tries, counter) of
              (Some m, Some c) \<Rightarrow> Some (saturating_sub m c) | _ \<Rightarrow> None),
            da_in_lockout = (case tp_property T Prop_Permanent w of
              Some p \<Rightarrow> Bit_Operations.and p TPMA_PERMANENT_IN_LOCKOUT \<noteq> 0 | None \<Rightarrow> False),
            da_recovery_interval_secs = tp_property T Prop_LockoutInterval w\<rparr>)"

definition diagnostics :: "'w tpm_env \<Rightarrow> 'w \<Rightarrow> (string \<times> bool \<times> string) list" where
  "diagnostics T w =
     [(''/dev/tpmrm0 exists'', tp_path_exists T ''/dev/tpmrm0'' w,
       ''Install kernel tpm2 driver or check BIOS TPM settings''),
      (''/dev/tpm0 exists'', tp_path_exists T ''/dev/tpm0'' w,
       ''TPM hardware not detected '' @ EM_DASH @ '' check BIOS settings''),
      (''Agent can open /dev/tpmrm0'', tp_path_readable T ''/dev/tpmrm0'' w,
       ''Add user to 'tss' group: sudo usermod -aG tss $USER, then log out and back in''),
      (''TPM2 context opens'', tp_open T w,
       ''Install tpm2-abrmd or ensure /dev/tpmrm0 is accessible'')]"

text \<open>Exactly the two halves of the keys are sealed, without the padding behind them.\<close>

definition key_material :: "keys \<Rightarrow> u8 list outcome" where
  "key_material ks = (case enc_key ks of Panic m \<Rightarrow> Panic m
     | Ret ek \<Rightarrow> (case mac_key ks of Panic m \<Rightarrow> Panic m | Ret mk \<Rightarrow> Ret (ek @ mk)))"

definition tpm_seal :: "'w env \<Rightarrow> keys \<Rightarrow> string \<Rightarrow> string \<Rightarrow> string \<Rightarrow> ('w, string + unit) task" where
  "tpm_seal E ks pin server email =
     t_bind (t_out (key_material ks)) (\<lambda>km.
     t_bind (t_io (tp_seal_bytes (en_tpm E) km pin server email)) (\<lambda>r.
       t_ret (map_err (\<lambda>e. ''sealing vault keys: '' @ e) r)))"

definition tpm_unseal :: "'w env \<Rightarrow> string \<Rightarrow> string \<Rightarrow> string \<Rightarrow> ('w, chain_link list + keys) task" where
  "tpm_unseal E pin server email =
     t_try (t_io (tp_unseal_bytes (en_tpm E) pin server email)) (\<lambda>raw.
       t_ret (if length raw \<noteq> 64
              then Inl [Other_Error (''TPM unsealed '' @ show_nat (length raw) @ '' bytes; expected 64 (vault keys)'')]
              else Inr raw))"

section \<open>Setting up\<close>

definition no_tpm_support :: response where
  "no_tpm_support = Error ''TPM support not compiled in this build''"

definition MIN_PIN_LEN :: nat where "MIN_PIN_LEN = 6"

text \<open>\<open>str::chars().count()\<close>.\<close>

definition char_count :: "string \<Rightarrow> nat" where
  "char_count s = length (filter (\<lambda>c. \<not> cont_byte (of_char c)) s)"

definition validate_pin :: "string \<Rightarrow> response + unit" where
  "validate_pin pin =
     (if char_count pin < MIN_PIN_LEN
      then Inl (Error (''PIN must be at least '' @ show_nat MIN_PIN_LEN @ '' characters'')) else Inr ())"

definition with_email :: "config \<Rightarrow> (string \<Rightarrow> ('w, response) task) \<Rightarrow> ('w, response) task" where
  "with_email cfg f = (case cfg_email cfg of
     None \<Rightarrow> t_ret (Error ''email not set in config'') | Some email \<Rightarrow> f email)"

definition with_pin_and_tpm :: "'w env \<Rightarrow> string \<Rightarrow> ('w, response) task \<Rightarrow> ('w, response) task" where
  "with_pin_and_tpm E pin k = (case validate_pin pin of
     Inl e \<Rightarrow> t_ret e
   | Inr _ \<Rightarrow> t_bind (t_look (tp_open (en_tpm E))) (\<lambda>available.
       if \<not> available then t_ret (Error ''TPM is not available on this system'') else k))"

definition set_tpm_configured :: "bool \<Rightarrow> agent \<Rightarrow> agent" where
  "set_tpm_configured b s = s\<lparr>st_tpm_configured := b\<rparr>"

text \<open>Sealing and its record in the configuration and the state.\<close>

definition seal_and_enable :: "'w env \<Rightarrow> config \<Rightarrow> string \<Rightarrow> keys \<Rightarrow> string \<Rightarrow> ('w, response) task" where
  "seal_and_enable E cfg email ks pin =
     t_bind (tpm_seal E ks pin (server_name cfg) email) (\<lambda>r. case r of
       Inl e \<Rightarrow> t_ret (Error (''TPM seal failed: '' @ e))
     | Inr _ \<Rightarrow>
         t_seq (t_ignore (t_io (en_save_config E (cfg\<lparr>cfg_tpm_enabled := True\<rparr>))))
        (t_seq (t_lock E) (t_seq (t_mod (set_tpm_configured True)) (t_ret Ack))))"

definition handle_setup_tpm_pin :: "'w env \<Rightarrow> string \<Rightarrow> string \<Rightarrow> ('w, response) task" where
  "handle_setup_tpm_pin E master_password pin =
     (if \<not> tp_compiled (en_tpm E) then t_ret no_tpm_support else
      with_pin_and_tpm E pin (with_config E (\<lambda>cfg.
        load_account E ''email not set in config''
          (''no account configured '' @ EM_DASH @ '' please login first'') cfg (\<lambda>email d.
          t_bind (t_out (locked_password master_password)) (\<lambda>pw.
            case identity_new (en_kdf E) email pw (kdf_or_default d) (iterations_or_default d)
                   (db_memory d) (db_parallelism d) of
              Inl e \<Rightarrow> t_ret (Error (''key derivation failed: '' @ error_display e))
            | Inr ident \<Rightarrow>
                t_bind (t_out (unlock_from_keys (en_crypto E) (ak_keys ident) (expose_or_empty (db_protected_key d))
                   (map_option expose (db_protected_private_key d)) (exposed_org_keys d))) (\<lambda>r. case r of
                  Inl e \<Rightarrow> t_ret (Error (''master password incorrect: '' @ error_display e))
                | Inr (vault_keys, orgs) \<Rightarrow> seal_and_enable E cfg email vault_keys pin))))))"

definition handle_setup_tpm_pin_from_unlocked :: "'w env \<Rightarrow> string \<Rightarrow> ('w, response) task" where
  "handle_setup_tpm_pin_from_unlocked E pin =
     (if \<not> tp_compiled (en_tpm E) then t_ret no_tpm_support else
      with_pin_and_tpm E pin (t_seq (t_lock E) (t_bind (t_get st_keys) (\<lambda>ks. case ks of
        None \<Rightarrow> t_ret (Error (''vault is locked '' @ EM_DASH @ '' unlock first before setting up PIN''))
      | Some ks \<Rightarrow> with_config E (\<lambda>cfg. with_email cfg (\<lambda>email. seal_and_enable E cfg email ks pin))))))"

section \<open>Unlocking\<close>

definition ERR_TPM_UNSEAL_FAILED :: string where "ERR_TPM_UNSEAL_FAILED = ''TPM unseal failed''"
definition ERR_TPM_BLOB_MISSING :: string where "ERR_TPM_BLOB_MISSING = ''TPM sealed blob missing''"
definition ERR_TPM_STATE_CHANGED :: string where "ERR_TPM_STATE_CHANGED = ''TPM state changed''"

definition pin_unlock_blocked_reason :: "bool \<Rightarrow> string option" where
  "pin_unlock_blocked_reason tpm_enabled = (if tpm_enabled then None else Some ''TPM PIN unlock is not enabled'')"

definition unseal_message :: "chain_link list \<Rightarrow> string" where
  "unseal_message chain = (if classify_unseal_failure chain = UF_StateChanged
     then ERR_TPM_STATE_CHANGED else ERR_TPM_UNSEAL_FAILED)"

text \<open>Without a token the session is restored from disk; the PIN gives no password for a grant.\<close>

definition settle_pin_session :: "'w env \<Rightarrow> config \<Rightarrow> string \<Rightarrow> keys \<Rightarrow> bool \<Rightarrow> ('w, string + unit) task" where
  "settle_pin_session E cfg email ks has_token =
     (if has_token then t_ret (Inr ()) else restore_session E cfg email ks None)"

definition unlock_with_unsealed :: "'w env \<Rightarrow> config \<Rightarrow> string \<Rightarrow> db \<Rightarrow> keys \<Rightarrow> ('w, response) task" where
  "unlock_with_unsealed E cfg email d ks =
     t_bind (t_out (decrypt_org_keys (en_crypto E) ks (map_option expose (db_protected_private_key d))
               (exposed_org_keys d))) (\<lambda>r. case r of
       Inl e \<Rightarrow> t_ret (Error (''org key derivation failed: '' @ error_display e))
     | Inr orgs \<Rightarrow>
         t_bind (keyring_tokens E cfg email d) (\<lambda>d.
         t_bind (commit_unlock E ks orgs d) (\<lambda>has_token.
         t_bind (settle_pin_session E cfg email ks has_token) (after_unlock E))))"

definition handle_unlock_with_pin :: "'w env \<Rightarrow> string \<Rightarrow> ('w, response) task" where
  "handle_unlock_with_pin E pin =
     (if \<not> tp_compiled (en_tpm E) then t_ret no_tpm_support else
      with_config E (\<lambda>cfg. case pin_unlock_blocked_reason (cfg_tpm_enabled cfg) of
        Some msg \<Rightarrow> t_ret (Error msg)
      | None \<Rightarrow> load_account E ''email not set in config''
          (''no account configured '' @ EM_DASH @ '' please login first'') cfg (\<lambda>email d.
          t_bind (t_look (tp_blob_exists (en_tpm E) (server_name cfg) email)) (\<lambda>there.
          if \<not> there then t_ret (Error ERR_TPM_BLOB_MISSING)
          else t_bind (tpm_unseal E pin (server_name cfg) email) (\<lambda>r. case r of
            Inl chain \<Rightarrow> t_ret (Error (unseal_message chain))
          | Inr ks \<Rightarrow> unlock_with_unsealed E cfg email d ks)))))"

section \<open>Disabling and status\<close>

definition handle_disable_tpm_pin :: "'w env \<Rightarrow> ('w, response) task" where
  "handle_disable_tpm_pin E =
     (if \<not> tp_compiled (en_tpm E) then t_ret no_tpm_support else
      with_config E (\<lambda>cfg. with_email cfg (\<lambda>email.
        t_seq (t_lock E) (t_bind (t_get (\<lambda>s. st_keys s = None)) (\<lambda>locked.
          if locked then t_ret (Error (''vault is locked '' @ EM_DASH @ '' unlock first before disabling PIN''))
          else t_bind (t_io (tp_remove_blob (en_tpm E) (server_name cfg) email)) (\<lambda>r. case r of
            Inl e \<Rightarrow> t_ret (Error (''failed to remove TPM blob: '' @ e))
          | Inr _ \<Rightarrow> t_bind (t_io (en_save_config E (cfg\<lparr>cfg_tpm_enabled := False\<rparr>))) (\<lambda>r. case r of
              Inl e \<Rightarrow> t_ret (Error (''failed to persist TPM disable: '' @ error_display e))
            | Inr _ \<Rightarrow> t_seq (t_lock E) (t_seq (t_mod (set_tpm_configured False)) (t_ret Ack)))))))))"

definition handle_check_tpm :: "'w env \<Rightarrow> ('w, response) task" where
  "handle_check_tpm E =
     (if \<not> tp_compiled (en_tpm E) then t_ret (TpmStatus False False) else
      t_bind (t_look (tp_open (en_tpm E))) (\<lambda>available.
      t_bind (t_look (load_config E)) (\<lambda>cfg. case cfg of
        Inl e \<Rightarrow> t_ret (TpmStatus available False)
      | Inr cfg \<Rightarrow> (case cfg_email cfg of
          None \<Rightarrow> t_ret (TpmStatus available False)
        | Some email \<Rightarrow> t_bind (t_look (tp_blob_exists (en_tpm E) (server_name cfg) email)) (\<lambda>configured.
            t_seq (t_lock E)
           (t_seq (t_mod (set_tpm_configured configured)) (t_ret (TpmStatus available configured))))))))"

definition handle_get_tpm_da_status :: "'w env \<Rightarrow> ('w, response) task" where
  "handle_get_tpm_da_status E =
     (if tp_compiled (en_tpm E) then t_bind (t_look (da_status (en_tpm E))) (\<lambda>st. t_ret (TpmDaStatus st))
      else t_ret (TpmDaStatus default_da_status))"

definition handle_check_tpm_diagnostics :: "'w env \<Rightarrow> ('w, response) task" where
  "handle_check_tpm_diagnostics E =
     (if tp_compiled (en_tpm E)
      then t_bind (t_look (diagnostics (en_tpm E))) (\<lambda>checks. t_ret (TpmDiagnostics checks))
      else t_ret (TpmDiagnostics [(''TPM feature compiled in'', False,
        ''Rebuild with --features cosmarden-agent/tpm (requires libtss2-dev)'')]))"

section \<open>The sealed halves are all of the keys\<close>

lemma key_material_Ret: "64 \<le> length ks \<Longrightarrow> key_material ks = Ret (take 64 ks)"
  using take_add [of 32 32 ks] by (simp add: key_material_def enc_key_Ret mac_key_Ret)

lemma key_halves_take:
  assumes "64 \<le> length ks"
  shows "enc_key (take 64 ks) = enc_key ks" and "mac_key (take 64 ks) = mac_key ks"
  using assms by (simp_all add: enc_key_def mac_key_def take_drop min_def)

lemma decrypt_common_take:
  "64 \<le> length ks \<Longrightarrow> decrypt_common_symmetric C (take 64 ks) iv ct mac = decrypt_common_symmetric C ks iv ct mac"
  by (simp only: decrypt_common_symmetric_def key_halves_take)

lemma decrypt_symmetric_take:
  "64 \<le> length ks \<Longrightarrow> decrypt_symmetric C c (take 64 ks) ek = decrypt_symmetric C c ks ek"
  by (cases c; cases ek) (simp_all add: decrypt_common_take)

lemma decrypt_locked_symmetric_take:
  "64 \<le> length ks \<Longrightarrow> decrypt_locked_symmetric C c (take 64 ks) = decrypt_locked_symmetric C c ks"
  by (cases c) (simp_all add: lvec_extend_def decrypt_common_take)

lemma vault_decrypt_take:
  assumes "64 \<le> length ks"
  shows "vault_decrypt C s (take 64 ks) ek = vault_decrypt C s ks ek"
  using assms
  by (simp add: vault_decrypt_def open_item_key_def decrypt_symmetric_take decrypt_locked_symmetric_take
      cong: option.case_cong)

lemma decrypt_org_keys_take:
  assumes "64 \<le> length ks"
  shows "decrypt_org_keys C (take 64 ks) ppk poks = decrypt_org_keys C ks ppk poks"
  using assms
  by (simp add: decrypt_org_keys_def decrypt_private_key_def decrypt_locked_symmetric_take cong: option.case_cong)

lemma entry_decrypt_take:
  assumes "64 \<le> length ks"
  shows "entry_decrypt C (take 64 ks) orgs e = entry_decrypt C ks orgs e"
proof (cases "Option.bind (e_org_id e) orgs")
  case None
  then have "entry_keys (take 64 ks) orgs e = take 64 ks" and "entry_keys ks orgs e = ks"
    by (simp_all add: entry_keys_def)
  moreover have "decrypt_slot C (take 64 ks) (e_key e) = decrypt_slot C ks (e_key e)"
    using assms by (simp add: decrypt_slot_def vault_decrypt_take fun_eq_iff)
  ultimately show ?thesis
    using assms by (simp add: entry_decrypt_def vault_decrypt_take)
qed (simp add: entry_decrypt_def entry_keys_def)

section \<open>Classifying a failed unseal\<close>

lemma classify_state_changed_iff:
  "classify_unseal_failure chain = UF_StateChanged \<longleftrightarrow>
     (\<exists>ms r. chain = map Other_Error ms @ Tss_Error Tss_PolicyFail # r)"
proof (induction chain rule: classify_unseal_failure.induct)
  case (2 c r)
  have "classify_code c = UF_StateChanged \<longleftrightarrow> c = Tss_PolicyFail"
    by (cases c) auto
  then show ?case
    by (auto simp: Cons_eq_append_conv)
next
  case (3 m r)
  show ?case
    unfolding classify_unseal_failure.simps "3.IH"
  proof
    assume "\<exists>ms r'. r = map Other_Error ms @ Tss_Error Tss_PolicyFail # r'"
    then obtain ms r' where "r = map Other_Error ms @ Tss_Error Tss_PolicyFail # r'"
      by blast
    then have "Other_Error m # r = map Other_Error (m # ms) @ Tss_Error Tss_PolicyFail # r'"
      by simp
    then show "\<exists>ms r'. Other_Error m # r = map Other_Error ms @ Tss_Error Tss_PolicyFail # r'"
      by blast
  qed (auto simp: Cons_eq_append_conv Cons_eq_map_conv)
qed simp

end
