(* ===== verification/Generator.thy ===== *)
theory Generator
  imports Agent_Env "HOL-Library.Multiset"
begin

text \<open>
  The password generator of \<open>cosmarden-agent/src/handler/generator/\<close>: the drawing of a password
  (\<open>algorithm.rs\<close>), its encrypted history of seven days (\<open>storage.rs\<close>), the saved settings
  (\<open>generator_settings.rs\<close>) and the four actions (\<open>mod.rs\<close>). None of them touches the vault.

  \<open>rng\<close> is the crate \<open>rand\<close>; \<open>rng_ok\<close> says that it chooses an element of a non-empty list and
  that shuffling permutes.
\<close>

section \<open>Drawing a password\<close>

definition rng_ok :: "rng \<Rightarrow> bool" where
  "rng_ok R \<longleftrightarrow> (\<forall>n xs. xs \<noteq> [] \<longrightarrow> (\<exists>c \<in> set xs. rg_choose R n xs = Some c))
     \<and> (\<forall>xs. mset (rg_shuffle R xs) = mset xs)"

definition MIN_LENGTH :: u8 where "MIN_LENGTH = 8"
definition MAX_LENGTH :: u8 where "MAX_LENGTH = 32"
definition UPPER :: string where "UPPER = ''ABCDEFGHIJKLMNOPQRSTUVWXYZ''"
definition LOWER :: string where "LOWER = ''abcdefghijklmnopqrstuvwxyz''"
definition DIGITS :: string where "DIGITS = ''0123456789''"
definition SPECIAL :: string where "SPECIAL = ''!@#$%^&*''"

definition pools_of :: "generator_settings \<Rightarrow> string list" where
  "pools_of s = (if gs_uppercase s then [UPPER] else []) @ (if gs_lowercase s then [LOWER] else [])
     @ (if gs_numbers s then [DIGITS] else []) @ (if gs_special s then [SPECIAL] else [])"

text \<open>One character of each pool, from the call number \<open>n\<close> on.\<close>

fun draw_each :: "rng \<Rightarrow> nat \<Rightarrow> string list \<Rightarrow> string outcome" where
  "draw_each R n [] = Ret []"
| "draw_each R n (p # ps) = (case rg_choose R n p of
     None \<Rightarrow> Panic ''pool is non-empty''
   | Some c \<Rightarrow> (case draw_each R (Suc n) ps of Panic m \<Rightarrow> Panic m | Ret cs \<Rightarrow> Ret (c # cs)))"

text \<open>The \<open>while\<close> loop: \<open>k\<close> characters are still missing.\<close>

fun draw_rest :: "rng \<Rightarrow> nat \<Rightarrow> nat \<Rightarrow> string \<Rightarrow> string outcome" where
  "draw_rest R n 0 u = Ret []"
| "draw_rest R n (Suc k) u = (case rg_choose R n u of
     None \<Rightarrow> Panic ''union is non-empty''
   | Some c \<Rightarrow> (case draw_rest R (Suc n) k u of Panic m \<Rightarrow> Panic m | Ret cs \<Rightarrow> Ret (c # cs)))"

definition generate_password :: "rng \<Rightarrow> generator_settings \<Rightarrow> (string, string) fallible" where
  "generate_password R s =
     (if \<not> (MIN_LENGTH \<le> gs_length s \<and> gs_length s \<le> MAX_LENGTH)
      then Fail (''length must be between '' @ show_nat (unat MIN_LENGTH) @ '' and '' @ show_nat (unat MAX_LENGTH))
      else let pools = pools_of s in
        if pools = [] then Fail ''select at least one character group''
        else (case draw_each R 0 pools of
          Panic m \<Rightarrow> Panic m
        | Ret chars \<Rightarrow>
            (case draw_rest R (length pools) (unat (gs_length s) - length chars) (concat pools) of
               Panic m \<Rightarrow> Panic m
             | Ret rest \<Rightarrow> Okay (rg_shuffle R (chars @ rest)))))"

section \<open>The history\<close>

definition HISTORY_TTL_SECS :: u64 where
  "HISTORY_TTL_SECS = 7 * 24 * 60 * 60"

text \<open>\<open>now\<close> is the clock when \<open>prune\<close> runs.\<close>

definition prune :: "u64 \<Rightarrow> stored_entry list \<Rightarrow> stored_entry list" where
  "prune now es = filter (\<lambda>e. saturating_sub now (sn_created_at e) \<le> HISTORY_TTL_SECS) es"

definition load_or_create_key :: "'w env \<Rightarrow> ('w, string + keys) task" where
  "load_or_create_key E =
     t_bind (t_look (ge_read_key (en_gen E))) (\<lambda>r. case r of
       Inl e \<Rightarrow> t_ret (Inl (''reading generator key file: '' @ e))
     | Inr (Some bytes) \<Rightarrow>
         t_ret (if length bytes \<noteq> 64 then Inl ''generator key file has unexpected length'' else Inr bytes)
     | Inr None \<Rightarrow>
         t_try (t_bind (t_io (ge_key_bytes (en_gen E)))
                  (\<lambda>r. t_ret (map_err (\<lambda>e. ''reading OS randomness for generator key: '' @ e) r))) (\<lambda>raw.
         t_try (t_io (ge_write_key (en_gen E) raw)) (\<lambda>_. t_ret (Inr raw))))"

definition load_stored_entries :: "'w env \<Rightarrow> ('w, string + stored_entry list) task" where
  "load_stored_entries E =
     t_bind (t_look (ge_read_history (en_gen E))) (\<lambda>r. t_ret (case r of
       Inl e \<Rightarrow> Inl e | Inr None \<Rightarrow> Inr [] | Inr (Some es) \<Rightarrow> Inr es))"

definition history_append :: "'w env \<Rightarrow> string \<Rightarrow> ('w, string + unit) task" where
  "history_append E password =
     t_try (load_or_create_key E) (\<lambda>ks.
     t_try (load_stored_entries E) (\<lambda>stored.
     t_bind (t_io (ge_now (en_gen E))) (\<lambda>now.
     t_bind (t_io (en_ivs E)) (\<lambda>rnd.
     t_try (t_out (map_fail (\<lambda>e. ''encrypting history entry: '' @ error_display e)
              (encrypt_symmetric (en_crypto E) (rnd 0) ks (as_bytes password)))) (\<lambda>c.
     t_bind (t_io (ge_now (en_gen E))) (\<lambda>created.
       t_io (ge_write_history (en_gen E)
         (prune now stored @ [\<lparr>sn_created_at = created,
                               sn_ciphertext = cipherstring_display (en_crypto E) c\<rparr>]))))))))"

definition delete_by_created_at :: "'w env \<Rightarrow> u64 \<Rightarrow> ('w, string + unit) task" where
  "delete_by_created_at E created =
     t_try (load_stored_entries E) (\<lambda>es.
       t_io (ge_write_history (en_gen E) (filter (\<lambda>e. sn_created_at e \<noteq> created) es)))"

definition open_stored :: "crypto \<Rightarrow> keys \<Rightarrow> stored_entry \<Rightarrow> (string, generator_history_entry) fallible" where
  "open_stored C ks e =
     and_try (Ret (map_err (\<lambda>x. ''parsing history ciphertext: '' @ error_display x)
                (cipherstring_new C (sn_ciphertext e)))) (\<lambda>c.
     and_try (map_fail (\<lambda>x. ''decrypting history entry: '' @ error_display x)
                (decrypt_symmetric C c ks None)) (\<lambda>bytes.
     and_try (Ret (ok_or ''history entry was not valid UTF-8'' (from_utf8 bytes))) (\<lambda>password.
       Okay \<lparr>gh_password = Secret password, gh_created_at = sn_created_at e\<rparr>)))"

fun open_all :: "crypto \<Rightarrow> keys \<Rightarrow> stored_entry list \<Rightarrow> (string, generator_history_entry list) fallible" where
  "open_all C ks [] = Okay []"
| "open_all C ks (e # es) =
     and_try (open_stored C ks e) (\<lambda>h. and_try (open_all C ks es) (\<lambda>hs. Okay (h # hs)))"

text \<open>A stable sort, newest first.\<close>

definition newest_first :: "generator_history_entry list \<Rightarrow> generator_history_entry list" where
  "newest_first hs = sort_key (\<lambda>h. - uint (gh_created_at h)) hs"

definition get_pruned_newest_first :: "'w env \<Rightarrow> ('w, string + generator_history_entry list) task" where
  "get_pruned_newest_first E =
     t_try (load_stored_entries E) (\<lambda>raw.
     t_bind (t_io (ge_now (en_gen E))) (\<lambda>now.
       let pruned = prune now raw in
       t_try (if length pruned \<noteq> length raw then t_io (ge_write_history (en_gen E) pruned)
              else t_ret (Inr ())) (\<lambda>_.
       if pruned = [] then t_ret (Inr [])
       else t_try (load_or_create_key E) (\<lambda>ks.
              t_bind (t_out (open_all (en_crypto E) ks pruned))
                (\<lambda>r. t_ret (and_then r (\<lambda>hs. Inr (newest_first hs))))))))"

section \<open>The actions\<close>

definition load_settings :: "'w env \<Rightarrow> 'w \<Rightarrow> error + generator_settings" where
  "load_settings E w = (case ge_load_settings (en_gen E) w of
     Inl e \<Rightarrow> Inl e | Inr None \<Rightarrow> Inr default_generator_settings | Inr (Some s) \<Rightarrow> Inr s)"

definition handle_generate :: "'w env \<Rightarrow> generator_settings option \<Rightarrow> ('w, response) task" where
  "handle_generate E settings =
     t_bind (case settings of
         Some s \<Rightarrow> t_seq (t_ignore (t_io (ge_save_settings (en_gen E) s))) (t_ret s)
       | None \<Rightarrow> t_bind (t_look (load_settings E)) (\<lambda>r. t_ret (case r of
           Inr s \<Rightarrow> s | Inl e \<Rightarrow> default_generator_settings))) (\<lambda>s.
     t_bind (t_io (ge_rng (en_gen E))) (\<lambda>R.
     t_bind (t_out (generate_password R s)) (\<lambda>r. case r of
       Inl message \<Rightarrow> t_ret (Error message)
     | Inr password \<Rightarrow>
         t_seq (t_ignore (history_append E password))
               (t_ret (GeneratedPassword (Secret password))))))"

definition handle_get_settings :: "'w env \<Rightarrow> ('w, response) task" where
  "handle_get_settings E = t_bind (t_look (load_settings E)) (\<lambda>r. t_ret (case r of
     Inr s \<Rightarrow> GeneratorSettings s
   | Inl e \<Rightarrow> Error (''failed to load generator settings: '' @ error_display e)))"

definition handle_get_history :: "'w env \<Rightarrow> ('w, response) task" where
  "handle_get_history E = t_bind (get_pruned_newest_first E) (\<lambda>r. t_ret (case r of
     Inr es \<Rightarrow> PasswordHistory es
   | Inl e \<Rightarrow> Error (''failed to load password history: '' @ e)))"

definition handle_delete_generated :: "'w env \<Rightarrow> u64 \<Rightarrow> ('w, response) task" where
  "handle_delete_generated E created = t_bind (delete_by_created_at E created) (\<lambda>r. t_ret (case r of
     Inr _ \<Rightarrow> Ack
   | Inl e \<Rightarrow> Error (''failed to delete password history entry: '' @ e)))"

fun generator_request :: "'w env \<Rightarrow> action \<Rightarrow> ('w, response) task" where
  "generator_request E (GeneratePassword settings) = handle_generate E settings"
| "generator_request E GetGeneratorSettings = handle_get_settings E"
| "generator_request E GetPasswordHistory = handle_get_history E"
| "generator_request E (DeleteGeneratedPassword created) = handle_delete_generated E created"
| "generator_request E a = t_ret (Error ''not implemented in generator handler'')"

section \<open>Facts about the drawing\<close>

lemma draw_each_ok:
  assumes "rng_ok R" and "[] \<notin> set ps"
  shows "\<exists>cs. draw_each R n ps = Ret cs \<and> list_all2 (\<lambda>c p. c \<in> set p) cs ps"
  using assms(2)
proof (induction ps arbitrary: n)
  case (Cons p ps)
  then obtain c where "c \<in> set p" and "rg_choose R n p = Some c"
    using assms(1) unfolding rng_ok_def by (metis list.set_intros(1))
  with Cons.IH [of "Suc n"] Cons.prems show ?case
    by auto
qed simp

lemma draw_rest_ok:
  assumes "rng_ok R" and "u \<noteq> []"
  shows "\<exists>cs. draw_rest R n k u = Ret cs \<and> length cs = k \<and> set cs \<subseteq> set u"
proof (induction k arbitrary: n)
  case (Suc k)
  obtain c where "c \<in> set u" and "rg_choose R n u = Some c"
    using assms unfolding rng_ok_def by blast
  with Suc.IH [of "Suc n"] show ?case
    by auto
qed simp

lemma pools_nonempty: "p \<in> set (pools_of s) \<Longrightarrow> p \<noteq> []"
  by (auto simp: pools_of_def UPPER_def LOWER_def DIGITS_def SPECIAL_def split: if_splits)

lemma length_pools: "length (pools_of s) \<le> 4"
  by (simp add: pools_of_def)

lemma generate_password_spec:
  assumes "rng_ok R" and "8 \<le> gs_length s" and "gs_length s \<le> 32" and "pools_of s \<noteq> []"
  shows "\<exists>pw. generate_password R s = Okay pw \<and> length pw = unat (gs_length s)
    \<and> set pw \<subseteq> set (concat (pools_of s)) \<and> (\<forall>p \<in> set (pools_of s). set pw \<inter> set p \<noteq> {})"
proof -
  let ?ps = "pools_of s"
  obtain cs where cs: "draw_each R 0 ?ps = Ret cs" "list_all2 (\<lambda>c p. c \<in> set p) cs ?ps"
    using draw_each_ok [OF assms(1)] pools_nonempty by blast
  have u: "concat ?ps \<noteq> []"
    using assms(4) pools_nonempty by (metis concat_eq_Nil_conv last_in_set)
  obtain rs where rs: "draw_rest R (length ?ps) (unat (gs_length s) - length cs) (concat ?ps) = Ret rs"
      "length rs = unat (gs_length s) - length cs" "set rs \<subseteq> set (concat ?ps)"
    using draw_rest_ok [OF assms(1) u] by blast
  define pw where "pw = rg_shuffle R (cs @ rs)"
  have m: "mset pw = mset (cs @ rs)"
    using assms(1) by (simp add: rng_ok_def pw_def)
  have "set pw = set cs \<union> set rs"
    using mset_eq_setD [OF m] by simp
  moreover have "length cs \<le> 4"
    using list_all2_lengthD [OF cs(2)] length_pools [of s] by simp
  moreover have "8 \<le> unat (gs_length s)"
    using assms(2) by (simp add: word_le_nat_alt)
  ultimately have "length pw = unat (gs_length s)"
    using mset_eq_length [OF m] rs(2) by simp
  moreover have "set cs \<subseteq> set (concat ?ps)"
    using cs(2) by (fastforce simp: in_set_conv_nth list_all2_conv_all_nth)
  moreover have "\<forall>p \<in> set ?ps. set cs \<inter> set p \<noteq> {}"
    using cs(2) by (fastforce simp: in_set_conv_nth list_all2_conv_all_nth)
  ultimately show ?thesis
    using cs(1) rs(1,3) assms(2-4) \<open>set pw = _\<close>
    by (intro exI [of _ pw])
       (auto simp: generate_password_def Let_def MIN_LENGTH_def MAX_LENGTH_def pw_def)
qed

lemma generate_password_rejects:
  "\<not> (8 \<le> gs_length s \<and> gs_length s \<le> 32) \<or> pools_of s = [] \<Longrightarrow> \<exists>e. generate_password R s = Fail e"
  by (auto simp: generate_password_def Let_def MIN_LENGTH_def MAX_LENGTH_def)

section \<open>Facts about the history\<close>

lemma prune_idem [simp]: "prune now (prune now es) = prune now es"
  by (simp add: prune_def)

lemma prune_keeps_recent:
  "created \<le> now \<Longrightarrow> now - created \<le> HISTORY_TTL_SECS \<Longrightarrow>
     e \<in> set es \<Longrightarrow> sn_created_at e = created \<Longrightarrow> e \<in> set (prune now es)"
  by (simp add: prune_def saturating_sub_def)

lemma set_newest_first [simp]: "set (newest_first hs) = set hs"
  by (simp add: newest_first_def)

lemma newest_first_sorted: "sorted_wrt (\<lambda>a b. gh_created_at b \<le> gh_created_at a) (newest_first hs)"
  using sorted_sort_key [of "\<lambda>h. - uint (gh_created_at h)" hs]
  by (simp add: newest_first_def sorted_map word_le_def)

lemma open_all_Okay_iff:
  "open_all C ks es = Okay hs \<longleftrightarrow> list_all2 (\<lambda>e h. open_stored C ks e = Okay h) es hs"
proof (induction es arbitrary: hs)
  case (Cons e es)
  then show ?case
    by (cases hs) (auto simp: and_try_Okay_iff)
qed auto

lemma open_all_set:
  "open_all C ks es = Okay hs \<Longrightarrow> set hs = {h. \<exists>e \<in> set es. open_stored C ks e = Okay h}"
  unfolding open_all_Okay_iff by (induction rule: list_all2_induct) auto

lemma open_stored_encrypted:
  assumes "crypto_ok C" and "64 \<le> length ks" and "length iv = 16" and "utf8 pw"
    and "encrypt_symmetric C iv ks (as_bytes pw) = Okay c"
  shows "open_stored C ks \<lparr>sn_created_at = t, sn_ciphertext = cipherstring_display C c\<rparr>
    = Okay \<lparr>gh_password = Secret pw, gh_created_at = t\<rparr>"
proof -
  obtain mac where "c = Symmetric iv (aes_cbc_encrypt C (take 32 ks) iv (as_bytes pw)) (Some mac)"
    using encrypt_symmetric_Okay [OF assms(1,2), of iv "as_bytes pw"] assms(5) by auto
  then have "cipherstring_new C (cipherstring_display C c) = Inr c"
    using parse_display_mac [OF assms(1)] by simp
  then show ?thesis
    using decrypt_encrypt_symmetric(2) [OF assms(1-3,5)] assms(4)
    by (simp add: open_stored_def from_utf8_as_bytes)
qed

text \<open>
  The laws of the store: what was written is read back, the two files are independent, and
  nothing else touches them. \<open>history_ok\<close> is the invariant of the files: every stored entry opens
  under the stored key.
\<close>

definition gen_files_ok :: "'w env \<Rightarrow> bool" where
  "gen_files_ok E \<longleftrightarrow>
     (\<forall>es w w'. ge_write_history (en_gen E) es w = (Inr (), w') \<longrightarrow>
        ge_read_history (en_gen E) w' = Inr (Some es)
        \<and> ge_read_key (en_gen E) w' = ge_read_key (en_gen E) w)
   \<and> (\<forall>k w w'. ge_write_key (en_gen E) k w = (Inr (), w') \<longrightarrow>
        ge_read_key (en_gen E) w' = Inr (Some k)
        \<and> ge_read_history (en_gen E) w' = ge_read_history (en_gen E) w)
   \<and> (\<forall>w t w'. ge_now (en_gen E) w = (t, w') \<longrightarrow> ge_read_key (en_gen E) w' = ge_read_key (en_gen E) w
        \<and> ge_read_history (en_gen E) w' = ge_read_history (en_gen E) w)
   \<and> (\<forall>w r w'. ge_key_bytes (en_gen E) w = (r, w') \<longrightarrow> ge_read_key (en_gen E) w' = ge_read_key (en_gen E) w
        \<and> ge_read_history (en_gen E) w' = ge_read_history (en_gen E) w \<and> (\<forall>k. r = Inr k \<longrightarrow> length k = 64))
   \<and> (\<forall>w rnd w'. en_ivs E w = (rnd, w') \<longrightarrow> ge_read_key (en_gen E) w' = ge_read_key (en_gen E) w
        \<and> ge_read_history (en_gen E) w' = ge_read_history (en_gen E) w \<and> (\<forall>n. length (rnd n) = 16))"

definition stored_of :: "'w env \<Rightarrow> 'w \<Rightarrow> stored_entry list" where
  "stored_of E w = (case ge_read_history (en_gen E) w of Inr (Some es) \<Rightarrow> es | _ \<Rightarrow> [])"

definition opens_with :: "'w env \<Rightarrow> 'w \<Rightarrow> keys \<Rightarrow> bool" where
  "opens_with E w k \<longleftrightarrow> length k = 64 \<and>
     (\<forall>e \<in> set (stored_of E w). \<exists>h. open_stored (en_crypto E) k e = Okay h)"

definition history_ok :: "'w env \<Rightarrow> 'w \<Rightarrow> bool" where
  "history_ok E w \<longleftrightarrow> (case ge_read_key (en_gen E) w of
     Inl e \<Rightarrow> False | Inr None \<Rightarrow> stored_of E w = [] | Inr (Some k) \<Rightarrow> opens_with E w k)"

lemma gen_files_okD:
  assumes "gen_files_ok E"
  shows "ge_write_history (en_gen E) es w = (Inr (), w') \<Longrightarrow>
      ge_read_history (en_gen E) w' = Inr (Some es) \<and> ge_read_key (en_gen E) w' = ge_read_key (en_gen E) w"
    and "ge_write_key (en_gen E) k w = (Inr (), w') \<Longrightarrow>
      ge_read_key (en_gen E) w' = Inr (Some k) \<and> ge_read_history (en_gen E) w' = ge_read_history (en_gen E) w"
    and "ge_now (en_gen E) w = (t, w') \<Longrightarrow>
      ge_read_key (en_gen E) w' = ge_read_key (en_gen E) w \<and> ge_read_history (en_gen E) w' = ge_read_history (en_gen E) w"
    and "ge_key_bytes (en_gen E) w = (Inr k, w') \<Longrightarrow> length k = 64
      \<and> ge_read_key (en_gen E) w' = ge_read_key (en_gen E) w \<and> ge_read_history (en_gen E) w' = ge_read_history (en_gen E) w"
    and "en_ivs E w = (rnd, w') \<Longrightarrow> length (rnd n) = 16
      \<and> ge_read_key (en_gen E) w' = ge_read_key (en_gen E) w \<and> ge_read_history (en_gen E) w' = ge_read_history (en_gen E) w"
  using assms unfolding gen_files_ok_def by (elim conjE, fast)+

lemma load_or_create_key_run:
  assumes "gen_files_ok E" and "history_ok E w" and "load_or_create_key E (s, w) = (Ret (Inr k), y)"
  shows "ge_read_key (en_gen E) (snd y) = Inr (Some k)"
    and "ge_read_history (en_gen E) (snd y) = ge_read_history (en_gen E) w" and "opens_with E w k"
proof -
  have "ge_read_key (en_gen E) (snd y) = Inr (Some k)
    \<and> ge_read_history (en_gen E) (snd y) = ge_read_history (en_gen E) w \<and> opens_with E w k"
  proof (cases "ge_read_key (en_gen E) w")
    case (Inl e)
    with assms(2) show ?thesis
      by (simp add: history_ok_def)
  next
    case (Inr f)
    show ?thesis
    proof (cases f)
      case None
      with Inr assms(3) obtain w1 where b: "ge_key_bytes (en_gen E) w = (Inr k, w1)"
        and k: "ge_write_key (en_gen E) k w1 = (Inr (), snd y)"
        by (auto simp: load_or_create_key_def runs)
      from Inr None assms(2) have "stored_of E w = []"
        by (simp add: history_ok_def)
      with gen_files_okD(4) [OF assms(1) b] gen_files_okD(2) [OF assms(1) k] show ?thesis
        by (simp add: opens_with_def)
    next
      case (Some bytes)
      with Inr assms(2,3) show ?thesis
        by (auto simp: load_or_create_key_def history_ok_def runs split: if_splits)
    qed
  qed
  then show "ge_read_key (en_gen E) (snd y) = Inr (Some k)"
    and "ge_read_history (en_gen E) (snd y) = ge_read_history (en_gen E) w" and "opens_with E w k"
    by auto
qed

lemma load_stored_entries_run:
  "load_stored_entries E x = (Ret (Inr es), y) \<longleftrightarrow>
     y = x \<and> es = stored_of E (snd x) \<and> (\<exists>f. ge_read_history (en_gen E) (snd x) = Inr f)"
  by (auto simp: load_stored_entries_def stored_of_def runs split: sum.splits option.splits)

text \<open>What \<open>append\<close> leaves behind, with the time it stamped.\<close>

lemma history_append_run:
  assumes "crypto_ok (en_crypto E)" and "gen_files_ok E" and "history_ok E w" and "utf8 pw"
    and "history_append E pw (s, w) = (Ret (Inr ()), y)"
  shows "\<exists>now created k e. (\<exists>w. fst (ge_now (en_gen E) w) = created)
    \<and> ge_read_key (en_gen E) (snd y) = Inr (Some k) \<and> opens_with E (snd y) k
    \<and> ge_read_history (en_gen E) (snd y) = Inr (Some (prune now (stored_of E w) @ [e]))
    \<and> sn_created_at e = created
    \<and> open_stored (en_crypto E) k e = Okay \<lparr>gh_password = Secret pw, gh_created_at = created\<rparr>"
proof -
  from assms(5) obtain k y1 now w2 rnd w3 c created w4 where
    key: "load_or_create_key E (s, w) = (Ret (Inr k), y1)"
    and now: "ge_now (en_gen E) (snd y1) = (now, w2)"
    and ivs: "en_ivs E w2 = (rnd, w3)"
    and enc: "encrypt_symmetric (en_crypto E) (rnd 0) k (as_bytes pw) = Okay c"
    and created: "ge_now (en_gen E) w3 = (created, w4)"
    and wr: "ge_write_history (en_gen E) (prune now (stored_of E (snd y1))
        @ [\<lparr>sn_created_at = created, sn_ciphertext = cipherstring_display (en_crypto E) c\<rparr>]) w4 = (Inr (), snd y)"
    by (auto simp: history_append_def load_stored_entries_run runs)
  note k = load_or_create_key_run [OF assms(2,3) key]
  let ?e = "\<lparr>sn_created_at = created, sn_ciphertext = cipherstring_display (en_crypto E) c\<rparr>"
  have st: "stored_of E (snd y1) = stored_of E w"
    using k(2) by (simp add: stored_of_def)
  have "length k = 64" and "length (rnd 0) = 16"
    using k(3) gen_files_okD(5) [OF assms(2) ivs] by (auto simp: opens_with_def)
  then have e: "open_stored (en_crypto E) k ?e = Okay \<lparr>gh_password = Secret pw, gh_created_at = created\<rparr>"
    using open_stored_encrypted [OF assms(1) _ _ assms(4) enc] by simp
  have "ge_read_key (en_gen E) (snd y) = Inr (Some k)"
    using gen_files_okD(1) [OF assms(2) wr] gen_files_okD(3) [OF assms(2) created]
      gen_files_okD(5) [OF assms(2) ivs] gen_files_okD(3) [OF assms(2) now] k(1) by simp
  moreover have h: "ge_read_history (en_gen E) (snd y) = Inr (Some (prune now (stored_of E w) @ [?e]))"
    using gen_files_okD(1) [OF assms(2) wr] st by simp
  moreover have "opens_with E (snd y) k"
    using k(3) e by (auto simp: opens_with_def stored_of_def h prune_def)
  moreover have "\<exists>w. fst (ge_now (en_gen E) w) = created"
    using created by (intro exI [of _ w3]) simp
  ultimately show ?thesis
    using e by (intro exI [of _ now] exI [of _ created] exI [of _ k] exI [of _ ?e]) simp
qed

lemma history_append_ok:
  assumes "crypto_ok (en_crypto E)" and "gen_files_ok E" and "history_ok E w" and "utf8 pw"
    and "history_append E pw (s, w) = (Ret (Inr ()), y)"
  shows "history_ok E (snd y)"
  using history_append_run [OF assms] by (auto simp: history_ok_def)

text \<open>What the history action shows: the recent entries, and nothing else, newest first.\<close>

lemma history_view_run:
  assumes "gen_files_ok E" and "history_ok E w"
    and "get_pruned_newest_first E (s, w) = (Ret (Inr hs), y)"
  shows "\<exists>now w'. ge_now (en_gen E) w = (now, w')
    \<and> (\<forall>k. ge_read_key (en_gen E) w = Inr (Some k) \<longrightarrow>
         set hs = {h. \<exists>e \<in> set (prune now (stored_of E w)). open_stored (en_crypto E) k e = Okay h})"
proof -
  obtain now w1 where now: "ge_now (en_gen E) w = (now, w1)"
    by (cases "ge_now (en_gen E) w")
  define pruned where "pruned = prune now (stored_of E w)"
  from assms(3) now obtain y1 where
    wr: "(if length pruned \<noteq> length (stored_of E w) then t_io (ge_write_history (en_gen E) pruned)
          else t_ret (Inr ())) (s, w1) = (Ret (Inr ()), y1)"
    and rest: "(if pruned = [] then t_ret (Inr [])
       else t_try (load_or_create_key E) (\<lambda>ks. t_bind (t_out (open_all (en_crypto E) ks pruned))
                (\<lambda>r. t_ret (and_then r (\<lambda>hs. Inr (newest_first hs)))))) y1 = (Ret (Inr hs), y)"
    unfolding pruned_def
    by (simp add: get_pruned_newest_first_def load_stored_entries_run Let_def t_bind_run
        t_try_run t_io_run) blast
  have "set hs = {h. \<exists>e \<in> set pruned. open_stored (en_crypto E) k e = Okay h}"
    if key: "ge_read_key (en_gen E) w = Inr (Some k)" for k
  proof (cases "pruned = []")
    case True
    with rest show ?thesis
      by (simp add: runs)
  next
    case False
    have y1: "ge_read_key (en_gen E) (snd y1) = Inr (Some k)"
      using wr key gen_files_okD(3) [OF assms(1) now]
      by (auto simp: runs split: if_splits dest: gen_files_okD(1) [OF assms(1)])
    from False rest obtain ks z ps where "load_or_create_key E y1 = (Ret (Inr ks), z)"
      and all: "open_all (en_crypto E) ks pruned = Okay ps" and hs: "hs = newest_first ps"
      by (auto simp: runs and_then_Inr_iff)
    then have "ks = k"
      using y1 by (auto simp: load_or_create_key_def runs split: if_splits)
    with open_all_set [OF all] show ?thesis
      by (simp add: hs)
  qed
  with now show ?thesis
    unfolding pruned_def by blast
qed

lemma history_view_sorted:
  "get_pruned_newest_first E x = (Ret (Inr hs), y) \<Longrightarrow>
     sorted_wrt (\<lambda>a b. gh_created_at b \<le> gh_created_at a) hs"
  by (auto simp: get_pruned_newest_first_def Let_def runs and_then_Inr_iff newest_first_sorted
      split: if_splits)

text \<open>A clock that stays in one interval of the length of the retention time.\<close>

definition clock_within :: "'w env \<Rightarrow> u64 \<Rightarrow> bool" where
  "clock_within E t0 \<longleftrightarrow> (\<forall>w. t0 \<le> fst (ge_now (en_gen E) w) \<and> fst (ge_now (en_gen E) w) - t0 \<le> HISTORY_TTL_SECS)"

lemma prune_keeps_within:
  assumes "t0 \<le> created" and "t0 \<le> now" and "now - t0 \<le> HISTORY_TTL_SECS"
    and "e \<in> set es" and "sn_created_at e = created"
  shows "e \<in> set (prune now es)"
  using saturating_sub_le [OF assms(1,2)] assms(3-5) by (auto simp: prune_def)

text \<open>A password that was generated is in the history for as long as entries are kept.\<close>

lemma history_append_view:
  assumes "crypto_ok (en_crypto E)" and "gen_files_ok E" and "history_ok E w" and "utf8 pw"
    and "clock_within E t0"
    and "history_append E pw (s, w) = (Ret (Inr ()), y)"
    and "get_pruned_newest_first E (s', snd y) = (Ret (Inr hs), z)"
  shows "\<exists>h \<in> set hs. gh_password h = Secret pw"
proof -
  from history_append_run [OF assms(1-4,6)] obtain now created k e where
    c: "\<exists>w. fst (ge_now (en_gen E) w) = created" and k: "ge_read_key (en_gen E) (snd y) = Inr (Some k)"
    and h: "ge_read_history (en_gen E) (snd y) = Inr (Some (prune now (stored_of E w) @ [e]))"
    and e: "sn_created_at e = created"
      "open_stored (en_crypto E) k e = Okay \<lparr>gh_password = Secret pw, gh_created_at = created\<rparr>"
    by blast
  from history_view_run [OF assms(2) history_append_ok [OF assms(1-4,6)] assms(7)] k obtain now' w' where
    n: "ge_now (en_gen E) (snd y) = (now', w')" and
    hs: "set hs = {h. \<exists>e \<in> set (prune now' (stored_of E (snd y))). open_stored (en_crypto E) k e = Okay h}"
    by blast
  have "t0 \<le> created" and "t0 \<le> now'" and "now' - t0 \<le> HISTORY_TTL_SECS"
    using assms(5) c n unfolding clock_within_def by (metis fst_conv)+
  moreover have "e \<in> set (stored_of E (snd y))"
    using h by (simp add: stored_of_def)
  ultimately have "e \<in> set (prune now' (stored_of E (snd y)))"
    using prune_keeps_within e(1) by blast
  with hs e(2) show ?thesis
    by fastforce
qed

lemma keeps_generator [keeps_rules]: "keeps P (generator_request E a)"
  by (cases a)
    (auto simp: handle_generate_def handle_get_settings_def handle_get_history_def
      handle_delete_generated_def history_append_def delete_by_created_at_def Let_def
      get_pruned_newest_first_def load_or_create_key_def load_stored_entries_def
      intro!: keeps_rules split: option.splits sum.splits)

end
