(* ===== verification/Ssh_Sign.thy ===== *)
theory Ssh_Sign
  imports Agent_Env
begin

text \<open>
  The SSH agent's requests (\<open>cosmarden-agent/src/ssh_agent/mod.rs\<close> and \<open>sign.rs\<close>). A request to
  sign that arrives while the vault is locked asks for an unlock and waits for one; the loop
  re-reads the state after every wait, so the model gives it fuel, one unit a round.
\<close>

section \<open>Signing with an open vault\<close>

type_synonym signature = "string \<times> u8 list"

record sign_request =
  sq_pubkey :: string
  sq_data :: "u8 list"
  sq_flags :: u32

definition SSH_AGENT_RSA_SHA2_256 :: u32 where "SSH_AGENT_RSA_SHA2_256 = 2"
definition SSH_AGENT_RSA_SHA2_512 :: u32 where "SSH_AGENT_RSA_SHA2_512 = 4"

definition rsa_hash_of :: "u32 \<Rightarrow> rsa_hash \<times> string" where
  "rsa_hash_of flags =
     (if Bit_Operations.and flags SSH_AGENT_RSA_SHA2_512 \<noteq> 0 then (Rsa_Sha512, ''rsa-sha2-512'')
      else if Bit_Operations.and flags SSH_AGENT_RSA_SHA2_256 \<noteq> 0 then (Rsa_Sha256, ''rsa-sha2-256'')
      else (Rsa_Sha1, ''ssh-rsa''))"

definition sign_with_key :: "'w env \<Rightarrow> ssh_private \<Rightarrow> u8 list \<Rightarrow> u32 \<Rightarrow> ('w, string + signature) task" where
  "sign_with_key E key data flags = (case key of
     Ed25519_Key k \<Rightarrow> t_ret (sl_ed25519_sign (en_ssh E) k data)
   | Rsa_Key k \<Rightarrow>
       t_try (t_ret (sl_rsa_from_components (en_ssh E) k)) (\<lambda>rsa_key.
         case rsa_hash_of flags of (h, algorithm) \<Rightarrow>
           t_try (t_io (sl_rsa_sign (en_ssh E) h rsa_key data)) (\<lambda>bytes.
             t_ret (sl_signature_new (en_ssh E) algorithm bytes)))
   | Unsupported_Key d \<Rightarrow> t_ret (Inl (''unsupported key type: '' @ d)))"

text \<open>The private key of the first SSH entry with the requested public key, still in its text.\<close>

fun matching_key ::
  "crypto \<Rightarrow> (string \<Rightarrow> string option) \<Rightarrow> keys \<Rightarrow> org_keys \<Rightarrow> string \<Rightarrow> entry list \<Rightarrow> secret option outcome" where
  "matching_key C parse_pk ks orgs pubkey [] = Ret None"
| "matching_key C parse_pk ks orgs pubkey (e # es) =
     (if entry_type_of (e_data e) \<noteq> ET_SshKey then matching_key C parse_pk ks orgs pubkey es
      else (case entry_decrypt C ks orgs e of
        Panic m \<Rightarrow> Panic m
      | Ret de \<Rightarrow> (case e_data de of
          SshKey k \<Rightarrow> (case (sk_private_key k, sk_public_key k) of
            (Some sk, Some pk_str) \<Rightarrow>
              if parse_pk pk_str = Some pubkey then Ret (Some sk)
              else matching_key C parse_pk ks orgs pubkey es
          | _ \<Rightarrow> matching_key C parse_pk ks orgs pubkey es)
        | _ \<Rightarrow> matching_key C parse_pk ks orgs pubkey es)))"

definition sign_unlocked :: "'w env \<Rightarrow> agent \<Rightarrow> sign_request \<Rightarrow> ('w, string + signature) task" where
  "sign_unlocked E s q = (case (st_keys s, st_db s) of
     (Some ks, Some d) \<Rightarrow>
       t_bind (t_out (matching_key (en_crypto E) (en_parse_pk E) ks (orgs_or_empty (st_org_keys s))
                 (sq_pubkey q) (db_entries d))) (\<lambda>found. case found of
         None \<Rightarrow> t_ret (Inl ''no matching key found'')
       | Some sk \<Rightarrow>
           t_try (t_ret (sl_from_openssh (en_ssh E) (expose sk))) (\<lambda>key.
             sign_with_key E key (sq_data q) (sq_flags q)))
   | _ \<Rightarrow> t_ret (Inl ''agent is locked''))"

section \<open>Waiting for an unlock\<close>

fun sign_loop :: "nat \<Rightarrow> 'w env \<Rightarrow> sign_request \<Rightarrow> nat \<Rightarrow> ('w, (string + signature) option) task" where
  "sign_loop 0 E q deadline = t_ret None"
| "sign_loop (Suc n) E q deadline =
     t_seq (t_lock E) (t_bind (t_get (\<lambda>s. s)) (\<lambda>s.
       if st_keys s \<noteq> None then t_bind (sign_unlocked E s q) (\<lambda>r. t_ret (Some r))
       else t_seq (t_mod request_unlock)
         (if \<not> cache_has_pubkey (st_ssh_identity_cache s) (sq_pubkey q)
          then t_ret (Some (Inl ''no matching key found''))
          else t_bind (t_look (en_instant E)) (\<lambda>now.
            if deadline \<le> now then t_ret (Some (Inl ''unlock wait timed out''))
            else t_bind (t_io (en_wait_session E deadline)) (\<lambda>r. case r of
              Wait_Timeout \<Rightarrow> t_ret (Some (Inl ''unlock wait timed out''))
            | Wait_Closed \<Rightarrow> t_ret (Some (Inl ''agent is locked''))
            | Wait_LoggedOut \<Rightarrow> t_ret (Some (Inl ''agent is locked''))
            | Wait_Unlocked \<Rightarrow> sign_loop n E q deadline)))))"

definition ssh_sign :: "nat \<Rightarrow> 'w env \<Rightarrow> bool \<Rightarrow> nat \<Rightarrow> sign_request \<Rightarrow> ('w, (string + signature) option) task" where
  "ssh_sign fuel E authorized wait q =
     (if \<not> authorized then t_ret (Some (Inl ''unauthorized peer''))
      else t_bind (t_look (en_instant E)) (\<lambda>now. sign_loop fuel E q (now + wait)))"

definition ssh_request_identities :: "'w env \<Rightarrow> bool \<Rightarrow> ('w, (string \<times> string) list) task" where
  "ssh_request_identities E authorized =
     (if \<not> authorized then t_ret []
      else t_seq (t_lock E) (t_bind (t_get (\<lambda>s. fst (list_identities s))) (\<lambda>ids.
             t_seq (t_mod (\<lambda>s. snd (list_identities s))) (t_ret ids))))"

section \<open>Facts\<close>

text \<open>A key that signs is one of the database, decrypted with the keys of the open vault.\<close>

lemma matching_key_sound:
  assumes "matching_key C pp ks orgs pk es = Ret (Some sk)"
  shows "\<exists>e \<in> set es. \<exists>k. entry_decrypt C ks orgs e = Ret (decrypted C ks orgs e)
    \<and> e_data (decrypted C ks orgs e) = SshKey k \<and> sk_private_key k = Some sk
    \<and> (\<exists>t. sk_public_key k = Some t \<and> pp t = Some pk)"
  using assms
proof (induction es)
  case (Cons e es)
  show ?case
  proof (cases "\<exists>k t. entry_decrypt C ks orgs e = Ret (decrypted C ks orgs e)
      \<and> e_data (decrypted C ks orgs e) = SshKey k \<and> sk_private_key k = Some sk
      \<and> sk_public_key k = Some t \<and> pp t = Some pk")
    case False
    then have "matching_key C pp ks orgs pk es = Ret (Some sk)"
      using Cons.prems
      by (auto simp: entry_decrypt_def decrypted_def Let_def
          split: if_splits outcome.splits entry_data.splits option.splits)
    with Cons.IH show ?thesis
      by (meson list.set_intros(2))
  qed (meson list.set_intros(1))
qed simp

lemma keeps_sign_unlocked [keeps_rules]: "keeps P (sign_unlocked E s q)"
  by (auto simp: sign_unlocked_def sign_with_key_def intro!: keeps_rules
      split: option.splits ssh_private.splits prod.splits)

lemma keeps_sign_loop [keeps_rules]:
  assumes "sched_keeps P E" and "\<And>s. P s \<Longrightarrow> P (request_unlock s)"
  shows "keeps P (sign_loop n E q deadline)"
proof (induction n)
  case (Suc n)
  then show ?case
    using assms by (auto intro!: keeps_rules split: wait_result.splits)
qed (simp add: keeps_rules)

lemma keeps_ssh [keeps_rules]:
  assumes "sched_keeps P E" and "\<And>s. P s \<Longrightarrow> P (request_unlock s)"
  shows "keeps P (ssh_sign n E a w q)" and "keeps P (ssh_request_identities E a)"
  using assms by (auto simp: ssh_sign_def ssh_request_identities_def list_identities_def Let_def intro!: keeps_rules)

text \<open>Fuel: a round that does not end in another wait answers.\<close>

lemma sign_loop_answers:
  assumes "st_keys (fst (en_sched E x)) = None"
    and "\<not> cache_has_pubkey (st_ssh_identity_cache (fst (en_sched E x))) (sq_pubkey q)"
  shows "sign_loop (Suc n) E q dl x =
    (Ret (Some (Inl ''no matching key found'')), request_unlock (fst (en_sched E x)), snd (en_sched E x))"
  using assms by (simp add: t_seq_def t_bind_def t_lock_def t_get_def t_mod_def t_ret_def)

lemma sign_loop_deadline:
  assumes "st_keys (fst (en_sched E x)) = None" and "dl \<le> en_instant E (snd (en_sched E x))"
  shows "\<exists>m. fst (sign_loop (Suc n) E q dl x) = Ret (Some (Inl m))"
  using assms by (simp add: t_seq_def t_bind_def t_lock_def t_get_def t_mod_def t_ret_def t_look_def)

lemma sign_loop_unlocked:
  assumes "st_keys (fst (en_sched E x)) \<noteq> None"
  shows "sign_loop (Suc n) E q dl x =
    t_bind (sign_unlocked E (fst (en_sched E x)) q) (\<lambda>r. t_ret (Some r)) (en_sched E x)"
  using assms by (simp add: t_seq_def t_bind_def t_lock_def t_get_def)

text \<open>Every signature was made in a state whose vault was open, by a key of that vault.\<close>

lemma sign_loop_sound:
  assumes "sign_loop n E q dl x = (Ret (Some (Inr sig)), y)"
  shows "\<exists>s w ks d sk. st_keys s = Some ks \<and> st_db s = Some d
    \<and> matching_key (en_crypto E) (en_parse_pk E) ks (orgs_or_empty (st_org_keys s)) (sq_pubkey q) (db_entries d)
        = Ret (Some sk)
    \<and> sign_unlocked E s q (s, w) = (Ret (Inr sig), y)"
  using assms
proof (induction n arbitrary: x)
  case (Suc n)
  obtain s w where x: "en_sched E x = (s, w)"
    by (cases "en_sched E x")
  show ?case
  proof (cases "st_keys s")
    case None
    then obtain z where "sign_loop n E q dl z = (Ret (Some (Inr sig)), y)"
      using Suc.prems x
      by (auto simp: runs split: if_splits wait_result.splits) (metis wait_result.exhaust)
    then show ?thesis
      by (rule Suc.IH)
  next
    case (Some ks)
    then have sg: "sign_unlocked E s q (s, w) = (Ret (Inr sig), y)"
      using Suc.prems x by (auto simp: runs)
    then obtain d sk where "st_db s = Some d" and "matching_key (en_crypto E) (en_parse_pk E) ks
        (orgs_or_empty (st_org_keys s)) (sq_pubkey q) (db_entries d) = Ret (Some sk)"
      using Some by (auto simp: sign_unlocked_def runs split: option.splits)
    with Some sg show ?thesis
      by blast
  qed
qed (simp add: runs)

section \<open>The wait ends\<close>

text \<open>Time passes while the task waits, and never runs back while others run.\<close>

definition clock_advances :: "'w env \<Rightarrow> bool" where
  "clock_advances E \<longleftrightarrow> (\<forall>d w w'. en_wait_session E d w = (Wait_Unlocked, w') \<longrightarrow> en_instant E w < en_instant E w')
     \<and> (\<forall>x. en_instant E (snd x) \<le> en_instant E (snd (en_sched E x)))"

lemma sign_unlocked_answers: "fst (t_bind (sign_unlocked E s q) (\<lambda>r. t_ret (Some r)) x) \<noteq> Ret None"
  by (auto simp: t_bind_def t_ret_def split: prod.splits outcome.splits)

lemma sign_loop_ends:
  assumes "clock_advances E" and "dl - en_instant E (snd x) < n"
  shows "fst (sign_loop n E q dl x) \<noteq> Ret None"
  using assms(2)
proof (induction n arbitrary: x)
  case (Suc n)
  define z where "z = en_sched E x"
  have le: "en_instant E (snd x) \<le> en_instant E (snd z)"
    using assms(1) unfolding clock_advances_def z_def by blast
  show ?case
  proof (cases "st_keys (fst z) \<noteq> None")
    case True
    then show ?thesis
      using sign_unlocked_answers by (simp add: z_def sign_loop_unlocked del: sign_loop.simps)
  next
    case False
    obtain r w where r: "en_wait_session E dl (snd z) = (r, w)"
      by (cases "en_wait_session E dl (snd z)")
    have "fst (sign_loop n E q dl (request_unlock (fst z), w)) \<noteq> Ret None"
      if "r = Wait_Unlocked" and "\<not> dl \<le> en_instant E (snd z)"
    proof (rule Suc.IH)
      have "en_instant E (snd z) < en_instant E w"
        using assms(1) r that(1) unfolding clock_advances_def by blast
      then show "dl - en_instant E (snd (request_unlock (fst z), w)) < n"
        using Suc.prems le that(2) by simp
    qed
    with False r show ?thesis
      by (auto simp: t_seq_def t_bind_def t_lock_def t_get_def t_mod_def t_ret_def t_look_def t_io_def
          z_def [symmetric] split: wait_result.splits)
  qed
qed simp

end
