(* ===== verification/Autolock.thy ===== *)
theory Autolock
  imports Agent_State
begin

text \<open>
  The inactivity timer of \<open>cosmarden-agent/src/timeout.rs\<close>: its two atomics, the length of one
  sleep, and the rounds of the check loop. One round takes the clock readings it makes as
  arguments; \<open>autolock_run\<close> is the loop for a clock that moves only while the task sleeps and a
  user who does nothing.
\<close>

record timer =
  tm_last_activity :: u64
  tm_timeout :: u64

definition MAX_SLEEP :: u64 where "MAX_SLEEP = 30"

definition remaining_sleep_secs :: "u64 \<Rightarrow> u64 \<Rightarrow> u64 \<Rightarrow> u64" where
  "remaining_sleep_secs now last' timeout =
     (if timeout = 0 then MAX_SLEEP
      else let elapsed = saturating_sub now last' in
        if timeout \<le> elapsed then 0 else min (timeout - elapsed) MAX_SLEEP)"

definition timer_reset :: "u64 \<Rightarrow> timer \<Rightarrow> timer" where
  "timer_reset now t = t\<lparr>tm_last_activity := now\<rparr>"

definition set_duration :: "u64 \<Rightarrow> u64 \<Rightarrow> timer \<Rightarrow> timer" where
  "set_duration now seconds t = timer_reset now (t\<lparr>tm_timeout := seconds\<rparr>)"

definition timer_new :: "u64 \<Rightarrow> u64 \<Rightarrow> timer" where
  "timer_new now seconds = \<lparr>tm_last_activity = now, tm_timeout = seconds\<rparr>"

text \<open>The first half of a round: how long to sleep, and whether the round ends there.\<close>

definition first_sleep :: "timer \<Rightarrow> u64 \<Rightarrow> u64 \<times> bool" where
  "first_sleep t now =
     (if tm_timeout t = 0 then (MAX_SLEEP, True)
      else (remaining_sleep_secs now (tm_last_activity t) (tm_timeout t), False))"

text \<open>The second half, on the timer and the state as they are after the sleep.\<close>

definition autolock_fires :: "timer \<Rightarrow> u64 \<Rightarrow> bool" where
  "autolock_fires t now \<longleftrightarrow> tm_timeout t \<noteq> 0 \<and> tm_timeout t \<le> saturating_sub now (tm_last_activity t)"

definition autolock_check :: "timer \<Rightarrow> u64 \<Rightarrow> agent \<Rightarrow> agent" where
  "autolock_check t now s = (if autolock_fires t now \<and> st_keys s \<noteq> None then lock s else s)"

definition last_sleep :: "timer \<Rightarrow> u64 \<Rightarrow> u64" where
  "last_sleep t now = (if autolock_fires t now then MAX_SLEEP else 0)"

text \<open>Rounds until the vault is locked, with the time at which that is; \<open>None\<close> is out of fuel.\<close>

fun autolock_run :: "nat \<Rightarrow> timer \<Rightarrow> u64 \<Rightarrow> agent \<Rightarrow> (u64 \<times> agent) option" where
  "autolock_run 0 t now s = None"
| "autolock_run (Suc n) t now s =
     (case first_sleep t now of (sleep, idle) \<Rightarrow>
       let now1 = now + sleep in
       if idle then autolock_run n t now1 s
       else if autolock_fires t now1 then Some (now1, autolock_check t now1 s)
       else autolock_run n t (now1 + last_sleep t now1) s)"

section \<open>Facts\<close>

lemma remaining_sleep_capped: "remaining_sleep_secs now l timeout \<le> MAX_SLEEP"
  by (simp add: remaining_sleep_secs_def Let_def)

lemma remaining_sleep_zero_iff:
  "remaining_sleep_secs now l timeout = 0 \<longleftrightarrow> timeout \<noteq> 0 \<and> timeout \<le> saturating_sub now l"
proof -
  have "min (timeout - saturating_sub now l) MAX_SLEEP \<noteq> 0" if "\<not> timeout \<le> saturating_sub now l"
    using that by (auto simp: min_def MAX_SLEEP_def)
  then show ?thesis
    by (auto simp: remaining_sleep_secs_def Let_def MAX_SLEEP_def)
qed

text \<open>The check never locks early.\<close>

lemma autolock_only_when_due:
  assumes "autolock_check t now s \<noteq> s"
  shows "tm_timeout t \<noteq> 0 \<and> tm_last_activity t \<le> now \<and> tm_timeout t \<le> now - tm_last_activity t"
  using assms by (auto simp: autolock_check_def autolock_fires_def saturating_sub_def split: if_splits)

text \<open>
  Before the deadline \<open>last + timeout\<close> a round sleeps to the deadline or for 30 seconds, so the
  loop reaches the deadline exactly, after one round for every 30 seconds started.
\<close>

lemma saturating_sub_elapsed:
  assumes "e \<le> tm_timeout t" and "unat (tm_last_activity t) + unat (tm_timeout t) < 2 ^ 64"
  shows "saturating_sub (tm_last_activity t + e) (tm_last_activity t) = e"
proof -
  have "unat (tm_last_activity t) + unat e < 2 ^ 64"
    using assms by (simp add: word_le_nat_alt)
  then have "tm_last_activity t \<le> tm_last_activity t + e"
    by (simp add: no_olen_add_nat)
  then show ?thesis
    by (simp add: saturating_sub_def)
qed

lemma autolock_run_elapsed:
  assumes "tm_timeout t \<noteq> 0" and "unat (tm_last_activity t) + unat (tm_timeout t) < 2 ^ 64"
    and "e < tm_timeout t" and "unat (tm_timeout t - e) \<le> 30 * n"
  shows "autolock_run n t (tm_last_activity t + e) s =
    Some (tm_last_activity t + tm_timeout t, autolock_check t (tm_last_activity t + tm_timeout t) s)"
  using assms(3,4)
proof (induction n arbitrary: e)
  case 0
  then have "tm_timeout t - e = 0"
    by (simp add: unat_eq_0)
  with 0 show ?case
    by simp
next
  case (Suc n)
  let ?l = "tm_last_activity t" and ?T = "tm_timeout t"
  have first: "first_sleep t (?l + e) = (min (?T - e) MAX_SLEEP, False)"
    using saturating_sub_elapsed [OF less_imp_le [OF Suc.prems(1)] assms(2)] Suc.prems(1) [unfolded not_le [symmetric]] assms(1)
    by (simp add: first_sleep_def remaining_sleep_secs_def Let_def)
  show ?case
  proof (cases "?T - e \<le> MAX_SLEEP")
    case True
    then have "first_sleep t (?l + e) = (?T - e, False)" and "?l + e + (?T - e) = ?l + ?T"
      using first by (simp_all add: min_def)
    moreover have "autolock_fires t (?l + ?T)"
      using saturating_sub_elapsed [OF _ assms(2), of ?T] assms(1) by (simp add: autolock_fires_def)
    ultimately show ?thesis
      by (simp add: Let_def)
  next
    case False
    then have s: "first_sleep t (?l + e) = (MAX_SLEEP, False)"
      using first by (simp add: min_def)
    have big: "30 < unat (?T - e)"
      using False by (simp add: MAX_SLEEP_def word_le_nat_alt)
    have ue: "unat (?T - e) = unat ?T - unat e"
      using Suc.prems(1) by (simp add: unat_sub less_imp_le)
    have ue30: "unat (e + 30) = unat e + 30"
      using big ue unsigned_less [where ?'a = nat, of ?T] by (simp add: unat_word_ariths)
    then have lt: "e + 30 < ?T"
      using big ue by (simp add: word_less_nat_alt)
    then have "unat (?T - (e + 30)) = unat ?T - (unat e + 30)"
      using ue30 by (simp add: unat_sub less_imp_le)
    then have "unat (?T - (e + 30)) \<le> 30 * n"
      using Suc.prems(2) ue by simp
    note IH = Suc.IH [OF lt this]
    have "\<not> autolock_fires t (?l + (e + 30))"
      using saturating_sub_elapsed [OF _ assms(2), of "e + 30"] lt by (simp add: autolock_fires_def not_le)
    with s IH show ?thesis
      by (simp add: MAX_SLEEP_def last_sleep_def Let_def add.assoc)
  qed
qed

end
