(* ===== verification/Agent_Dispatch.thy ===== *)
theory Agent_Dispatch
  imports Tpm_Pin Generator Ssh_Sign Autolock
begin

text \<open>
  The request dispatch of \<open>cosmarden-agent/src/handler.rs\<close> over the four groups of handlers
  (\<open>handler/auth/mod.rs\<close>, \<open>handler/vault/mod.rs\<close>, \<open>handler/subscription_handler.rs\<close>,
  \<open>handler/generator/mod.rs\<close>), and the body of the connection loop of \<open>lib.rs\<close>: the frame cap,
  the inactivity timer, and what a new subscriber receives.
\<close>

section \<open>Subscription and control\<close>

definition quit_requested :: "agent \<Rightarrow> agent" where
  "quit_requested s = s\<lparr>st_shutdown_tx := map_option Suc (st_shutdown_tx s)\<rparr>"

definition set_pending_entry :: "string \<Rightarrow> agent \<Rightarrow> agent" where
  "set_pending_entry i s = (broadcast (OpenEntry i) s)\<lparr>st_pending_entry_id := Some i\<rparr>"

fun subscription_request :: "'w env \<Rightarrow> action \<Rightarrow> ('w, response) task" where
  "subscription_request E Subscribe = t_ret Ack"
| "subscription_request E RequestUnlock = t_seq (t_lock E) (t_seq (t_mod request_unlock) (t_ret Ack))"
| "subscription_request E (SetPendingEntry i) =
     t_seq (t_lock E) (t_seq (t_mod (set_pending_entry i)) (t_ret Ack))"
| "subscription_request E Quit = t_seq (t_lock E) (t_seq (t_mod quit_requested) (t_ret Ack))"
| "subscription_request E a = t_ret (Error ''not implemented in subscription handler'')"

section \<open>Authentication\<close>

fun auth_request :: "'w env \<Rightarrow> action \<Rightarrow> ('w, response) task" where
  "auth_request E Action_Version = handle_version E"
| "auth_request E GetConfig = handle_get_config E"
| "auth_request E Action_Lock = handle_lock E"
| "auth_request E Logout = handle_logout E"
| "auth_request E (Action_Register email password server_url) = handle_register E email password server_url"
| "auth_request E (Action_Login q) = handle_login E q"
| "auth_request E (Action_Unlock password) = handle_unlock E password"
| "auth_request E CheckTpm = handle_check_tpm E"
| "auth_request E CheckTpmDiagnostics = handle_check_tpm_diagnostics E"
| "auth_request E GetTpmDaStatus = handle_get_tpm_da_status E"
| "auth_request E (SetupTpmPin master_password pin) = handle_setup_tpm_pin E master_password pin"
| "auth_request E (SetupTpmPinFromUnlocked pin) = handle_setup_tpm_pin_from_unlocked E pin"
| "auth_request E (UnlockWithPin pin) = handle_unlock_with_pin E pin"
| "auth_request E DisableTpmPin = handle_disable_tpm_pin E"
| "auth_request E a = t_ret (Error ''not implemented in auth handler'')"

section \<open>Dispatch\<close>

datatype group = G_Auth | G_Vault | G_Subscription | G_Generator | G_Intercepted

primrec group_of :: "action \<Rightarrow> group" where
  "group_of (Action_Register e p s) = G_Auth"
| "group_of (Action_Login r) = G_Auth"
| "group_of (Action_Unlock p) = G_Auth"
| "group_of Action_Lock = G_Auth"
| "group_of Action_Sync = G_Vault"
| "group_of GetConfig = G_Auth"
| "group_of (GetEntries q t p) = G_Vault"
| "group_of (GetSidebarEntries q t p d) = G_Vault"
| "group_of (GetEntry i p) = G_Vault"
| "group_of (GetPassword i p) = G_Vault"
| "group_of (GetTotp i p) = G_Vault"
| "group_of (CopyToClipboard i) = G_Vault"
| "group_of (PinEntry i) = G_Vault"
| "group_of (UnpinEntry i) = G_Vault"
| "group_of (AddEntry n) = G_Vault"
| "group_of (AddSecureNote n t f) = G_Vault"
| "group_of (AddCard n c t f) = G_Vault"
| "group_of (AddIdentity n i t f) = G_Vault"
| "group_of (AddSshKey n k p t f) = G_Vault"
| "group_of (AddBankAccount n b t f) = G_Vault"
| "group_of (AddDriversLicense n d t f) = G_Vault"
| "group_of (AddPassport n p t f) = G_Vault"
| "group_of (SetPendingEntry i) = G_Subscription"
| "group_of RequestUnlock = G_Subscription"
| "group_of (GetEntryMeta i) = G_Vault"
| "group_of Quit = G_Subscription"
| "group_of Action_Version = G_Auth"
| "group_of (DeleteEntry i) = G_Vault"
| "group_of (UpdateEntry e) = G_Vault"
| "group_of Logout = G_Auth"
| "group_of Subscribe = G_Subscription"
| "group_of (SetupTpmPin m p) = G_Auth"
| "group_of (SetupTpmPinFromUnlocked p) = G_Auth"
| "group_of (UnlockWithPin p) = G_Auth"
| "group_of DisableTpmPin = G_Auth"
| "group_of CheckTpm = G_Auth"
| "group_of CheckTpmDiagnostics = G_Auth"
| "group_of GetTpmDaStatus = G_Auth"
| "group_of (UpdateLockTimeout s) = G_Intercepted"
| "group_of (CheckLoginMatch d u p) = G_Vault"
| "group_of (UpdateLoginPassword i p) = G_Vault"
| "group_of (GeneratePassword s) = G_Generator"
| "group_of GetGeneratorSettings = G_Generator"
| "group_of GetPasswordHistory = G_Generator"
| "group_of (DeleteGeneratedPassword c) = G_Generator"

definition handle_request :: "'w env \<Rightarrow> action \<Rightarrow> ('w, response) task" where
  "handle_request E a = (case group_of a of
     G_Auth \<Rightarrow> auth_request E a
   | G_Vault \<Rightarrow> vault_request E a
   | G_Subscription \<Rightarrow> subscription_request E a
   | G_Generator \<Rightarrow> generator_request E a
   | G_Intercepted \<Rightarrow> t_ret Ack)"

section \<open>One request of a connection\<close>

definition MAX_IPC_FRAME_BYTES :: nat where
  "MAX_IPC_FRAME_BYTES = 8 * 1024 * 1024"

fun is_non_activity :: "action \<Rightarrow> bool" where
  "is_non_activity Action_Lock = True"
| "is_non_activity Logout = True"
| "is_non_activity Quit = True"
| "is_non_activity Subscribe = True"
| "is_non_activity Action_Version = True"
| "is_non_activity GetConfig = True"
| "is_non_activity (UpdateLockTimeout s) = True"
| "is_non_activity a = False"

fun is_error :: "response \<Rightarrow> bool" where
  "is_error (Error m) = True"
| "is_error r = False"

text \<open>The handling of a parsed request together with its effect on the inactivity timer.\<close>

definition serve_action :: "'w env \<Rightarrow> timer \<Rightarrow> action \<Rightarrow> ('w, response \<times> timer) task" where
  "serve_action E t a = (case a of
     UpdateLockTimeout seconds \<Rightarrow>
       t_bind (t_look (en_now_secs E)) (\<lambda>now. t_ret (Ack, set_duration now seconds t))
   | _ \<Rightarrow>
       t_bind (handle_request E a) (\<lambda>r.
       t_bind (t_look (en_now_secs E)) (\<lambda>now.
         t_ret (r, if \<not> is_non_activity a \<and> \<not> is_error r then timer_reset now t else t))))"

text \<open>
  What the connection does with one frame: the reply it writes, if any, and whether it goes on
  with the next frame, becomes an event stream, or closes. \<open>len\<close> is the announced length, \<open>buf\<close>
  the bytes read for it.
\<close>

datatype connection_next = Next_Frame | Stream_Events | Close

definition serve_frame ::
  "'w env \<Rightarrow> timer \<Rightarrow> u32 \<Rightarrow> u8 list \<Rightarrow> ('w, u8 list option \<times> connection_next \<times> timer) task" where
  "serve_frame E t len buf =
     (if MAX_IPC_FRAME_BYTES < unat len then t_ret (None, Close, t)
      else case en_decode_action E buf of
        Inl e \<Rightarrow> t_ret (Some (en_encode_response E (Error (''invalid request: '' @ e))), Close, t)
      | Inr a \<Rightarrow> t_bind (serve_action E t a) (\<lambda>(r, t).
          let bytes = en_encode_response E r in
          t_ret (if MAX_IPC_FRAME_BYTES < length bytes then (None, Close, t)
                 else (Some bytes, if a = Subscribe then Stream_Events else Next_Frame, t))))"

text \<open>The subscriber that a streaming connection registers.\<close>

definition new_subscriber :: "string option \<Rightarrow> subscriber" where
  "new_subscriber pending = \<lparr>sub_alive = True,
     sub_events = (case pending of Some i \<Rightarrow> [OpenEntry i] | None \<Rightarrow> [])\<rparr>"

definition subscribe :: "agent \<Rightarrow> agent" where
  "subscribe s = s\<lparr>st_pending_entry_id := None,
     st_subscribers := st_subscribers s @ [new_subscriber (st_pending_entry_id s)]\<rparr>"

text \<open>The receiver of a subscriber is dropped when its connection ends.\<close>

definition disconnect :: "nat \<Rightarrow> agent \<Rightarrow> agent" where
  "disconnect i s = (if i < length (st_subscribers s)
     then s\<lparr>st_subscribers := (st_subscribers s)[i := (st_subscribers s ! i)\<lparr>sub_alive := False\<rparr>]\<rparr> else s)"

text \<open>The state at startup, once the configuration has been looked at.\<close>

definition agent_start :: "u64 \<Rightarrow> u64 \<Rightarrow> error + config \<Rightarrow> (string \<Rightarrow> string \<Rightarrow> bool) \<Rightarrow> agent" where
  "agent_start nanos pid cfg blob_exists =
     (agent_new (session_id nanos pid))\<lparr>st_shutdown_tx := Some 0,
       st_tpm_configured := (case cfg of Inl e \<Rightarrow> False | Inr c \<Rightarrow>
         (case cfg_email c of Some email \<Rightarrow> cfg_tpm_enabled c \<and> blob_exists (server_name c) email | None \<Rightarrow> False))\<rparr>"

section \<open>Facts\<close>

lemma group_of_auth: "group_of a \<noteq> G_Auth \<Longrightarrow> auth_request E a = t_ret (Error ''not implemented in auth handler'')"
  by (cases a) auto

lemma group_of_vault: "group_of a \<noteq> G_Vault \<Longrightarrow> vault_request E a = t_ret (Error ''not implemented in vault handler'')"
  by (cases a) auto

text \<open>Only a request that is activity and succeeds, or a change of the timeout, moves the timer.\<close>

lemma serve_action_timer:
  assumes "serve_action E t a x = (Ret (r, t'), y)" and "t' \<noteq> t"
  shows "(\<not> is_non_activity a \<and> \<not> is_error r) \<or> (\<exists>s. a = UpdateLockTimeout s)"
  using assms by (cases a) (auto simp: serve_action_def runs split: if_splits)

end
