(* ===== verification/Agent_Steps.thy ===== *)
theory Agent_Steps
  imports Agent_Dispatch
begin

text \<open>
  The agent as a state machine. \<open>agent_step\<close> has one rule for each way in which the code changes
  the shared state under its lock; every handler, whatever the tasks it interleaves with do, is
  a sequence of such steps (\<open>agent_invariant.handle_request_keeps\<close>). Invariants are proved once
  on the steps and hold for all handlers.
\<close>

section \<open>Steps\<close>

definition bookkeeping ::
  "string option \<Rightarrow> string set \<Rightarrow> bool \<Rightarrow> string option \<Rightarrow> string option \<Rightarrow> bool \<Rightarrow> nat option \<Rightarrow> agent \<Rightarrow> agent" where
  "bookkeeping uid pinned failed err pending tpm tx s =
     s\<lparr>st_user_id := uid, st_pinned_ids := pinned, st_sync_failed := failed, st_last_sync_error := err,
       st_pending_entry_id := pending, st_tpm_configured := tpm, st_shutdown_tx := tx\<rparr>"

fun is_prompt :: "event \<Rightarrow> bool" where
  "is_prompt UnlockRequested = True"
| "is_prompt PinRequested = True"
| "is_prompt ev = False"

inductive agent_step :: "crypto \<Rightarrow> (string \<Rightarrow> string option) \<Rightarrow> agent \<Rightarrow> agent \<Rightarrow> bool" for C pp where
  step_lock: "agent_step C pp s (lock s)"
| step_clear: "agent_step C pp s (clear_account s)"
| step_request: "agent_step C pp s (request_unlock s)"
| step_install: "agent_step C pp s (install_vault ks orgs d s)"
| step_rebuild: "rebuild_sidebar_cache C pp s = Ret s' \<Longrightarrow> agent_step C pp s s'"
| step_announce: "\<not> is_prompt ev \<Longrightarrow> ev \<noteq> Locked \<Longrightarrow> agent_step C pp s (broadcast ev s)"
| step_db: "d \<noteq> None \<or> st_keys s = None \<Longrightarrow> agent_step C pp s (s\<lparr>st_db := d\<rparr>)"
| step_book: "agent_step C pp s (bookkeeping uid pinned failed err pending tpm tx s)"
| step_subscribe: "agent_step C pp s (subscribe s)"
| step_disconnect: "agent_step C pp s (disconnect i s)"

inductive_cases agent_stepE: "agent_step C pp s s'"

section \<open>Handlers take steps\<close>

locale agent_invariant =
  fixes C :: crypto
    and pp :: "string \<Rightarrow> string option"
    and P :: "agent \<Rightarrow> bool"
  assumes step: "P s \<Longrightarrow> agent_step C pp s s' \<Longrightarrow> P s'"
begin

lemma book: "P s \<Longrightarrow> P (bookkeeping uid pinned failed err pending tpm tx s)"
  by (blast intro: step step_book)

lemma user_id: "P s \<Longrightarrow> P (s\<lparr>st_user_id := u\<rparr>)"
  using book [of s u "st_pinned_ids s" "st_sync_failed s" "st_last_sync_error s"
      "st_pending_entry_id s" "st_tpm_configured s" "st_shutdown_tx s"]
  by (simp add: bookkeeping_def)

lemma pinned: "P s \<Longrightarrow> P (s\<lparr>st_pinned_ids := p\<rparr>)"
  using book [of s "st_user_id s" p "st_sync_failed s" "st_last_sync_error s"
      "st_pending_entry_id s" "st_tpm_configured s" "st_shutdown_tx s"]
  by (simp add: bookkeeping_def)

lemma flags: "P s \<Longrightarrow> P (s\<lparr>st_sync_failed := f, st_last_sync_error := e\<rparr>)"
  using book [of s "st_user_id s" "st_pinned_ids s" f e
      "st_pending_entry_id s" "st_tpm_configured s" "st_shutdown_tx s"]
  by (simp add: bookkeeping_def)

lemma pending: "P s \<Longrightarrow> P (s\<lparr>st_pending_entry_id := i\<rparr>)"
  using book [of s "st_user_id s" "st_pinned_ids s" "st_sync_failed s" "st_last_sync_error s"
      i "st_tpm_configured s" "st_shutdown_tx s"]
  by (simp add: bookkeeping_def)

lemma tpm: "P s \<Longrightarrow> P (set_tpm_configured b s)"
  using book [of s "st_user_id s" "st_pinned_ids s" "st_sync_failed s" "st_last_sync_error s"
      "st_pending_entry_id s" b "st_shutdown_tx s"]
  by (simp add: bookkeeping_def set_tpm_configured_def)

lemma quit: "P s \<Longrightarrow> P (quit_requested s)"
  using book [of s "st_user_id s" "st_pinned_ids s" "st_sync_failed s" "st_last_sync_error s"
      "st_pending_entry_id s" "st_tpm_configured s" "map_option Suc (st_shutdown_tx s)"]
  by (simp add: bookkeeping_def quit_requested_def)

lemma failed: "P s \<Longrightarrow> P (mark_failed e s)"
  unfolding mark_failed_def by (rule flags)

lemma announce: "P s \<Longrightarrow> P (broadcast VaultChanged s)" "P s \<Longrightarrow> P (broadcast Unlocked s)"
    "P s \<Longrightarrow> P (broadcast (OpenEntry i) s)"
  by (rule step [OF _ step_announce], simp_all)+

lemma set_pending: "P s \<Longrightarrow> P (set_pending_entry i s)"
  unfolding set_pending_entry_def by (intro pending announce)

lemma db: "P s \<Longrightarrow> P (upd_db f s)"
proof -
  assume P: "P s"
  show ?thesis
  proof (cases "st_db s")
    case None
    then have "upd_db f s = s"
      by (cases s) (simp add: upd_db_def)
    with P show ?thesis
      by simp
  next
    case (Some d)
    then have "agent_step C pp s (s\<lparr>st_db := Some (f d)\<rparr>)"
      by (intro step_db) simp
    with P Some show ?thesis
      by (auto simp: upd_db_def intro: step)
  qed
qed

lemma load_db: "P s \<Longrightarrow> P (s\<lparr>st_db := Some d\<rparr>)"
  by (rule step, assumption, rule step_db) simp

lemma ignores: "ignores_tokens P"
  by (simp add: ignores_tokens_def db)

lemma lockings: "P s \<Longrightarrow> P (lock s)" "P s \<Longrightarrow> P (clear_account s)" "P s \<Longrightarrow> P (request_unlock s)"
  by (blast intro: step step_lock step_clear step_request)+

lemma install: "P s \<Longrightarrow> P (install_vault ks orgs d s)"
  by (blast intro: step step_install)

lemma login: "P s \<Longrightarrow> P (install_login ks orgs uid d s)"
  unfolding install_login_def by (intro flags install user_id)

lemma rebuild_keeps:
  assumes "en_crypto E = C" and "en_parse_pk E = pp"
  shows "keeps P (t_rebuild E)"
  unfolding t_rebuild_def assms by (rule keeps_run) (blast intro: step step_rebuild)

lemma synced: "P s \<Longrightarrow> P (s\<lparr>st_pinned_ids := p, st_sync_failed := f, st_last_sync_error := e\<rparr>)"
  using flags [OF pinned [of s p], where f = f and e = e] by simp

lemma favorite: "P s \<Longrightarrow> P (favorite_locally i fav s)"
  unfolding favorite_locally_def by (intro db pinned)

lemmas state_changes = user_id pinned flags pending tpm quit failed announce set_pending db load_db
  lockings install login synced favorite

lemma keeps_with_session:
  "sched_keeps P E \<Longrightarrow> (\<And>t. keeps P (f t)) \<Longrightarrow> keeps P (with_refresh E f)"
  by (rule keeps_with_refresh [OF _ ignores])

lemmas session_rules = keeps_with_session keeps_adopt_tokens [OF _ ignores] keeps_restore_session [OF _ ignores]

lemma sync_keeps:
  assumes "sched_keeps P E" and "en_crypto E = C" and "en_parse_pk E = pp"
  shows "keeps P (handle_sync E)"
  unfolding handle_sync_def store_sync_def finish_sync_def
  by (auto intro!: assms keeps_rules session_rules state_changes rebuild_keeps
      split: sum.splits option.splits)

lemma then_sync_keeps:
  assumes "sched_keeps P E" and "en_crypto E = C" and "en_parse_pk E = pp" and "keeps P m"
  shows "keeps P (then_sync E what m)"
  unfolding then_sync_def server_failed_def
  by (auto intro!: assms sync_keeps keeps_rules state_changes split: sum.splits)

lemma with_config_keeps: "(\<And>c. keeps P (f c)) \<Longrightarrow> keeps P (with_config E f)"
  unfolding with_config_def by (auto intro!: keeps_rules split: sum.splits)

lemma with_keys_keeps: "sched_keeps P E \<Longrightarrow> (\<And>k. keeps P (f k)) \<Longrightarrow> keeps P (with_keys E f)"
  unfolding with_keys_def by (auto intro!: keeps_rules split: option.splits)

lemma entry_on_server_keeps:
  assumes "sched_keeps P E"
  shows "keeps P (update_entry_on_server E e cfg ks)" and "keeps P (add_entry_on_server E e cfg ks)"
  unfolding update_entry_on_server_def add_entry_on_server_def t_enc_def with_user_id_def
  by (auto intro!: assms keeps_rules session_rules split: option.splits)

lemma update_keeps:
  assumes "sched_keeps P E" and "en_crypto E = C" and "en_parse_pk E = pp"
  shows "keeps P (handle_update_entry E e)"
  unfolding handle_update_entry_def merge_stored_def Let_def
  by (auto intro!: assms keeps_rules with_config_keeps with_keys_keeps then_sync_keeps entry_on_server_keeps
      split: option.splits prod.splits)

lemma add_keeps:
  assumes "sched_keeps P E" and "en_crypto E = C" and "en_parse_pk E = pp"
  shows "keeps P (add_entry_to_server E e)"
  unfolding add_entry_to_server_def
  by (auto intro!: assms keeps_rules with_config_keeps with_keys_keeps then_sync_keeps entry_on_server_keeps)

lemma favorite_keeps:
  assumes "sched_keeps P E" and "en_crypto E = C" and "en_parse_pk E = pp"
  shows "keeps P (set_favorite E i fav)"
  unfolding set_favorite_def server_failed_def
  by (auto intro!: assms keeps_rules with_config_keeps session_rules state_changes rebuild_keeps
      split: option.splits prod.splits sum.splits)

lemma read_keeps: "sched_keeps P E \<Longrightarrow> keeps P (t_read E f)"
  unfolding t_read_def t_seq_def t_bind_def t_lock_def keeps_def sched_keeps_def by auto

lemma vault_request_keeps:
  assumes "sched_keeps P E" and "en_crypto E = C" and "en_parse_pk E = pp"
  shows "keeps P (vault_request E a)"
proof -
  have pw: "keeps P (handle_update_login_password E i p)" for i p
    unfolding handle_update_login_password_def
    by (auto intro!: assms keeps_rules update_keeps split: option.splits prod.splits entry_data.splits)
  have del: "keeps P (handle_delete_entry E i)" for i
    unfolding handle_delete_entry_def
    by (auto intro!: assms keeps_rules with_config_keeps then_sync_keeps session_rules)
  have ad: "keeps P (handle_add_entry E n)" for n
    unfolding handle_add_entry_def by (auto intro!: assms keeps_rules add_keeps split: entry_type.splits)
  show ?thesis
    by (cases a) (simp_all add: assms keeps_ret read_keeps sync_keeps del update_keeps favorite_keeps ad add_keeps pw creations)
qed

lemma load_account_keeps: "(\<And>m d. keeps P (f m d)) \<Longrightarrow> keeps P (load_account E a b c f)"
  unfolding load_account_def by (auto intro!: keeps_rules split: sum.splits option.splits)

lemma announce_keeps:
  assumes "en_crypto E = C" and "en_parse_pk E = pp"
  shows "keeps P (announce_unlocked E)"
  unfolding announce_unlocked_def
  by (auto intro!: keeps_rules state_changes rebuild_keeps assms)

lemma commit_keeps:
  assumes "sched_keeps P E" and "en_crypto E = C" and "en_parse_pk E = pp"
  shows "keeps P (commit_unlock E ks orgs d)"
  unfolding commit_unlock_def by (auto intro!: assms keeps_rules state_changes announce_keeps)

lemma after_unlock_keeps: "sched_keeps P E \<Longrightarrow> keeps P (after_unlock E r)"
  unfolding after_unlock_def by (auto intro!: keeps_rules state_changes split: sum.splits)

lemma keyring_keeps: "keeps P (keyring_tokens E cfg m d)"
  unfolding keyring_tokens_def by (auto intro!: keeps_rules)

lemma unlock_keeps:
  assumes "sched_keeps P E" and "en_crypto E = C" and "en_parse_pk E = pp"
  shows "keeps P (handle_unlock E pw)"
  unfolding handle_unlock_def unlock_with_password_def settle_session_def Let_def
  by (auto intro!: assms keeps_rules with_config_keeps load_account_keeps keyring_keeps commit_keeps
      session_rules after_unlock_keeps split: sum.splits)

lemma client_keeps: "keeps P (client_prelogin E c m)" "keeps P (http_send E q)" "keeps P (register_legacy E c b)"
    "keeps P (client_register E c m n h k t i)"
  unfolding client_prelogin_def register_legacy_def client_register_def http_send_def Let_def
  by (auto intro!: keeps_rules)

lemma login_keeps:
  assumes "sched_keeps P E" and "en_crypto E = C" and "en_parse_pk E = pp"
  shows "keeps P (handle_login E q)"
  unfolding handle_login_def finish_login_def Let_def
  by (auto intro!: assms keeps_rules client_keeps state_changes announce_keeps
      split: sum.splits option.splits bool.splits error.splits)

lemma register_keeps: "keeps P (handle_register E m p u)"
  unfolding handle_register_def Let_def
  by (auto intro!: keeps_rules client_keeps split: sum.splits)

lemma config_keeps:
  assumes "sched_keeps P E"
  shows "keeps P (handle_get_config E)" and "keeps P (handle_lock E)" and "keeps P (handle_logout E)"
  unfolding handle_get_config_def load_missing_db_def handle_lock_def handle_logout_def Let_def
  by (auto intro!: assms keeps_rules with_config_keeps state_changes split: sum.splits option.splits)

lemma seal_keeps: "sched_keeps P E \<Longrightarrow> keeps P (seal_and_enable E c m ks pin)"
  unfolding seal_and_enable_def tpm_seal_def
  by (auto intro!: keeps_rules state_changes split: sum.splits)

lemma pin_setup_keeps:
  assumes "sched_keeps P E"
  shows "keeps P (handle_setup_tpm_pin E mp pin)" and "keeps P (handle_setup_tpm_pin_from_unlocked E pin)"
  unfolding handle_setup_tpm_pin_def handle_setup_tpm_pin_from_unlocked_def with_pin_and_tpm_def
    with_email_def Let_def
  by (auto intro!: assms keeps_rules with_config_keeps load_account_keeps seal_keeps
      split: sum.splits option.splits)

lemma pin_unlock_keeps:
  assumes "sched_keeps P E" and "en_crypto E = C" and "en_parse_pk E = pp"
  shows "keeps P (handle_unlock_with_pin E pin)"
  unfolding handle_unlock_with_pin_def unlock_with_unsealed_def settle_pin_session_def tpm_unseal_def Let_def
  by (auto intro!: assms keeps_rules with_config_keeps load_account_keeps keyring_keeps commit_keeps
      session_rules after_unlock_keeps split: sum.splits option.splits)

lemma pin_status_keeps:
  assumes "sched_keeps P E"
  shows "keeps P (handle_disable_tpm_pin E)" and "keeps P (handle_check_tpm E)"
    and "keeps P (handle_get_tpm_da_status E)" and "keeps P (handle_check_tpm_diagnostics E)"
  unfolding handle_disable_tpm_pin_def handle_check_tpm_def handle_get_tpm_da_status_def
    handle_check_tpm_diagnostics_def with_email_def
  by (auto intro!: assms keeps_rules with_config_keeps state_changes split: sum.splits option.splits)

lemma auth_request_keeps:
  assumes "sched_keeps P E" and "en_crypto E = C" and "en_parse_pk E = pp"
  shows "keeps P (auth_request E a)"
  by (cases a) (simp_all add: assms keeps_ret handle_version_def config_keeps register_keeps login_keeps
      unlock_keeps pin_setup_keeps pin_unlock_keeps pin_status_keeps)

lemma subscription_keeps: "sched_keeps P E \<Longrightarrow> keeps P (subscription_request E a)"
  by (cases a) (auto intro!: keeps_rules state_changes)

text \<open>The theorem of this locale: no request, whatever it interleaves with, breaks the invariant.\<close>

lemma handle_request_keeps:
  assumes "sched_keeps P E" and "en_crypto E = C" and "en_parse_pk E = pp"
  shows "keeps P (handle_request E a)"
  unfolding handle_request_def
  by (cases "group_of a")
    (simp_all add: assms keeps_ret auth_request_keeps vault_request_keeps subscription_keeps keeps_generator)

lemma serve_action_keeps:
  assumes "sched_keeps P E" and "en_crypto E = C" and "en_parse_pk E = pp"
  shows "keeps P (serve_action E t a)"
  unfolding serve_action_def
  by (auto intro!: keeps_rules handle_request_keeps assms split: action.splits)

lemma serve_frame_keeps:
  assumes "sched_keeps P E" and "en_crypto E = C" and "en_parse_pk E = pp"
  shows "keeps P (serve_frame E t len buf)"
  unfolding serve_frame_def Let_def
  by (auto intro!: keeps_rules serve_action_keeps assms split: sum.splits)

lemma run_job_keeps:
  assumes "sched_keeps P E" and "en_crypto E = C" and "en_parse_pk E = pp"
  shows "keeps P (run_job E j)"
  unfolding run_job_def by (auto intro!: keeps_rules sync_keeps assms split: job.splits)

lemma ssh_keeps:
  "sched_keeps P E \<Longrightarrow> keeps P (ssh_sign n E b w q)" "sched_keeps P E \<Longrightarrow> keeps P (ssh_request_identities E b)"
  by (auto intro!: keeps_ssh state_changes)

lemma autolock_keeps: "P s \<Longrightarrow> P (autolock_check t now s)"
  by (simp add: autolock_check_def lockings)

lemma run_keeps: "(agent_step C pp)\<^sup>*\<^sup>* s s' \<Longrightarrow> P s \<Longrightarrow> P s'"
  by (induction rule: rtranclp_induct) (auto intro: step)

end

section \<open>The steps themselves as an invariant\<close>

text \<open>
  Being reachable from \<open>s0\<close> is an invariant, so every handler's effect on the state is a sequence
  of steps when that of the other tasks is.
\<close>

interpretation reached: agent_invariant C pp "(agent_step C pp)\<^sup>*\<^sup>* s0" for C pp s0
  by unfold_locales (rule rtranclp.rtrancl_into_rtrancl)

definition sched_steps :: "'w env \<Rightarrow> bool" where
  "sched_steps E \<longleftrightarrow> (\<forall>x. (agent_step (en_crypto E) (en_parse_pk E))\<^sup>*\<^sup>* (fst x) (fst (en_sched E x)))"

lemma sched_steps_reached:
  "sched_steps E \<Longrightarrow> sched_keeps ((agent_step (en_crypto E) (en_parse_pk E))\<^sup>*\<^sup>* s0) E"
  unfolding sched_steps_def sched_keeps_def by (meson rtranclp_trans)

lemma handle_request_run:
  assumes "sched_steps E"
  shows "(agent_step (en_crypto E) (en_parse_pk E))\<^sup>*\<^sup>* (fst x) (fst (snd (handle_request E a x)))"
  using reached.handle_request_keeps [OF sched_steps_reached [OF assms] refl refl]
  unfolding keeps_def by blast

section \<open>Keys, caches and session agree\<close>

text \<open>How open a session is, as an order: logged out, locked, unlocked.\<close>

primrec openness :: "vault_session \<Rightarrow> nat" where
  "openness VS_LoggedOut = 0"
| "openness VS_Locked = 1"
| "openness VS_Unlocked = 2"

instantiation vault_session :: linorder
begin

definition less_eq_vault_session :: "vault_session \<Rightarrow> vault_session \<Rightarrow> bool" where
  "less_eq_vault_session a b \<longleftrightarrow> openness a \<le> openness b"

definition less_vault_session :: "vault_session \<Rightarrow> vault_session \<Rightarrow> bool" where
  "less_vault_session a b \<longleftrightarrow> openness a < openness b"

instance
proof
  fix a b c :: vault_session
  show "a < b \<longleftrightarrow> a \<le> b \<and> \<not> b \<le> a"
    by (auto simp: less_eq_vault_session_def less_vault_session_def)
  show "a \<le> a" and "a \<le> b \<or> b \<le> a"
    by (auto simp: less_eq_vault_session_def)
  show "a \<le> c" if "a \<le> b" and "b \<le> c"
    using that by (simp add: less_eq_vault_session_def)
  show "a = b" if "a \<le> b" and "b \<le> a"
    using that by (cases a; cases b) (auto simp: less_eq_vault_session_def)
qed

end

lemmas openness_simps [simp] = less_eq_vault_session_def less_vault_session_def

definition agent_ok :: "agent \<Rightarrow> bool" where
  "agent_ok s \<longleftrightarrow>
     (st_keys s = None \<longrightarrow> st_org_keys s = None \<and> st_sidebar_cache s = [] \<and> st_session s \<le> VS_Locked)
   \<and> (st_keys s \<noteq> None \<longrightarrow> st_org_keys s \<noteq> None \<and> st_db s \<noteq> None)
   \<and> (st_session s = VS_LoggedOut \<longrightarrow> st_ssh_identity_cache s = [])"

lemma agent_ok_rebuild:
  assumes "agent_ok s" and "rebuild_sidebar_cache C pp s = Ret s'"
  shows "agent_ok s'"
proof (cases "st_keys s")
  case None
  with assms show ?thesis
    by (auto simp: agent_ok_def)
next
  case (Some ks)
  with assms rebuild_fields [OF assms(2)] show ?thesis
    by (auto simp: agent_ok_def)
qed

lemma agent_ok_step:
  assumes "agent_ok s" and "agent_step C pp s s'"
  shows "agent_ok s'"
  using assms(2)
proof cases
  case step_rebuild
  with assms(1) show ?thesis
    by (rule agent_ok_rebuild)
next
  case (step_disconnect i)
  with assms(1) show ?thesis
    by (simp add: agent_ok_def disconnect_def)
qed (use assms(1) in \<open>auto simp: agent_ok_def install_vault_def bump_epoch_def bookkeeping_def subscribe_def\<close>)

interpretation ok: agent_invariant C pp agent_ok for C pp
  by unfold_locales (rule agent_ok_step)

lemma agent_ok_start: "agent_ok (agent_start nanos pid cfg blob)"
  by (simp add: agent_ok_def agent_start_def agent_new_def)

section \<open>One unlock prompt per lock period\<close>

text \<open>
  Over the events a subscriber has received: \<open>prompted\<close> says whether a prompt came after the last
  \<open>Locked\<close>, \<open>separated\<close> that there is a \<open>Locked\<close> between any two prompts.
\<close>

definition prompted :: "event list \<Rightarrow> bool" where
  "prompted evs \<longleftrightarrow> list_ex is_prompt (takeWhile (\<lambda>e. e \<noteq> Locked) (rev evs))"

definition separated :: "event list \<Rightarrow> bool" where
  "separated evs \<longleftrightarrow> (\<forall>a p b q c. evs = a @ p # b @ q # c \<longrightarrow> is_prompt p \<longrightarrow> is_prompt q \<longrightarrow> Locked \<in> set b)"

lemma prompted_snoc: "prompted (evs @ [e]) \<longleftrightarrow> e \<noteq> Locked \<and> (is_prompt e \<or> prompted evs)"
  by (simp add: prompted_def)

lemma not_prompted_since:
  assumes "\<not> prompted (a @ p # b)" and "is_prompt p"
  shows "Locked \<in> set b"
proof (rule ccontr)
  assume n: "Locked \<notin> set b"
  have "p \<noteq> Locked"
    using assms(2) by auto
  with n have "takeWhile (\<lambda>e. e \<noteq> Locked) (rev (a @ p # b))
      = rev b @ p # takeWhile (\<lambda>e. e \<noteq> Locked) (rev a)"
    by simp (subst takeWhile_append2, auto)
  with assms show False
    by (simp add: prompted_def)
qed

lemma separated_snoc:
  assumes "separated evs" and "is_prompt e \<Longrightarrow> \<not> prompted evs"
  shows "separated (evs @ [e])"
  unfolding separated_def
proof (intro allI impI)
  fix a p b q c
  assume eq: "evs @ [e] = a @ p # b @ q # c" and p: "is_prompt p" and q: "is_prompt q"
  show "Locked \<in> set b"
  proof (cases c rule: rev_cases)
    case Nil
    with eq have "evs = a @ p # b" and "e = q"
      by auto
    with assms(2) p q show ?thesis
      by (blast intro: not_prompted_since)
  next
    case (snoc c' d)
    with eq have "evs = a @ p # b @ q # c'"
      by auto
    with assms(1) p q show ?thesis
      unfolding separated_def by blast
  qed
qed

definition prompts_ok :: "agent \<Rightarrow> bool" where
  "prompts_ok s \<longleftrightarrow> (\<forall>u \<in> set (st_subscribers s). separated (sub_events u)
     \<and> (prompted (sub_events u) \<longrightarrow> st_unlock_requested_notified s))"

lemma separated_short: "length evs \<le> 1 \<Longrightarrow> separated evs"
  by (auto simp: separated_def)

lemma prompts_ok_broadcast:
  assumes "prompts_ok s" and "\<not> is_prompt ev"
  shows "prompts_ok (broadcast ev s)"
  using assms by (auto simp: prompts_ok_def subscribers_broadcast prompted_snoc intro!: separated_snoc)

lemma prompts_ok_request:
  assumes "prompts_ok s"
  shows "prompts_ok (request_unlock s)"
  using assms
  by (auto simp: request_unlock_def prompts_ok_def subscribers_broadcast prompted_snoc intro!: separated_snoc)

lemma prompts_ok_lock:
  assumes "prompts_ok s"
  shows "prompts_ok (lock s)"
  using assms
  by (auto simp: lock_def bump_epoch_def Let_def prompts_ok_def subscribers_broadcast prompted_snoc
      intro!: separated_snoc)

lemma prompts_ok_cong:
  "st_subscribers s' = st_subscribers s \<Longrightarrow>
     st_unlock_requested_notified s' = st_unlock_requested_notified s \<Longrightarrow> prompts_ok s \<Longrightarrow> prompts_ok s'"
  by (simp add: prompts_ok_def)

lemma prompts_ok_subscribe: "prompts_ok s \<Longrightarrow> prompts_ok (subscribe s)"
  by (auto simp: prompts_ok_def subscribe_def new_subscriber_def prompted_def
      intro!: separated_short split: option.splits)

lemma prompts_ok_disconnect: "prompts_ok s \<Longrightarrow> prompts_ok (disconnect i s)"
  by (auto simp: prompts_ok_def disconnect_def dest!: subsetD [OF set_update_subset_insert])

lemma prompts_ok_frame [simp]:
  "prompts_ok (s\<lparr>st_db := d\<rparr>) = prompts_ok s" "prompts_ok (install_vault ks orgs x s) = prompts_ok s"
  "prompts_ok (bookkeeping uid pinned failed err pending tpm tx s) = prompts_ok s"
  by (simp_all add: prompts_ok_def install_vault_def bump_epoch_def bookkeeping_def)

lemma prompts_ok_step:
  assumes "prompts_ok s" and "agent_step C pp s s'"
  shows "prompts_ok s'"
  using assms(2)
proof cases
  case step_clear
  then show ?thesis
    using prompts_ok_lock [OF assms(1)] by (simp add: clear_account_def prompts_ok_def)
next
  case step_rebuild
  from rebuild_fields(5,8) [OF this] assms(1) show ?thesis
    by (rule prompts_ok_cong)
qed (use assms(1) in \<open>auto intro: prompts_ok_lock prompts_ok_request prompts_ok_broadcast
  prompts_ok_subscribe prompts_ok_disconnect\<close>)

interpretation prompts: agent_invariant C pp prompts_ok for C pp
  by unfold_locales (rule prompts_ok_step)

section \<open>The lock epoch\<close>

text \<open>\<open>epoch_run s0 n s\<close>: \<open>s\<close> came about from \<open>s0\<close> with \<open>n\<close> locks and unlocks on the way.\<close>

inductive epoch_run :: "agent \<Rightarrow> nat \<Rightarrow> agent \<Rightarrow> bool" for s0 where
  epoch_start: "epoch_run s0 0 s0"
| epoch_same: "epoch_run s0 n s \<Longrightarrow> st_keys s' = st_keys s \<Longrightarrow> st_lock_epoch s' = st_lock_epoch s \<Longrightarrow> epoch_run s0 n s'"
| epoch_turn: "epoch_run s0 n s \<Longrightarrow> st_lock_epoch s' = st_lock_epoch s + 1 \<Longrightarrow> epoch_run s0 (Suc n) s'"

lemma epoch_run_count: "epoch_run s0 n s \<Longrightarrow> st_lock_epoch s = st_lock_epoch s0 + word_of_nat n"
  by (induction rule: epoch_run.induct) auto

lemma epoch_run_none: "epoch_run s0 n s \<Longrightarrow> n = 0 \<Longrightarrow> st_keys s = st_keys s0"
  by (induction rule: epoch_run.induct) auto

lemma agent_step_epoch:
  assumes "agent_step C pp s s'"
  shows "st_keys s' = st_keys s \<and> st_lock_epoch s' = st_lock_epoch s \<or> st_lock_epoch s' = st_lock_epoch s + 1"
  using assms
proof cases
  case step_rebuild
  then show ?thesis
    by (simp add: rebuild_fields)
next
  case (step_disconnect i)
  then show ?thesis
    by (simp add: disconnect_def)
qed (auto simp: install_vault_def bump_epoch_def bookkeeping_def subscribe_def)

lemma epoch_run_step: "epoch_run s0 n s \<Longrightarrow> agent_step C pp s s' \<Longrightarrow> \<exists>n. epoch_run s0 n s'"
  using agent_step_epoch by (blast intro: epoch_run.intros)

interpretation epochs: agent_invariant C pp "\<lambda>s. \<exists>n. epoch_run s0 n s" for C pp s0
  by unfold_locales (blast intro: epoch_run_step)

end
