(* ===== verification/Vault_Effects.thy ===== *)
theory Vault_Effects
  imports Vault_Ops
begin

text \<open>
  What the mutating vault handlers do: the effect of a finished sync, the race of a failed sync
  with a lock, what a locked agent answers, the pinned ids, and that an insecure server address
  stops every request before it is sent.
\<close>

section \<open>Branches of a run\<close>

lemma run_sum:
  "case_sum f g r x = y \<longleftrightarrow> (\<exists>e. r = Inl e \<and> f e x = y) \<or> (\<exists>a. r = Inr a \<and> g a x = y)"
  by (cases r) auto

lemma run_option:
  "case_option f g r x = y \<longleftrightarrow> (r = None \<and> f x = y) \<or> (\<exists>a. r = Some a \<and> g a x = y)"
  by (cases r) auto

lemma run_if: "(if b then f else g) x = y \<longleftrightarrow> (b \<and> f x = y) \<or> (\<not> b \<and> g x = y)"
  by simp

lemma run_prod: "case_prod f p x = y \<longleftrightarrow> (\<exists>a b. p = (a, b) \<and> f a b x = y)"
  by (cases p) auto

lemmas branches = run_sum run_option run_if run_prod

section \<open>Sync\<close>

lemma apply_sync_fields [simp]:
  "db_entries (apply_sync r d) = sy_entries r" "db_access_token (apply_sync r d) = db_access_token d"
  "db_refresh_token (apply_sync r d) = db_refresh_token d" "db_kdf (apply_sync r d) = db_kdf d"
  "db_iterations (apply_sync r d) = db_iterations d" "db_memory (apply_sync r d) = db_memory d"
  "db_parallelism (apply_sync r d) = db_parallelism d"
  "db_protected_key (apply_sync r d) = Some (Secret (sy_key r))"
  by (simp_all add: apply_sync_def)

text \<open>The state in which a rebuild runs and what it leaves, for an open vault.\<close>

definition caches_of :: "'w env \<Rightarrow> entry list \<Rightarrow> agent \<Rightarrow> bool" where
  "caches_of E es s \<longleftrightarrow> map (se_id \<circ> ce_entry) (st_sidebar_cache s) = map e_id es
     \<and> st_ssh_identity_cache s = List.map_filter (ssh_identity_of (en_parse_pk E)) (st_sidebar_cache s)"

lemma caches_of_broadcast [simp]: "caches_of E es (broadcast ev s) = caches_of E es s"
  by (simp add: caches_of_def)

lemma t_rebuild_run:
  assumes "t_rebuild E x = (Ret u, y)" and "st_keys (fst x) = Some ks" and "st_db (fst x) = Some d"
  shows "caches_of E (db_entries d) (fst y)" and "st_session (fst y) = VS_Unlocked"
proof -
  from assms(1) have r: "rebuild_sidebar_cache (en_crypto E) (en_parse_pk E) (fst x) = Ret (fst y)"
    by (auto simp: t_rebuild_def runs)
  from build_rows_ids [OF rebuild_unlocked(1) [OF r assms(2,3)]] rebuild_unlocked(2) [OF r assms(2,3)]
  show "caches_of E (db_entries d) (fst y)"
    by (simp add: caches_of_def)
  from rebuild_fields(10) [OF r] assms(2) show "st_session (fst y) = VS_Unlocked"
    by simp
qed

lemma t_rebuild_frame:
  assumes "t_rebuild E x = (Ret u, y)"
  shows "st_keys (fst y) = st_keys (fst x)" "st_db (fst y) = st_db (fst x)"
    "st_pinned_ids (fst y) = st_pinned_ids (fst x)" "st_sync_failed (fst y) = st_sync_failed (fst x)"
    "st_user_id (fst y) = st_user_id (fst x)" "st_lock_epoch (fst y) = st_lock_epoch (fst x)"
    "st_org_keys (fst y) = st_org_keys (fst x)" "snd y = snd x"
  using assms by (auto simp: t_rebuild_def runs rebuild_fields)

lemma rebuild_error:
  "rebuild_sidebar_cache C pp s = Ret s' \<Longrightarrow> st_last_sync_error s' = st_last_sync_error s"
  by (auto simp: rebuild_sidebar_cache_def rebuild_from_sidebar_def Let_def split: outcome.splits if_splits)

lemma finish_sync_run:
  assumes "finish_sync E r x = (Ret a, y)"
  shows "a = Ack" and "st_db (fst y) = st_db (fst x)" and "st_keys (fst y) = st_keys (fst x)"
    and "st_pinned_ids (fst y) = favorite_ids (sy_entries r)" and "st_user_id (fst y) = st_user_id (fst x)"
    and "\<not> st_sync_failed (fst y)" and "st_last_sync_error (fst y) = None"
    and "st_keys (fst x) = Some ks \<Longrightarrow> st_db (fst x) = Some d \<Longrightarrow> caches_of E (db_entries d) (fst y)"
proof -
  let ?x = "(fst x)\<lparr>st_pinned_ids := favorite_ids (sy_entries r), st_sync_failed := False, st_last_sync_error := None\<rparr>"
  from assms obtain z where z: "t_rebuild E (?x, snd x) = (Ret (), z)"
    and y: "y = (broadcast VaultChanged (fst z), snd z)" and a: "a = Ack"
    by (auto simp: finish_sync_def runs)
  note f = t_rebuild_frame [OF z]
  show "a = Ack" and "st_db (fst y) = st_db (fst x)" and "st_keys (fst y) = st_keys (fst x)"
    and "st_pinned_ids (fst y) = favorite_ids (sy_entries r)" and "st_user_id (fst y) = st_user_id (fst x)"
    and "\<not> st_sync_failed (fst y)"
    using f a by (simp_all add: y)
  show "st_last_sync_error (fst y) = None"
    using z by (auto simp: y t_rebuild_def runs dest: rebuild_error)
  show "caches_of E (db_entries d) (fst y)" if "st_keys (fst x) = Some ks" and "st_db (fst x) = Some d"
    using t_rebuild_run(1) [OF z, of ks d] that by (simp add: y)
qed

text \<open>
  The result of a sync that acknowledges: what the server returned is in the database, the flags
  are clear, and with an open vault the caches show exactly its entries.
\<close>

lemma store_sync_run:
  assumes "store_sync E r x = (Ret Ack, y)" and "st_db (fst (en_sched E x)) = Some d"
  shows "st_db (fst y) = Some (apply_sync r d)" and "st_user_id (fst y) = Some (sy_user_id r)"
    and "st_pinned_ids (fst y) = favorite_ids (sy_entries r)" and "\<not> st_sync_failed (fst y)"
    and "st_keys (fst (en_sched E x)) = Some ks \<Longrightarrow> caches_of E (sy_entries r) (fst y)"
proof -
  let ?s = "fst (en_sched E x)"
  let ?s1 = "upd_db (apply_sync r) (?s\<lparr>st_user_id := Some (sy_user_id r)\<rparr>)"
  from assms obtain w where fin: "finish_sync E r (?s1, w) = (Ret Ack, y)"
    by (auto simp: store_sync_def config_error_def t_ignore_def runs split: sum.splits option.splits)
  note f = finish_sync_run [OF fin]
  show "st_db (fst y) = Some (apply_sync r d)" and "st_user_id (fst y) = Some (sy_user_id r)"
    and "st_pinned_ids (fst y) = favorite_ids (sy_entries r)" and "\<not> st_sync_failed (fst y)"
    using f assms(2) by (simp_all add: upd_db_def)
  show "caches_of E (sy_entries r) (fst y)" if "st_keys ?s = Some ks"
    using f(8) [of ks "apply_sync r d"] assms(2) that by (simp add: upd_db_def)
qed

text \<open>The call that \<open>handle_sync\<close> makes, on the state after its first lock.\<close>

definition sync_call :: "'w env \<Rightarrow> ('w, string + sync_result) task" where
  "sync_call E = with_refresh E (\<lambda>at. t_try (t_look (load_config E)) (\<lambda>cfg. client_sync E (client_of cfg) at))"

lemma handle_sync_failed:
  assumes "sync_call E (en_sched E x) = (Ret (Inl e), y)"
  defines "z \<equiv> en_sched E y"
  shows "handle_sync E x =
    (if st_keys (fst z) = None \<and> st_keys (fst (en_sched E x)) \<noteq> None then (Ret Ack, z)
     else (Ret (Error (''sync failed: '' @ e)), mark_failed e (fst z), snd z))"
  using assms
  by (simp add: handle_sync_def sync_call_def t_seq_def t_bind_def t_lock_def t_get_def t_ret_def
      t_mod_def failed_sync_is_lock_race_def)

lemma handle_sync_stored:
  assumes "sync_call E (en_sched E x) = (Ret (Inr r), y)"
  shows "handle_sync E x = store_sync E r y"
  using assms by (simp add: handle_sync_def sync_call_def t_seq_def t_bind_def t_lock_def t_get_def)

section \<open>A locked agent\<close>

lemma with_config_Inr: "load_config E (snd x) = Inr cfg \<Longrightarrow> with_config E f x = f cfg x"
  by (simp add: with_config_def t_bind_def t_look_def)

lemma with_keys_locked:
  "st_keys (fst (en_sched E x)) = None \<Longrightarrow> with_keys E f x = (Ret agent_is_locked, en_sched E x)"
  by (simp add: with_keys_def t_seq_def t_bind_def t_lock_def t_get_def t_ret_def)

lemma add_locked:
  assumes "load_config E (snd x) = Inr cfg" and "st_keys (fst (en_sched E x)) = None"
  shows "add_entry_to_server E e x = (Ret agent_is_locked, en_sched E x)"
  using assms by (simp add: add_entry_to_server_def with_config_Inr with_keys_locked)

lemma favorite_locked:
  assumes "load_config E (snd x) = Inr cfg" and "st_keys (fst (en_sched E x)) = None"
  shows "set_favorite E i fav x = (Ret agent_is_locked, en_sched E x)"
  using assms
  by (simp add: set_favorite_def with_config_Inr t_seq_def t_bind_def t_lock_def t_get_def t_ret_def)

lemma update_locked:
  assumes "en_sched E = (\<lambda>x. x)" and "load_config E (snd x) = Inr cfg" and "st_keys (fst x) = None"
  shows "handle_update_entry E e x = (Ret agent_is_locked, x)"
  using assms
  by (simp add: handle_update_entry_def merge_stored_def with_config_Inr with_keys_locked t_seq_def
      t_bind_def t_lock_def t_get_def t_ret_def Let_def split: option.splits)

text \<open>The actions that a vault without keys cannot serve.\<close>

fun needs_keys :: "action \<Rightarrow> bool" where
  "needs_keys (GetEntries q t p) = True"
| "needs_keys (GetSidebarEntries q t p d) = True"
| "needs_keys (GetEntry i pw) = True"
| "needs_keys (GetEntryMeta i) = True"
| "needs_keys (GetPassword i pw) = True"
| "needs_keys (GetTotp i pw) = True"
| "needs_keys (CheckLoginMatch d u p) = True"
| "needs_keys (UpdateLoginPassword i p) = True"
| "needs_keys (UpdateEntry e) = True"
| "needs_keys (PinEntry i) = True"
| "needs_keys (UnpinEntry i) = True"
| "needs_keys (AddEntry n) = True"
| "needs_keys (AddSecureNote n nts fs) = True"
| "needs_keys (AddCard n c nts fs) = True"
| "needs_keys (AddIdentity n i nts fs) = True"
| "needs_keys (AddSshKey n k pk nts fs) = True"
| "needs_keys (AddBankAccount n b nts fs) = True"
| "needs_keys (AddDriversLicense n d nts fs) = True"
| "needs_keys (AddPassport n p nts fs) = True"
| "needs_keys a = False"

text \<open>The vault is locked whenever the lock of the state is acquired.\<close>

definition stays_locked :: "'w env \<Rightarrow> bool" where
  "stays_locked E \<longleftrightarrow> (\<forall>z. st_keys (fst (en_sched E z)) = None)"

lemma stays_lockedD [simp]: "stays_locked E \<Longrightarrow> st_keys (fst (en_sched E z)) = None"
  unfolding stays_locked_def by blast

definition refused :: "'w env \<Rightarrow> agent \<times> 'w \<Rightarrow> response \<Rightarrow> agent \<times> 'w \<Rightarrow> bool" where
  "refused E x r y \<longleftrightarrow> (\<exists>m. r = Error m) \<and> (en_sched E = (\<lambda>z. z) \<longrightarrow> y = x)"

lemma locked_add:
  assumes "stays_locked E" and "add_entry_to_server E e x = (Ret r, y)"
  shows "refused E x r y"
  using assms
  by (auto simp: add_entry_to_server_def with_config_def config_error_def with_keys_def runs branches refused_def)

lemma locked_read:
  assumes "stays_locked E" and "t_read E f x = (Ret r, y)"
    and "\<And>w s r. st_keys s = None \<Longrightarrow> f w s = Ret r \<Longrightarrow> \<exists>m. r = Error m"
  shows "refused E x r y"
proof -
  from assms(2) have "f (snd (en_sched E x)) (fst (en_sched E x)) = Ret r" and "y = en_sched E x"
    by (auto simp: t_read_def runs)
  with assms(3) [OF stays_lockedD [OF assms(1)]] show ?thesis
    unfolding refused_def by auto
qed

lemma locked_favorite:
  assumes "stays_locked E" and "set_favorite E i fav x = (Ret r, y)"
  shows "refused E x r y"
  using assms by (auto simp: set_favorite_def with_config_def config_error_def runs branches refused_def)

lemma locked_update:
  assumes "stays_locked E" and "handle_update_entry E e x = (Ret r, y)"
  shows "refused E x r y"
  using assms
  by (auto simp: handle_update_entry_def merge_stored_def with_config_def config_error_def with_keys_def Let_def
      runs branches refused_def split: option.splits)

lemma locked_update_password:
  assumes "stays_locked E" and "handle_update_login_password E i pw x = (Ret r, y)"
  shows "refused E x r y"
  using assms by (auto simp: handle_update_login_password_def runs branches refused_def split: option.splits)

lemma locked_requests:
  assumes "stays_locked E" and "vault_request E a x = (Ret r, y)" and "needs_keys a"
  shows "refused E x r y"
proof (cases a)
  case (AddEntry n)
  have "refused E x (Error m) x" for m
    by (simp add: refused_def)
  with AddEntry assms show ?thesis
    by (auto simp: handle_add_entry_def runs intro: locked_add [OF assms(1)] split: entry_type.splits)
next
  case (AddSecureNote n nts fs)
  with assms show ?thesis
    by (auto simp: handle_add_entry_def intro: locked_add [OF assms(1)])
next
  case (GetTotp i pw)
  with assms show ?thesis
    by (auto intro: locked_read [OF assms(1)] locked_totp)
qed (use assms in \<open>auto simp: creations elim!: locked_read [OF assms(1)] intro: locked_add [OF assms(1)] locked_favorite [OF assms(1)]
       locked_update [OF assms(1)] locked_update_password [OF assms(1)]\<close>)

section \<open>The pinned ids\<close>

lemma set_favorite_in_ids [simp]: "map e_id (set_favorite_in i fav es) = map e_id es"
  by (induction es) auto

lemma favorite_ids_simps [simp]:
  "favorite_ids [] = {}"
  "favorite_ids (e # es) = (if e_favorite e then insert (e_id e) (favorite_ids es) else favorite_ids es)"
  by (simp_all add: favorite_ids_def)

lemma favorite_ids_subset: "favorite_ids es \<subseteq> set (map e_id es)"
  by (auto simp: favorite_ids_def)

lemma favorite_ids_set_favorite_in:
  assumes "distinct (map e_id es)" and "i \<in> set (map e_id es)"
  shows "favorite_ids (set_favorite_in i fav es) =
    (if fav then insert i (favorite_ids es) else favorite_ids es - {i})"
  using assms
proof (induction es)
  case (Cons e es)
  show ?case
  proof (cases "e_id e = i")
    case True
    with Cons.prems(1) have "i \<notin> favorite_ids es"
      using favorite_ids_subset [of es] by auto
    with True show ?thesis
      by auto
  next
    case False
    with Cons show ?thesis
      by auto
  qed
qed simp

lemma favorite_locally_pinned:
  assumes "st_db s = Some d" and "st_pinned_ids s = favorite_ids (db_entries d)"
    and "distinct (map e_id (db_entries d))" and "find_entry i (db_entries d) = Some e"
  shows "\<exists>d'. st_db (favorite_locally i fav s) = Some d'
    \<and> st_pinned_ids (favorite_locally i fav s) = favorite_ids (db_entries d')
    \<and> map e_id (db_entries d') = map e_id (db_entries d)"
proof -
  have "i \<in> set (map e_id (db_entries d))"
    using assms(4) by (force dest: find_entry_mem)
  with assms(1-3) show ?thesis
    by (simp add: favorite_locally_def upd_db_def favorite_ids_set_favorite_in)
qed

section \<open>An insecure address stops every request\<close>

lemma api_calls_insecure:
  assumes "\<not> secure_url E (ac_base_url c) \<or> \<not> secure_url E (ac_identity_url c)"
  shows "\<exists>e. client_sync E c at x = (Ret (Inl e), x)"
    and "\<exists>e. exchange_refresh_token E c rt x = (Ret (Inl e), x)"
    and "\<exists>e. client_login E c m dev h tt tp tc dv x = (Ret (Inl e), x)"
    and "\<exists>e. post_cipher E c at po x = (Ret (Inl e), x)"
    and "\<exists>e. update_cipher E c at i pu x = (Ret (Inl e), x)"
    and "\<exists>e. update_favorite E c at i fav fo x = (Ret (Inl e), x)"
    and "\<exists>e. delete_cipher E c at i x = (Ret (Inl e), x)"
proof -
  have s: "\<exists>e. api_send E c req x = (Ret (Inl e), x)" for req
    by (rule api_send_insecure [OF assms])
  have t: "\<exists>e. t_try (api_send E c req) f x = (Ret (Inl e), x)" for req f
    using s [of req] by (auto simp: t_try_def t_bind_def t_ret_def)
  show "\<exists>e. client_sync E c at x = (Ret (Inl e), x)"
    and "\<exists>e. exchange_refresh_token E c rt x = (Ret (Inl e), x)"
    and "\<exists>e. client_login E c m dev h tt tp tc dv x = (Ret (Inl e), x)"
    and "\<exists>e. post_cipher E c at po x = (Ret (Inl e), x)"
    and "\<exists>e. update_cipher E c at i pu x = (Ret (Inl e), x)"
    and "\<exists>e. update_favorite E c at i fav fo x = (Ret (Inl e), x)"
    and "\<exists>e. delete_cipher E c at i x = (Ret (Inl e), x)"
    unfolding client_sync_def exchange_refresh_token_def client_login_def post_cipher_def
      update_cipher_def update_favorite_def delete_cipher_def api_mutate_def Let_def
    by (rule t)+
qed

end
