(* ===== verification/Auth_Effects.thy ===== *)
theory Auth_Effects
  imports Tpm_Pin Vault_Effects
begin

text \<open>
  What the account actions do: an unlock succeeds only on an authentic protected key and leaves
  the state as it was when it fails, a committed unlock installs keys, database and caches
  together, a PIN unlock is refused before the TPM is asked where it must be, the sealed keys
  open what the vault keys open, the stored session is read back, and a logout leaves nothing.
\<close>

section \<open>Committing an unlock\<close>

lemma commit_unlock_run:
  assumes "commit_unlock E ks orgs d x = (Ret b, y)"
  shows "st_keys (fst y) = Some ks" and "st_org_keys (fst y) = Some orgs"
    and "st_session (fst y) = VS_Unlocked"
    and "st_lock_epoch (fst y) = st_lock_epoch (fst (en_sched E x)) + 1"
    and "\<exists>d'. st_db (fst y) = Some d' \<and> d' = with_prev_tokens (st_db (fst (en_sched E x))) d
           \<and> b = (db_access_token d' \<noteq> None)"
    and "caches_of E (db_entries d) (fst y)"
    and "st_pinned_ids (fst y) = favorite_ids (db_entries d)"
proof -
  let ?s = "fst (en_sched E x)" and ?w = "snd (en_sched E x)"
  let ?d = "with_prev_tokens (st_db ?s) d"
  let ?s1 = "install_vault ks orgs ?d ?s"
  from assms obtain z where z: "t_rebuild E (?s1, ?w) = (Ret (), z)"
    and y: "y = (broadcast Unlocked (fst z), snd z)" and b: "b = (db_access_token ?d \<noteq> None)"
    by (auto simp: commit_unlock_def announce_unlocked_def runs)
  have i: "st_keys ?s1 = Some ks" "st_org_keys ?s1 = Some orgs" "st_db ?s1 = Some ?d"
    "st_lock_epoch ?s1 = st_lock_epoch ?s + 1" "st_pinned_ids ?s1 = favorite_ids (db_entries ?d)"
    by (simp_all add: install_vault_def bump_epoch_def)
  have e: "db_entries ?d = db_entries d"
    by (simp add: with_prev_tokens_def split: option.splits)
  note f = t_rebuild_frame [OF z]
  show "st_keys (fst y) = Some ks" "st_org_keys (fst y) = Some orgs"
    "st_lock_epoch (fst y) = st_lock_epoch ?s + 1" "st_pinned_ids (fst y) = favorite_ids (db_entries d)"
    using f i e by (simp_all add: y)
  show "st_session (fst y) = VS_Unlocked" "caches_of E (db_entries d) (fst y)"
    using t_rebuild_run [OF z, of ks ?d] i e by (simp_all add: y)
  show "\<exists>d'. st_db (fst y) = Some d' \<and> d' = ?d \<and> b = (db_access_token d' \<noteq> None)"
    using f i b by (simp add: y)
qed

section \<open>Unlocking with the master password\<close>

lemma after_unlock_Ack: "after_unlock E r x = (Ret a, y) \<Longrightarrow> a = Ack"
  by (auto simp: after_unlock_def runs split: sum.splits)

text \<open>
  What may still happen to the state once an unlock is committed: the tokens and the sync flags
  change, and whatever the other tasks do.
\<close>

definition settles :: "'w env \<Rightarrow> agent \<Rightarrow> agent \<Rightarrow> bool" where
  "settles E s s' \<longleftrightarrow> (\<forall>P. sched_keeps P E \<longrightarrow> ignores_tokens P \<longrightarrow> (\<forall>s e. P s \<longrightarrow> P (mark_failed e s)) \<longrightarrow>
     P s \<longrightarrow> P s')"

lemma after_unlock_settles:
  assumes "\<And>P. sched_keeps P E \<Longrightarrow> ignores_tokens P \<Longrightarrow> keeps P m"
    and "m x = (Ret q, z)" and "after_unlock E q z = (Ret r, y)"
  shows "settles E (fst x) (fst y)"
  unfolding settles_def
proof (intro allI impI)
  fix P
  assume P: "sched_keeps P E" "ignores_tokens P" "\<forall>s e. P s \<longrightarrow> P (mark_failed e s)" "P (fst x)"
  have "P (fst z)"
    using keepsD [OF assms(1) [OF P(1,2)] assms(2)] P(4) by blast
  moreover have "keeps P (after_unlock E q)"
    using P(1,3) by (auto simp: after_unlock_def intro!: keeps_rules split: sum.splits)
  ultimately show "P (fst y)"
    using keepsD assms(3) by blast
qed

lemma settle_session_keeps:
  "sched_keeps P E \<Longrightarrow> ignores_tokens P \<Longrightarrow> keeps P (settle_session E cfg email ks h b)"
  by (auto simp: settle_session_def intro!: keeps_rules)

lemma settles_alone:
  assumes "settles E s s'" and "en_sched E = (\<lambda>x. x)"
  shows "st_keys s' = st_keys s" "st_org_keys s' = st_org_keys s" "st_session s' = st_session s"
    "st_lock_epoch s' = st_lock_epoch s" "st_pinned_ids s' = st_pinned_ids s"
    "st_sidebar_cache s' = st_sidebar_cache s" "st_ssh_identity_cache s' = st_ssh_identity_cache s"
    "map_option db_entries (st_db s') = map_option db_entries (st_db s)"
proof -
  have same: "f s' = f s"
    if "\<And>t a r. f (upd_db (set_tokens a r) t) = f t" and "\<And>t e. f (mark_failed e t) = f t" for f :: "agent \<Rightarrow> 'b"
    using assms(1) [unfolded settles_def, rule_format, of "\<lambda>t. f t = f s"] assms(2) that
    by (simp add: sched_keeps_def ignores_tokens_def)
  show "st_keys s' = st_keys s" "st_org_keys s' = st_org_keys s" "st_session s' = st_session s"
    "st_lock_epoch s' = st_lock_epoch s" "st_pinned_ids s' = st_pinned_ids s"
    "st_sidebar_cache s' = st_sidebar_cache s" "st_ssh_identity_cache s' = st_ssh_identity_cache s"
    by (rule same; simp add: upd_db_def mark_failed_def)+
  show "map_option db_entries (st_db s') = map_option db_entries (st_db s)"
  proof (rule same)
    fix t a r
    show "map_option db_entries (st_db (upd_db (set_tokens a r) t)) = map_option db_entries (st_db t)"
      by (cases "st_db t"; cases r) (simp_all add: upd_db_def set_tokens_def Let_def)
  qed (simp add: mark_failed_def)
qed

text \<open>The decision of \<open>handle_unlock\<close>, up to its commit.\<close>

definition unlock_attempt ::
  "'w env \<Rightarrow> 'w \<Rightarrow> string \<Rightarrow> config \<Rightarrow> string \<Rightarrow> db \<Rightarrow> account_keys \<Rightarrow> keys \<Rightarrow> org_keys \<Rightarrow> bool" where
  "unlock_attempt E w password cfg email d ident ks orgs \<longleftrightarrow>
     load_config E w = Inr cfg \<and> cfg_email cfg = Some email \<and> en_load_db E (server_name cfg) email w = Inr d
   \<and> has_account d
   \<and> identity_new (en_kdf E) email (as_bytes password) (kdf_or_default d) (iterations_or_default d)
       (db_memory d) (db_parallelism d) = Inr ident
   \<and> unlock_from_keys (en_crypto E) (ak_keys ident) (expose_or_empty (db_protected_key d))
       (map_option expose (db_protected_private_key d)) (exposed_org_keys d) = Okay (ks, orgs)"

lemma same_tokens: "\<exists>a r. d = d\<lparr>db_access_token := a, db_refresh_token := r\<rparr>"
  by (rule exI [of _ "db_access_token d"], rule exI [of _ "db_refresh_token d"]) simp

lemma adopt_keyring_db: "\<exists>a r. adopt_keyring q d = d\<lparr>db_access_token := a, db_refresh_token := r\<rparr>"
proof (cases "\<exists>at rt. q = Inr (Some (at, rt))")
  case True
  then obtain at rt where "q = Inr (Some (at, rt))"
    by blast
  then have "adopt_keyring q d = d\<lparr>db_access_token := Some (token_of at), db_refresh_token := Some (token_of rt)\<rparr>"
    by (simp add: adopt_keyring_def)
  then show ?thesis
    by (intro exI)
next
  case False
  then have "adopt_keyring q d = d"
    by (auto simp: adopt_keyring_def split: sum.splits option.splits)
  then show ?thesis
    using same_tokens [of d] by simp
qed

lemma keyring_tokens_run:
  assumes "keyring_tokens E cfg email d x = (Ret d', y)"
  shows "fst y = fst x" and "\<exists>a r. d' = d\<lparr>db_access_token := a, db_refresh_token := r\<rparr>"
proof -
  show "fst y = fst x"
    using assms by (auto simp: keyring_tokens_def runs split: if_splits)
  have "d' = d \<or> (\<exists>q. d' = adopt_keyring q d)"
    using assms by (auto simp: keyring_tokens_def runs split: if_splits)
  then show "\<exists>a r. d' = d\<lparr>db_access_token := a, db_refresh_token := r\<rparr>"
    using same_tokens [of d] adopt_keyring_db [of _ d] by metis
qed

lemma tokens_frame [simp]:
  "kdf_or_default (d\<lparr>db_access_token := a, db_refresh_token := r\<rparr>) = kdf_or_default d"
  "iterations_or_default (d\<lparr>db_access_token := a, db_refresh_token := r\<rparr>) = iterations_or_default d"
  "exposed_org_keys (d\<lparr>db_access_token := a, db_refresh_token := r\<rparr>) = exposed_org_keys d"
  "unlock_db C K email pw kdf it (d\<lparr>db_access_token := a, db_refresh_token := r\<rparr>) = unlock_db C K email pw kdf it d"
  by (simp_all add: kdf_or_default_def iterations_or_default_def exposed_org_keys_def unlock_db_def)

lemma locked_password_Ret: "locked_password p = Ret v \<Longrightarrow> v = as_bytes p"
  by (auto simp: locked_password_def lvec_extend_def split: if_splits)

lemma with_config_run:
  assumes "with_config E f x = (Ret r, y)"
  shows "(\<exists>m. r = Error m \<and> y = x) \<or> (\<exists>cfg. load_config E (snd x) = Inr cfg \<and> f cfg x = (Ret r, y))"
  using assms by (auto simp: with_config_def config_error_def runs branches)

lemma load_account_run:
  assumes "load_account E m1 m2 cfg f x = (Ret r, y)"
  shows "(\<exists>m. r = Error m \<and> y = x) \<or> (\<exists>email d. cfg_email cfg = Some email
    \<and> en_load_db E (server_name cfg) email (snd x) = Inr d \<and> has_account d \<and> f email d x = (Ret r, y))"
  using assms by (auto simp: load_account_def runs branches)

lemma unlock_with_password_run:
  assumes "unlock_with_password E password cfg email d x = (Ret r, y)"
  shows "(\<exists>m. r = Error m \<and> fst y = fst x)
    \<or> (r = Ack \<and> (\<exists>ident ks orgs a rt z b u.
          identity_new (en_kdf E) email (as_bytes password) (kdf_or_default d) (iterations_or_default d)
            (db_memory d) (db_parallelism d) = Inr ident
        \<and> unlock_from_keys (en_crypto E) (ak_keys ident) (expose_or_empty (db_protected_key d))
            (map_option expose (db_protected_private_key d)) (exposed_org_keys d) = Okay (ks, orgs)
        \<and> commit_unlock E ks orgs (d\<lparr>db_access_token := a, db_refresh_token := rt\<rparr>) z = (Ret b, u)
        \<and> fst z = fst x \<and> settles E (fst u) (fst y)))"
proof -
  from assms obtain d1 z v where k: "keyring_tokens E cfg email d x = (Ret d1, z)"
    and "locked_password password = Ret v"
    by (auto simp: unlock_with_password_def runs)
  then have v: "locked_password password = Ret (as_bytes password)"
    using locked_password_Ret by blast
  obtain a rt where d1: "d1 = d\<lparr>db_access_token := a, db_refresh_token := rt\<rparr>"
    using keyring_tokens_run(2) [OF k] by blast
  have z: "fst z = fst x"
    by (rule keyring_tokens_run(1) [OF k])
  show ?thesis
  proof (cases "identity_new (en_kdf E) email (as_bytes password) (kdf_or_default d) (iterations_or_default d)
            (db_memory d) (db_parallelism d)")
    case (Inl e)
    with assms k v z show ?thesis
      by (auto simp: unlock_with_password_def runs Let_def d1)
  next
    case (Inr ident)
    then have u: "unlock_db (en_crypto E) (en_kdf E) email (as_bytes password) (kdf_or_default d) (iterations_or_default d) d
        = unlock_from_keys (en_crypto E) (ak_keys ident) (expose_or_empty (db_protected_key d))
            (map_option expose (db_protected_private_key d)) (exposed_org_keys d)"
      by (simp add: unlock_db_def vault_unlock_def)
    show ?thesis
    proof (cases "\<exists>m. r = Error m \<and> fst y = fst x")
      case False
      with assms k v z Inr obtain ks orgs b t q m
        where keys: "unlock_from_keys (en_crypto E) (ak_keys ident) (expose_or_empty (db_protected_key d))
            (map_option expose (db_protected_private_key d)) (exposed_org_keys d) = Okay (ks, orgs)"
          and commit: "commit_unlock E ks orgs d1 z = (Ret b, t)"
          and settle: "settle_session E cfg email ks (ak_master_password_hash ident) b t = (Ret q, m)"
          and after: "after_unlock E q m = (Ret r, y)"
        by (auto simp: unlock_with_password_def runs run_sum run_prod Let_def u d1)
      have "settles E (fst t) (fst y)"
      proof (rule after_unlock_settles)
        show "settle_session E cfg email ks (ak_master_password_hash ident) b t = (Ret q, m)"
          and "after_unlock E q m = (Ret r, y)"
          by (rule settle after)+
      qed (rule settle_session_keeps)
      with Inr z d1 keys commit after_unlock_Ack [OF after] show ?thesis
        by blast
    qed blast
  qed
qed

lemma handle_unlock_run:
  assumes "handle_unlock E password x = (Ret r, y)"
  shows "(\<exists>m. r = Error m \<and> fst y = fst x)
    \<or> (r = Ack \<and> (\<exists>cfg email d ident ks orgs a rt z b u.
          unlock_attempt E (snd x) password cfg email d ident ks orgs \<and> fst z = fst x
        \<and> commit_unlock E ks orgs (d\<lparr>db_access_token := a, db_refresh_token := rt\<rparr>) z = (Ret b, u)
        \<and> settles E (fst u) (fst y)))"
proof (cases "\<exists>m. r = Error m \<and> fst y = fst x")
  case False
  then obtain cfg email d where c: "load_config E (snd x) = Inr cfg" "cfg_email cfg = Some email"
      "en_load_db E (server_name cfg) email (snd x) = Inr d" "has_account d"
    and u: "unlock_with_password E password cfg email d x = (Ret r, y)"
    using with_config_run [OF assms [unfolded handle_unlock_def]] load_account_run by metis
  from unlock_with_password_run [OF u] False c show ?thesis
    unfolding unlock_attempt_def by blast
qed blast

text \<open>What the keys of an open vault prove: the protected key is authentic under them.\<close>

lemma unlock_attempt_authentic:
  assumes "unlock_attempt E w password cfg email d ident ks orgs"
  obtains c where "cipherstring_new (en_crypto E) (expose_or_empty (db_protected_key d)) = Inr c"
    and "authentic (en_crypto E) (ak_keys ident) c"
  using assms unlock_from_keys_authentic unfolding unlock_attempt_def by blast

section \<open>Unlocking with a PIN\<close>

text \<open>Refusals that must not consume an attempt: nothing is asked of the TPM, nothing changes.\<close>

lemma pin_unlock_refused:
  assumes "tp_compiled (en_tpm E)" and "load_config E (snd x) = Inr cfg"
    and "\<not> cfg_tpm_enabled cfg"
  shows "handle_unlock_with_pin E pin x = (Ret (Error ''TPM PIN unlock is not enabled''), x)"
  using assms
  by (simp add: handle_unlock_with_pin_def with_config_Inr pin_unlock_blocked_reason_def t_ret_def)

lemma pin_unlock_no_blob:
  assumes "tp_compiled (en_tpm E)" and "load_config E (snd x) = Inr cfg" and "cfg_tpm_enabled cfg"
    and "cfg_email cfg = Some email" and "en_load_db E (server_name cfg) email (snd x) = Inr d"
    and "has_account d" and "\<not> tp_blob_exists (en_tpm E) (server_name cfg) email (snd x)"
  shows "handle_unlock_with_pin E pin x = (Ret (Error ERR_TPM_BLOB_MISSING), x)"
  using assms
  by (simp add: handle_unlock_with_pin_def with_config_Inr pin_unlock_blocked_reason_def load_account_def
      t_bind_def t_look_def t_ret_def)

text \<open>An unlock by PIN succeeds only with the 64 bytes the TPM released for that PIN and account.\<close>

lemma unlock_with_unsealed_run:
  assumes "unlock_with_unsealed E cfg email d ks x = (Ret r, y)"
  shows "(\<exists>m. r = Error m \<and> fst y = fst x)
    \<or> (r = Ack \<and> (\<exists>orgs a rt z b u.
          decrypt_org_keys (en_crypto E) ks (map_option expose (db_protected_private_key d)) (exposed_org_keys d)
            = Okay orgs
        \<and> commit_unlock E ks orgs (d\<lparr>db_access_token := a, db_refresh_token := rt\<rparr>) z = (Ret b, u)
        \<and> fst z = fst x \<and> settles E (fst u) (fst y)))"
proof (cases "\<exists>m. r = Error m \<and> fst y = fst x")
  case False
  with assms obtain orgs d1 z b t q m where
    o: "decrypt_org_keys (en_crypto E) ks (map_option expose (db_protected_private_key d)) (exposed_org_keys d) = Okay orgs"
    and k: "keyring_tokens E cfg email d x = (Ret d1, z)"
    and commit: "commit_unlock E ks orgs d1 z = (Ret b, t)"
    and settle: "settle_pin_session E cfg email ks b t = (Ret q, m)"
    and after: "after_unlock E q m = (Ret r, y)"
    by (auto simp: unlock_with_unsealed_def runs run_sum)
  have "settles E (fst t) (fst y)"
  proof (rule after_unlock_settles)
    show "settle_pin_session E cfg email ks b t = (Ret q, m)" and "after_unlock E q m = (Ret r, y)"
      by (rule settle after)+
  qed (auto simp: settle_pin_session_def intro!: keeps_rules)
  with o commit keyring_tokens_run [OF k] after_unlock_Ack [OF after] show ?thesis
    by blast
qed blast

lemma tpm_unseal_run:
  assumes "tpm_unseal E pin server email x = (Ret r, y)"
  shows "fst y = fst x"
    and "r = Inr ks \<Longrightarrow> length ks = 64 \<and> tp_unseal_bytes (en_tpm E) pin server email (snd x) = (Inr ks, snd y)"
proof -
  show "fst y = fst x"
    using assms by (auto simp: tpm_unseal_def t_try_def runs branches)
  show "r = Inr ks \<Longrightarrow> length ks = 64 \<and> tp_unseal_bytes (en_tpm E) pin server email (snd x) = (Inr ks, snd y)"
    using assms by (auto simp: tpm_unseal_def runs split: if_splits)
qed

lemma pin_unlock_run:
  assumes "handle_unlock_with_pin E pin x = (Ret r, y)"
  shows "(\<exists>m. r = Error m \<and> fst y = fst x)
    \<or> (r = Ack \<and> (\<exists>cfg email d ks orgs w a rt z b u.
          load_config E (snd x) = Inr cfg \<and> cfg_tpm_enabled cfg \<and> cfg_email cfg = Some email
        \<and> en_load_db E (server_name cfg) email (snd x) = Inr d
        \<and> tp_unseal_bytes (en_tpm E) pin (server_name cfg) email (snd x) = (Inr ks, w) \<and> length ks = 64
        \<and> decrypt_org_keys (en_crypto E) ks (map_option expose (db_protected_private_key d)) (exposed_org_keys d)
            = Okay orgs
        \<and> commit_unlock E ks orgs (d\<lparr>db_access_token := a, db_refresh_token := rt\<rparr>) z = (Ret b, u)
        \<and> fst z = fst x \<and> settles E (fst u) (fst y)))"
proof (cases "\<exists>m. r = Error m \<and> fst y = fst x")
  case False
  note n = False
  then have on: "tp_compiled (en_tpm E)"
    using assms by (auto simp: handle_unlock_with_pin_def no_tpm_support_def runs branches)
  then obtain cfg where cfg: "load_config E (snd x) = Inr cfg" "cfg_tpm_enabled cfg"
    and k: "load_account E ''email not set in config''
          (''no account configured '' @ EM_DASH @ '' please login first'') cfg (\<lambda>email d.
          t_bind (t_look (tp_blob_exists (en_tpm E) (server_name cfg) email)) (\<lambda>there.
          if \<not> there then t_ret (Error ERR_TPM_BLOB_MISSING)
          else t_bind (tpm_unseal E pin (server_name cfg) email) (\<lambda>r. case r of
            Inl chain \<Rightarrow> t_ret (Error (unseal_message chain))
          | Inr ks \<Rightarrow> unlock_with_unsealed E cfg email d ks))) x = (Ret r, y)"
    using assms n with_config_run [of E _ x r y]
    by (fastforce simp: handle_unlock_with_pin_def pin_unlock_blocked_reason_def runs branches split: if_splits)
  from load_account_run [OF k] n obtain email d ks z where d: "cfg_email cfg = Some email"
      "en_load_db E (server_name cfg) email (snd x) = Inr d"
    and un: "tpm_unseal E pin (server_name cfg) email x = (Ret (Inr ks), z)"
    and u: "unlock_with_unsealed E cfg email d ks z = (Ret r, y)"
    by (auto simp: runs branches dest: tpm_unseal_run(1))
  from unlock_with_unsealed_run [OF u] tpm_unseal_run [OF un] n cfg d show ?thesis
    by fastforce
qed blast

text \<open>A PIN that was sealed opens with keys that decrypt everything the vault keys decrypt.\<close>

definition tpm_recalls :: "'w env \<Rightarrow> bool" where
  "tpm_recalls E \<longleftrightarrow> (\<forall>km pin server email w w'.
     tp_seal_bytes (en_tpm E) km pin server email w = (Inr (), w') \<longrightarrow>
     (\<exists>w''. tp_unseal_bytes (en_tpm E) pin server email w' = (Inr km, w'')))"

lemma seal_unseal:
  assumes "tpm_recalls E" and "64 \<le> length ks" and "tpm_seal E ks pin server email x = (Ret (Inr ()), y)"
  shows "\<exists>z. tpm_unseal E pin server email y = (Ret (Inr (take 64 ks)), z)"
proof -
  from assms(2,3) obtain w where w: "tp_seal_bytes (en_tpm E) (take 64 ks) pin server email (snd x) = (Inr (), w)"
    and y: "y = (fst x, w)"
    by (auto simp: tpm_seal_def key_material_Ret runs)
  then obtain w' where "tp_unseal_bytes (en_tpm E) pin server email w = (Inr (take 64 ks), w')"
    using assms(1) unfolding tpm_recalls_def by blast
  then show ?thesis
    using assms(2) by (auto simp: tpm_unseal_def y runs min_def)
qed

section \<open>The stored session\<close>

definition session_file_ok :: "'w env \<Rightarrow> bool" where
  "session_file_ok E \<longleftrightarrow> (\<forall>server email blob w w'. en_write_session E server email blob w = (Inr (), w') \<longrightarrow>
       en_read_session E server email w' = Inr (Some blob))
   \<and> (\<forall>n w r w'. en_random E n w = (Inr r, w') \<longrightarrow> length r = n)"

lemma save_load_session:
  assumes "aead_ok (en_aead E)" and "session_file_ok E" and "utf8 t" and "length t \<le> LEN"
    and "save_session E ks server email t x = (Ret (Inr ()), y)"
  shows "load_session E ks server email (snd y) = Inr (Some (token_of t))"
proof -
  from assms(5) obtain nonce w blob where r: "en_random E NONCE_LEN (snd x) = (nonce, w)"
    and s: "seal (en_kdf E) (en_aead E) nonce ks (as_bytes t) (account_aad server email) = Inr blob"
    and wr: "en_write_session E server email blob w = (Inr (), snd y)"
    by (auto simp: save_session_def runs branches)
  from s obtain n where n: "nonce = Inr n"
    by (cases nonce) (auto simp: seal_def and_then_Inr_iff)
  have len: "length n = NONCE_LEN"
    using assms(2) r n unfolding session_file_ok_def by blast
  have o: "open_envelope (en_kdf E) (en_aead E) ks blob (account_aad server email) = Inr (as_bytes t)"
    using open_seal [OF assms(1) s [unfolded n] len] assms(4) by simp
  then have cap: "length blob \<le> MAX_ENVELOPE_BYTES"
    by (auto simp: open_envelope_def split: if_splits)
  have "en_read_session E server email (snd y) = Inr (Some blob)"
    using assms(2) wr unfolding session_file_ok_def by blast
  with o cap show ?thesis
    using assms(3) by (simp add: load_session_def from_utf8_as_bytes)
qed

lemma byte_of_char_of_byte [simp]: "byte_of (char_of_byte b) = b"
proof -
  have "unat b < 256"
    using unsigned_less [where ?'a = nat, of b] by simp
  then have "unat (byte_of (char_of_byte b)) = unat b"
    by (simp add: char_of_byte_def)
  then show ?thesis
    by (simp only: word_unat_eq_iff)
qed

lemma from_utf8_bytes: "from_utf8 p = Some t \<Longrightarrow> p = as_bytes t"
  by (auto simp: from_utf8_def as_bytes_def comp_def split: if_splits)

text \<open>A stored session opens only for the account and the keys it was saved with.\<close>

lemma load_session_sound:
  assumes "aead_ok (en_aead E)" and "load_session E ks server email w = Inr (Some tok)"
  obtains blob t where "en_read_session E server email w = Inr (Some blob)" and "tok = token_of t"
    and "seal (en_kdf E) (en_aead E) (Inr (take NONCE_LEN (drop 1 blob))) ks (as_bytes t) (account_aad server email) = Inr blob"
proof -
  from assms(2) obtain blob p t where b: "en_read_session E server email w = Inr (Some blob)"
    and o: "open_envelope (en_kdf E) (en_aead E) ks blob (account_aad server email) = Inr p"
    and t: "from_utf8 p = Some t" "tok = token_of t"
    by (auto simp: load_session_def and_then_Inr_iff split: option.splits if_splits)
  have "p = as_bytes t"
    by (rule from_utf8_bytes [OF t(1)])
  with that b t(2) open_authentic(1) [OF assms(1) o] show thesis
    by blast
qed

section \<open>Logout\<close>

lemma handle_logout_run:
  assumes "handle_logout E x = (Ret Ack, y)"
  shows "st_keys (fst y) = None" "st_org_keys (fst y) = None" "st_db (fst y) = None"
    "st_sidebar_cache (fst y) = []" "st_ssh_identity_cache (fst y) = []" "st_user_id (fst y) = None"
    "st_session (fst y) = VS_LoggedOut"
proof -
  from assms obtain z where "fst y = clear_account z"
    using with_config_run [OF assms [unfolded handle_logout_def]] by (auto simp: runs)
  then show "st_keys (fst y) = None" "st_org_keys (fst y) = None" "st_db (fst y) = None"
    "st_sidebar_cache (fst y) = []" "st_ssh_identity_cache (fst y) = []" "st_user_id (fst y) = None"
    "st_session (fst y) = VS_LoggedOut"
    by simp_all
qed

end
