(* ===== verification/Sample_Host.thy ===== *)
theory Sample_Host
  imports Agent_Steps Auth_Effects Sample_Crates
begin

text \<open>
  A host in memory, to evaluate the handlers on: one file of each kind, a clock, a TPM that keeps
  one blob, a server that answers every request with status 200, and no other task. It
  satisfies what the model assumes of files, TPM and AEAD.
\<close>

record host =
  ho_config :: "config option"
  ho_db :: "db option"
  ho_session :: "u8 list option"
  ho_gen_key :: "u8 list option"
  ho_history :: "stored_entry list option"
  ho_clock :: u64
  ho_blob :: "(string \<times> u8 list) option"
  ho_sent :: "http_request list"
  ho_jobs :: "job list"

definition sample_tag :: "u8 list \<Rightarrow> u8 list" where
  "sample_tag aad = take 16 (aad @ replicate 16 0)"

definition sample_aead :: aead_lib where
  "sample_aead = \<lparr>ae_new_from_slice = (\<lambda>k. True),
     ae_encrypt = (\<lambda>k n m aad. Some (m @ sample_tag aad)),
     ae_decrypt = (\<lambda>k n c aad. let m = take (length c - 16) c in
       if c = m @ sample_tag aad then Some m else None)\<rparr>"

lemma sample_aead_ok: "aead_ok sample_aead"
  by (auto simp: aead_ok_def sample_aead_def sample_tag_def Let_def split: if_splits)

definition sample_tpm :: "host tpm_env" where
  "sample_tpm = \<lparr>tp_compiled = True, tp_open = (\<lambda>w. True), tp_property = (\<lambda>p w. Some 32),
     tp_path_exists = (\<lambda>p w. True), tp_path_readable = (\<lambda>p w. True),
     tp_blob_exists = (\<lambda>s e w. ho_blob w \<noteq> None),
     tp_seal_bytes = (\<lambda>km pin s e w. (Inr (), w\<lparr>ho_blob := Some (pin, km)\<rparr>)),
     tp_unseal_bytes = (\<lambda>pin s e w. (case ho_blob w of
         Some (p, km) \<Rightarrow> if p = pin then Inr km else Inl [Other_Error ''unseal'', Tss_Error Tss_AuthFail]
       | None \<Rightarrow> Inl [Other_Error ''reading TPM blob file''], w)),
     tp_remove_blob = (\<lambda>s e w. (Inr (), w\<lparr>ho_blob := None\<rparr>))\<rparr>"

definition sample_rng :: rng where
  "sample_rng = \<lparr>rg_choose = (\<lambda>n xs. case xs of [] \<Rightarrow> None | x # r \<Rightarrow> Some x), rg_shuffle = rev\<rparr>"

lemma sample_rng_ok: "rng_ok sample_rng"
  by (auto simp: rng_ok_def sample_rng_def split: list.splits)

definition sample_gen :: "host gen_env" where
  "sample_gen = \<lparr>ge_load_settings = (\<lambda>w. Inr None), ge_save_settings = (\<lambda>s w. (Inr (), w)),
     ge_read_key = (\<lambda>w. Inr (ho_gen_key w)), ge_write_key = (\<lambda>k w. (Inr (), w\<lparr>ho_gen_key := Some k\<rparr>)),
     ge_read_history = (\<lambda>w. Inr (ho_history w)),
     ge_write_history = (\<lambda>es w. (Inr (), w\<lparr>ho_history := Some es\<rparr>)),
     ge_now = (\<lambda>w. (1000, w)), ge_key_bytes = (\<lambda>w. (Inr sample_keys, w)),
     ge_rng = (\<lambda>w. (sample_rng, w))\<rparr>"

definition sample_ssh :: "host ssh_lib" where
  "sample_ssh = \<lparr>sl_from_openssh = (\<lambda>s. Inr (Ed25519_Key s)),
     sl_ed25519_sign = (\<lambda>k d. Inr (''ssh-ed25519'', as_bytes k @ d)),
     sl_rsa_from_components = (\<lambda>k. Inr k), sl_rsa_sign = (\<lambda>h k d w. (Inr d, w)),
     sl_signature_new = (\<lambda>a b. Inr (a, b))\<rparr>"

definition sample_totp :: totp_lib where
  "sample_totp = \<lparr>tl_from_url = (\<lambda>u. Inl ''not a url''), tl_base32 = (\<lambda>s. Inr (as_bytes s)),
     tl_generate_current = (\<lambda>t. Inr ''123456'')\<rparr>"

definition sample_env :: "host env" where
  "sample_env =
     \<lparr>en_crypto = sample_crypto, en_kdf = sample_kdf, en_aead = sample_aead, en_totp = (\<lambda>w. sample_totp),
      en_psl = (\<lambda>h. None), en_parse_pk = (\<lambda>s. Some s),
      en_parse_url = (\<lambda>u. Inr \<lparr>ul_scheme = (if starts_with ''https:'' u then ''https'' else ''http''),
                                ul_host = Some (Host_Domain ''vault.example'')\<rparr>),
      en_parse_sync = (\<lambda>b. Inl b), en_parse_token = (\<lambda>b. Inl b),
      en_parse_connect_error = (\<lambda>b. Inl b), en_parse_prelogin = (\<lambda>b. Inl b), en_parse_text = (\<lambda>b. Inr b),
      en_build_client = Inr (), en_config_file = (\<lambda>w. Inr (ho_config w)),
      en_save_config = (\<lambda>c w. (Inr (), w\<lparr>ho_config := Some c\<rparr>)),
      en_load_db = (\<lambda>s e w. Inr (case ho_db w of Some d \<Rightarrow> d | None \<Rightarrow> db_new)),
      en_save_db = (\<lambda>s e d w. (Inr (), w\<lparr>ho_db := Some (db_on_disk d)\<rparr>)),
      en_session_path = (\<lambda>s e. ''session.enc''),
      en_read_session = (\<lambda>s e w. Inr (ho_session w)),
      en_write_session = (\<lambda>s e b w. (Inr (), w\<lparr>ho_session := Some b\<rparr>)),
      en_clear_session = (\<lambda>s e w. (Inr (), w\<lparr>ho_session := None\<rparr>)),
      en_keyring_get = (\<lambda>s e w. (Inr None, w)), en_keyring_store = (\<lambda>s e a r w. (Inr (), w)),
      en_keyring_delete = (\<lambda>s e w. (Inr (), w)),
      en_device_id = (\<lambda>c w. (Inr ''device'', w)), en_random = (\<lambda>n w. (Inr (replicate n 5), w)),
      en_ivs = (\<lambda>w. (\<lambda>n. sample_iv, w)), en_version = ''1.0.0'', en_tpm = sample_tpm, en_gen = sample_gen,
      en_ssh = sample_ssh, en_instant = (\<lambda>w. 0), en_wait_session = (\<lambda>d w. (Wait_Timeout, w)),
      en_now_secs = ho_clock, en_decode_action = (\<lambda>b. Inl ''bad frame''), en_encode_response = (\<lambda>r. [0]),
      en_spawn = (\<lambda>j w. w\<lparr>ho_jobs := ho_jobs w @ [j]\<rparr>),
      en_http = (\<lambda>q w. (Inr \<lparr>hr_status = 200, hr_body = []\<rparr>, w\<lparr>ho_sent := ho_sent w @ [q]\<rparr>)),
      en_sched = (\<lambda>x. x)\<rparr>"

lemma sample_env_simps [simp]:
  "en_crypto sample_env = sample_crypto" "en_kdf sample_env = sample_kdf" "en_aead sample_env = sample_aead"
  "en_psl sample_env = (\<lambda>h. None)" "en_parse_pk sample_env = (\<lambda>s. Some s)" "en_tpm sample_env = sample_tpm"
  "en_gen sample_env = sample_gen" "en_ssh sample_env = sample_ssh" "en_sched sample_env = (\<lambda>x. x)"
  "en_config_file sample_env w = Inr (ho_config w)"
  "en_load_db sample_env s e w = Inr (case ho_db w of Some d \<Rightarrow> d | None \<Rightarrow> db_new)"
  "en_ivs sample_env w = (\<lambda>n. sample_iv, w)"
  "en_keyring_get sample_env s e w = (Inr None, w)"
  by (simp_all add: sample_env_def)

text \<open>The laws.\<close>

lemma sample_sched_keeps [simp]: "sched_keeps P sample_env"
  by (simp add: sched_keeps_def)

lemma sample_sched_steps [simp]: "sched_steps sample_env"
  by (simp add: sched_steps_def)

lemma sample_gen_files_ok: "gen_files_ok sample_env"
  by (simp add: gen_files_ok_def sample_gen_def sample_iv_def)

lemma sample_session_file_ok: "session_file_ok sample_env"
  by (auto simp: session_file_ok_def sample_env_def)

lemma sample_tpm_recalls: "tpm_recalls sample_env"
  by (auto simp: tpm_recalls_def sample_tpm_def)

section \<open>An account\<close>

definition sample_password :: string where "sample_password = ''correct horse''"

definition sample_config :: config where
  "sample_config = default_config\<lparr>cfg_email := Some ''a@b.c'', cfg_base_url := Some ''https://vault.example''\<rparr>"

text \<open>The password's keys, the vault keys sealed with them, and an entry under the vault keys.\<close>

definition sample_identity_keys :: keys where
  "sample_identity_keys = pad32 (pad32 (as_bytes sample_password)) @ pad32 (pad32 (as_bytes sample_password))"

definition sample_protected_key :: string where
  "sample_protected_key = (case encrypt_symmetric sample_crypto sample_iv sample_identity_keys sample_keys of
     Ret (Inr c) \<Rightarrow> cipherstring_display sample_crypto c | _ \<Rightarrow> [])"

definition sample_stored_entry :: entry where
  "sample_stored_entry = \<lparr>e_id = ''1'', e_org_id = None, e_folder = None, e_folder_id = None,
     e_name = sample_encrypt ''bank'', e_favorite = True,
     e_data = Login \<lparr>lg_username = Some (sample_encrypt ''alice''),
                     lg_password = Some (Secret (sample_encrypt ''hunter2'')), lg_totp = None, lg_uris = []\<rparr>,
     e_fields = [], e_notes = None, e_history = [], e_key = None, e_reprompt = Reprompt_None\<rparr>"

definition sample_db :: db where
  "sample_db = db_new\<lparr>db_kdf := Some Pbkdf2, db_iterations := Some 600000,
     db_protected_key := Some (Secret sample_protected_key), db_entries := [sample_stored_entry]\<rparr>"

definition sample_host :: host where
  "sample_host = \<lparr>ho_config = Some sample_config, ho_db = Some sample_db, ho_session = None, ho_gen_key = None,
     ho_history = None, ho_clock = 1000, ho_blob = None, ho_sent = [], ho_jobs = []\<rparr>"

definition locked_agent :: agent where
  "locked_agent = (agent_new 7)\<lparr>st_db := Some sample_db, st_session := VS_Locked\<rparr>"

definition open_agent :: agent where
  "open_agent = locked_agent\<lparr>st_keys := Some sample_keys, st_org_keys := Some Map.empty, st_session := VS_Unlocked\<rparr>"


text \<open>The password opens the protected key; the keys that come out carry the padding behind them.\<close>

definition sample_vault_keys :: keys where
  "sample_vault_keys = sample_keys @ pkcs7_pad sample_keys"

lemma sample_identity:
  "\<exists>h. identity_new sample_kdf ''a@b.c'' (as_bytes sample_password) Pbkdf2 600000 None None
     = Inr \<lparr>ak_email = ''a@b.c'', ak_keys = sample_identity_keys, ak_master_password_hash = h\<rparr>"
proof -
  have "to_lowercase (trim ''a@b.c'') = ''a@b.c''"
    by code_simp
  then show ?thesis
    by (simp add: identity_new_def derive_pbkdf2_def expand_keys_def sample_kdf_def sample_identity_keys_def Let_def)
qed

lemma sample_protected_key_opens:
  "\<exists>c. cipherstring_new sample_crypto sample_protected_key = Inr c
     \<and> decrypt_locked_symmetric sample_crypto c sample_identity_keys = Okay sample_vault_keys"
proof -
  have len: "64 \<le> length sample_identity_keys" and iv: "length sample_iv = 16"
    by (simp_all add: sample_identity_keys_def sample_iv_def)
  obtain mac where c: "encrypt_symmetric sample_crypto sample_iv sample_identity_keys sample_keys
      = Okay (Symmetric sample_iv (aes_cbc_encrypt sample_crypto (take 32 sample_identity_keys) sample_iv sample_keys) (Some mac))"
    using encrypt_symmetric_Okay [OF sample_crypto_ok len] by metis
  have "length sample_keys + length (pkcs7_pad sample_keys) \<le> LEN"
    by (simp add: LEN_def length_pkcs7_pad)
  from decrypt_locked_encrypt [OF sample_crypto_ok len iv c this] c parse_display_mac [OF sample_crypto_ok]
  show ?thesis
    by (simp add: sample_protected_key_def sample_vault_keys_def)
qed

lemma sample_unlock:
  "unlock_from_keys sample_crypto sample_identity_keys sample_protected_key None [] = Okay (sample_vault_keys, Map.empty)"
  using sample_protected_key_opens
  by (auto simp: unlock_from_keys_def decrypt_org_keys_def decrypt_private_key_def)

lemma sample_password_fits: "locked_password sample_password = Ret (as_bytes sample_password)"
  by (simp add: locked_password_def lvec_extend_def sample_password_def LEN_def)

end
