(* ===== verification/Agent_Properties.thy ===== *)
theory Agent_Properties
  imports Sample_Host
begin

text \<open>
  The properties of the agent's actions: unlocking, the reprompt, synchronising, the stored session,
  the generator, the SSH agent and the inactivity timer. Each is evaluated on the host in memory.
\<close>

lemmas task_defs = t_ret_def t_bind_def t_try_def t_seq_def t_lock_def t_get_def t_mod_def t_look_def
  t_out_def t_run_def t_io_def t_when_def t_ignore_def

section \<open>The generator\<close>

text \<open>
  C36: The generator refuses settings it cannot honour and otherwise returns: a password of exactly
  the length asked for, made of the selected character classes only, with at least one character
  of each.
\<close>

theorem generated_password_meets_settings:
  assumes "rng_ok R"
  shows "(8 \<le> gs_length s \<and> gs_length s \<le> 32 \<and> pools_of s \<noteq> [] \<longrightarrow>
       (\<exists>pw. generate_password R s = Okay pw \<and> length pw = unat (gs_length s)
          \<and> set pw \<subseteq> set (concat (pools_of s)) \<and> (\<forall>p \<in> set (pools_of s). set pw \<inter> set p \<noteq> {})))
     \<and> (\<not> (8 \<le> gs_length s \<and> gs_length s \<le> 32) \<or> pools_of s = [] \<longrightarrow> (\<exists>e. generate_password R s = Fail e))"
  using generate_password_spec [OF assms, of s] generate_password_rejects [of s R] by blast

theorem generated_password_meets_settings_witness:
  "\<exists>pw. generate_password sample_rng default_generator_settings = Okay pw
     \<and> length pw = unat (gs_length default_generator_settings)"
proof -
  have "8 \<le> gs_length default_generator_settings \<and> gs_length default_generator_settings \<le> 32
      \<and> pools_of default_generator_settings \<noteq> []"
    by (simp add: default_generator_settings_def pools_of_def)
  then show ?thesis
    using generated_password_meets_settings [OF sample_rng_ok] by blast
qed



section \<open>The inactivity timer\<close>

text \<open>
  C29: Without activity an unlocked vault is locked exactly when the timeout has passed since the
  last activity: the loop ends, after at most one round for every 30 seconds started, at that
  second and no other.
\<close>

theorem autolock_at_deadline:
  assumes "tm_timeout t \<noteq> 0" and "unat (tm_last_activity t) + unat (tm_timeout t) < 2 ^ 64"
    and "elapsed < tm_timeout t" and "unat (tm_timeout t - elapsed) \<le> 30 * rounds"
  shows "autolock_run rounds t (tm_last_activity t + elapsed) s =
    Some (tm_last_activity t + tm_timeout t, if st_keys s \<noteq> None then lock s else s)"
proof -
  have "autolock_fires t (tm_last_activity t + tm_timeout t)"
    using saturating_sub_elapsed [OF order_refl assms(2)] assms(1) by (simp add: autolock_fires_def)
  then show ?thesis
    using autolock_run_elapsed [OF assms] by (simp add: autolock_check_def)
qed

theorem autolock_at_deadline_witness:
  "autolock_run 4 \<lparr>tm_last_activity = 1000, tm_timeout = 100\<rparr> 1000 open_agent = Some (1100, lock open_agent)"
  using autolock_at_deadline [of "\<lparr>tm_last_activity = 1000, tm_timeout = 100\<rparr>" 0 4 open_agent]
  by (simp add: open_agent_def)

text \<open>
  Only a request of the user that succeeds, or a change of the timeout itself, moves the
  deadline: polling the configuration or failing does not keep the vault open.
\<close>

theorem activity_moves_the_timer:
  assumes "serve_action E t a x = (Ret (r, t'), y)" and "t' \<noteq> t"
  shows "(\<not> is_non_activity a \<and> \<not> is_error r) \<or> (\<exists>s. a = UpdateLockTimeout s)"
  using assms by (rule serve_action_timer)

theorem activity_moves_the_timer_witness:
  "\<exists>r t' y. serve_action sample_env \<lparr>tm_last_activity = 5, tm_timeout = 100\<rparr> (UpdateLockTimeout 60) (open_agent, sample_host)
     = (Ret (r, t'), y) \<and> t' \<noteq> \<lparr>tm_last_activity = 5, tm_timeout = 100\<rparr>
     \<and> ((\<not> is_non_activity (UpdateLockTimeout 60) \<and> \<not> is_error r) \<or> (\<exists>s. UpdateLockTimeout 60 = UpdateLockTimeout s))"
proof -
  let ?t = "\<lparr>tm_last_activity = 5, tm_timeout = 100\<rparr>"
  have run: "serve_action sample_env ?t (UpdateLockTimeout 60) (open_agent, sample_host)
      = (Ret (Ack, set_duration (en_now_secs sample_env sample_host) 60 ?t), open_agent, sample_host)"
    by (simp add: serve_action_def runs)
  have "set_duration (en_now_secs sample_env sample_host) 60 ?t \<noteq> ?t"
    by (simp add: set_duration_def timer_reset_def)
  with run activity_moves_the_timer [OF run this] show ?thesis
    by blast
qed


section \<open>The SSH agent\<close>

text \<open>
  C40: Every signature is made in a state whose vault is open, with the private key of an SSH entry
  of that vault whose public key is the one asked for; while the vault is locked nothing is signed.
\<close>

theorem ssh_signature_sound:
  assumes "sign_loop n E q dl x = (Ret (Some (Inr sig)), y)"
  shows "\<exists>s w ks d e k sk. st_keys s = Some ks \<and> st_db s = Some d \<and> e \<in> set (db_entries d)
    \<and> e_data (decrypted (en_crypto E) ks (orgs_or_empty (st_org_keys s)) e) = SshKey k
    \<and> sk_private_key k = Some sk \<and> Option.bind (sk_public_key k) (en_parse_pk E) = Some (sq_pubkey q)
    \<and> t_try (t_ret (sl_from_openssh (en_ssh E) (expose sk)))
        (\<lambda>key. sign_with_key E key (sq_data q) (sq_flags q)) (s, w) = (Ret (Inr sig), y)"
proof -
  from sign_loop_sound [OF assms] obtain s w ks d sk where s: "st_keys s = Some ks" "st_db s = Some d"
    and m: "matching_key (en_crypto E) (en_parse_pk E) ks (orgs_or_empty (st_org_keys s)) (sq_pubkey q) (db_entries d)
        = Ret (Some sk)"
    and sg: "sign_unlocked E s q (s, w) = (Ret (Inr sig), y)"
    by blast
  from sg s m have "t_try (t_ret (sl_from_openssh (en_ssh E) (expose sk)))
      (\<lambda>key. sign_with_key E key (sq_data q) (sq_flags q)) (s, w) = (Ret (Inr sig), y)"
    by (simp add: sign_unlocked_def t_bind_def t_out_def)
  with s matching_key_sound [OF m] show ?thesis
    by fastforce
qed

definition ssh_entry :: entry where
  "ssh_entry = sample_stored_entry\<lparr>e_data := SshKey \<lparr>sk_private_key = Some (Secret (sample_encrypt ''priv'')),
     sk_public_key = Some (sample_encrypt ''pub''), sk_fingerprint = None\<rparr>\<rparr>"

lemma ssh_entry_decrypted:
  "entry_decrypt sample_crypto sample_keys Map.empty ssh_entry = Ret (decrypted sample_crypto sample_keys Map.empty ssh_entry)"
  "e_data (decrypted sample_crypto sample_keys Map.empty ssh_entry)
     = SshKey \<lparr>sk_private_key = Some (Secret ''priv''), sk_public_key = Some ''pub'', sk_fingerprint = None\<rparr>"
proof -
  have v: "vault_decrypt sample_crypto (sample_encrypt ''priv'') sample_keys None = Okay ''priv''"
    "vault_decrypt sample_crypto (sample_encrypt ''pub'') sample_keys None = Okay ''pub''"
    "vault_decrypt sample_crypto (sample_encrypt ''bank'') sample_keys None = Okay ''bank''"
    by (simp_all add: sample_decrypt ascii_utf8)
  have slots: "set (entry_slots ssh_entry) = {sample_encrypt ''bank'', sample_encrypt ''priv'', sample_encrypt ''pub''}"
    by (auto simp: entry_slots_def ssh_entry_def sample_stored_entry_def secs_def strs_def List.map_filter_def)
  have "entry_keys sample_keys Map.empty ssh_entry = sample_keys" and "e_key ssh_entry = None"
    by (simp_all add: entry_keys_def ssh_entry_def sample_stored_entry_def)
  then show "entry_decrypt sample_crypto sample_keys Map.empty ssh_entry = Ret (decrypted sample_crypto sample_keys Map.empty ssh_entry)"
    by (simp add: entry_decrypt_def decrypted_def Let_def list_ex_iff slots v)
  show "e_data (decrypted sample_crypto sample_keys Map.empty ssh_entry)
     = SshKey \<lparr>sk_private_key = Some (Secret ''priv''), sk_public_key = Some ''pub'', sk_fingerprint = None\<rparr>"
    using v by (simp add: decrypted_def decrypt_with_def Let_def ssh_entry_def sample_stored_entry_def entry_keys_def
        decrypt_ssh_key_def decrypt_slot_def)
qed

theorem ssh_signature_sound_witness:
  "\<exists>sig y e. sign_loop 1 sample_env \<lparr>sq_pubkey = ''pub'', sq_data = [1, 2], sq_flags = 0\<rparr> 9
     (open_agent\<lparr>st_db := Some (db_new\<lparr>db_entries := [ssh_entry]\<rparr>)\<rparr>, sample_host) = (Ret (Some (Inr sig)), y)
   \<and> (\<exists>(s :: agent) d. st_db s = Some d \<and> e \<in> set (db_entries d))"
proof -
  let ?x = "(open_agent\<lparr>st_db := Some (db_new\<lparr>db_entries := [ssh_entry]\<rparr>)\<rparr>, sample_host)"
  let ?q = "\<lparr>sq_pubkey = ''pub'', sq_data = [1, 2], sq_flags = 0\<rparr>"
  have "entry_type_of (e_data ssh_entry) = ET_SshKey"
    by (simp add: ssh_entry_def)
  then have "matching_key sample_crypto (\<lambda>s. Some s) sample_keys Map.empty ''pub'' [ssh_entry] = Ret (Some (Secret ''priv''))"
    by (simp add: ssh_entry_decrypted)
  then have run: "sign_loop 1 sample_env ?q 9 ?x = (Ret (Some (Inr (''ssh-ed25519'', as_bytes ''priv'' @ [1, 2]))), ?x)"
    by (simp add: task_defs open_agent_def sign_unlocked_def orgs_or_empty_def sample_ssh_def sign_with_key_def
        numeral_eq_Suc)
  from ssh_signature_sound [OF this] obtain s :: agent and d e where "st_db s = Some d" and "e \<in> set (db_entries d)"
    by blast
  with run show ?thesis
    by blast
qed

text \<open>
  A request to sign always ends: when time passes while it waits, it is answered before its
  rounds exceed the time it may wait, and a key the agent does not have is refused at once, in
  the first round, also when the vault is locked.
\<close>

theorem ssh_request_ends:
  assumes "clock_advances E" and "dl - en_instant E (snd x) < rounds"
  shows "fst (sign_loop rounds E q dl x) \<noteq> Ret None
    \<and> (st_keys (fst (en_sched E x)) = None
         \<and> \<not> cache_has_pubkey (st_ssh_identity_cache (fst (en_sched E x))) (sq_pubkey q) \<longrightarrow>
       fst (sign_loop rounds E q dl x) = Ret (Some (Inl ''no matching key found'')))"
proof -
  obtain n where "rounds = Suc n"
    using assms(2) by (cases rounds) auto
  then show ?thesis
    using sign_loop_ends [OF assms, of q] sign_loop_answers [of E x q n dl] by (simp del: sign_loop.simps)
qed

theorem ssh_request_ends_witness:
  "fst (sign_loop 6 sample_env \<lparr>sq_pubkey = ''pub'', sq_data = [], sq_flags = 0\<rparr> 5 (locked_agent, sample_host))
     = Ret (Some (Inl ''no matching key found''))"
proof -
  have "clock_advances sample_env"
    by (simp add: clock_advances_def sample_env_def)
  moreover have "5 - en_instant sample_env (snd (locked_agent, sample_host)) < 6"
    by simp
  moreover have "st_keys locked_agent = None" and "st_ssh_identity_cache locked_agent = []"
    by (simp_all add: locked_agent_def agent_new_def)
  ultimately show ?thesis
    using ssh_request_ends [of sample_env 5 "(locked_agent, sample_host)" 6
        "\<lparr>sq_pubkey = ''pub'', sq_data = [], sq_flags = 0\<rparr>"]
    by (simp add: cache_has_pubkey_def del: sign_loop.simps)
qed

section \<open>The stored session\<close>

lemma sample_saved:
  "\<exists>y. save_session sample_env sample_keys ''s'' ''a@b.c'' ''tok'' (open_agent, sample_host) = (Ret (Inr ()), y)"
  by (simp add: save_session_def task_defs cipher_for_def derive_key_def seal_def sample_kdf_def sample_aead_def)
     (simp add: sample_env_def task_defs)



text \<open>
  A stored session opens for no other account: when an envelope written for one server and email
  opens for another, both are the same, since the envelope is what sealing under those very
  names gives.
\<close>

theorem stored_session_bound:
  assumes "aead_ok (en_aead E)" and "load_session E ks server email w = Inr (Some tok)"
  shows "\<exists>blob t. en_read_session E server email w = Inr (Some blob) \<and> tok = token_of t
    \<and> seal (en_kdf E) (en_aead E) (Inr (take NONCE_LEN (drop 1 blob))) ks (as_bytes t) (account_aad server email) = Inr blob
    \<and> (\<forall>server' email'. CHR 0x00 \<notin> set server \<and> CHR 0x00 \<notin> set server'
          \<and> account_aad server' email' = account_aad server email \<longrightarrow> server' = server \<and> email' = email)"
  using load_session_sound [OF assms] account_aad_inj by metis

theorem stored_session_bound_witness:
  "\<exists>w blob t. load_session sample_env sample_keys ''s'' ''a@b.c'' w = Inr (Some (token_of ''tok''))
     \<and> en_read_session sample_env ''s'' ''a@b.c'' w = Inr (Some blob) \<and> token_of ''tok'' = token_of t"
proof -
  obtain y where "save_session sample_env sample_keys ''s'' ''a@b.c'' ''tok'' (open_agent, sample_host) = (Ret (Inr ()), y)"
    using sample_saved by blast
  moreover have "utf8 ''tok''"
    by (intro ascii_utf8) simp
  ultimately have l: "load_session sample_env sample_keys ''s'' ''a@b.c'' (snd y) = Inr (Some (token_of ''tok''))"
    using save_load_session [OF _ sample_session_file_ok] sample_aead_ok by (simp add: LEN_def)
  then show ?thesis
    using stored_session_bound [OF _ l] sample_aead_ok by auto
qed


section \<open>Unlocking\<close>

text \<open>
  C4: Unlocking with the master password either fails and leaves the agent as it was, or it installs,
  as one transition of the lock epoch, exactly the keys that came out of the account's protected
  key, which is authentic under the keys derived from the password and the parameters of the
  database, together with a sidebar that lists the entries of the database and its favorites.
  (The state is that at the end of the handler when no other task interferes.)
\<close>

theorem unlock_outcome:
  assumes "handle_unlock E password x = (Ret r, y)" and "en_sched E = (\<lambda>z. z)"
  shows "(\<exists>m. r = Error m \<and> fst y = fst x)
    \<or> (r = Ack \<and> (\<exists>cfg email d ident ks orgs c. unlock_attempt E (snd x) password cfg email d ident ks orgs
        \<and> cipherstring_new (en_crypto E) (expose_or_empty (db_protected_key d)) = Inr c
        \<and> authentic (en_crypto E) (ak_keys ident) c
        \<and> st_keys (fst y) = Some ks \<and> st_org_keys (fst y) = Some orgs \<and> st_session (fst y) = VS_Unlocked
        \<and> st_lock_epoch (fst y) = st_lock_epoch (fst x) + 1
        \<and> map (se_id \<circ> ce_entry) (st_sidebar_cache (fst y)) = map e_id (db_entries d)
        \<and> st_pinned_ids (fst y) = favorite_ids (db_entries d)))"
proof -
  consider (err) "\<exists>m. r = Error m \<and> fst y = fst x"
    | (ok) cfg email d ident ks orgs a rt z b u where "r = Ack"
        and "unlock_attempt E (snd x) password cfg email d ident ks orgs" and "fst z = fst x"
        and "commit_unlock E ks orgs (d\<lparr>db_access_token := a, db_refresh_token := rt\<rparr>) z = (Ret b, u)"
        and "settles E (fst u) (fst y)"
    using handle_unlock_run [OF assms(1)] by blast
  then show ?thesis
  proof cases
    case ok
    obtain c where "cipherstring_new (en_crypto E) (expose_or_empty (db_protected_key d)) = Inr c"
      and "authentic (en_crypto E) (ak_keys ident) c"
      by (rule unlock_attempt_authentic [OF ok(2)])
    moreover note s = settles_alone [OF ok(5) assms(2)] and u = commit_unlock_run [OF ok(4)]
    have "st_keys (fst y) = Some ks" "st_org_keys (fst y) = Some orgs" "st_session (fst y) = VS_Unlocked"
      "st_lock_epoch (fst y) = st_lock_epoch (fst x) + 1" "st_pinned_ids (fst y) = favorite_ids (db_entries d)"
      using s u(1-4,7) ok(3) assms(2) by simp_all
    moreover have "map (se_id \<circ> ce_entry) (st_sidebar_cache (fst y)) = map e_id (db_entries d)"
      using s(6) u(6) by (simp add: caches_of_def)
    ultimately show ?thesis
      using ok(1,2) by blast
  qed blast
qed

definition resumed_agent :: agent where
  "resumed_agent = (agent_new 7)\<lparr>st_db := Some (sample_db\<lparr>db_access_token := Some (token_of ''at'')\<rparr>)\<rparr>"

definition small_db :: db where
  "small_db = sample_db\<lparr>db_entries := []\<rparr>"

definition small_host :: host where
  "small_host = sample_host\<lparr>ho_db := Some small_db\<rparr>"

lemma small_host_loads [simp]:
  "load_config sample_env small_host = Inr sample_config"
  "ho_db small_host = Some small_db"
  by (simp_all add: load_config_def small_host_def sample_host_def sample_config_def load_legacy_def
      default_config_def default_lock_timeout_def)

lemma small_db_fields [simp]:
  "has_account small_db" "db_access_token small_db = None" "db_entries small_db = []"
  "kdf_or_default small_db = Pbkdf2" "iterations_or_default small_db = 600000" "db_memory small_db = None"
  "db_parallelism small_db = None" "expose_or_empty (db_protected_key small_db) = sample_protected_key"
  "map_option expose (db_protected_private_key small_db) = None" "exposed_org_keys small_db = []"
  by (simp_all add: small_db_def sample_db_def db_new_def has_account_def kdf_or_default_def
      iterations_or_default_def expose_or_empty_def exposed_org_keys_def)

lemma sample_commit:
  "\<exists>y. commit_unlock sample_env ks orgs small_db (resumed_agent, w) = (Ret True, y) \<and> refresh_of (fst y) = None"
  by (simp add: commit_unlock_def announce_unlocked_def t_rebuild_def task_defs resumed_agent_def agent_new_def
      with_prev_tokens_def install_vault_def bump_epoch_def rebuild_sidebar_cache_def new_sidebar_cache_def
      rebuild_from_sidebar_def broadcast_def refresh_of_def sample_db_def db_new_def Let_def)

lemma sample_unlock_runs:
  "\<exists>y. handle_unlock sample_env sample_password (resumed_agent, small_host) = (Ret Ack, y)"
proof -
  obtain h where i: "identity_new sample_kdf ''a@b.c'' (as_bytes sample_password) Pbkdf2 600000 None None
     = Inr \<lparr>ak_email = ''a@b.c'', ak_keys = sample_identity_keys, ak_master_password_hash = h\<rparr>"
    using sample_identity by blast
  have c: "cfg_email sample_config = Some ''a@b.c''" "\<not> cfg_persist_session sample_config"
    by (simp_all add: sample_config_def default_config_def)
  obtain y where y: "commit_unlock sample_env sample_vault_keys Map.empty small_db (resumed_agent, small_host) = (Ret True, y)"
    "refresh_of (fst y) = None"
    using sample_commit by blast
  have "\<exists>z. settle_session sample_env sample_config ''a@b.c'' sample_vault_keys h True y = (Ret (Inr ()), z)"
    using y(2) by (simp add: settle_session_def persist_current_def task_defs split: option.splits)
  then obtain z where z: "settle_session sample_env sample_config ''a@b.c'' sample_vault_keys h True y = (Ret (Inr ()), z)"
    by blast
  have "unlock_with_password sample_env sample_password sample_config ''a@b.c'' small_db (resumed_agent, small_host)
      = after_unlock sample_env (Inr ()) z"
    using i c y(1) z sample_unlock
    by (simp add: unlock_with_password_def keyring_tokens_def task_defs sample_password_fits Let_def unlock_db_def
        vault_unlock_def)
  then show ?thesis
    using c by (simp add: handle_unlock_def with_config_def load_account_def task_defs after_unlock_def)
qed

theorem unlock_outcome_witness:
  "\<exists>y ks. handle_unlock sample_env sample_password (resumed_agent, small_host) = (Ret Ack, y)
     \<and> st_keys (fst y) = Some ks \<and> st_lock_epoch (fst y) = 1 \<and> st_session (fst y) = VS_Unlocked"
proof -
  obtain y where y: "handle_unlock sample_env sample_password (resumed_agent, small_host) = (Ret Ack, y)"
    using sample_unlock_runs by blast
  moreover have "st_lock_epoch resumed_agent = 0"
    by (simp add: resumed_agent_def agent_new_def)
  ultimately show ?thesis
    using unlock_outcome [OF y] by auto
qed



definition pin_host :: host where
  "pin_host = small_host\<lparr>ho_config := Some (sample_config\<lparr>cfg_tpm_enabled := True\<rparr>),
     ho_blob := Some (''123456'', sample_keys)\<rparr>"

lemma pin_host_loads [simp]:
  "load_config sample_env pin_host = Inr (sample_config\<lparr>cfg_tpm_enabled := True\<rparr>)"
  "ho_db pin_host = Some small_db" "ho_blob pin_host = Some (''123456'', sample_keys)"
  by (simp_all add: load_config_def pin_host_def sample_config_def load_legacy_def
      default_config_def default_lock_timeout_def)



text \<open>
  A PIN that was set up opens the same vault: the keys it unseals decrypt every entry and every
  organization key exactly as the vault keys that were sealed do, although only their 64 bytes are
  stored and not the padding behind them.
\<close>

theorem pin_opens_same_vault:
  assumes "tpm_recalls E" and "64 \<le> length ks" and "tpm_seal E ks pin server email x = (Ret (Inr ()), y)"
  shows "\<exists>ks' z. tpm_unseal E pin server email y = (Ret (Inr ks'), z)
    \<and> (\<forall>C orgs e. entry_decrypt C ks' orgs e = entry_decrypt C ks orgs e)
    \<and> (\<forall>C ppk poks. decrypt_org_keys C ks' ppk poks = decrypt_org_keys C ks ppk poks)"
  using seal_unseal [OF assms] entry_decrypt_take [OF assms(2)] decrypt_org_keys_take [OF assms(2)] by blast

theorem pin_opens_same_vault_witness:
  "\<exists>y ks' z. tpm_seal sample_env sample_vault_keys ''123456'' ''s'' ''a@b.c'' (open_agent, sample_host) = (Ret (Inr ()), y)
     \<and> tpm_unseal sample_env ''123456'' ''s'' ''a@b.c'' y = (Ret (Inr ks'), z)
     \<and> (\<forall>e. entry_decrypt sample_crypto ks' Map.empty e = entry_decrypt sample_crypto sample_vault_keys Map.empty e)"
proof -
  have len: "64 \<le> length sample_vault_keys"
    by (simp add: sample_vault_keys_def)
  then have "\<exists>y. tpm_seal sample_env sample_vault_keys ''123456'' ''s'' ''a@b.c'' (open_agent, sample_host) = (Ret (Inr ()), y)"
    by (simp add: tpm_seal_def task_defs key_material_Ret sample_tpm_def)
  then obtain y where y: "tpm_seal sample_env sample_vault_keys ''123456'' ''s'' ''a@b.c'' (open_agent, sample_host)
      = (Ret (Inr ()), y)"
    by blast
  obtain ks' z where "tpm_unseal sample_env ''123456'' ''s'' ''a@b.c'' y = (Ret (Inr ks'), z)"
    and "entry_decrypt sample_crypto ks' Map.empty e = entry_decrypt sample_crypto sample_vault_keys Map.empty e" for e
    using pin_opens_same_vault [OF sample_tpm_recalls len y] by fast
  with y show ?thesis
    by blast
qed

text \<open>
  An unlock by PIN that cannot succeed is refused before the TPM is asked, so it costs none of
  the attempts the TPM counts: when it is not enabled, and when there is no sealed blob.
\<close>

theorem pin_refused_without_tpm:
  assumes "tp_compiled (en_tpm E)" and "load_config E (snd x) = Inr cfg"
    and "\<not> cfg_tpm_enabled cfg \<or> (\<exists>email d. cfg_email cfg = Some email
           \<and> en_load_db E (server_name cfg) email (snd x) = Inr d \<and> has_account d
           \<and> \<not> tp_blob_exists (en_tpm E) (server_name cfg) email (snd x))"
  shows "\<exists>m. handle_unlock_with_pin E pin x = (Ret (Error m), x)"
proof (cases "cfg_tpm_enabled cfg")
  case True
  with assms pin_unlock_no_blob [OF assms(1,2) True] show ?thesis
    by blast
qed (use pin_unlock_refused [OF assms(1,2)] in blast)

theorem pin_refused_without_tpm_witness:
  "\<exists>m. handle_unlock_with_pin sample_env ''123456'' (resumed_agent, small_host) = (Ret (Error m), resumed_agent, small_host)"
  using pin_refused_without_tpm [of sample_env "(resumed_agent, small_host)" sample_config "''123456''"]
  by (simp add: sample_tpm_def sample_config_def default_config_def)


section \<open>Reading\<close>

text \<open>
  C7: An entry that asks for the master password gives up nothing without it: the entry, its
  password and its one-time code are answered only when a password was given with the request
  whose derived keys authenticate the account's protected key.
\<close>

theorem reprompt_gate:
  assumes "st_db s = Some d" and "find_entry i (db_entries d) = Some e" and "master_password_reprompt e"
    and "handle_get_entry C K cfg i pw s = Ret (Response_Entry de)
       \<or> handle_get_password C K cfg i pw s = Ret (Response_Password t)
       \<or> handle_get_totp C K T cfg i pw s = Ret (Totp t)"
  shows "\<exists>password config email a c. pw = Some password \<and> cfg = Inr config \<and> cfg_email config = Some email
    \<and> identity_new K email (as_bytes password) (kdf_or_default d) (iterations_or_default d)
        (db_memory d) (db_parallelism d) = Inr a
    \<and> cipherstring_new C (expose_or_empty (db_protected_key d)) = Inr c \<and> authentic C (ak_keys a) c"
proof -
  have "verify_reprompt C K cfg pw d = Ret None"
    using assms(4)
  proof (elim disjE)
    assume "handle_get_entry C K cfg i pw s = Ret (Response_Entry de)"
    then show ?thesis
      using assms(1-3) by (auto elim!: handle_get_entry_Entry)
  next
    assume "handle_get_password C K cfg i pw s = Ret (Response_Password t)"
    then have "\<exists>de. handle_get_entry C K cfg i pw s = Ret (Response_Entry de)"
      using assms(1-3) verify_reprompt_error [of C K cfg pw d]
      by (auto simp: handle_get_password_def handle_get_entry_def split: outcome.splits option.splits)
    then show ?thesis
      using assms(1-3) by (auto elim!: handle_get_entry_Entry)
  next
    assume "handle_get_totp C K T cfg i pw s = Ret (Totp t)"
    then show ?thesis
      using assms(1-3) verify_reprompt_error [of C K cfg pw d]
      by (auto simp: handle_get_totp_def Let_def split: outcome.splits option.splits)
  qed
  then show ?thesis
    by (elim verify_reprompt_ok)
       (auto simp: kdf_or_default_def iterations_or_default_def expose_or_empty_def)
qed

definition guarded_entry :: entry where
  "guarded_entry = sample_stored_entry\<lparr>e_reprompt := Reprompt_Password\<rparr>"

definition guarded_agent :: agent where
  "guarded_agent = open_agent\<lparr>st_db := Some (sample_db\<lparr>db_entries := [guarded_entry]\<rparr>)\<rparr>"

lemma guarded_verified:
  "verify_reprompt sample_crypto sample_kdf (Inr sample_config) (Some sample_password) (sample_db\<lparr>db_entries := es\<rparr>) = Ret None"
proof -
  obtain h where "identity_new sample_kdf ''a@b.c'' (as_bytes sample_password) Pbkdf2 600000 None None
     = Inr \<lparr>ak_email = ''a@b.c'', ak_keys = sample_identity_keys, ak_master_password_hash = h\<rparr>"
    using sample_identity by blast
  then show ?thesis
    using sample_unlock
    by (simp add: verify_reprompt_def sample_config_def default_config_def sample_password_fits sample_db_def
        db_new_def Let_def)
qed

lemma guarded_entry_decrypts:
  "\<exists>de l. entry_decrypt sample_crypto sample_keys Map.empty guarded_entry = Ret de \<and> e_data de = Login l
     \<and> lg_password l = Some (Secret ''hunter2'')"
proof -
  have v: "vault_decrypt sample_crypto (sample_encrypt ''alice'') sample_keys None = Okay ''alice''"
    "vault_decrypt sample_crypto (sample_encrypt ''hunter2'') sample_keys None = Okay ''hunter2''"
    "vault_decrypt sample_crypto (sample_encrypt ''bank'') sample_keys None = Okay ''bank''"
    by (simp_all add: sample_decrypt ascii_utf8)
  have slots: "set (entry_slots guarded_entry) = {sample_encrypt ''bank'', sample_encrypt ''alice'', sample_encrypt ''hunter2''}"
    by (auto simp: entry_slots_def guarded_entry_def sample_stored_entry_def secs_def strs_def List.map_filter_def)
  have "entry_keys sample_keys Map.empty guarded_entry = sample_keys" and "e_key guarded_entry = None"
    by (simp_all add: entry_keys_def guarded_entry_def sample_stored_entry_def)
  then have "entry_decrypt sample_crypto sample_keys Map.empty guarded_entry
      = Ret (decrypt_with (decrypt_slot sample_crypto sample_keys None) guarded_entry)"
    by (simp add: entry_decrypt_def Let_def list_ex_iff slots v)
  then show ?thesis
    by (simp add: decrypt_with_def Let_def guarded_entry_def sample_stored_entry_def decrypt_login_def
        decrypt_slot_def v)
qed

theorem reprompt_gate_witness:
  "handle_get_password sample_crypto sample_kdf (Inr sample_config) ''1'' (Some sample_password) guarded_agent
     = Ret (Response_Password (Secret ''hunter2''))
   \<and> (\<exists>c. cipherstring_new sample_crypto sample_protected_key = Inr c)"
proof -
  have g: "st_db guarded_agent = Some (sample_db\<lparr>db_entries := [guarded_entry]\<rparr>)" "st_keys guarded_agent = Some sample_keys"
    "orgs_or_empty (st_org_keys guarded_agent) = Map.empty"
    "find_entry ''1'' [guarded_entry] = Some guarded_entry"
    "master_password_reprompt guarded_entry"
    by (simp_all add: guarded_agent_def open_agent_def guarded_entry_def sample_stored_entry_def find_entry_def
        master_password_reprompt_def orgs_or_empty_def)
  have "handle_get_password sample_crypto sample_kdf (Inr sample_config) ''1'' (Some sample_password) guarded_agent
     = Ret (Response_Password (Secret ''hunter2''))"
    using guarded_entry_decrypts
    by (auto simp: handle_get_password_def handle_get_entry_def g guarded_verified password_of_entry_def)
  moreover have "expose_or_empty (db_protected_key (sample_db\<lparr>db_entries := [guarded_entry]\<rparr>)) = sample_protected_key"
    by (simp add: expose_or_empty_def sample_db_def)
  ultimately show ?thesis
    using reprompt_gate [OF g(1) _ g(5), of "''1''" sample_crypto sample_kdf "Inr sample_config" "Some sample_password" _
        "Secret ''hunter2''"] g(4) by auto
qed




section \<open>Synchronising\<close>










text \<open>
  A sync that fails because the vault was locked under it is no failure: it is acknowledged and
  leaves no mark. In every other case a failed sync is reported and remembered.
\<close>

theorem failed_sync_lock_race:
  assumes "sync_call E (en_sched E x) = (Ret (Inl e), y)"
  shows "handle_sync E x =
    (let z = en_sched E y in
     if st_keys (fst z) = None \<and> st_keys (fst (en_sched E x)) \<noteq> None then (Ret Ack, z)
     else (Ret (Error (''sync failed: '' @ e)), mark_failed e (fst z), snd z))"
  using handle_sync_failed [OF assms] by (simp add: Let_def)

theorem failed_sync_lock_race_witness:
  "\<exists>e w. handle_sync sample_env (agent_new 1, small_host) = (Ret (Error (''sync failed: '' @ e)), mark_failed e (agent_new 1), w)"
proof -
  have "sync_call sample_env (en_sched sample_env (agent_new 1, small_host)) = (Ret (Inl ''agent is locked''), agent_new 1, small_host)"
    by (simp add: sync_call_def with_refresh_def first_token_def task_defs agent_new_def)
  from failed_sync_lock_race [OF this] show ?thesis
    by (simp add: Let_def agent_new_def)
qed

text \<open>
  To an address that is neither https nor on the own machine nothing is sent: every call of the
  client fails before it touches the network, and changes nothing.
\<close>

theorem insecure_server_gets_nothing:
  assumes "\<not> secure_url E (ac_base_url c) \<or> \<not> secure_url E (ac_identity_url c)"
  shows "(\<exists>e. client_sync E c at x = (Ret (Inl e), x)) \<and> (\<exists>e. exchange_refresh_token E c rt x = (Ret (Inl e), x))
    \<and> (\<exists>e. client_login E c m dev h tt tp tc dv x = (Ret (Inl e), x))
    \<and> (\<exists>e. post_cipher E c at po x = (Ret (Inl e), x)) \<and> (\<exists>e. update_cipher E c at i pu x = (Ret (Inl e), x))
    \<and> (\<exists>e. update_favorite E c at i fav fo x = (Ret (Inl e), x)) \<and> (\<exists>e. delete_cipher E c at i x = (Ret (Inl e), x))"
  by (intro conjI; rule api_calls_insecure [OF assms])

theorem insecure_server_gets_nothing_witness:
  "\<exists>e. client_sync sample_env \<lparr>ac_base_url = ''http://vault.example'', ac_identity_url = ''https://vault.example''\<rparr> ''at''
     (open_agent, sample_host) = (Ret (Inl e), open_agent, sample_host)"
proof -
  let ?c = "\<lparr>ac_base_url = ''http://vault.example'', ac_identity_url = ''https://vault.example''\<rparr>"
  have "\<not> starts_with ''https:'' ''http://vault.example''" and "\<not> host_is_loopback (Host_Domain ''vault.example'')"
    by code_simp+
  then have "\<not> secure_url sample_env (ac_base_url ?c)"
    by (simp add: secure_url_def sample_env_def)
  then show ?thesis
    using insecure_server_gets_nothing [of sample_env ?c] by blast
qed

text \<open>
  Pinning and unpinning keep the favorites of the entries and the pinned ids the same set.
\<close>

theorem favorites_stay_pinned:
  assumes "st_db s = Some d" and "st_pinned_ids s = favorite_ids (db_entries d)"
    and "distinct (map e_id (db_entries d))" and "find_entry i (db_entries d) = Some e"
  shows "\<exists>d'. st_db (favorite_locally i fav s) = Some d'
    \<and> st_pinned_ids (favorite_locally i fav s) = favorite_ids (db_entries d')
    \<and> (i \<in> favorite_ids (db_entries d') \<longleftrightarrow> fav) \<and> map e_id (db_entries d') = map e_id (db_entries d)"
proof -
  obtain d' where d': "st_db (favorite_locally i fav s) = Some d'"
    "st_pinned_ids (favorite_locally i fav s) = favorite_ids (db_entries d')"
    "map e_id (db_entries d') = map e_id (db_entries d)"
    using favorite_locally_pinned [OF assms] by blast
  moreover have "i \<in> st_pinned_ids (favorite_locally i fav s) \<longleftrightarrow> fav"
    by (simp add: favorite_locally_def upd_db_def)
  ultimately show ?thesis
    by auto
qed

theorem favorites_stay_pinned_witness:
  "\<exists>d'. st_db (favorite_locally ''1'' False (locked_agent\<lparr>st_pinned_ids := {''1''}\<rparr>)) = Some d'
     \<and> ''1'' \<notin> favorite_ids (db_entries d')"
  using favorites_stay_pinned [of "locked_agent\<lparr>st_pinned_ids := {''1''}\<rparr>" sample_db "''1''" sample_stored_entry False]
  by (auto simp: locked_agent_def sample_db_def sample_stored_entry_def find_entry_def)

end
