(* ===== verification/Debug_Output.thy ===== *)
theory Debug_Output
  imports Protocol Redaction
begin

text \<open>
  \<open>cosmarden-core/src/protocol/debug_impls.rs\<close>: the hand-written \<open>Debug\<close> of requests and
  responses, which is what the agent, the clients and the browser host put in their logs, and the
  derived \<open>Debug\<close> of the small types it prints.

  \<open>du\<close> stands for the part of \<open>str\<close>'s escaping that reads the Unicode tables: it is applied to
  each maximal run of bytes outside ASCII.
\<close>

section \<open>Derived \<open>Debug\<close>\<close>

fun show_hex :: "nat \<Rightarrow> string" where
  "show_hex n = (if n < 16 then [''0123456789abcdef'' ! n]
     else show_hex (n div 16) @ [''0123456789abcdef'' ! (n mod 16)])"

definition debug_ascii :: "char \<Rightarrow> string" where
  "debug_ascii c =
     (if c = CHR 0x00 then [CHR 0x5C, CHR ''0'']
      else if c = CHR 0x09 then [CHR 0x5C, CHR ''t'']
      else if c = CHR 0x0A then [CHR 0x5C, CHR ''n'']
      else if c = CHR 0x0D then [CHR 0x5C, CHR ''r'']
      else if c = CHR 0x5C \<or> c = CHR 0x22 then [CHR 0x5C, c]
      else if of_char c < (32 :: nat) \<or> c = CHR 0x7F
      then CHR 0x5C # ''u{'' @ show_hex (of_char c) @ ''}''
      else [c])"

definition is_ascii :: "char \<Rightarrow> bool" where
  "is_ascii c \<longleftrightarrow> of_char c < (128 :: nat)"

function debug_chars :: "(string \<Rightarrow> string) \<Rightarrow> string \<Rightarrow> string" where
  "debug_chars du [] = []"
| "debug_chars du (c # s) =
     (if is_ascii c then debug_ascii c @ debug_chars du s
      else du (c # takeWhile (Not \<circ> is_ascii) s) @ debug_chars du (dropWhile (Not \<circ> is_ascii) s))"
  by pat_completeness auto
termination
  by (relation "measure (\<lambda>(du, s). length s)") (auto simp: le_imp_less_Suc length_dropWhile_le)

definition debug_str :: "(string \<Rightarrow> string) \<Rightarrow> string \<Rightarrow> string" where
  "debug_str du s = CHR 0x22 # debug_chars du s @ [CHR 0x22]"

definition show_bool :: "bool \<Rightarrow> string" where
  "show_bool b = (if b then ''true'' else ''false'')"

definition show_word :: "'a :: len word \<Rightarrow> string" where
  "show_word w = show_nat (unat w)"

fun debug_option :: "('a \<Rightarrow> string) \<Rightarrow> 'a option \<Rightarrow> string" where
  "debug_option d None = ''None''"
| "debug_option d (Some a) = ''Some('' @ d a @ '')''"

fun debug_items :: "('a \<Rightarrow> string) \<Rightarrow> 'a list \<Rightarrow> string" where
  "debug_items d [] = []"
| "debug_items d [a] = d a"
| "debug_items d (a # b # l) = d a @ '', '' @ debug_items d (b # l)"

definition debug_list :: "('a \<Rightarrow> string) \<Rightarrow> 'a list \<Rightarrow> string" where
  "debug_list d l = ''['' @ debug_items d l @ '']''"

definition generator_settings_debug :: "generator_settings \<Rightarrow> string" where
  "generator_settings_debug g =
     ''GeneratorSettings { uppercase: '' @ show_bool (gs_uppercase g) @
     '', lowercase: '' @ show_bool (gs_lowercase g) @
     '', numbers: '' @ show_bool (gs_numbers g) @
     '', special: '' @ show_bool (gs_special g) @
     '', length: '' @ show_word (gs_length g) @ '' }''"

definition tpm_da_status_debug :: "tpm_da_status \<Rightarrow> string" where
  "tpm_da_status_debug d =
     ''TpmDaStatus { available: '' @ show_bool (da_available d) @
     '', max_tries: '' @ debug_option show_word (da_max_tries d) @
     '', lockout_counter: '' @ debug_option show_word (da_lockout_counter d) @
     '', remaining: '' @ debug_option show_word (da_remaining d) @
     '', in_lockout: '' @ show_bool (da_in_lockout d) @
     '', recovery_interval_secs: '' @ debug_option show_word (da_recovery_interval_secs d) @ '' }''"

fun event_debug :: "(string \<Rightarrow> string) \<Rightarrow> event \<Rightarrow> string" where
  "event_debug du Locked = ''Locked''"
| "event_debug du Unlocked = ''Unlocked''"
| "event_debug du VaultChanged = ''VaultChanged''"
| "event_debug du UnlockRequested = ''UnlockRequested''"
| "event_debug du PinRequested = ''PinRequested''"
| "event_debug du (OpenEntry i) = ''OpenEntry { id: '' @ debug_str du i @ '' }''"

section \<open>Requests\<close>

fun action_debug :: "(string \<Rightarrow> string) \<Rightarrow> action \<Rightarrow> string" where
  "action_debug du (GetEntry i p) = ''GetEntry { id: '' @ debug_str du i @ '' }''"
| "action_debug du (GetEntryMeta i) = ''GetEntryMeta { id: '' @ debug_str du i @ '' }''"
| "action_debug du (GetPassword i p) = ''GetPassword { id: '' @ debug_str du i @ '' }''"
| "action_debug du (GetTotp i p) = ''GetTotp { id: '' @ debug_str du i @ '' }''"
| "action_debug du (DeleteEntry i) = ''DeleteEntry { id: '' @ debug_str du i @ '' }''"
| "action_debug du (PinEntry i) = ''PinEntry { id: '' @ debug_str du i @ '' }''"
| "action_debug du (UnpinEntry i) = ''UnpinEntry { id: '' @ debug_str du i @ '' }''"
| "action_debug du (SetPendingEntry i) = ''SetPendingEntry { id: '' @ debug_str du i @ '' }''"
| "action_debug du (UpdateLockTimeout s) = ''UpdateLockTimeout { seconds: '' @ show_word s @ '' }''"
| "action_debug du (GeneratePassword g) =
     ''GeneratePassword { settings: '' @ debug_option generator_settings_debug g @ '' }''"
| "action_debug du (DeleteGeneratedPassword c) =
     ''DeleteGeneratedPassword { created_at: '' @ show_word c @ '' }''"
| "action_debug du other = variant_name other"

section \<open>Responses\<close>

definition is_some :: "'a option \<Rightarrow> nat" where
  "is_some x = (case x of None \<Rightarrow> 0 | Some a \<Rightarrow> 1)"

definition secret_field_filled :: "field \<Rightarrow> bool" where
  "secret_field_filled f \<longleftrightarrow> f_ty f = Some FT_Hidden \<and> f_value f \<noteq> None"

fun data_secret_count :: "entry_data \<Rightarrow> nat" where
  "data_secret_count (Login l) = is_some (lg_password l) + is_some (lg_totp l)"
| "data_secret_count (Card c) = is_some (cd_number c) + is_some (cd_code c)"
| "data_secret_count (SshKey k) = is_some (sk_private_key k)"
| "data_secret_count (BankAccount b) =
     is_some (ba_account_number b) + is_some (ba_routing_number b) + is_some (ba_branch_number b)
     + is_some (ba_pin b) + is_some (ba_swift_code b) + is_some (ba_iban b)"
| "data_secret_count (DriversLicense d) = is_some (dl_license_number d)"
| "data_secret_count (Passport p) =
     is_some (pp_passport_number p) + is_some (pp_national_identification_number p)
     + is_some (pp_date_of_birth p)"
| "data_secret_count (Identity i) =
     is_some (id_ssn i) + is_some (id_license_number i) + is_some (id_passport_number i)"
| "data_secret_count SecureNote = 0"

definition meta_secret_count :: "entry \<Rightarrow> nat" where
  "meta_secret_count e =
     is_some (e_notes e) + length (filter secret_field_filled (e_fields e)) + data_secret_count (e_data e)"

fun response_debug :: "(string \<Rightarrow> string) \<Rightarrow> response \<Rightarrow> string" where
  "response_debug du Ack = ''Ack''"
| "response_debug du (Error m) = ''Error { message: '' @ debug_str du m @ '' }''"
| "response_debug du (Response_TwoFactorRequired token providers) =
     ''TwoFactorRequired { providers: '' @ debug_list show_word providers @ '', token: <redacted> }''"
| "response_debug du Response_NewDeviceVerificationRequired = ''NewDeviceVerificationRequired''"
| "response_debug du (Config cfg needs_login has_account is_locked sync_failed session lock_epoch) =
     ''Config { needs_login: '' @ show_bool needs_login @ '', has_account: '' @ show_bool has_account @
     '', is_locked: '' @ show_bool is_locked @ '', sync_failed: '' @ show_bool sync_failed @
     '', lock_epoch: '' @ show_word lock_epoch @ '' }''"
| "response_debug du (Entries es) = ''Entries { count: '' @ show_nat (length es) @ '', <redacted> }''"
| "response_debug du (SidebarEntries es) = ''SidebarEntries { count: '' @ show_nat (length es) @ '' }''"
| "response_debug du (Response_Entry e) = ''Entry { <redacted> }''"
| "response_debug du (EntryMeta e filled) =
     ''EntryMeta { secrets_in_entry: '' @ show_nat (meta_secret_count e) @
     '', filled_secrets: '' @ debug_list (debug_str du) filled @ '' }''"
| "response_debug du (Response_Password p) = ''Password { <redacted> }''"
| "response_debug du (Totp c) = ''Totp { <redacted> }''"
| "response_debug du (Response_Version v pv) =
     ''Version { version: '' @ debug_str du v @ '', protocol_version: '' @ debug_str du pv @ '' }''"
| "response_debug du (Event ev) = ''Event { event: '' @ event_debug du ev @ '' }''"
| "response_debug du (TpmStatus available configured) =
     ''TpmStatus { available: '' @ show_bool available @ '', configured: '' @ show_bool configured @ '' }''"
| "response_debug du (TpmDiagnostics checks) = ''TpmDiagnostics { checks: '' @ show_nat (length checks) @ '' }''"
| "response_debug du (TpmDaStatus status) = ''TpmDaStatus { '' @ tpm_da_status_debug status @ '' }''"
| "response_debug du (LoginMatch entry_id name matches) =
     ''LoginMatch { entry_id: '' @ debug_option (debug_str du) entry_id @
     '', password_matches: '' @ show_bool matches @ '' }''"
| "response_debug du (GeneratedPassword p) = ''GeneratedPassword { <redacted> }''"
| "response_debug du (GeneratorSettings g) =
     ''GeneratorSettings { settings: '' @ generator_settings_debug g @ '' }''"
| "response_debug du (PasswordHistory es) =
     ''PasswordHistory { count: '' @ show_nat (length es) @ '', <redacted> }''"

text \<open>What a connection of the agent logs about one request and its response.\<close>

definition request_log :: "(string \<Rightarrow> string) \<Rightarrow> action \<Rightarrow> response \<Rightarrow> string list" where
  "request_log du a r =
     [''Parsed request: '' @ action_debug du a, ''Response: '' @ response_debug du r]
     @ (case r of Error m \<Rightarrow> [''request failed: '' @ m] | _ \<Rightarrow> [])"

section \<open>What the log lines do not show\<close>

text \<open>
  The same request, entry or response with every secret in it replaced: passwords, PINs, codes,
  session tokens, notes, hidden custom fields, and the slots that \<open>redact_entry_secrets\<close> clears.
  Which slots are filled stays visible.
\<close>

abbreviation wiped :: "secret option \<Rightarrow> secret option" where
  "wiped \<equiv> map_option (\<lambda>_. Secret [])"

abbreviation blanked :: "string option \<Rightarrow> string option" where
  "blanked \<equiv> map_option (\<lambda>_. [])"

definition wipe_login :: "login \<Rightarrow> login" where
  "wipe_login l = l\<lparr>lg_password := wiped (lg_password l), lg_totp := wiped (lg_totp l)\<rparr>"

definition wipe_card :: "card \<Rightarrow> card" where
  "wipe_card c = c\<lparr>cd_number := wiped (cd_number c), cd_code := wiped (cd_code c)\<rparr>"

definition wipe_bank :: "bank_account \<Rightarrow> bank_account" where
  "wipe_bank b = b\<lparr>ba_account_number := wiped (ba_account_number b),
     ba_routing_number := wiped (ba_routing_number b), ba_branch_number := blanked (ba_branch_number b),
     ba_pin := wiped (ba_pin b), ba_swift_code := blanked (ba_swift_code b), ba_iban := blanked (ba_iban b)\<rparr>"

definition wipe_license :: "drivers_license \<Rightarrow> drivers_license" where
  "wipe_license d = d\<lparr>dl_license_number := wiped (dl_license_number d)\<rparr>"

definition wipe_passport :: "passport \<Rightarrow> passport" where
  "wipe_passport p = p\<lparr>pp_passport_number := wiped (pp_passport_number p),
     pp_national_identification_number := blanked (pp_national_identification_number p),
     pp_date_of_birth := blanked (pp_date_of_birth p)\<rparr>"

fun wipe_data :: "entry_data \<Rightarrow> entry_data" where
  "wipe_data (Login l) = Login (wipe_login l)"
| "wipe_data (Card c) = Card (wipe_card c)"
| "wipe_data (Identity i) = Identity (i\<lparr>id_ssn := blanked (id_ssn i),
     id_license_number := blanked (id_license_number i), id_passport_number := blanked (id_passport_number i)\<rparr>)"
| "wipe_data SecureNote = SecureNote"
| "wipe_data (SshKey k) = SshKey (k\<lparr>sk_private_key := wiped (sk_private_key k)\<rparr>)"
| "wipe_data (BankAccount b) = BankAccount (wipe_bank b)"
| "wipe_data (DriversLicense d) = DriversLicense (wipe_license d)"
| "wipe_data (Passport p) = Passport (wipe_passport p)"

definition wipe_field :: "field \<Rightarrow> field" where
  "wipe_field f = (if f_ty f = Some FT_Hidden then f\<lparr>f_value := wiped (f_value f)\<rparr> else f)"

definition wipe_entry :: "entry \<Rightarrow> entry" where
  "wipe_entry e = e\<lparr>e_data := wipe_data (e_data e), e_notes := wiped (e_notes e),
     e_fields := map wipe_field (e_fields e), e_history := map (\<lambda>h. h\<lparr>h_password := Secret []\<rparr>) (e_history e)\<rparr>"

definition wipe_login_request :: "login_request \<Rightarrow> login_request" where
  "wipe_login_request q = q\<lparr>lr_password := [], lr_two_factor_token := blanked (lr_two_factor_token q),
     lr_two_factor_code := blanked (lr_two_factor_code q),
     lr_device_verification_code := blanked (lr_device_verification_code q)\<rparr>"

definition wipe_new_entry :: "new_entry \<Rightarrow> new_entry" where
  "wipe_new_entry n = n\<lparr>ne_password := wiped (ne_password n), ne_notes := wiped (ne_notes n),
     ne_fields := map wipe_field (ne_fields n), ne_totp := wiped (ne_totp n)\<rparr>"

fun wipe_action :: "action \<Rightarrow> action" where
  "wipe_action (Action_Register email p url) = Action_Register email [] url"
| "wipe_action (Action_Login q) = Action_Login (wipe_login_request q)"
| "wipe_action (Action_Unlock p) = Action_Unlock []"
| "wipe_action (GetEntry i p) = GetEntry i (blanked p)"
| "wipe_action (GetPassword i p) = GetPassword i (blanked p)"
| "wipe_action (GetTotp i p) = GetTotp i (blanked p)"
| "wipe_action (AddEntry n) = AddEntry (wipe_new_entry n)"
| "wipe_action (AddSecureNote n t fs) = AddSecureNote n (Secret []) (map wipe_field fs)"
| "wipe_action (AddCard n c t fs) = AddCard n (wipe_card c) (wiped t) (map wipe_field fs)"
| "wipe_action (AddIdentity n i t fs) = AddIdentity n i (wiped t) (map wipe_field fs)"
| "wipe_action (AddSshKey n k pub t fs) = AddSshKey n (Secret []) pub (wiped t) (map wipe_field fs)"
| "wipe_action (AddBankAccount n b t fs) = AddBankAccount n (wipe_bank b) (wiped t) (map wipe_field fs)"
| "wipe_action (AddDriversLicense n d t fs) = AddDriversLicense n (wipe_license d) (wiped t) (map wipe_field fs)"
| "wipe_action (AddPassport n p t fs) = AddPassport n (wipe_passport p) (wiped t) (map wipe_field fs)"
| "wipe_action (UpdateEntry e) = UpdateEntry (wipe_entry e)"
| "wipe_action (SetupTpmPin m p) = SetupTpmPin [] []"
| "wipe_action (SetupTpmPinFromUnlocked p) = SetupTpmPinFromUnlocked []"
| "wipe_action (UnlockWithPin p) = UnlockWithPin []"
| "wipe_action (CheckLoginMatch d u p) = CheckLoginMatch d u []"
| "wipe_action (UpdateLoginPassword i p) = UpdateLoginPassword i []"
| "wipe_action a = a"

fun wipe_response :: "response \<Rightarrow> response" where
  "wipe_response (Response_TwoFactorRequired token ps) = Response_TwoFactorRequired [] ps"
| "wipe_response (Entries es) = Entries (map wipe_entry es)"
| "wipe_response (Response_Entry e) = Response_Entry (wipe_entry e)"
| "wipe_response (EntryMeta e filled) = EntryMeta (wipe_entry e) filled"
| "wipe_response (Response_Password p) = Response_Password (Secret [])"
| "wipe_response (Totp c) = Totp (Secret [])"
| "wipe_response (GeneratedPassword p) = GeneratedPassword (Secret [])"
| "wipe_response (PasswordHistory es) = PasswordHistory (map (\<lambda>h. h\<lparr>gh_password := Secret []\<rparr>) es)"
| "wipe_response r = r"

lemmas wipe_defs = wipe_login_def wipe_card_def wipe_bank_def wipe_license_def wipe_passport_def

lemma is_some_simps [simp]: "is_some None = 0" "is_some (Some a) = 1" "is_some (map_option h x) = is_some x"
  by (simp_all add: is_some_def split: option.split)

lemma data_secret_count_wiped [simp]: "data_secret_count (wipe_data d) = data_secret_count d"
  by (cases d) (simp_all add: wipe_defs)

lemma secret_field_filled_wiped [simp]: "secret_field_filled (wipe_field f) = secret_field_filled f"
  by (simp add: secret_field_filled_def wipe_field_def)

lemma meta_secret_count_wiped [simp]: "meta_secret_count (wipe_entry e) = meta_secret_count e"
  by (simp add: meta_secret_count_def wipe_entry_def filter_map comp_def)

lemma action_debug_wiped [secrecy]: "action_debug du (wipe_action a) = action_debug du a"
  by (cases a) simp_all

lemma response_debug_wiped [secrecy]: "response_debug du (wipe_response r) = response_debug du r"
  by (cases r) simp_all

text \<open>The count in the line of an \<open>EntryMeta\<close> is zero for what the agent answers.\<close>

lemma data_secret_count_redacted: "data_secret_count (redact_data d) = 0"
  by (cases d) simp_all

lemma meta_secret_count_redacted [secrecy]: "meta_secret_count (redact_entry_secrets e) = 0"
  by (simp add: meta_secret_count_def redact_entry_secrets_def data_secret_count_redacted filter_map comp_def
      secret_field_filled_def redact_field_def cong: filter_cong)

end
