(* ===== verification/Ipc_Client.thy ===== *)
theory Ipc_Client
  imports Agent_Dispatch Debug_Output
begin

text \<open>
  The two ends of the agent's socket. The client end is \<open>cosmarden-core/src/agent_client.rs\<close>:
  framing, the persistent connection with its one retry, and the event stream. The agent end is
  the connection loop of \<open>cosmarden-agent/src/lib.rs\<close> over the bytes it has received, one
  \<open>serve_frame\<close> per complete frame.

  A socket library is a value of type \<open>('w, 's) sock_lib\<close>: what \<open>connect\<close>, \<open>write_all\<close> and
  \<open>read_exact\<close> answer, in a world of type \<open>'w\<close>. The codec is \<open>postcard\<close>.
\<close>

unbundle bit_operations_syntax

text \<open>What \<open>AgentClient::send\<close> is to its callers.\<close>

type_synonym 'w requester = "action \<Rightarrow> 'w \<Rightarrow> (error + response) \<times> 'w"

section \<open>Frames\<close>

definition to_le_bytes :: "u32 \<Rightarrow> u8 list" where
  "to_le_bytes n = [ucast n, ucast (drop_bit 8 n), ucast (drop_bit 16 n), ucast (drop_bit 24 n)]"

fun from_le_bytes :: "u8 list \<Rightarrow> u32" where
  "from_le_bytes [] = 0"
| "from_le_bytes (b # bs) = ucast b OR push_bit 8 (from_le_bytes bs)"

lemma length_to_le_bytes [simp]: "length (to_le_bytes n) = 4"
  by (simp add: to_le_bytes_def)

lemma from_to_le_bytes [wire]: "from_le_bytes (to_le_bytes n) = n"
proof (rule bit_word_eqI)
  fix k assume "k < LENGTH(32)"
  then show "bit (from_le_bytes (to_le_bytes n)) k = bit n k"
    by (cases "k < 8"; cases "k < 16"; cases "k < 24") (auto simp: to_le_bytes_def bit_simps)
qed

definition ipc_frame_len :: "u32 \<Rightarrow> error + nat" where
  "ipc_frame_len claimed =
     (let n = unat claimed in
      if MAX_IPC_FRAME_BYTES < n
      then Inl (Other (''IPC frame length '' @ show_nat n @ '' exceeds cap '' @ show_nat MAX_IPC_FRAME_BYTES))
      else Inr n)"

text \<open>The two writes of a frame; the length is cast \<open>as u32\<close>.\<close>

definition framed :: "u8 list \<Rightarrow> u8 list" where
  "framed b = to_le_bytes (of_nat (length b)) @ b"

section \<open>The client's end\<close>

type_synonym ('w, 'e, 'a) io = "'w \<Rightarrow> ('e + 'a) \<times> 'w"

record ('w, 's) sock_lib =
  so_connect :: "string \<Rightarrow> ('w, string, 's) io"
  so_write_all :: "'s \<Rightarrow> u8 list \<Rightarrow> ('w, string, unit) io"
  so_read_exact :: "'s \<Rightarrow> nat \<Rightarrow> ('w, string, u8 list) io"

record codec =
  co_encode_action :: "action \<Rightarrow> string + u8 list"
  co_decode_response :: "u8 list \<Rightarrow> string + response"

definition io_ret :: "'a \<Rightarrow> ('w, 'e, 'a) io" where
  "io_ret a w = (Inr a, w)"

definition io_fail :: "'e \<Rightarrow> ('w, 'e, 'a) io" where
  "io_fail e w = (Inl e, w)"

text \<open>\<open>m.map_err(h)?\<close> followed by \<open>f\<close>.\<close>

definition io_try :: "('e \<Rightarrow> 'f) \<Rightarrow> ('w, 'e, 'a) io \<Rightarrow> ('a \<Rightarrow> ('w, 'f, 'b) io) \<Rightarrow> ('w, 'f, 'b) io" where
  "io_try h m f w = (case m w of (Inl e, w) \<Rightarrow> (Inl (h e), w) | (Inr a, w) \<Rightarrow> f a w)"

definition io_out :: "'e + 'a \<Rightarrow> ('w, 'e, 'a) io" where
  "io_out r w = (r, w)"

definition other :: "string \<Rightarrow> string \<Rightarrow> error" where
  "other context e = Other (context @ e)"

definition write_action :: "('w, 's) sock_lib \<Rightarrow> codec \<Rightarrow> 's \<Rightarrow> action \<Rightarrow> ('w, error, unit) io" where
  "write_action L C s a =
     io_try (other ''failed to serialize request: '') (io_out (co_encode_action C a)) (\<lambda>bytes.
     io_try (other ''socket write error: '') (so_write_all L s (to_le_bytes (of_nat (length bytes)))) (\<lambda>_.
     io_try (other ''socket write error: '') (so_write_all L s bytes) io_ret))"

definition read_response :: "('w, 's) sock_lib \<Rightarrow> codec \<Rightarrow> 's \<Rightarrow> ('w, error, response) io" where
  "read_response L C s =
     io_try (other ''socket read error: '') (so_read_exact L s 4) (\<lambda>len_buf.
     io_try (\<lambda>e. e) (io_out (ipc_frame_len (from_le_bytes len_buf))) (\<lambda>n.
     io_try (other ''socket read error: '') (so_read_exact L s n) (\<lambda>buf.
     io_try (other ''failed to deserialize response: '') (io_out (co_decode_response C buf)) io_ret)))"

definition do_send :: "('w, 's) sock_lib \<Rightarrow> codec \<Rightarrow> 's \<Rightarrow> action \<Rightarrow> ('w, error, response) io" where
  "do_send L C s a = io_try (\<lambda>e. e) (write_action L C s a) (\<lambda>_. read_response L C s)"

record 's persistent_conn =
  pc_path :: string
  pc_stream :: "'s option"

definition no_conn :: "'s persistent_conn" where
  "no_conn = \<lparr>pc_path = [], pc_stream = None\<rparr>"

text \<open>
  The connected stream, made if there is none. Then the loop over the attempts; the text after
  it is \<open>unreachable!()\<close>.
\<close>

definition ensure_stream ::
  "('w, 's) sock_lib \<Rightarrow> string \<Rightarrow> 's persistent_conn \<Rightarrow> ('w, error, 's) io" where
  "ensure_stream L path c = (case pc_stream c of
     Some s \<Rightarrow> io_ret s
   | None \<Rightarrow> io_try (other ''failed to connect to agent: '') (so_connect L path) io_ret)"

primrec send_attempts ::
  "('w, 's) sock_lib \<Rightarrow> codec \<Rightarrow> string \<Rightarrow> action \<Rightarrow> nat list \<Rightarrow> 's persistent_conn \<Rightarrow> 'w
    \<Rightarrow> (error, response) fallible \<times> 's persistent_conn \<times> 'w" where
  "send_attempts L C path a [] c w = (Panic ''internal error: entered unreachable code'', c, w)"
| "send_attempts L C path a (attempt # rest) c w =
     (case ensure_stream L path c w of
        (Inl e, w) \<Rightarrow> (Fail e, c, w)
      | (Inr s, w) \<Rightarrow>
          (case do_send L C s a w of
             (Inr r, w) \<Rightarrow> (Okay r, c\<lparr>pc_stream := Some s\<rparr>, w)
           | (Inl e, w) \<Rightarrow>
               (if attempt = 0 then send_attempts L C path a rest (c\<lparr>pc_stream := None\<rparr>) w
                else (Fail e, c\<lparr>pc_stream := Some s\<rparr>, w))))"

definition for_path :: "string \<Rightarrow> 's persistent_conn \<Rightarrow> 's persistent_conn" where
  "for_path path c = (if pc_path c \<noteq> path then c\<lparr>pc_stream := None, pc_path := path\<rparr> else c)"

definition send ::
  "('w, 's) sock_lib \<Rightarrow> codec \<Rightarrow> string \<Rightarrow> action \<Rightarrow> 's persistent_conn \<Rightarrow> 'w
    \<Rightarrow> (error, response) fallible \<times> 's persistent_conn \<times> 'w" where
  "send L C path a c w = send_attempts L C path a [0, 1] (for_path path c) w"

text \<open>
  The event stream. \<open>next_event\<close> reads until a frame is an event: an agent that keeps sending
  other frames keeps it reading, so it is partial.
\<close>

definition connect_with_socket ::
  "('w, 's) sock_lib \<Rightarrow> codec \<Rightarrow> (string \<Rightarrow> string) \<Rightarrow> string \<Rightarrow> ('w, error, 's) io" where
  "connect_with_socket L C du path =
     io_try (other ''failed to connect to agent: '') (so_connect L path) (\<lambda>s.
     io_try (\<lambda>e. e) (write_action L C s Subscribe) (\<lambda>_.
     io_try (\<lambda>e. e) (read_response L C s) (\<lambda>r.
       if r = Ack then io_ret s
       else io_fail (other ''agent refused Subscribe: '' (response_debug du r)))))"

fun event_of :: "response \<Rightarrow> event option" where
  "event_of (Event ev) = Some ev"
| "event_of r = None"

partial_function (option) next_event ::
  "('w, 's) sock_lib \<Rightarrow> codec \<Rightarrow> 's \<Rightarrow> 'w \<Rightarrow> ((error + event) \<times> 'w) option" where
  "next_event L C s w =
     (case read_response L C s w of
        (Inl e, w) \<Rightarrow> Some (Inl e, w)
      | (Inr r, w) \<Rightarrow> (case event_of r of Some ev \<Rightarrow> Some (Inr ev, w) | None \<Rightarrow> next_event L C s w))"

section \<open>The agent's end\<close>

text \<open>
  A connection as its task sees it: the bytes that have arrived and are not consumed, the bytes
  written and not yet read by the peer, and what the task does next. \<open>conn_step\<close> is one turn of
  the loop; \<open>None\<close> means that it waits in \<open>read_exact\<close> or has ended. A handler that panics ends
  the task, and with it the connection.
\<close>

record connection =
  cn_received :: "u8 list"
  cn_written :: "u8 list"
  cn_next :: connection_next

definition fresh_conn :: connection where
  "fresh_conn = \<lparr>cn_received = [], cn_written = [], cn_next = Next_Frame\<rparr>"

type_synonym 'w served = "connection \<times> timer \<times> agent \<times> 'w"

definition frame_ready :: "connection \<Rightarrow> bool" where
  "frame_ready c \<longleftrightarrow> cn_next c = Next_Frame \<and> 4 \<le> length (cn_received c) \<and>
     (let n = unat (from_le_bytes (take 4 (cn_received c))) in
      MAX_IPC_FRAME_BYTES < n \<or> n \<le> length (drop 4 (cn_received c)))"

definition serve_ready :: "'w env \<Rightarrow> 'w served \<Rightarrow> 'w served" where
  "serve_ready E = (\<lambda>(c, t, x).
     let len = from_le_bytes (take 4 (cn_received c)); rest = drop 4 (cn_received c); n = unat len in
     case serve_frame E t len (take n rest) x of
       (Panic m, y) \<Rightarrow> (c\<lparr>cn_next := Close\<rparr>, t, y)
     | (Ret (reply, next, t), y) \<Rightarrow>
         (\<lparr>cn_received = drop n rest,
           cn_written = cn_written c @ (case reply of None \<Rightarrow> [] | Some b \<Rightarrow> framed b),
           cn_next = next\<rparr>, t, y))"

function serve_conn :: "'w env \<Rightarrow> 'w served \<Rightarrow> 'w served" where
  "serve_conn E z = (if frame_ready (fst z) then serve_conn E (serve_ready E z) else z)"
  by pat_completeness auto

definition conn_work :: "connection \<Rightarrow> nat" where
  "conn_work c = length (cn_received c) + (if cn_next c = Next_Frame then 1 else 0)"

lemma serve_ready_less:
  assumes "frame_ready (fst z)"
  shows "conn_work (fst (serve_ready E z)) < conn_work (fst z)"
proof (cases z)
  case (fields c t x)
  have "length (cn_received c) - Suc (Suc (Suc (Suc n))) < length (cn_received c)" for n
    using assms fields by (auto simp: frame_ready_def)
  then show ?thesis
    using assms fields
    by (auto simp: serve_ready_def conn_work_def frame_ready_def Let_def case_prod_unfold split: outcome.splits)
qed

termination serve_conn
  by (relation "measure (conn_work \<circ> fst \<circ> snd)") (auto simp: serve_ready_less)

declare serve_conn.simps [simp del]

text \<open>The streaming loop that a subscribed connection enters, over the events it receives.\<close>

definition stream_events :: "'w env \<Rightarrow> event list \<Rightarrow> u8 list" where
  "stream_events E evs = concat (map (\<lambda>ev. framed (en_encode_response E (Event ev))) evs)"

section \<open>Frames that arrive whole\<close>

lemma frame_cap_u32: "length b \<le> MAX_IPC_FRAME_BYTES \<Longrightarrow> unat (of_nat (length b) :: u32) = length b"
  by (simp add: MAX_IPC_FRAME_BYTES_def unat_of_nat)

lemma take_framed [simp]: "take 4 (framed b) = to_le_bytes (of_nat (length b))"
  and drop_framed [simp]: "drop 4 (framed b) = b"
  and length_framed [simp]: "length (framed b) = 4 + length b"
  by (simp_all add: framed_def)

text \<open>The bytes a peer wrote before it closed, as a socket of the client.\<close>

definition buffer_lib :: "(u8 list, unit) sock_lib" where
  "buffer_lib = \<lparr>
     so_connect = (\<lambda>path. io_ret ()),
     so_write_all = (\<lambda>s b. io_ret ()),
     so_read_exact = (\<lambda>s n w. if n \<le> length w then (Inr (take n w), drop n w) else (Inl ''early eof'', []))\<rparr>"

lemma buffer_lib_sel [simp]:
  "so_connect buffer_lib path = io_ret ()"
  "so_write_all buffer_lib s b = io_ret ()"
  "so_read_exact buffer_lib s n w = (if n \<le> length w then (Inr (take n w), drop n w) else (Inl ''early eof'', []))"
  by (simp_all add: buffer_lib_def)

lemmas io_defs = io_try_def io_out_def io_ret_def io_fail_def

lemma read_framed:
  assumes "co_decode_response C b = Inr r" and "length b \<le> MAX_IPC_FRAME_BYTES"
  shows "read_response buffer_lib C s (framed b @ w) = (Inr r, w)"
  using assms by (simp add: read_response_def io_defs ipc_frame_len_def frame_cap_u32 from_to_le_bytes)

lemma read_response_shrinks:
  assumes "read_response buffer_lib C s w = (Inr r, w')"
  shows "length w' < length w"
  using assms by (auto simp: read_response_def io_defs split: sum.splits if_splits prod.splits)

function read_responses :: "codec \<Rightarrow> u8 list \<Rightarrow> response list" where
  "read_responses C w = (case read_response buffer_lib C () w of
     (Inl e, w') \<Rightarrow> [] | (Inr r, w') \<Rightarrow> r # read_responses C w')"
  by pat_completeness auto
termination
  by (relation "measure (length \<circ> snd)") (auto dest: read_response_shrinks[OF sym])

declare read_responses.simps [simp del]

text \<open>
  What is expected of the codec, at one request and at one response: the agent decodes the bytes
  the client encodes, and the other way round. A request goes in one frame and is not \<open>Subscribe\<close>.
\<close>

definition accepted :: "'w env \<Rightarrow> codec \<Rightarrow> action \<Rightarrow> u8 list \<Rightarrow> bool" where
  "accepted E C a b \<longleftrightarrow> co_encode_action C a = Inr b \<and> en_decode_action E b = Inr a
     \<and> length b \<le> MAX_IPC_FRAME_BYTES \<and> a \<noteq> Subscribe"

definition readable :: "'w env \<Rightarrow> codec \<Rightarrow> response \<Rightarrow> bool" where
  "readable E C r \<longleftrightarrow> co_decode_response C (en_encode_response E r) = Inr r"

definition fits :: "'w env \<Rightarrow> response \<Rightarrow> bool" where
  "fits E r \<longleftrightarrow> length (en_encode_response E r) \<le> MAX_IPC_FRAME_BYTES"

definition frame_of :: "'w env \<Rightarrow> response \<Rightarrow> u8 list" where
  "frame_of E r = framed (en_encode_response E r)"

lemma read_frame_of:
  "readable E C r \<Longrightarrow> fits E r \<Longrightarrow> read_response buffer_lib C s (frame_of E r @ w) = (Inr r, w)"
  by (simp add: readable_def fits_def frame_of_def read_framed)

lemma read_responses_frames:
  assumes "\<forall>r\<in>set rs. readable E C r \<and> fits E r"
  shows "read_responses C (concat (map (frame_of E) rs)) = rs"
  using assms
proof (induction rs)
  case Nil
  show ?case
    by (subst read_responses.simps) (simp add: read_response_def io_defs)
next
  case (Cons r rs)
  then show ?case
    by (subst read_responses.simps) (simp add: read_frame_of)
qed

section \<open>Requests on one connection, one after the other\<close>

text \<open>
  The reference: the handlers run in the order of the requests, each from the state the one
  before it left, until one panics or gives a response over the cap.
\<close>

primrec answers :: "'w env \<Rightarrow> action list \<Rightarrow> timer \<times> agent \<times> 'w \<Rightarrow> response list \<times> timer \<times> agent \<times> 'w" where
  "answers E [] z = ([], z)"
| "answers E (a # as) z = (case serve_action E (fst z) a (snd z) of
     (Panic m, y) \<Rightarrow> ([], fst z, y)
   | (Ret (r, t), y) \<Rightarrow>
       (if fits E r then (let (rs, z') = answers E as (t, y) in (r # rs, z')) else ([], t, y)))"

lemma answers_fit: "r \<in> set (fst (answers E as z)) \<Longrightarrow> fits E r"
proof (induction as arbitrary: z)
  case (Cons a as)
  obtain q y where q: "serve_action E (fst z) a (snd z) = (q, y)"
    by (cases "serve_action E (fst z) a (snd z)")
  show ?case
    using Cons.prems Cons.IH [of "(snd (case q of Ret p \<Rightarrow> p), y)"] q
    by (cases q) (auto simp: case_prod_unfold Let_def split: if_splits)
qed simp

lemma frame_ready_framed:
  "length b \<le> MAX_IPC_FRAME_BYTES \<Longrightarrow> cn_received c = framed b @ w \<Longrightarrow> frame_ready c \<longleftrightarrow> cn_next c = Next_Frame"
  by (simp add: frame_ready_def frame_cap_u32 from_to_le_bytes)

lemma not_ready: "cn_next c \<noteq> Next_Frame \<or> cn_received c = [] \<Longrightarrow> serve_conn E (c, z) = (c, z)"
  by (subst serve_conn.simps) (auto simp: frame_ready_def)

lemma serve_request:
  assumes "en_decode_action E b = Inr a" and "length b \<le> MAX_IPC_FRAME_BYTES" and "a \<noteq> Subscribe"
    and "cn_received c = framed b @ w" and "cn_next c = Next_Frame"
  shows "serve_conn E (c, t, x) = (case serve_action E t a x of
      (Panic m, y) \<Rightarrow> (c\<lparr>cn_next := Close\<rparr>, t, y)
    | (Ret (r, t), y) \<Rightarrow>
        (if fits E r
         then serve_conn E (\<lparr>cn_received = w, cn_written = cn_written c @ frame_of E r, cn_next = Next_Frame\<rparr>, t, y)
         else (\<lparr>cn_received = w, cn_written = cn_written c, cn_next = Close\<rparr>, t, y)))"
proof -
  have r: "frame_ready c"
    using assms by (simp add: frame_ready_framed)
  obtain q y where q: "serve_action E t a x = (q, y)"
    by (cases "serve_action E t a x")
  show ?thesis
  proof (cases q)
    case (Panic m)
    then show ?thesis
      using assms q r
      by (subst serve_conn.simps)
        (simp add: serve_ready_def frame_cap_u32 from_to_le_bytes serve_frame_def t_bind_def not_ready)
  next
    case (Ret p)
    then show ?thesis
      using assms q r
      by (subst serve_conn.simps)
        (simp add: serve_ready_def frame_cap_u32 from_to_le_bytes serve_frame_def t_bind_def t_ret_def Let_def
          not_ready fits_def frame_of_def case_prod_unfold)
  qed
qed

lemma serve_requests:
  assumes "list_all2 (accepted E C) as bs"
  shows "\<exists>c. serve_conn E (\<lparr>cn_received = concat (map framed bs), cn_written = w, cn_next = Next_Frame\<rparr>, z)
           = (c, snd (answers E as z))
         \<and> cn_written c = w @ concat (map (frame_of E) (fst (answers E as z)))"
  using assms
proof (induction as arbitrary: bs w z)
  case Nil
  then show ?case
    by (simp add: not_ready)
next
  case (Cons a as)
  obtain b bs' where b: "bs = b # bs'" "accepted E C a b" "list_all2 (accepted E C) as bs'"
    using Cons.prems by (auto simp: list_all2_Cons1)
  have d: "en_decode_action E b = Inr a" "length b \<le> MAX_IPC_FRAME_BYTES" "a \<noteq> Subscribe"
    using b(2) by (simp_all add: accepted_def)
  obtain t x where z: "z = (t, x)"
    by (cases z)
  obtain q y where q: "serve_action E t a x = (q, y)"
    by (cases "serve_action E t a x")
  have s: "serve_conn E (\<lparr>cn_received = concat (map framed bs), cn_written = w, cn_next = Next_Frame\<rparr>, t, x)
      = (case serve_action E t a x of
      (Panic m, y) \<Rightarrow> (\<lparr>cn_received = concat (map framed bs), cn_written = w, cn_next = Close\<rparr>, t, y)
    | (Ret (r, t), y) \<Rightarrow>
        (if fits E r
         then serve_conn E (\<lparr>cn_received = concat (map framed bs'), cn_written = w @ frame_of E r, cn_next = Next_Frame\<rparr>, t, y)
         else (\<lparr>cn_received = concat (map framed bs'), cn_written = w, cn_next = Close\<rparr>, t, y)))"
    by (subst serve_request [OF d, of _ "concat (map framed bs')"])
      (simp_all add: b(1) cong: prod.case_cong outcome.case_cong if_cong)
  show ?case
  proof (cases q)
    case (Panic m)
    then show ?thesis
      using s q z by simp
  next
    case (Ret p)
    then show ?thesis
      using s q z Cons.IH [OF b(3), of "w @ frame_of E (fst p)" "(snd p, y)"]
      by (cases p) (auto simp: case_prod_unfold Let_def)
  qed
qed

lemma connection_replies:
  assumes "list_all2 (accepted E C) as bs" and "\<forall>r\<in>set (fst (answers E as z)). readable E C r"
    and "serve_conn E (fresh_conn\<lparr>cn_received := concat (map framed bs)\<rparr>, z) = (c, z')"
  shows "(read_responses C (cn_written c), z') = answers E as z"
proof -
  have "\<forall>r\<in>set (fst (answers E as z)). readable E C r \<and> fits E r"
    using assms(2) by (auto intro: answers_fit)
  moreover have "cn_written c = concat (map (frame_of E) (fst (answers E as z)))" "z' = snd (answers E as z)"
    using serve_requests [OF assms(1), of "[]" z] assms(3) by (auto simp: fresh_conn_def)
  ultimately show ?thesis
    by (simp add: read_responses_frames)
qed

section \<open>The client connected to the agent\<close>

text \<open>
  The sockets of a machine that runs one agent: a connection is a number, its agent end runs when
  the client reads. A write to a connection whose task has ended fails.
\<close>

record 'w machine =
  ho_conns :: "connection list"
  ho_timer :: timer
  ho_state :: "agent \<times> 'w"

definition host_write :: "nat \<Rightarrow> u8 list \<Rightarrow> ('w machine, string, unit) io" where
  "host_write i b h =
     (if i < length (ho_conns h) \<and> cn_next (ho_conns h ! i) \<noteq> Close
      then (Inr (), h\<lparr>ho_conns := (ho_conns h)[i := (ho_conns h ! i)
             \<lparr>cn_received := cn_received (ho_conns h ! i) @ b\<rparr>]\<rparr>)
      else (Inl ''Broken pipe'', h))"

definition host_read :: "'w env \<Rightarrow> nat \<Rightarrow> nat \<Rightarrow> ('w machine, string, u8 list) io" where
  "host_read E i n h =
     (case serve_conn E (ho_conns h ! i, ho_timer h, ho_state h) of (c, t, x) \<Rightarrow>
        (if n \<le> length (cn_written c) then Inr (take n (cn_written c)) else Inl ''early eof'',
         h\<lparr>ho_conns := (ho_conns h)[i := c\<lparr>cn_written := drop n (cn_written c)\<rparr>],
           ho_timer := t, ho_state := x\<rparr>))"

definition agent_lib :: "'w env \<Rightarrow> ('w machine, nat) sock_lib" where
  "agent_lib E = \<lparr>
     so_connect = (\<lambda>path h. (Inr (length (ho_conns h)), h\<lparr>ho_conns := ho_conns h @ [fresh_conn]\<rparr>)),
     so_write_all = host_write,
     so_read_exact = host_read E\<rparr>"

lemma agent_lib_sel [simp]:
  "so_connect (agent_lib E) path h = (Inr (length (ho_conns h)), h\<lparr>ho_conns := ho_conns h @ [fresh_conn]\<rparr>)"
  "so_write_all (agent_lib E) = host_write"
  "so_read_exact (agent_lib E) = host_read E"
  by (simp_all add: agent_lib_def)

definition idle :: "'w machine \<Rightarrow> nat \<Rightarrow> bool" where
  "idle h i \<longleftrightarrow> i < length (ho_conns h) \<and> ho_conns h ! i = fresh_conn"

definition ended :: "'w machine \<Rightarrow> nat \<Rightarrow> bool" where
  "ended h i \<longleftrightarrow> i < length (ho_conns h) \<and> cn_next (ho_conns h ! i) = Close"

text \<open>What the client keeps between two requests: no stream, a live one, or one that has ended.\<close>

definition usable :: "'w machine \<Rightarrow> nat persistent_conn \<Rightarrow> bool" where
  "usable h c \<longleftrightarrow> (case pc_stream c of None \<Rightarrow> True | Some i \<Rightarrow> idle h i \<or> ended h i)"

lemma write_action_idle:
  assumes "accepted E C a b" and "idle h i"
  shows "write_action (agent_lib E) C i a h =
    (Inr (), h\<lparr>ho_conns := (ho_conns h)[i := fresh_conn\<lparr>cn_received := framed b\<rparr>]\<rparr>)"
  using assms by (simp add: accepted_def write_action_def io_defs host_write_def idle_def fresh_conn_def framed_def)

lemma do_send_ended:
  "accepted E C a b \<Longrightarrow> ended h i \<Longrightarrow> \<exists>e. do_send (agent_lib E) C i a h = (Inl e, h)"
  by (simp add: accepted_def do_send_def write_action_def io_defs host_write_def ended_def)

lemma first_read:
  assumes "accepted E C a b" and "i < length (ho_conns h)"
    and "ho_conns h ! i = fresh_conn\<lparr>cn_received := framed b\<rparr>"
  shows "serve_conn E (ho_conns h ! i, ho_timer h, ho_state h) =
    (case serve_action E (ho_timer h) a (ho_state h) of
      (Panic m, y) \<Rightarrow> (fresh_conn\<lparr>cn_received := framed b, cn_next := Close\<rparr>, ho_timer h, y)
    | (Ret (r, t), y) \<Rightarrow>
        (if fits E r then (fresh_conn\<lparr>cn_written := frame_of E r\<rparr>, t, y)
         else (fresh_conn\<lparr>cn_next := Close\<rparr>, t, y)))"
proof -
  have d: "en_decode_action E b = Inr a" "length b \<le> MAX_IPC_FRAME_BYTES" "a \<noteq> Subscribe"
    using assms(1) by (simp_all add: accepted_def)
  show ?thesis
    using serve_request [OF d, of "ho_conns h ! i" "[]" "ho_timer h" "ho_state h"] assms(3)
    by (simp add: fresh_conn_def not_ready cong: prod.case_cong outcome.case_cong if_cong)
qed

lemma do_send_answer:
  assumes "accepted E C a b" and "readable E C r" and "fits E r" and "idle h i"
    and "serve_action E (ho_timer h) a (ho_state h) = (Ret (r, t), y)"
  shows "do_send (agent_lib E) C i a h =
    (Inr r, h\<lparr>ho_conns := (ho_conns h)[i := fresh_conn], ho_timer := t, ho_state := y\<rparr>)"
proof -
  let ?h = "h\<lparr>ho_conns := (ho_conns h)[i := fresh_conn\<lparr>cn_received := framed b\<rparr>]\<rparr>"
  let ?e = "en_encode_response E r"
  have i: "i < length (ho_conns h)"
    using assms(4) by (simp add: idle_def)
  have c: "co_decode_response C ?e = Inr r" "length ?e \<le> MAX_IPC_FRAME_BYTES"
    using assms(2,3) by (simp_all add: readable_def fits_def)
  have s: "serve_conn E (ho_conns ?h ! i, ho_timer ?h, ho_state ?h) = (fresh_conn\<lparr>cn_written := frame_of E r\<rparr>, t, y)"
    using first_read [OF assms(1), of i ?h] i assms(3,5) by simp
  have h1: "host_read E i 4 ?h = (Inr (to_le_bytes (of_nat (length ?e))),
      h\<lparr>ho_conns := (ho_conns h)[i := fresh_conn\<lparr>cn_written := ?e\<rparr>], ho_timer := t, ho_state := y\<rparr>)"
    by (simp add: host_read_def s [simplified] frame_of_def)
  have h2: "host_read E i (length ?e) (h\<lparr>ho_conns := (ho_conns h)[i := fresh_conn\<lparr>cn_written := ?e\<rparr>], ho_timer := t, ho_state := y\<rparr>)
      = (Inr ?e, h\<lparr>ho_conns := (ho_conns h)[i := fresh_conn], ho_timer := t, ho_state := y\<rparr>)"
    using i by (simp add: host_read_def not_ready fresh_conn_def)
  show ?thesis
    using write_action_idle [OF assms(1,4)] c
    by (simp add: do_send_def read_response_def io_try_def [of _ "write_action _ _ _ _"]
        io_defs h1 h2 ipc_frame_len_def frame_cap_u32 from_to_le_bytes)
qed

lemma do_send_panic:
  assumes "accepted E C a b" and "idle h i"
    and "serve_action E (ho_timer h) a (ho_state h) = (Panic m, y)"
  shows "\<exists>e h'. do_send (agent_lib E) C i a h = (Inl e, h') \<and> ho_state h' = y \<and> ho_timer h' = ho_timer h"
proof -
  let ?h = "h\<lparr>ho_conns := (ho_conns h)[i := fresh_conn\<lparr>cn_received := framed b\<rparr>]\<rparr>"
  have i: "i < length (ho_conns h)"
    using assms(2) by (simp add: idle_def)
  have s: "serve_conn E (ho_conns ?h ! i, ho_timer ?h, ho_state ?h)
      = (fresh_conn\<lparr>cn_received := framed b, cn_next := Close\<rparr>, ho_timer h, y)"
    using first_read [OF assms(1), of i ?h] i assms(3) by simp
  show ?thesis
    using write_action_idle [OF assms(1,2)]
    by (simp add: do_send_def read_response_def io_try_def host_read_def s [simplified])
      (simp add: fresh_conn_def)
qed

lemma connect_idle: "idle (h\<lparr>ho_conns := ho_conns h @ [fresh_conn]\<rparr>) (length (ho_conns h))"
  by (simp add: idle_def)

lemma for_path_usable: "usable h c \<Longrightarrow> usable h (for_path path c)"
  by (simp add: usable_def for_path_def)

definition answered :: "'w machine \<Rightarrow> timer \<Rightarrow> agent \<times> 'w \<Rightarrow> nat persistent_conn \<Rightarrow> bool" where
  "answered h t y c \<longleftrightarrow> ho_timer h = t \<and> ho_state h = y \<and> (\<exists>i. pc_stream c = Some i \<and> idle h i)"

lemma attempt_idle:
  assumes "accepted E C a b" and "readable E C r" and "fits E r"
    and "pc_stream c = None \<or> (\<exists>i. pc_stream c = Some i \<and> idle h i)"
    and "serve_action E (ho_timer h) a (ho_state h) = (Ret (r, t), y)"
  shows "\<exists>c' h'. send_attempts (agent_lib E) C path a (k # ks) c h = (Okay r, c', h') \<and> answered h' t y c'"
proof -
  obtain i h1 where h1: "ensure_stream (agent_lib E) path c h = (Inr i, h1)" "idle h1 i"
      "ho_timer h1 = ho_timer h" "ho_state h1 = ho_state h"
    using assms(4) connect_idle [of h] by (auto simp: ensure_stream_def io_defs)
  have "do_send (agent_lib E) C i a h1 =
      (Inr r, h1\<lparr>ho_conns := (ho_conns h1)[i := fresh_conn], ho_timer := t, ho_state := y\<rparr>)"
    by (rule do_send_answer [OF assms(1-3) h1(2)]) (simp add: h1 assms(5))
  then show ?thesis
    using h1 by (auto simp: answered_def idle_def)
qed

lemma send_answers:
  assumes "accepted E C a b" and "readable E C r" and "fits E r" and "usable h c"
    and "serve_action E (ho_timer h) a (ho_state h) = (Ret (r, t), y)"
  shows "\<exists>c' h'. send (agent_lib E) C path a c h = (Okay r, c', h') \<and> answered h' t y c'"
proof (cases "\<exists>i. pc_stream (for_path path c) = Some i \<and> ended h i")
  case False
  then have "pc_stream (for_path path c) = None \<or> (\<exists>i. pc_stream (for_path path c) = Some i \<and> idle h i)"
    using for_path_usable [OF assms(4), of path] by (auto simp: usable_def split: option.splits)
  from attempt_idle [OF assms(1-3) this assms(5)] show ?thesis
    by (simp only: send_def)
next
  case True
  then obtain i where i: "pc_stream (for_path path c) = Some i" "ended h i"
    by auto
  obtain e where e: "do_send (agent_lib E) C i a h = (Inl e, h)"
    using do_send_ended [OF assms(1) i(2)] by auto
  obtain c' h' where "send_attempts (agent_lib E) C path a [1] ((for_path path c)\<lparr>pc_stream := None\<rparr>) h = (Okay r, c', h')"
      "answered h' t y c'"
    using attempt_idle [OF assms(1-3) _ assms(5), of "(for_path path c)\<lparr>pc_stream := None\<rparr>" path 1 "[]"]
    by auto
  then show ?thesis
    using i e by (simp add: send_def ensure_stream_def io_ret_def)
qed

text \<open>
  A handler that panics ends its connection, and the client's retry runs the request again, on
  the state the first run left behind.
\<close>

lemma send_runs_again:
  assumes "accepted E C a b" and "readable E C r" and "fits E r" and "pc_stream (for_path path c) = None"
    and "serve_action E (ho_timer h) a (ho_state h) = (Panic m, x)"
    and "serve_action E (ho_timer h) a x = (Ret (r, t), y)"
  shows "\<exists>c' h'. send (agent_lib E) C path a c h = (Okay r, c', h') \<and> answered h' t y c'"
proof -
  let ?h = "h\<lparr>ho_conns := ho_conns h @ [fresh_conn]\<rparr>"
  obtain e h1 where e: "do_send (agent_lib E) C (length (ho_conns h)) a ?h = (Inl e, h1)"
      "ho_state h1 = x" "ho_timer h1 = ho_timer h"
    using do_send_panic [OF assms(1) connect_idle [of h]] assms(5) by auto
  obtain c' h' where "send_attempts (agent_lib E) C path a [1] ((for_path path c)\<lparr>pc_stream := None\<rparr>) h1 = (Okay r, c', h')"
      "answered h' t y c'"
    using attempt_idle [OF assms(1-3), of "(for_path path c)\<lparr>pc_stream := None\<rparr>" h1 t y path 1 "[]"] e assms(6)
    by auto
  then show ?thesis
    using e assms(4) by (simp add: send_def ensure_stream_def io_defs)
qed

section \<open>What one request may cost\<close>

text \<open>The calls a client makes, recorded beside any world.\<close>

datatype 's sock_call = Did_Connect string | Did_Write 's "u8 list" | Did_Read 's nat

definition logged :: "('w, 'e, 'a) io \<Rightarrow> 's sock_call \<Rightarrow> ('w \<times> 's sock_call list, 'e, 'a) io" where
  "logged m k = (\<lambda>(w, l). case m w of (r, w) \<Rightarrow> (r, w, l @ [k]))"

definition traced :: "('w, 's) sock_lib \<Rightarrow> ('w \<times> 's sock_call list, 's) sock_lib" where
  "traced L = \<lparr>
     so_connect = (\<lambda>path. logged (so_connect L path) (Did_Connect path)),
     so_write_all = (\<lambda>s b. logged (so_write_all L s b) (Did_Write s b)),
     so_read_exact = (\<lambda>s n. logged (so_read_exact L s n) (Did_Read s n))\<rparr>"

lemma traced_sel [simp]:
  "so_connect (traced L) path = logged (so_connect L path) (Did_Connect path)"
  "so_write_all (traced L) s b = logged (so_write_all L s b) (Did_Write s b)"
  "so_read_exact (traced L) s n = logged (so_read_exact L s n) (Did_Read s n)"
  by (simp_all add: traced_def)

fun connects :: "'s sock_call list \<Rightarrow> nat" where
  "connects [] = 0"
| "connects (Did_Connect p # l) = Suc (connects l)"
| "connects (k # l) = connects l"

fun writes :: "'s sock_call list \<Rightarrow> nat" where
  "writes [] = 0"
| "writes (Did_Write s b # l) = Suc (writes l)"
| "writes (k # l) = writes l"

fun read_sizes :: "'s sock_call list \<Rightarrow> nat list" where
  "read_sizes [] = []"
| "read_sizes (Did_Read s n # l) = n # read_sizes l"
| "read_sizes (k # l) = read_sizes l"

lemma call_counts_append [simp]:
  "connects (l @ l') = connects l + connects l'"
  "writes (l @ l') = writes l + writes l'"
  "read_sizes (l @ l') = read_sizes l @ read_sizes l'"
  by (induction l rule: connects.induct; simp)+

text \<open>What a piece of the client adds to the record: connects, writes and the sizes of its reads.\<close>

definition costs :: "nat \<Rightarrow> nat \<Rightarrow> nat \<Rightarrow> ('w \<times> 's sock_call list, 'e, 'a) io \<Rightarrow> bool" where
  "costs nc nw nr m \<longleftrightarrow> (\<forall>w l r w' l'. m (w, l) = (r, w', l') \<longrightarrow>
     (\<exists>k. l' = l @ k \<and> connects k \<le> nc \<and> writes k \<le> nw \<and> length (read_sizes k) \<le> nr
        \<and> (\<forall>n\<in>set (read_sizes k). n \<le> MAX_IPC_FRAME_BYTES)))"

lemma costs_free: "(\<And>w l r w' l'. m (w, l) = (r, w', l') \<Longrightarrow> l' = l) \<Longrightarrow> costs 0 0 0 m"
  by (fastforce simp: costs_def)

lemma costs_pure: "costs 0 0 0 (io_out r)" "costs 0 0 0 (io_ret a)" "costs 0 0 0 (io_fail e)"
  by (rule costs_free, simp add: io_defs)+

lemma costs_try:
  assumes "costs nc nw nr m" and "\<And>a. Inr a \<in> range (\<lambda>x. fst (m x)) \<Longrightarrow> costs nc' nw' nr' (f a)"
  shows "costs (nc + nc') (nw + nw') (nr + nr') (io_try h m f)"
  unfolding costs_def
proof (intro allI impI)
  fix w l r w' l'
  assume run: "io_try h m f (w, l) = (r, w', l')"
  obtain q w1 l1 where q: "m (w, l) = (q, w1, l1)"
    by (cases "m (w, l)") auto
  obtain k where k: "l1 = l @ k" "connects k \<le> nc" "writes k \<le> nw" "length (read_sizes k) \<le> nr"
      "\<forall>n\<in>set (read_sizes k). n \<le> MAX_IPC_FRAME_BYTES"
    using assms(1) q unfolding costs_def by blast
  show "\<exists>k. l' = l @ k \<and> connects k \<le> nc + nc' \<and> writes k \<le> nw + nw' \<and> length (read_sizes k) \<le> nr + nr'
      \<and> (\<forall>n\<in>set (read_sizes k). n \<le> MAX_IPC_FRAME_BYTES)"
  proof (cases q)
    case (Inl e)
    then show ?thesis
      using run q k by (intro exI [of _ k]) (simp add: io_try_def)
  next
    case (Inr a)
    then have "Inr a = fst (m (w, l))"
      using q by simp
    then have "costs nc' nw' nr' (f a)"
      by (rule assms(2) [OF image_eqI [OF _ UNIV_I]])
    moreover have "f a (w1, l1) = (r, w', l')"
      using run q Inr by (simp add: io_try_def)
    ultimately obtain k' where "l' = l1 @ k'" "connects k' \<le> nc'" "writes k' \<le> nw'" "length (read_sizes k') \<le> nr'"
        "\<forall>n\<in>set (read_sizes k'). n \<le> MAX_IPC_FRAME_BYTES"
      unfolding costs_def by blast
    then show ?thesis
      using k by (intro exI [of _ "k @ k'"]) auto
  qed
qed

lemma costs_connect: "costs 1 0 0 (so_connect (traced L) path)"
  and costs_write: "costs 0 1 0 (so_write_all (traced L) s b)"
  and costs_read: "n \<le> MAX_IPC_FRAME_BYTES \<Longrightarrow> costs 0 0 1 (so_read_exact (traced L) s n)"
  by (auto simp: costs_def logged_def split: prod.splits)

lemma costs_write_action: "costs 0 2 0 (write_action (traced L) C s a)"
proof -
  have "costs (0 + (0 + (0 + 0))) (0 + (1 + (1 + 0))) (0 + (0 + (0 + 0))) (write_action (traced L) C s a)"
    unfolding write_action_def by (intro costs_try costs_pure costs_write)
  then show ?thesis
    by (simp add: numeral_2_eq_2)
qed

lemma ipc_frame_len_cap: "Inr n = fst (io_out (ipc_frame_len claimed) x) \<Longrightarrow> n \<le> MAX_IPC_FRAME_BYTES"
  by (auto simp: io_defs ipc_frame_len_def Let_def split: if_splits)

lemma costs_read_response: "costs 0 0 2 (read_response (traced L) C s)"
proof -
  have "(4 :: nat) \<le> MAX_IPC_FRAME_BYTES"
    by (simp add: MAX_IPC_FRAME_BYTES_def)
  then have "costs (0 + (0 + (0 + (0 + 0)))) (0 + (0 + (0 + (0 + 0)))) (1 + (0 + (1 + (0 + 0)))) (read_response (traced L) C s)"
    unfolding read_response_def by (intro costs_try costs_pure costs_read) (auto dest: ipc_frame_len_cap)
  then show ?thesis
    by (simp add: numeral_2_eq_2)
qed

lemma costs_do_send: "costs 0 2 2 (do_send (traced L) C s a)"
proof -
  have "costs (0 + 0) (2 + 0) (0 + 2) (do_send (traced L) C s a)"
    unfolding do_send_def by (intro costs_try costs_write_action costs_read_response)
  then show ?thesis
    by (simp add: numeral_2_eq_2)
qed

lemma costs_ret: "costs 1 0 0 (io_ret a)"
  by (auto simp: costs_def io_ret_def)

lemma costs_ensure_stream: "costs 1 0 0 (ensure_stream (traced L) path c)"
proof -
  have "costs (1 + 0) (0 + 0) (0 + 0) (io_try h (so_connect (traced L) path) io_ret)" for h :: "string \<Rightarrow> error"
    by (intro costs_try costs_connect costs_pure)
  then show ?thesis
    using costs_ret by (auto simp: ensure_stream_def split: option.split)
qed

lemma costs_run:
  assumes "costs nc nw nr m" and "m (w, l) = (r, w', l')"
  shows "\<exists>k. l' = l @ k \<and> connects k \<le> nc \<and> writes k \<le> nw \<and> length (read_sizes k) \<le> nr
    \<and> (\<forall>n\<in>set (read_sizes k). n \<le> MAX_IPC_FRAME_BYTES)"
  using assms unfolding costs_def by blast

lemma send_attempts_cost:
  assumes "send_attempts (traced L) C path a ks c (w, l) = (r, c', w', l')"
  shows "\<exists>k. l' = l @ k \<and> connects k \<le> length ks \<and> writes k \<le> 2 * length ks \<and> length (read_sizes k) \<le> 2 * length ks
    \<and> (\<forall>n\<in>set (read_sizes k). n \<le> MAX_IPC_FRAME_BYTES)"
  using assms
proof (induction ks arbitrary: c w l)
  case Nil
  then show ?case
    by simp
next
  case (Cons j ks)
  obtain q w1 l1 where q: "ensure_stream (traced L) path c (w, l) = (q, w1, l1)"
    by (cases "ensure_stream (traced L) path c (w, l)") auto
  obtain k where k: "l1 = l @ k" "connects k \<le> 1" "writes k \<le> 0" "length (read_sizes k) \<le> 0"
    using costs_run [OF costs_ensure_stream q] by blast
  show ?case
  proof (cases q)
    case (Inl e)
    then show ?thesis
      using Cons.prems q k by (intro exI [of _ k]) auto
  next
    case (Inr s)
    obtain p w2 l2 where p: "do_send (traced L) C s a (w1, l1) = (p, w2, l2)"
      by (cases "do_send (traced L) C s a (w1, l1)") auto
    obtain k1 where k1: "l2 = l1 @ k1" "connects k1 \<le> 0" "writes k1 \<le> 2" "length (read_sizes k1) \<le> 2"
        "\<forall>n\<in>set (read_sizes k1). n \<le> MAX_IPC_FRAME_BYTES"
      using costs_run [OF costs_do_send p] by blast
    show ?thesis
    proof (cases "\<exists>e. p = Inl e \<and> j = 0")
      case True
      then obtain k2 where "l' = l2 @ k2" "connects k2 \<le> length ks" "writes k2 \<le> 2 * length ks"
          "length (read_sizes k2) \<le> 2 * length ks" "\<forall>n\<in>set (read_sizes k2). n \<le> MAX_IPC_FRAME_BYTES"
        using Cons.prems q p Inr Cons.IH [of "c\<lparr>pc_stream := None\<rparr>" w2 l2] by auto
      then show ?thesis
        using k k1 by (intro exI [of _ "k @ k1 @ k2"]) auto
    next
      case False
      then show ?thesis
        using Cons.prems q p Inr k k1 by (intro exI [of _ "k @ k1"]) (auto split: sum.splits)
    qed
  qed
qed

lemma send_cost:
  assumes "send (traced L) C path a c (w, []) = (r, c', w', calls)"
  shows "connects calls \<le> 2" "writes calls \<le> 4" "length (read_sizes calls) \<le> 4"
    "\<forall>n\<in>set (read_sizes calls). n \<le> MAX_IPC_FRAME_BYTES"
  using send_attempts_cost [OF assms [unfolded send_def]] by auto

text \<open>The text after the loop is never reached.\<close>

lemma send_attempts_returns: "\<not> panics (fst (send_attempts L C path a [0, 1] c w))"
  by (auto split: prod.splits sum.splits)

section \<open>The event stream\<close>

lemma next_event_returns: "\<exists>y. next_event buffer_lib C s w = Some y"
proof (induction w rule: length_induct)
  case (1 w)
  show ?case
  proof (cases "read_response buffer_lib C s w")
    case (Pair q w')
    then show ?thesis
      using 1 read_response_shrinks [of C s w _ w']
      by (subst next_event.simps) (auto split: sum.splits option.splits)
  qed
qed

lemma next_event_shrinks:
  assumes "next_event buffer_lib C s w = Some (Inr ev, w')"
  shows "length w' < length w"
  using assms
proof (induction w rule: length_induct)
  case (1 w)
  obtain q w1 where q: "read_response buffer_lib C s w = (q, w1)"
    by (cases "read_response buffer_lib C s w")
  show ?case
  proof (cases q)
    case (Inl e)
    then show ?thesis
      using 1 q by (subst (asm) (2) next_event.simps) simp
  next
    case (Inr r)
    then have s: "length w1 < length w"
      using q read_response_shrinks by blast
    show ?thesis
      using 1 q Inr s by (subst (asm) (2) next_event.simps) (fastforce split: option.splits)
  qed
qed

function read_events :: "codec \<Rightarrow> u8 list \<Rightarrow> event list" where
  "read_events C w = (case next_event buffer_lib C () w of
     Some (Inr ev, w') \<Rightarrow> ev # read_events C w'
   | _ \<Rightarrow> [])"
  by pat_completeness auto
termination
  by (relation "measure (length \<circ> snd)") (auto dest: next_event_shrinks)

declare read_events.simps [simp del]

text \<open>Whatever frames arrive, the events among them are read, in order.\<close>

lemma read_events_frames:
  assumes "\<forall>r\<in>set rs. readable E C r \<and> fits E r"
  shows "read_events C (concat (map (frame_of E) rs)) = List.map_filter event_of rs"
  using assms
proof (induction rs)
  case Nil
  show ?case
    by (subst read_events.simps, subst next_event.simps) (simp add: read_response_def io_defs)
next
  case (Cons r rs)
  have r: "read_response buffer_lib C () (frame_of E r @ w) = (Inr r, w)" for w
    using Cons.prems by (simp add: read_frame_of)
  show ?case
  proof (cases "event_of r")
    case None
    then have "next_event buffer_lib C () (frame_of E r @ w) = next_event buffer_lib C () w" for w
      by (subst next_event.simps) (simp add: r)
    then show ?thesis
      using Cons None read_events.simps [of C "frame_of E r @ concat (map (frame_of E) rs)"]
        read_events.simps [of C "concat (map (frame_of E) rs)"]
      by (simp add: List.map_filter_simps)
  next
    case (Some ev)
    then have "next_event buffer_lib C () (frame_of E r @ w) = Some (Inr ev, w)" for w
      by (subst next_event.simps) (simp add: r)
    then show ?thesis
      using Cons Some by (subst read_events.simps) (simp add: List.map_filter_simps)
  qed
qed

lemma stream_events_frames: "stream_events E evs = concat (map (frame_of E) (map Event evs))"
  by (simp add: stream_events_def frame_of_def comp_def)

lemma read_stream_events:
  assumes "\<forall>ev\<in>set evs. readable E C (Event ev) \<and> fits E (Event ev)"
  shows "read_events C (stream_events E evs) = evs"
  using assms unfolding stream_events_frames
  by (subst read_events_frames) (auto simp: List.map_filter_def comp_def)

text \<open>The queue of the newest subscriber: the pending entry, then every event broadcast since.\<close>

lemma broadcasts_reach_subscriber:
  assumes "st_subscribers s \<noteq> []" and "sub_alive (last (st_subscribers s))"
  shows "let s' = fold broadcast evs s in st_subscribers s' \<noteq> [] \<and> sub_alive (last (st_subscribers s'))
     \<and> sub_events (last (st_subscribers s')) = sub_events (last (st_subscribers s)) @ evs"
  using assms
proof (induction evs arbitrary: s)
  case (Cons ev evs)
  have "filter sub_alive (st_subscribers s) \<noteq> []"
    "last (filter sub_alive (st_subscribers s)) = last (st_subscribers s)"
    using Cons.prems by (cases "st_subscribers s" rule: rev_cases; simp)+
  then show ?case
    using Cons.IH [of "broadcast ev s"] Cons.prems by (simp add: broadcast_def last_map Let_def)
qed simp

lemma subscriber_queue:
  "sub_events (last (st_subscribers (fold broadcast evs (subscribe s))))
     = (case st_pending_entry_id s of Some i \<Rightarrow> [OpenEntry i] | None \<Rightarrow> []) @ evs"
  using broadcasts_reach_subscriber [of "subscribe s" evs] by (simp add: subscribe_def new_subscriber_def Let_def)

section \<open>The agent without its socket\<close>

text \<open>
  \<open>AgentClient::send\<close> when nothing is between the client and the agent's handlers; the frontends'
  properties use it, and \<open>send_runs_once\<close> says that the socket adds nothing.
\<close>

definition direct_client :: "'w env \<Rightarrow> (timer \<times> agent \<times> 'w) requester" where
  "direct_client E a z = (case serve_action E (fst z) a (snd z) of
     (Panic m, y) \<Rightarrow> (Inl (Other m), fst z, y)
   | (Ret (r, t), y) \<Rightarrow> (Inr r, t, y))"

lemma direct_client_answer:
  assumes "\<forall>s. a \<noteq> UpdateLockTimeout s" and "handle_request E a x = (Ret r, y)"
  shows "\<exists>t'. direct_client E a (t, x) = (Inr r, t', y)"
  using assms by (cases a) (auto simp: direct_client_def serve_action_def t_bind_def t_look_def t_ret_def)

lemma direct_client_panic:
  assumes "\<forall>s. a \<noteq> UpdateLockTimeout s" and "handle_request E a x = (Panic m, y)"
  shows "direct_client E a (t, x) = (Inl (Other m), t, y)"
  using assms by (cases a) (auto simp: direct_client_def serve_action_def t_bind_def t_look_def t_ret_def)

end
