(* ===== verification/Browser_Host.thy ===== *)
theory Browser_Host
  imports Ipc_Client
begin

text \<open>
  \<open>cosmarden-agent/src/browser_host.rs\<close>: the native-messaging host of the browser extension. It
  reads length-prefixed JSON requests on its standard input, sends each to the agent, and writes
  the answer, or an error object, to its standard output.

  The standard streams are a value of type \<open>'w stdio\<close>; a failed read says whether it was an
  unexpected end of file. \<open>serde_json\<close> is a value of type \<open>json_lib\<close>.
\<close>

section \<open>The loop\<close>

record 'w stdio =
  sd_read_exact :: "nat \<Rightarrow> ('w, bool \<times> string, u8 list) io"
  sd_write_all :: "u8 list \<Rightarrow> ('w, string, unit) io"
  sd_flush :: "('w, string, unit) io"

record json_lib =
  jl_action_of :: "u8 list \<Rightarrow> string + action"
  jl_json_bytes :: "json \<Rightarrow> string + u8 list"
  jl_response_bytes :: "response \<Rightarrow> string + u8 list"

definition MAX_BROWSER_MESSAGE :: nat where
  "MAX_BROWSER_MESSAGE = 1024 * 1024"

definition error_object :: "string \<Rightarrow> json" where
  "error_object m = JObj [(''Error'', JObj [(''message'', JStr m)])]"

text \<open>
  The reply with an error object: all three writes are made, and a failure of any is logged only.
  The reply with a response: the first failure ends the host.
\<close>

definition reply_logged :: "'w stdio \<Rightarrow> u8 list \<Rightarrow> 'w \<Rightarrow> 'w" where
  "reply_logged S b w =
     (let (r1, w) = sd_write_all S (to_le_bytes (of_nat (length b))) w;
          (r2, w) = sd_write_all S b w;
          (r3, w) = sd_flush S w
      in w)"

definition reply_checked :: "'w stdio \<Rightarrow> u8 list \<Rightarrow> ('w, string, unit) io" where
  "reply_checked S b =
     io_try (\<lambda>e. e) (sd_write_all S (to_le_bytes (of_nat (length b)))) (\<lambda>_.
     io_try (\<lambda>e. e) (sd_write_all S b) (\<lambda>_. sd_flush S))"

definition reply_error :: "'w stdio \<Rightarrow> json_lib \<Rightarrow> string \<Rightarrow> ('w, string, unit) io" where
  "reply_error S J m w = (case jl_json_bytes J (error_object m) of
     Inl e \<Rightarrow> (Inl e, w)
   | Inr b \<Rightarrow> (Inr (), reply_logged S b w))"

text \<open>
  One turn of the loop: \<open>Some\<close> result ends \<open>run\<close>. The client connection lives in the process.
\<close>

type_synonym ('w, 's) host_turn = "(string + unit) option \<times> 's persistent_conn \<times> 'w"

definition forward ::
  "'w stdio \<Rightarrow> json_lib \<Rightarrow> ('w, 's) sock_lib \<Rightarrow> codec \<Rightarrow> string \<Rightarrow> action \<Rightarrow> 's persistent_conn \<Rightarrow> 'w
    \<Rightarrow> ('w, 's) host_turn outcome" where
  "forward S J L C path a c w =
     (case send L C path a c w of
        (Panic m, c, w) \<Rightarrow> Panic m
      | (Okay r, c, w) \<Rightarrow> Ret
          (case jl_response_bytes J r of
             Inl e \<Rightarrow> (Some (Inl e), c, w)
           | Inr b \<Rightarrow> (case reply_checked S b w of
               (Inl e, w) \<Rightarrow> (Some (Inl e), c, w)
             | (Inr u, w) \<Rightarrow> (None, c, w)))
      | (Fail e, c, w) \<Rightarrow> Ret
          (case reply_error S J (''Agent error: '' @ error_display e) w of
             (Inl e, w) \<Rightarrow> (Some (Inl e), c, w)
           | (Inr u, w) \<Rightarrow> (None, c, w)))"

definition host_message ::
  "'w stdio \<Rightarrow> json_lib \<Rightarrow> ('w, 's) sock_lib \<Rightarrow> codec \<Rightarrow> string \<Rightarrow> 's persistent_conn \<Rightarrow> 'w
    \<Rightarrow> ('w, 's) host_turn outcome" where
  "host_message S J L C path c w =
     (case sd_read_exact S 4 w of
        (Inl (eof, e), w) \<Rightarrow> Ret (Some (if eof then Inr () else Inl e), c, w)
      | (Inr len_buf, w) \<Rightarrow>
          let n = unat (from_le_bytes len_buf) in
          if MAX_BROWSER_MESSAGE < n then Ret (Some (Inl ''Message too large''), c, w)
          else case sd_read_exact S n w of
            (Inl (eof, e), w) \<Rightarrow> Ret (Some (Inl e), c, w)
          | (Inr buf, w) \<Rightarrow>
              (case jl_action_of J buf of
                 Inl e \<Rightarrow> (case reply_error S J (''Invalid protocol message: '' @ e) w of
                     (Inl e, w) \<Rightarrow> Ret (Some (Inl e), c, w)
                   | (Inr u, w) \<Rightarrow> Ret (None, c, w))
               | Inr a \<Rightarrow> forward S J L C path a c w))"

partial_function (option) host_run ::
  "'w stdio \<Rightarrow> json_lib \<Rightarrow> ('w, 's) sock_lib \<Rightarrow> codec \<Rightarrow> string \<Rightarrow> 's persistent_conn \<Rightarrow> 'w
    \<Rightarrow> ((string + unit) \<times> 's persistent_conn \<times> 'w) outcome option" where
  "host_run S J L C path c w =
     (case host_message S J L C path c w of
        Panic m \<Rightarrow> Some (Panic m)
      | Ret (Some r, c, w) \<Rightarrow> Some (Ret (r, c, w))
      | Ret (None, c, w) \<Rightarrow> host_run S J L C path c w)"

section \<open>The host between a browser and the agent\<close>

text \<open>A machine with the standard streams of the host as two byte lists; writes to them succeed.\<close>

record 'w desk =
  dk_in :: "u8 list"
  dk_out :: "u8 list"
  dk_host :: "'w machine"

definition desk_io :: "'w desk stdio" where
  "desk_io = \<lparr>
     sd_read_exact = (\<lambda>n d. if n \<le> length (dk_in d) then (Inr (take n (dk_in d)), d\<lparr>dk_in := drop n (dk_in d)\<rparr>)
        else (Inl (True, ''early eof''), d\<lparr>dk_in := []\<rparr>)),
     sd_write_all = (\<lambda>b d. (Inr (), d\<lparr>dk_out := dk_out d @ b\<rparr>)),
     sd_flush = io_ret ()\<rparr>"

lemma desk_io_sel [simp]:
  "sd_read_exact desk_io n d = (if n \<le> length (dk_in d) then (Inr (take n (dk_in d)), d\<lparr>dk_in := drop n (dk_in d)\<rparr>)
      else (Inl (True, ''early eof''), d\<lparr>dk_in := []\<rparr>))"
  "sd_write_all desk_io b d = (Inr (), d\<lparr>dk_out := dk_out d @ b\<rparr>)"
  "sd_flush desk_io = io_ret ()"
  by (simp_all add: desk_io_def)

definition on_host :: "('w machine, 'e, 'a) io \<Rightarrow> ('w desk, 'e, 'a) io" where
  "on_host m d = (case m (dk_host d) of (r, h) \<Rightarrow> (r, d\<lparr>dk_host := h\<rparr>))"

definition desk_lib :: "('w machine, 's) sock_lib \<Rightarrow> ('w desk, 's) sock_lib" where
  "desk_lib L = \<lparr>
     so_connect = (\<lambda>path. on_host (so_connect L path)),
     so_write_all = (\<lambda>s b. on_host (so_write_all L s b)),
     so_read_exact = (\<lambda>s n. on_host (so_read_exact L s n))\<rparr>"

lemma on_host_try: "io_try h (on_host m) (\<lambda>a. on_host (f a)) = on_host (io_try h m f)"
  by (auto simp: io_try_def on_host_def fun_eq_iff split: prod.splits sum.splits)

lemma on_host_last: "io_try h (on_host m) io_ret = on_host (io_try h m io_ret)"
  by (auto simp: io_defs on_host_def fun_eq_iff split: prod.splits sum.splits)

lemma on_host_pure: "io_out r = on_host (io_out r)" "io_ret a = on_host (io_ret a)"
  by (auto simp: on_host_def io_defs fun_eq_iff)

lemma desk_lib_sel [simp]:
  "so_connect (desk_lib L) path = on_host (so_connect L path)"
  "so_write_all (desk_lib L) s b = on_host (so_write_all L s b)"
  "so_read_exact (desk_lib L) s n = on_host (so_read_exact L s n)"
  by (simp_all add: desk_lib_def)

lemma desk_do_send: "do_send (desk_lib L) C s a = on_host (do_send L C s a)"
  by (simp add: do_send_def write_action_def read_response_def on_host_pure on_host_try on_host_last)

lemma desk_ensure_stream: "ensure_stream (desk_lib L) path c = on_host (ensure_stream L path c)"
  by (simp add: ensure_stream_def on_host_pure on_host_last split: option.split)

lemma desk_send_attempts:
  "send_attempts (desk_lib L) C path a ks c d =
    (case send_attempts L C path a ks c (dk_host d) of (r, c, h) \<Rightarrow> (r, c, d\<lparr>dk_host := h\<rparr>))"
proof (induction ks arbitrary: c d)
  case (Cons k ks)
  then show ?case
    by (auto simp: desk_do_send desk_ensure_stream on_host_def split: prod.splits sum.splits)
qed simp

lemma desk_send:
  "send (desk_lib L) C path a c d = (case send L C path a c (dk_host d) of (r, c, h) \<Rightarrow> (r, c, d\<lparr>dk_host := h\<rparr>))"
  by (simp only: send_def desk_send_attempts)

lemma reply_logged_desk: "reply_logged desk_io b d = d\<lparr>dk_out := dk_out d @ framed b\<rparr>"
  by (simp add: reply_logged_def io_ret_def framed_def)

text \<open>
  The reference: a session is a list of messages, each answered in turn, a bad one with an error
  object and without the agent seeing it, a request with what its handler returns.
\<close>

inductive session ::
  "'w env \<Rightarrow> json_lib \<Rightarrow> codec \<Rightarrow> u8 list list \<Rightarrow> timer \<times> agent \<times> 'w \<Rightarrow> u8 list list \<Rightarrow> timer \<times> agent \<times> 'w \<Rightarrow> bool"
  for E J C where
  session_end: "session E J C [] z [] z"
| session_bad: "length m \<le> MAX_BROWSER_MESSAGE \<Longrightarrow> jl_action_of J m = Inl e \<Longrightarrow>
    jl_json_bytes J (error_object (''Invalid protocol message: '' @ e)) = Inr b \<Longrightarrow>
    session E J C ms z bs z' \<Longrightarrow> session E J C (m # ms) z (b # bs) z'"
| session_answer: "length m \<le> MAX_BROWSER_MESSAGE \<Longrightarrow> jl_action_of J m = Inr a \<Longrightarrow> accepted E C a q \<Longrightarrow>
    serve_action E t a x = (Ret (r, t'), y) \<Longrightarrow> readable E C r \<Longrightarrow> fits E r \<Longrightarrow> jl_response_bytes J r = Inr b \<Longrightarrow>
    session E J C ms (t', y) bs z' \<Longrightarrow> session E J C (m # ms) (t, x) (b # bs) z'"

inductive_cases session_NilE: "session E J C [] z bs z'"

definition desk_at :: "'w desk \<Rightarrow> timer \<times> agent \<times> 'w \<Rightarrow> bool" where
  "desk_at d z \<longleftrightarrow> (ho_timer (dk_host d), ho_state (dk_host d)) = z"

lemma browser_cap_u32: "length b \<le> MAX_BROWSER_MESSAGE \<Longrightarrow> unat (of_nat (length b) :: u32) = length b"
  by (simp add: MAX_BROWSER_MESSAGE_def unat_of_nat)

lemma host_reads_message:
  assumes "length m \<le> MAX_BROWSER_MESSAGE" and "dk_in d = framed m @ s"
  shows "host_message desk_io J L C path c d = (case jl_action_of J m of
      Inl e \<Rightarrow> (case reply_error desk_io J (''Invalid protocol message: '' @ e) (d\<lparr>dk_in := s\<rparr>) of
          (Inl e, w) \<Rightarrow> Ret (Some (Inl e), c, w)
        | (Inr u, w) \<Rightarrow> Ret (None, c, w))
    | Inr a \<Rightarrow> forward desk_io J L C path a c (d\<lparr>dk_in := s\<rparr>))"
  using assms by (simp add: host_message_def browser_cap_u32 from_to_le_bytes Let_def)

lemma host_ends: "dk_in d = [] \<Longrightarrow> host_message desk_io J L C path c d = Ret (Some (Inr ()), c, d)"
  by (simp add: host_message_def)

lemma forward_answers:
  assumes "send L C path a c (dk_host d) = (Okay r, c', h')" and "jl_response_bytes J r = Inr b"
  shows "forward desk_io J (desk_lib L) C path a c d = Ret (None, c', d\<lparr>dk_host := h', dk_out := dk_out d @ framed b\<rparr>)"
  using assms by (simp add: forward_def desk_send reply_checked_def io_defs framed_def)

lemma answered_usable: "answered h t y c \<Longrightarrow> usable h c"
  by (auto simp: answered_def usable_def)

lemma host_run_session:
  assumes "session E J C ms z bs z'"
    and "dk_in d = concat (map framed ms)" and "usable (dk_host d) c" and "desk_at d z"
  shows "\<exists>c' d'. host_run desk_io J (desk_lib (agent_lib E)) C path c d = Some (Ret (Inr (), c', d'))
     \<and> dk_out d' = dk_out d @ concat (map framed bs) \<and> desk_at d' z'"
  using assms
proof (induction arbitrary: c d)
  case (session_end z)
  then show ?case
    by (subst host_run.simps) (simp add: host_ends)
next
  case (session_bad m e b ms z bs z')
  let ?d = "d\<lparr>dk_in := concat (map framed ms), dk_out := dk_out d @ framed b\<rparr>"
  have "host_message desk_io J (desk_lib (agent_lib E)) C path c d = Ret (None, c, ?d)"
    using session_bad by (simp add: host_reads_message reply_error_def reply_logged_desk)
  moreover obtain c' d' where "host_run desk_io J (desk_lib (agent_lib E)) C path c ?d = Some (Ret (Inr (), c', d'))"
      "dk_out d' = dk_out ?d @ concat (map framed bs)" "desk_at d' z'"
    using session_bad.IH [of ?d c] session_bad.prems by (auto simp: desk_at_def)
  ultimately show ?case
    by (subst host_run.simps) simp
next
  case (session_answer m a q t x r t' y b ms bs z')
  let ?d = "d\<lparr>dk_in := concat (map framed ms)\<rparr>"
  have at: "ho_timer (dk_host d) = t" "ho_state (dk_host d) = x"
    using session_answer.prems by (auto simp: desk_at_def)
  obtain c1 h1 where s: "send (agent_lib E) C path a c (dk_host d) = (Okay r, c1, h1)" "answered h1 t' y c1"
    using send_answers [OF session_answer.hyps(3,5,6) session_answer.prems(2)] session_answer.hyps(4) at
    by blast
  let ?e = "?d\<lparr>dk_host := h1, dk_out := dk_out d @ framed b\<rparr>"
  have m: "host_message desk_io J (desk_lib (agent_lib E)) C path c d = Ret (None, c1, ?e)"
    using session_answer.hyps(1,2,7) session_answer.prems(1) s(1)
    by (simp add: host_reads_message forward_answers)
  moreover obtain c' d' where "host_run desk_io J (desk_lib (agent_lib E)) C path c1 ?e = Some (Ret (Inr (), c', d'))"
      "dk_out d' = dk_out ?e @ concat (map framed bs)" "desk_at d' z'"
    using session_answer.IH [of ?e c1] answered_usable [OF s(2)] s(2) by (auto simp: desk_at_def answered_def)
  ultimately show ?case
    by (subst host_run.simps) simp
qed

end
