(* ===== verification/Ipc_Properties.thy ===== *)
theory Ipc_Properties
  imports Browser_Host Sample_Host
begin

text \<open>
  The properties of the agent's socket, of its clients and of what both log, with a witness for
  each that has hypotheses.
\<close>

section \<open>A codec for the witnesses\<close>

text \<open>Two requests and their response, one byte each.\<close>

definition wire_env :: "Sample_Host.host env" where
  "wire_env = sample_env
     \<lparr>en_decode_action := (\<lambda>b. if b = [1] then Inr Action_Lock else if b = [2] then Inr RequestUnlock else Inl ''bad''),
      en_encode_response := (\<lambda>r. case r of Ack \<Rightarrow> [6] | Event Unlocked \<Rightarrow> [7] | Event Locked \<Rightarrow> [8] | _ \<Rightarrow> [9])\<rparr>"

definition wire_codec :: codec where
  "wire_codec = \<lparr>co_encode_action = (\<lambda>a. case a of Action_Lock \<Rightarrow> Inr [1] | RequestUnlock \<Rightarrow> Inr [2] | _ \<Rightarrow> Inl ''no''),
     co_decode_response = (\<lambda>b. if b = [6] then Inr Ack else if b = [7] then Inr (Event Unlocked)
       else if b = [8] then Inr (Event Locked) else Inl ''bad'')\<rparr>"


definition wire_timer :: timer where
  "wire_timer = timer_new 0 900"

lemma cap_pos [simp]: "Suc 0 \<le> MAX_IPC_FRAME_BYTES" "Suc 0 \<le> MAX_BROWSER_MESSAGE"
  by (simp_all add: MAX_IPC_FRAME_BYTES_def MAX_BROWSER_MESSAGE_def)

lemma wire_accepted [simp]: "accepted wire_env wire_codec Action_Lock [1]" "accepted wire_env wire_codec RequestUnlock [2]"
  by (simp_all add: accepted_def wire_env_def wire_codec_def)

lemma wire_readable [simp]: "readable wire_env wire_codec Ack" "readable wire_env wire_codec (Event Unlocked)"
    "readable wire_env wire_codec (Event Locked)"
  by (simp_all add: readable_def wire_env_def wire_codec_def)

lemma wire_fits [simp]: "fits wire_env Ack" "fits wire_env (Event Unlocked)" "fits wire_env (Event Locked)"
  by (simp_all add: fits_def wire_env_def)

lemma wire_sched [simp]: "en_sched wire_env x = x"
  by (simp add: wire_env_def)

lemma wire_request_unlock:
  "serve_action wire_env t RequestUnlock (s, w) = (Ret (Ack, timer_reset (ho_clock w) t), request_unlock s, w)"
  by (simp add: serve_action_def handle_request_def t_bind_def t_seq_def t_lock_def t_mod_def t_ret_def t_look_def)
    (simp add: wire_env_def sample_env_def)

lemma wire_encode: "frame_of wire_env Ack = [1, 0, 0, 0, 6]"
  by (simp add: frame_of_def wire_env_def framed_def to_le_bytes_def)

section \<open>The socket\<close>



text \<open>
  Requests written one after the other into a connection are answered in that order: what the
  client reads back is what the handlers return when they run one after the other, each from the
  state the one before it left, up to the first that panics or answers with more than the cap.
\<close>

theorem replies_in_order:
  assumes "list_all2 (accepted E C) as bs" and "\<forall>r\<in>set (fst (answers E as z)). readable E C r"
    and "serve_conn E (fresh_conn\<lparr>cn_received := concat (map framed bs)\<rparr>, z) = (c, z')"
  shows "(read_responses C (cn_written c), z') = answers E as z"
  by (rule connection_replies [OF assms])

lemma wire_answers:
  "answers wire_env [RequestUnlock, RequestUnlock] (wire_timer, locked_agent, sample_host)
    = ([Ack, Ack], timer_reset 1000 (timer_reset 1000 wire_timer),
       request_unlock (request_unlock locked_agent), sample_host)"
  by (simp add: wire_request_unlock sample_host_def)

theorem replies_in_order_witness:
  "(case serve_conn wire_env (fresh_conn\<lparr>cn_received := framed [2] @ framed [2]\<rparr>, wire_timer, locked_agent, sample_host)
    of (c, z') \<Rightarrow> (read_responses wire_codec (cn_written c), z'))
   = ([Ack, Ack], timer_reset 1000 (timer_reset 1000 wire_timer),
      request_unlock (request_unlock locked_agent), sample_host)"
proof -
  obtain c z' where "serve_conn wire_env (fresh_conn\<lparr>cn_received := concat (map framed [[2], [2]])\<rparr>,
      wire_timer, locked_agent, sample_host) = (c, z')"
    by (metis surj_pair)
  then show ?thesis
    using replies_in_order [of wire_env wire_codec "[RequestUnlock, RequestUnlock]" "[[2], [2]]"
        "(wire_timer, locked_agent, sample_host)" c z']
    by (simp add: wire_answers del: answers.simps)
qed

text \<open>
  C14: whatever the peer answers, one request of the client makes at most two connections and four
  writes, never asks its socket for more than \<open>MAX_IPC_FRAME_BYTES\<close> bytes at once, and returns
  a response or an error: the text after its loop is not reached.
\<close>

theorem ipc_request_bounds:
  assumes "send (traced L) C path a c (w, []) = (r, c', w', calls)"
  shows "\<not> panics r \<and> connects calls \<le> 2 \<and> writes calls \<le> 4 \<and> length (read_sizes calls) \<le> 4
    \<and> (\<forall>n\<in>set (read_sizes calls). n \<le> MAX_IPC_FRAME_BYTES)"
  using send_cost [OF assms] send_attempts_returns [of "traced L" C path a "for_path path c" "(w, [])"] assms
  by (simp add: send_def del: send_attempts.simps)

definition hostile_lib :: "(unit, unit) sock_lib" where
  "hostile_lib = \<lparr>so_connect = (\<lambda>path. io_ret ()), so_write_all = (\<lambda>s b. io_ret ()),
     so_read_exact = (\<lambda>s n. io_ret [255, 255, 255, 255])\<rparr>"

lemma hostile_length: "from_le_bytes [255, 255, 255, 255] = 0xFFFFFFFF"
  by simp

lemma hostile_refused: "\<exists>e. ipc_frame_len (from_le_bytes [255, 255, 255, 255]) = Inl e"
  unfolding hostile_length by (simp add: ipc_frame_len_def MAX_IPC_FRAME_BYTES_def)

lemma hostile_do_send:
  "\<exists>e. do_send (traced hostile_lib) wire_codec () RequestUnlock ((), l)
     = (Inl e, (), l @ [Did_Write () [1, 0, 0, 0], Did_Write () [2], Did_Read () 4])"
  using hostile_refused
  by (auto simp: do_send_def write_action_def read_response_def io_defs logged_def hostile_lib_def wire_codec_def
      to_le_bytes_def simp del: from_le_bytes.simps)

lemma hostile_connect:
  "pc_stream c = None \<Longrightarrow> ensure_stream (traced hostile_lib) path c ((), l) = (Inr (), (), l @ [Did_Connect path])"
  by (simp add: ensure_stream_def io_defs logged_def) (simp add: hostile_lib_def io_ret_def)

theorem ipc_request_bounds_witness:
  "\<exists>r c' calls. send (traced hostile_lib) wire_codec ''socket'' RequestUnlock no_conn ((), []) = (r, c', (), calls)
     \<and> \<not> panics r \<and> (\<forall>n\<in>set (read_sizes calls). n \<le> MAX_IPC_FRAME_BYTES) \<and> read_sizes calls = [4, 4]"
proof -
  let ?l = "[Did_Connect ''socket'', Did_Write () [1, 0, 0, 0], Did_Write () [2], Did_Read () 4]"
  obtain e e' where "do_send (traced hostile_lib) wire_codec () RequestUnlock ((), [Did_Connect ''socket'']) = (Inl e, (), ?l)"
      "do_send (traced hostile_lib) wire_codec () RequestUnlock ((), ?l @ [Did_Connect ''socket'']) = (Inl e', (), ?l @ ?l)"
    using hostile_do_send [of "[Did_Connect ''socket'']"] hostile_do_send [of "?l @ [Did_Connect ''socket'']"] by auto
  then have "\<exists>r c'. send (traced hostile_lib) wire_codec ''socket'' RequestUnlock no_conn ((), []) = (r, c', (), ?l @ ?l)"
    by (simp add: send_def hostile_connect no_conn_def for_path_def)
  then show ?thesis
    using ipc_request_bounds [of hostile_lib wire_codec "''socket''" RequestUnlock no_conn "()"] by fastforce
qed

text \<open>
  A subscriber reads, in order, the entry that was waiting to be opened, if there was one,
  and then every event that was broadcast since it subscribed; none is lost or read twice.
\<close>

theorem subscriber_hears_every_event:
  assumes "q = (case st_pending_entry_id s of Some i \<Rightarrow> [OpenEntry i] | None \<Rightarrow> []) @ evs"
    and "\<forall>ev\<in>set q. readable E C (Event ev) \<and> fits E (Event ev)"
  shows "read_events C (stream_events E (sub_events (last (st_subscribers (fold broadcast evs (subscribe s)))))) = q"
  using assms by (simp add: subscriber_queue read_stream_events)

theorem subscriber_hears_every_event_witness:
  "read_events wire_codec (stream_events wire_env
     (sub_events (last (st_subscribers (fold broadcast [Unlocked, Locked] (subscribe locked_agent)))))) = [Unlocked, Locked]"
  by (rule subscriber_hears_every_event) (simp_all add: locked_agent_def agent_new_def)

section \<open>The browser host\<close>




section \<open>Logs\<close>


end
