(* ===== verification/Plasma_Tray.thy ===== *)
theory Plasma_Tray
  imports Ipc_Client
begin

text \<open>
  The Plasma tray, \<open>cosmarden-plasma-tray/src/\<close>: its state and how it is read from the agent
  (\<open>state.rs\<close>), the menu (\<open>menu.rs\<close>), the clipboard with its automatic clearing (\<open>clipboard.rs\<close>), the
  supervisor (\<open>supervisor.rs\<close>) and the main loop (\<open>tray.rs\<close>).

  The agent is reached through a value of type \<open>'w requester\<close>, which \<open>AgentClient::send\<close> is. The
  clipboard is a value of type \<open>'d clip_lib\<close>. What a command makes visible (log lines, programs it
  starts) is a list of \<open>tray_effect\<close>.
\<close>

section \<open>State\<close>

definition MENU_ROW_LIMIT :: nat where "MENU_ROW_LIMIT = 10"

record login_row =
  row_id :: string
  row_label :: string
  row_username :: "string option"
  row_uri :: "string option"

record tray_state =
  ts_protocol_mismatch :: bool
  ts_agent_ready :: bool
  ts_has_account :: bool
  ts_locked :: bool
  ts_rows :: "login_row list"

definition default_tray :: tray_state where
  "default_tray = \<lparr>ts_protocol_mismatch = False, ts_agent_ready = False, ts_has_account = False,
     ts_locked = False, ts_rows = []\<rparr>"

definition unlocked :: "tray_state \<Rightarrow> bool" where
  "unlocked st \<longleftrightarrow> ts_agent_ready st \<and> ts_has_account st \<and> \<not> ts_locked st"

definition row_of :: "tray_state \<Rightarrow> string \<Rightarrow> login_row option" where
  "row_of st i = List.find (\<lambda>r. row_id r = i) (ts_rows st)"

definition login_row_of :: "(string \<Rightarrow> string option) \<Rightarrow> sidebar_entry \<Rightarrow> login_row" where
  "login_row_of psl e = \<lparr>row_id = se_id e, row_label = display_label_for_name psl (se_name e),
     row_username = se_username e, row_uri = open_uri_for_name (se_name e)\<rparr>"

definition login_rows :: "(string \<Rightarrow> string option) \<Rightarrow> sidebar_entry list \<Rightarrow> login_row list" where
  "login_rows psl es =
     take MENU_ROW_LIMIT (map (login_row_of psl) (filter (\<lambda>e. se_entry_type e = ET_Login) es))"

text \<open>The three reads of \<open>probe\<close>: version, configuration, rows. A failed one ends it.\<close>

definition probe_rows :: "'w requester \<Rightarrow> (string \<Rightarrow> string option) \<Rightarrow> tray_state \<Rightarrow> 'w \<Rightarrow> tray_state \<times> 'w" where
  "probe_rows rq psl next w =
     (if unlocked next then
        (case rq (GetSidebarEntries None None True None) w of
           (Inr (SidebarEntries es), w) \<Rightarrow> (next\<lparr>ts_rows := login_rows psl es\<rparr>, w)
         | (r, w) \<Rightarrow> (next, w))
      else (next, w))"

definition probe_config :: "'w requester \<Rightarrow> (string \<Rightarrow> string option) \<Rightarrow> tray_state \<Rightarrow> 'w \<Rightarrow> tray_state \<times> 'w" where
  "probe_config rq psl next w =
     (case rq GetConfig w of
        (Inr (Config cfg nl ha lk sf sid ep), w) \<Rightarrow>
          probe_rows rq psl (next\<lparr>ts_agent_ready := True, ts_has_account := ha \<and> \<not> nl,
                                  ts_locked := lk\<rparr>) w
      | (r, w) \<Rightarrow> (next, w))"

definition probe :: "'w requester \<Rightarrow> (string \<Rightarrow> string option) \<Rightarrow> 'w \<Rightarrow> tray_state \<times> 'w" where
  "probe rq psl w =
     (case rq Action_Version w of
        (Inr (Response_Version v protocol_version), w) \<Rightarrow>
          (let next = default_tray\<lparr>ts_protocol_mismatch := protocol_version \<noteq> PROTOCOL_VERSION\<rparr> in
           if ts_protocol_mismatch next then (next, w) else probe_config rq psl next w)
      | (r, w) \<Rightarrow> (default_tray, w))"

section \<open>Menu\<close>

datatype menu_command =
    OpenVault
  | CopyLogin string
  | CopyPassword string
  | OpenLink string
  | Menu_Lock
  | Menu_Logout
  | Menu_Exit

datatype menu_node = Item string menu_command | SubMenu string "menu_node list" | Separator

definition em_dash :: string where
  "em_dash = map char_of [226 :: nat, 128, 148]"

definition row_actions :: "login_row \<Rightarrow> (string \<times> menu_command) list" where
  "row_actions r =
     [(''Copy password'', CopyPassword (row_id r))]
     @ (if row_username r \<noteq> None then [(''Copy login'', CopyLogin (row_id r))] else [])
     @ (case row_uri r of Some uri \<Rightarrow> [(''Open link'', OpenLink uri)] | None \<Rightarrow> [])"

definition row_node :: "login_row \<Rightarrow> menu_node" where
  "row_node r = (case row_actions r of
     [(action, command)] \<Rightarrow> Item (row_label r @ '' '' @ em_dash @ '' '' @ action) command
   | actions \<Rightarrow> SubMenu (row_label r) (map (\<lambda>(l, c). Item l c) actions))"

definition build_menu :: "tray_state \<Rightarrow> menu_node list" where
  "build_menu st =
     (if ts_protocol_mismatch st then [Item ''Exit'' Menu_Exit]
      else [Item ''Open Vault'' OpenVault]
        @ (if ts_rows st \<noteq> [] then Separator # map row_node (ts_rows st) else [])
        @ (if unlocked st then [Separator, Item ''Lock'' Menu_Lock, Item ''Logout'' Menu_Logout] else [])
        @ [Separator, Item ''Exit'' Menu_Exit])"

fun agent_action :: "menu_command \<Rightarrow> action option" where
  "agent_action Menu_Lock = Some Action_Lock"
| "agent_action Menu_Logout = Some Logout"
| "agent_action (CopyPassword i) = Some (GetPassword i None)"
| "agent_action c = None"

section \<open>Clipboard\<close>

definition CLIPBOARD_CLEAR_SECS :: nat where "CLIPBOARD_CLEAR_SECS = 30"

datatype tray_effect = Info string | Warn string | Log_Error string | Spawn_Vault | Browse string

record 'd clip_lib =
  cl_available :: bool
  cl_set_text :: "string \<Rightarrow> 'd \<Rightarrow> bool \<times> 'd"
  cl_get_text :: "'d \<Rightarrow> string option \<times> 'd"

definition should_clear :: "string \<Rightarrow> string \<Rightarrow> bool" where
  "should_clear current ours \<longleftrightarrow> current = ours"

text \<open>The secret that is to be cleared later, if the write succeeded, is the second component.\<close>

definition copy_secret ::
  "'d clip_lib \<Rightarrow> secret \<Rightarrow> string \<Rightarrow> 'd \<Rightarrow> tray_effect list \<times> secret option \<times> 'd" where
  "copy_secret K s what d =
     (if \<not> cl_available K
      then ([Log_Error (what @ '' was not copied: this session has no clipboard'')], None, d)
      else case cl_set_text K (expose s) d of
        (True, d) \<Rightarrow> ([Info (what @ '' copied; the clipboard is cleared in '' @ show_nat CLIPBOARD_CLEAR_SECS
                          @ ''s unless it changes'')], Some s, d)
      | (False, d) \<Rightarrow> ([Log_Error (''writing '' @ what @ '' to the clipboard failed'')], None, d))"

definition clear_if_ours :: "'d clip_lib \<Rightarrow> secret \<Rightarrow> 'd \<Rightarrow> 'd" where
  "clear_if_ours K ours d = (case cl_get_text K d of
     (None, d) \<Rightarrow> d
   | (Some current, d) \<Rightarrow>
       (if should_clear current (expose ours) then snd (cl_set_text K [] d) else d))"

section \<open>Commands\<close>

fun command_debug :: "(string \<Rightarrow> string) \<Rightarrow> menu_command \<Rightarrow> string" where
  "command_debug du OpenVault = ''OpenVault''"
| "command_debug du (CopyLogin i) = ''CopyLogin('' @ debug_str du i @ '')''"
| "command_debug du (CopyPassword i) = ''CopyPassword('' @ debug_str du i @ '')''"
| "command_debug du (OpenLink u) = ''OpenLink('' @ debug_str du u @ '')''"
| "command_debug du Menu_Lock = ''Lock''"
| "command_debug du Menu_Logout = ''Logout''"
| "command_debug du Menu_Exit = ''Exit''"

definition row_subject :: "tray_state option \<Rightarrow> string \<Rightarrow> string" where
  "row_subject st i = (case Option.bind st (\<lambda>st. row_of st i) of
     Some r \<Rightarrow> row_label r | None \<Rightarrow> ''entry '' @ i)"

fun subject :: "(string \<Rightarrow> string) \<Rightarrow> menu_command \<Rightarrow> tray_state option \<Rightarrow> string" where
  "subject du (CopyLogin i) st = row_subject st i"
| "subject du (CopyPassword i) st = row_subject st i"
| "subject du c st = command_debug du c"

definition copy_login ::
  "'d clip_lib \<Rightarrow> (string \<Rightarrow> string) \<Rightarrow> string \<Rightarrow> tray_state option \<Rightarrow> 'd
    \<Rightarrow> tray_effect list \<times> secret option \<times> 'd" where
  "copy_login K du i st d =
     (let what = subject du (CopyLogin i) st in
      case Option.bind (Option.bind st (\<lambda>st. row_of st i)) row_username of
        Some username \<Rightarrow> copy_secret K (Secret username) what d
      | None \<Rightarrow> ([Warn (what @ '': no stored login for this row'')], None, d))"

text \<open>The match on what the agent answered; \<open>Password\<close> of another command falls to \<open>Ok(other)\<close>.\<close>

definition command_answered ::
  "'d clip_lib \<Rightarrow> (string \<Rightarrow> string) \<Rightarrow> menu_command \<Rightarrow> string \<Rightarrow> error + response \<Rightarrow> 'd
    \<Rightarrow> tray_effect list \<times> secret option \<times> 'd" where
  "command_answered K du c what r d =
     (let is_copy = (case c of CopyPassword i \<Rightarrow> True | _ \<Rightarrow> False);
          unexpected = (\<lambda>r. ([Warn (what @ '': unexpected response '' @ response_debug du r)], None, d))
      in case r of
        Inr (Response_Password p) \<Rightarrow> if is_copy then copy_secret K p what d else unexpected (Response_Password p)
      | Inr Ack \<Rightarrow> ([Info (what @ '' requested'')], None, d)
      | Inr r \<Rightarrow> unexpected r
      | Inl e \<Rightarrow>
          (if is_copy
           then ([Warn (''copy password for '' @ what @ '' failed: '' @ error_display e @
                   ''; entries that need a master password can be copied from the app (Open Vault)'')], None, d)
           else ([Log_Error (what @ '' failed: '' @ error_display e)], None, d)))"

definition run_command ::
  "'w requester \<Rightarrow> 'd clip_lib \<Rightarrow> (string \<Rightarrow> string) \<Rightarrow> menu_command \<Rightarrow> tray_state option \<Rightarrow> 'w \<times> 'd
    \<Rightarrow> (tray_effect list \<times> secret option) outcome \<times> 'w \<times> 'd" where
  "run_command rq K du c st = (\<lambda>(w, d).
     case agent_action c of
       Some a \<Rightarrow> (case rq a w of (r, w) \<Rightarrow>
           (case command_answered K du c (subject du c st) r d of (fx, s, d) \<Rightarrow> (Ret (fx, s), w, d)))
     | None \<Rightarrow> (case c of
           OpenVault \<Rightarrow> (Ret ([Spawn_Vault], None), w, d)
         | OpenLink uri \<Rightarrow> (Ret ([Browse uri], None), w, d)
         | CopyLogin i \<Rightarrow> (case copy_login K du i st d of (fx, s, d) \<Rightarrow> (Ret (fx, s), w, d))
         | Menu_Exit \<Rightarrow> (Ret ([], None), w, d)
         | _ \<Rightarrow> (Panic ''internal error: entered unreachable code: handled by agent_action'', w, d)))"

section \<open>Supervisor and main loop\<close>

datatype signal = Sig_Command menu_command | Sig_Event event | Sig_Tick | Sig_Exit

text \<open>What the branches of the \<open>select!\<close> deliver, and the signal made of it.\<close>

datatype tray_input = In_Command "menu_command option" | In_Event "event option" | In_Tick

fun next_signal :: "tray_input \<Rightarrow> signal" where
  "next_signal (In_Command (Some Menu_Exit)) = Sig_Exit"
| "next_signal (In_Command (Some c)) = Sig_Command c"
| "next_signal (In_Command None) = Sig_Tick"
| "next_signal (In_Event (Some ev)) = Sig_Event ev"
| "next_signal (In_Event None) = Sig_Tick"
| "next_signal In_Tick = Sig_Tick"

definition supervisor_event ::
  "('w, 's) sock_lib \<Rightarrow> codec \<Rightarrow> (string \<Rightarrow> string) \<Rightarrow> string \<Rightarrow> 's option \<Rightarrow> 'w
    \<Rightarrow> (event option \<times> 's option \<times> 'w) option" where
  "supervisor_event L C du path events w =
     (case (case events of Some s \<Rightarrow> (Inr s, w) | None \<Rightarrow> connect_with_socket L C du path w) of
        (Inl e, w) \<Rightarrow> Some (None, None, w)
      | (Inr s, w) \<Rightarrow> (case next_event L C s w of
          None \<Rightarrow> None
        | Some (Inr ev, w) \<Rightarrow> Some (Some ev, Some s, w)
        | Some (Inl e, w) \<Rightarrow> Some (None, None, w)))"

text \<open>
  One turn shows the state that it read; the commands of the next click refer to it. A run is the
  turns for a list of inputs, until \<open>Exit\<close>.
\<close>

record ('w, 'd) tray =
  tr_state :: "tray_state option"
  tr_shown :: "menu_node list"
  tr_clearing :: "secret list"
  tr_effects :: "tray_effect list"
  tr_world :: 'w
  tr_clip :: 'd

definition tray_probe :: "'w requester \<Rightarrow> (string \<Rightarrow> string option) \<Rightarrow> ('w, 'd) tray \<Rightarrow> ('w, 'd) tray" where
  "tray_probe rq psl t = (case probe rq psl (tr_world t) of (next, w) \<Rightarrow>
     (if tr_state t \<noteq> Some next then t\<lparr>tr_state := Some next, tr_shown := build_menu next, tr_world := w\<rparr>
      else t\<lparr>tr_world := w\<rparr>))"

definition tray_command ::
  "'w requester \<Rightarrow> 'd clip_lib \<Rightarrow> (string \<Rightarrow> string) \<Rightarrow> menu_command \<Rightarrow> ('w, 'd) tray \<Rightarrow> ('w, 'd) tray outcome" where
  "tray_command rq K du c t = (case run_command rq K du c (tr_state t) (tr_world t, tr_clip t) of
     (Panic m, x) \<Rightarrow> Panic m
   | (Ret (fx, s), w, d) \<Rightarrow> Ret (t\<lparr>tr_world := w, tr_clip := d, tr_effects := tr_effects t @ fx,
       tr_clearing := tr_clearing t @ (case s of Some s \<Rightarrow> [s] | None \<Rightarrow> [])\<rparr>))"

fun tray_run ::
  "'w requester \<Rightarrow> (string \<Rightarrow> string option) \<Rightarrow> 'd clip_lib \<Rightarrow> (string \<Rightarrow> string) \<Rightarrow> tray_input list
    \<Rightarrow> ('w, 'd) tray \<Rightarrow> ('w, 'd) tray outcome" where
  "tray_run rq psl K du [] t = Ret (tray_probe rq psl t)"
| "tray_run rq psl K du (i # ins) t =
     (let t = tray_probe rq psl t in case next_signal i of
        Sig_Exit \<Rightarrow> Ret t
      | Sig_Command c \<Rightarrow> (case tray_command rq K du c t of Panic m \<Rightarrow> Panic m | Ret t \<Rightarrow> tray_run rq psl K du ins t)
      | _ \<Rightarrow> tray_run rq psl K du ins t)"

section \<open>The shape of a menu\<close>

fun is_item :: "menu_node \<Rightarrow> bool" where
  "is_item (Item l c) = True"
| "is_item n = False"

text \<open>No separator at either end or beside another, and every submenu has at least two plain items.\<close>

fun node_ok :: "menu_node \<Rightarrow> bool" where
  "node_ok (SubMenu l ns) = (2 \<le> length ns \<and> list_all is_item ns)"
| "node_ok n = True"

fun separated_ok :: "menu_node list \<Rightarrow> bool" where
  "separated_ok [] = False"
| "separated_ok [n] = (n \<noteq> Separator)"
| "separated_ok (n # m # ns) = (\<not> (n = Separator \<and> m = Separator) \<and> separated_ok (m # ns))"

definition menu_ok :: "menu_node list \<Rightarrow> bool" where
  "menu_ok ns \<longleftrightarrow> list_all node_ok ns \<and> separated_ok ns \<and> ns \<noteq> [] \<and> hd ns \<noteq> Separator"

fun node_commands :: "menu_node \<Rightarrow> menu_command list" where
  "node_commands (Item l c) = [c]"
| "node_commands (SubMenu l ns) = concat (map node_commands ns)"
| "node_commands Separator = []"

definition menu_commands :: "menu_node list \<Rightarrow> menu_command list" where
  "menu_commands ns = concat (map node_commands ns)"

lemma menu_commands_simps [simp]:
  "menu_commands [] = []" "menu_commands (n # ns) = node_commands n @ menu_commands ns"
  "menu_commands (ns @ ms) = menu_commands ns @ menu_commands ms"
  by (simp_all add: menu_commands_def)

lemma row_actions_cases:
  "row_actions r = [(''Copy password'', CopyPassword (row_id r))]
   \<or> (\<exists>x xs. row_actions r = (''Copy password'', CopyPassword (row_id r)) # x # xs)"
  by (simp add: row_actions_def split: option.split)

lemma row_node_ok [simp]: "node_ok (row_node r)" "row_node r \<noteq> Separator"
  using row_actions_cases [of r] by (auto simp: row_node_def list_all_iff)

lemma row_node_commands [simp]: "node_commands (row_node r) = map snd (row_actions r)"
proof -
  have "concat (map (node_commands \<circ> (\<lambda>(l, c). Item l c)) as) = map snd as" for as
    by (induction as) auto
  then show ?thesis
    using row_actions_cases [of r] by (auto simp: row_node_def)
qed

lemma separated_ok_rows:
  "separated_ok ns \<Longrightarrow> separated_ok (map row_node rs @ ns)"
  by (induction rs rule: induct_list012; cases ns) auto

lemma separated_ok_append:
  "separated_ok ms \<Longrightarrow> ns \<noteq> [] \<Longrightarrow> separated_ok ns \<Longrightarrow> separated_ok (ns @ ms)"
  by (induction ns rule: separated_ok.induct) (cases ms; auto)+

lemma build_menu_ok: "menu_ok (build_menu st)"
proof -
  have tail: "separated_ok ([Separator, Item ''Exit'' Menu_Exit])"
      "separated_ok ([Separator, Item ''Lock'' Menu_Lock, Item ''Logout'' Menu_Logout, Separator, Item ''Exit'' Menu_Exit])"
    by simp_all
  have "separated_ok (Separator # map row_node rs @ ns)" if "separated_ok ns" "rs \<noteq> []" for rs ns
    using separated_ok_rows [OF that(1), of rs] that(2) by (cases rs) auto
  from this [OF tail(1)] this [OF tail(2)] show ?thesis
    by (auto simp: menu_ok_def build_menu_def list_all_iff neq_Nil_conv)
qed

section \<open>What the menu offers\<close>

lemma length_login_rows: "length (login_rows psl es) \<le> MENU_ROW_LIMIT"
  by (simp add: login_rows_def)

text \<open>A state that was read: rows only when the vault is open, and never more than the limit.\<close>

definition tray_ok :: "tray_state \<Rightarrow> bool" where
  "tray_ok st \<longleftrightarrow> length (ts_rows st) \<le> MENU_ROW_LIMIT \<and> (ts_rows st \<noteq> [] \<longrightarrow> unlocked st)
     \<and> (ts_protocol_mismatch st \<longrightarrow> \<not> unlocked st)"

lemma default_tray_ok [simp]: "tray_ok default_tray"
  by (simp add: tray_ok_def default_tray_def unlocked_def)

lemma probe_rows_ok:
  assumes "ts_rows next = []" and "\<not> ts_protocol_mismatch next"
  shows "tray_ok (fst (probe_rows rq psl next w))"
  using assms length_login_rows
  by (auto simp: probe_rows_def tray_ok_def unlocked_def split: prod.splits sum.splits response.splits)

lemma probe_config_ok:
  "ts_rows next = [] \<Longrightarrow> \<not> ts_protocol_mismatch next \<Longrightarrow> \<not> unlocked next \<Longrightarrow> tray_ok (fst (probe_config rq psl next w))"
  by (auto simp: probe_config_def split: prod.splits sum.splits response.splits intro!: probe_rows_ok)
    (simp_all add: tray_ok_def)

lemma probe_ok: "tray_ok (fst (probe rq psl w))"
  by (auto simp: probe_def Let_def split: prod.splits sum.splits response.splits intro!: probe_config_ok)
    (simp_all add: default_tray_def tray_ok_def unlocked_def)

lemma menu_commands_rows: "menu_commands (map row_node rs) = concat (map (\<lambda>r. map snd (row_actions r)) rs)"
  by (simp add: menu_commands_def comp_def)

lemma menu_commands_build:
  "menu_commands (build_menu st) =
     (if ts_protocol_mismatch st then [Menu_Exit]
      else OpenVault # concat (map (\<lambda>r. map snd (row_actions r)) (ts_rows st))
        @ (if unlocked st then [Menu_Lock, Menu_Logout] else []) @ [Menu_Exit])"
  by (auto simp: build_menu_def menu_commands_rows)

section \<open>Runs of the tray\<close>

lemma run_command_returns: "\<exists>fx s x. run_command rq K du c st (w, d) = (Ret (fx, s), x)"
  by (cases c) (auto simp: run_command_def split: prod.split)

lemma tray_command_returns:
  "\<exists>t'. tray_command rq K du c t = Ret t' \<and> tr_state t' = tr_state t \<and> tr_shown t' = tr_shown t"
proof -
  obtain fx s w d where "run_command rq K du c (tr_state t) (tr_world t, tr_clip t) = (Ret (fx, s), w, d)"
    using run_command_returns [of rq K du c "tr_state t" "tr_world t" "tr_clip t"] by auto
  then show ?thesis
    by (simp add: tray_command_def)
qed

definition tray_start :: "'w \<Rightarrow> 'd \<Rightarrow> ('w, 'd) tray" where
  "tray_start w d = \<lparr>tr_state = None, tr_shown = build_menu default_tray, tr_clearing = [], tr_effects = [],
     tr_world = w, tr_clip = d\<rparr>"

definition tray_shows :: "('w, 'd) tray \<Rightarrow> bool" where
  "tray_shows t \<longleftrightarrow> (case tr_state t of
     None \<Rightarrow> tr_shown t = build_menu default_tray
   | Some st \<Rightarrow> tray_ok st \<and> tr_shown t = build_menu st)"

lemma tray_probe_shows:
  "tray_shows t \<Longrightarrow> tray_shows (tray_probe rq psl t) \<and> tr_state (tray_probe rq psl t) \<noteq> None"
  using probe_ok [of rq psl "tr_world t"] by (auto simp: tray_probe_def tray_shows_def split: prod.splits)

lemma tray_run_shows:
  assumes "tray_shows t"
  shows "\<exists>t' st. tray_run rq psl K du ins t = Ret t' \<and> tr_state t' = Some st \<and> tray_ok st \<and> tr_shown t' = build_menu st"
  using assms
proof (induction ins arbitrary: t)
  case Nil
  then show ?case
    using tray_probe_shows [OF Nil, of rq psl] by (auto simp: tray_shows_def)
next
  case (Cons i ins)
  let ?t = "tray_probe rq psl t"
  have s: "tray_shows ?t" "tr_state ?t \<noteq> None"
    using tray_probe_shows [OF Cons.prems] by auto
  show ?case
  proof (cases "next_signal i")
    case (Sig_Command c)
    obtain t' where t': "tray_command rq K du c ?t = Ret t'" "tr_state t' = tr_state ?t" "tr_shown t' = tr_shown ?t"
      using tray_command_returns by blast
    then have "tray_shows t'"
      using s by (auto simp: tray_shows_def)
    then show ?thesis
      using Cons.IH [of t'] Sig_Command t' by (simp add: Let_def)
  next
    case Sig_Exit
    then show ?thesis
      using s by (auto simp: Let_def tray_shows_def)
  qed (use Cons.IH [of ?t] s in \<open>simp_all add: Let_def\<close>)
qed

lemma tray_start_shows: "tray_shows (tray_start w d)"
  by (simp add: tray_shows_def tray_start_def)

text \<open>Only an open vault has anything but \<open>Open Vault\<close> and \<open>Exit\<close> in its menu.\<close>

lemma offered_commands:
  assumes "tray_ok st" and "c \<in> set (menu_commands (build_menu st))"
  shows "c = OpenVault \<or> c = Menu_Exit \<or> unlocked st"
proof (cases "ts_rows st = []")
  case True
  then show ?thesis
    using assms(2) by (auto simp: menu_commands_build split: if_splits)
next
  case False
  then show ?thesis
    using assms(1) by (simp add: tray_ok_def)
qed

section \<open>A clipboard\<close>

definition text_clip :: "string clip_lib" where
  "text_clip = \<lparr>cl_available = True, cl_set_text = (\<lambda>s d. (True, s)), cl_get_text = (\<lambda>d. (Some d, d))\<rparr>"

lemma copied_secret_cleared:
  "copy_secret text_clip s what d = (fx, k, d') \<Longrightarrow> d' = expose s \<and> k = Some s \<and> clear_if_ours text_clip s d' = []"
  by (auto simp: copy_secret_def clear_if_ours_def should_clear_def text_clip_def)

lemma other_text_survives: "d \<noteq> expose s \<Longrightarrow> clear_if_ours text_clip s d = d"
  by (simp add: clear_if_ours_def should_clear_def text_clip_def)

end
