(* ===== verification/Tray_Properties.thy ===== *)
theory Tray_Properties
  imports Plasma_Tray Sample_Host
begin

text \<open>
  The tray and the agent together: what the tray shows and does when its requests are served by the
  agent's handlers. \<open>direct_client\<close> is \<open>AgentClient::send\<close> without the socket between them
  (\<open>send_runs_once\<close> says that the socket adds nothing).
\<close>

section \<open>The tray on the agent\<close>







text \<open>An entry that asks for the master password.\<close>

lemma get_password_reprompt:
  assumes "st_db s = Some d" and "find_entry i (db_entries d) = Some e" and "master_password_reprompt e"
  shows "\<exists>m. handle_get_password C K cfg i None s = Ret (Error m)"
  using assms by (auto simp: handle_get_password_def handle_get_entry_def verify_reprompt_def
      split: option.splits)

section \<open>Properties\<close>

text \<open>
  C35: Whatever clicks, events and timeouts the tray gets and whatever the agent answers, the tray
  goes on without a panic and shows a well-formed menu of the state it last read: no two
  separators together, submenus of at least two actions, at most ten logins, and nothing but
  opening the app and leaving unless the vault is open.
\<close>

theorem tray_always_shows_a_menu:
  shows "\<exists>t st. tray_run rq psl K du ins (tray_start w d) = Ret t \<and> tr_state t = Some st \<and> tr_shown t = build_menu st
    \<and> menu_ok (tr_shown t) \<and> length (ts_rows st) \<le> MENU_ROW_LIMIT
    \<and> (\<forall>c. c \<in> set (menu_commands (tr_shown t)) \<longrightarrow> c = OpenVault \<or> c = Menu_Exit \<or> unlocked st)"
proof -
  obtain t st where "tray_run rq psl K du ins (tray_start w d) = Ret t" "tr_state t = Some st" "tray_ok st"
      "tr_shown t = build_menu st"
    using tray_run_shows [OF tray_start_shows [of w d], of rq psl K du ins] by auto
  then show ?thesis
    using build_menu_ok offered_commands [of st] by (auto simp: tray_ok_def)
qed

definition silent_agent :: "unit requester" where
  "silent_agent a w = (Inl (Other ''no agent''), w)"

lemma silent_probe: "probe silent_agent psl w = (default_tray, w)"
  by (simp add: probe_def silent_agent_def)

theorem tray_always_shows_a_menu_witness:
  "\<exists>t. tray_run silent_agent (\<lambda>h. None) text_clip (\<lambda>s. s) [In_Tick, In_Command (Some OpenVault), In_Event (Some Locked)]
      (tray_start () ''text'') = Ret t \<and> menu_ok (tr_shown t)
    \<and> menu_commands (tr_shown t) = [OpenVault, Menu_Exit]"
proof -
  obtain t st where t: "tray_run silent_agent (\<lambda>h. None) text_clip (\<lambda>s. s)
      [In_Tick, In_Command (Some OpenVault), In_Event (Some Locked)] (tray_start () ''text'') = Ret t"
      "tr_state t = Some st" "tr_shown t = build_menu st" "menu_ok (tr_shown t)"
    using tray_always_shows_a_menu [of silent_agent "\<lambda>h. None" text_clip "\<lambda>s. s"
        "[In_Tick, In_Command (Some OpenVault), In_Event (Some Locked)]" "()" "''text''"] by auto
  have "tr_state t = Some default_tray"
    using t(1) by (auto simp: tray_probe_def silent_probe tray_command_def run_command_def Let_def tray_start_def)
  then show ?thesis
    using t by (simp add: menu_commands_build default_tray_def unlocked_def)
qed





text \<open>
  A click on \<open>Copy password\<close> for an entry that asks for the master password copies nothing: the
  clipboard keeps its text, nothing is scheduled to be cleared, and the line that is logged
  is the one for an unexpected response.
\<close>

theorem guarded_password_not_copied:
  assumes "st_db (fst (en_sched E x)) = Some d" and "find_entry i (db_entries d) = Some e"
    and "master_password_reprompt e"
  shows "\<exists>m z. run_command (direct_client E) K du (CopyPassword i) st ((t, x), clip) =
    (Ret ([Warn (subject du (CopyPassword i) st @ '': unexpected response '' @ response_debug du (Error m))], None), z, clip)"
proof -
  obtain m where "handle_get_password (en_crypto E) (en_kdf E) (load_config E (snd (en_sched E x))) i None (fst (en_sched E x))
      = Ret (Error m)"
    using get_password_reprompt [OF assms] by blast
  then have "handle_request E (GetPassword i None) x = (Ret (Error m), en_sched E x)"
    by (simp add: handle_request_def t_read_def t_seq_def t_bind_def t_lock_def)
  then obtain t' where "direct_client E (GetPassword i None) (t, x) = (Inr (Error m), t', en_sched E x)"
    using direct_client_answer [of "GetPassword i None"] by blast
  then show ?thesis
    by (auto simp: run_command_def command_answered_def)
qed

definition guarded_db :: db where
  "guarded_db = sample_db\<lparr>db_entries := [sample_stored_entry\<lparr>e_reprompt := Reprompt_Password\<rparr>]\<rparr>"

theorem guarded_password_not_copied_witness:
  "\<exists>m z. run_command (direct_client sample_env) text_clip (\<lambda>s. s) (CopyPassword ''1'') None
      ((timer_new 0 900, open_agent\<lparr>st_db := Some guarded_db\<rparr>, sample_host), ''text'') =
    (Ret ([Warn (''entry 1: unexpected response '' @ response_debug (\<lambda>s. s) (Error m))], None), z, ''text'')"
  using guarded_password_not_copied [of sample_env "(open_agent\<lparr>st_db := Some guarded_db\<rparr>, sample_host)" guarded_db "''1''"
      "sample_stored_entry\<lparr>e_reprompt := Reprompt_Password\<rparr>" text_clip "\<lambda>s. s" None "timer_new 0 900" "''text''"]
  by (simp add: guarded_db_def sample_stored_entry_def find_entry_def master_password_reprompt_def row_subject_def)

end
