(* ===== verification/Cli_Output.thy ===== *)
theory Cli_Output
  imports Redaction Protocol
begin

text \<open>
  What the command line client prints and how it reads its arguments:
  \<open>cosmarden-cli/src/output.rs\<close>, \<open>args.rs\<close> and \<open>preprocess_args\<close> of \<open>utils.rs\<close>. Printing returns the
  bytes that are written. The crate \<open>clap\<close> turns the preprocessed arguments into a \<open>cli_command\<close>;
  the model starts from its result.
\<close>

section \<open>Commands\<close>

text \<open>The arguments that \<open>add\<close> and \<open>edit\<close> share.\<close>

record kv_args =
  ka_args :: "string list"
  ka_field :: "string list"
  ka_secret_field :: "string list"
  ka_stdin :: bool

record generate_args =
  ga_uppercase :: bool
  ga_lowercase :: bool
  ga_numbers :: bool
  ga_special :: bool
  ga_length :: "u8 option"
  ga_history :: bool

datatype (plugins only: size) cli_command =
    Cmd_Register string string "string option"
  | Cmd_Login string "string option" "string option"
  | Cmd_Unlock "string option"
  | Cmd_Lock
  | Cmd_Sync
  | Cmd_List "string option" bool
  | Cmd_Pin string
  | Cmd_Unpin string
  | Cmd_Get "string option" bool string bool
  | Cmd_Add string kv_args bool
  | Cmd_Edit string kv_args bool
  | Cmd_AddNote string "string option"
  | Cmd_AddSshKey string "string option" "string option" "string option"
  | Cmd_Logout
  | Cmd_Unlocked
  | Cmd_Quit
  | Cmd_Version
  | Cmd_Generate generate_args

datatype cli_entry_type =
    CT_Login | CT_Card | CT_Identity | CT_Note | CT_SshKey | CT_BankAccount | CT_DriversLicense | CT_Passport

fun protocol_type :: "cli_entry_type \<Rightarrow> entry_type" where
  "protocol_type CT_Login = ET_Login"
| "protocol_type CT_Card = ET_Card"
| "protocol_type CT_Identity = ET_Identity"
| "protocol_type CT_Note = ET_SecureNote"
| "protocol_type CT_SshKey = ET_SshKey"
| "protocol_type CT_BankAccount = ET_BankAccount"
| "protocol_type CT_DriversLicense = ET_DriversLicense"
| "protocol_type CT_Passport = ET_Passport"

section \<open>Type keywords\<close>

definition type_keywords :: "string list" where
  "type_keywords = [''login'', ''card'', ''identity'', ''note'', ''sshkey'', ''ssh-key'']"

definition subcommands :: "string list" where
  "subcommands = [''register'', ''login'', ''logout'', ''unlock'', ''lock'', ''sync'', ''list'', ''ls'', ''get'', ''add'',
     ''unlocked'', ''quit'', ''pin'', ''unpin'', ''edit'', ''version'', ''generate'']"

definition is_subcommand :: "string \<Rightarrow> bool" where
  "is_subcommand a \<longleftrightarrow> to_lowercase a \<in> set subcommands"

definition has_other_cmd :: "string list \<Rightarrow> nat \<Rightarrow> bool" where
  "has_other_cmd args i \<longleftrightarrow> (\<exists>j \<in> set [1..<length args]. i \<noteq> j \<and> is_subcommand (args ! j))"

text \<open>Whether the loop stops at index \<open>i\<close>.\<close>

definition takes_type :: "string list \<Rightarrow> nat \<Rightarrow> bool" where
  "takes_type args i \<longleftrightarrow>
     to_lowercase (args ! i) \<in> set type_keywords
     \<and> \<not> (1 < i \<and> (args ! (i - 1) = ''-t'' \<or> args ! (i - 1) = ''--type''))
     \<and> (to_lowercase (args ! i) = ''login'' \<longrightarrow> has_other_cmd args i)"

definition found_idx :: "string list \<Rightarrow> nat option" where
  "found_idx args = List.find (takes_type args) [1..<length args]"

definition without_type :: "string list \<Rightarrow> nat \<Rightarrow> string list" where
  "without_type args idx = map ((!) args) (filter (\<lambda>i. i \<noteq> idx) [1..<length args])"

definition preprocess_args :: "string list \<Rightarrow> string list" where
  "preprocess_args args =
     (if length args < 2 then args
      else (case found_idx args of
              Some idx \<Rightarrow> [args ! 0, ''--type'', to_lowercase (args ! idx)] @ without_type args idx
                @ (if list_ex is_subcommand (without_type args idx) then [] else [''ls''])
            | None \<Rightarrow> args))"

section \<open>Printing\<close>

definition println :: "string \<Rightarrow> string" where
  "println s = s @ [CHR 0x0A]"

abbreviation "stars \<equiv> ''********''"

definition unwrap_str :: "string option \<Rightarrow> string" where
  "unwrap_str v = (case v of Some s \<Rightarrow> s | None \<Rightarrow> [])"

definition requested_fields :: "string \<Rightarrow> string set" where
  "requested_fields fs = set (split_char CHR '','' fs)"

definition wants :: "string \<Rightarrow> string \<Rightarrow> bool" where
  "wants fs k \<longleftrightarrow> fs = ''all'' \<or> k \<in> requested_fields fs"

definition line_if :: "bool \<Rightarrow> string \<Rightarrow> string" where
  "line_if b s = (if b then println s else [])"

text \<open>A line \<open>label: value\<close>, one for a secret, and one for a value that is left out when absent.\<close>

definition plain_line :: "string \<Rightarrow> string \<Rightarrow> string \<Rightarrow> string option \<Rightarrow> string" where
  "plain_line fs k label v = line_if (wants fs k) (label @ '': '' @ unwrap_str v)"

definition secret_line :: "bool \<Rightarrow> string \<Rightarrow> string \<Rightarrow> string \<Rightarrow> secret option \<Rightarrow> string" where
  "secret_line show fs k label v =
     (if wants fs k then (case v of None \<Rightarrow> []
        | Some p \<Rightarrow> println (label @ '': '' @ (if show then expose p else stars))) else [])"

definition present_line :: "string \<Rightarrow> string \<Rightarrow> string \<Rightarrow> string option \<Rightarrow> string" where
  "present_line fs k label v =
     (if wants fs k then (case v of None \<Rightarrow> [] | Some p \<Rightarrow> println (label @ '': '' @ p)) else [])"

definition names_line :: "string \<Rightarrow> string \<Rightarrow> string option \<Rightarrow> string option \<Rightarrow> string" where
  "names_line fs label a b = line_if (wants fs ''name'') (label @ '': '' @ unwrap_str a @ '' '' @ unwrap_str b)"

fun output_data :: "bool \<Rightarrow> string \<Rightarrow> entry_data \<Rightarrow> string" where
  "output_data show fs (Login l) =
     line_if (wants fs ''type'') ''Type: Login''
     @ plain_line fs ''username'' ''Username'' (lg_username l)
     @ secret_line show fs ''password'' ''Password'' (lg_password l)"
| "output_data show fs (Card c) =
     line_if (wants fs ''type'') ''Type: Card''
     @ secret_line show fs ''number'' ''Number'' (cd_number c)
     @ plain_line fs ''brand'' ''Brand'' (cd_brand c)
     @ line_if (wants fs ''expiry'') (''Expiry: '' @ unwrap_str (cd_exp_month c) @ ''/'' @ unwrap_str (cd_exp_year c))
     @ secret_line show fs ''code'' ''Code'' (cd_code c)"
| "output_data show fs (Identity i) =
     line_if (wants fs ''type'') ''Type: Identity''
     @ names_line fs ''Identity Name'' (id_first_name i) (id_last_name i)
     @ plain_line fs ''email'' ''Email'' (id_email i)"
| "output_data show fs SecureNote = line_if (wants fs ''type'') ''Type: Secure Note''"
| "output_data show fs (BankAccount b) =
     line_if (wants fs ''type'') ''Type: Bank Account''
     @ plain_line fs ''bank_name'' ''Bank Name'' (ba_bank_name b)
     @ plain_line fs ''name_on_account'' ''Name on Account'' (ba_name_on_account b)
     @ secret_line show fs ''account_number'' ''Account Number'' (ba_account_number b)
     @ secret_line show fs ''routing_number'' ''Routing Number'' (ba_routing_number b)
     @ secret_line show fs ''pin'' ''PIN'' (ba_pin b)
     @ plain_line fs ''swift_code'' ''SWIFT Code'' (ba_swift_code b)
     @ plain_line fs ''iban'' ''IBAN'' (ba_iban b)"
| "output_data show fs (DriversLicense d) =
     line_if (wants fs ''type'') (''Type: Driver'' @ [CHR 0x27] @ ''s License'')
     @ names_line fs ''Name'' (dl_first_name d) (dl_last_name d)
     @ plain_line fs ''date_of_birth'' ''Date of Birth'' (dl_date_of_birth d)
     @ secret_line show fs ''license_number'' ''License Number'' (dl_license_number d)
     @ plain_line fs ''issuing_state'' ''Issuing State'' (dl_issuing_state d)
     @ plain_line fs ''expiration_date'' ''Expiration Date'' (dl_expiration_date d)"
| "output_data show fs (Passport p) =
     line_if (wants fs ''type'') ''Type: Passport''
     @ names_line fs ''Name'' (pp_given_name p) (pp_surname p)
     @ secret_line show fs ''passport_number'' ''Passport Number'' (pp_passport_number p)
     @ plain_line fs ''issuing_country'' ''Issuing Country'' (pp_issuing_country p)
     @ plain_line fs ''expiration_date'' ''Expiration Date'' (pp_expiration_date p)"
| "output_data show fs (SshKey k) =
     line_if (wants fs ''type'') ''Type: SSH Key''
     @ (if wants fs ''private_key'' then (case sk_private_key k of None \<Rightarrow> []
          | Some pk \<Rightarrow> if show then println (''Private Key:'' @ [CHR 0x0A] @ expose pk)
              else println (''Private Key: '' @ stars)) else [])
     @ present_line fs ''public_key'' ''Public Key'' (sk_public_key k)
     @ present_line fs ''fingerprint'' ''Fingerprint'' (sk_fingerprint k)"

definition output_notes :: "bool \<Rightarrow> string \<Rightarrow> secret option \<Rightarrow> string" where
  "output_notes show fs nts =
     (if wants fs ''notes'' then (case nts of None \<Rightarrow> []
        | Some n \<Rightarrow> if show then println (''Notes:'' @ [CHR 0x0A] @ expose n)
            else println (''Notes: '' @ stars)) else [])"

definition output_field :: "bool \<Rightarrow> string \<Rightarrow> field \<Rightarrow> string" where
  "output_field show fs f =
     (case f_name f of None \<Rightarrow> []
      | Some name \<Rightarrow>
          if \<not> wants fs name then []
          else if f_ty f = Some FT_Hidden \<and> \<not> show then println (name @ '': '' @ stars)
          else (case f_value f of None \<Rightarrow> [] | Some v \<Rightarrow> println (name @ '': '' @ expose v)))"

text \<open>Raw mode: only the notes are asked for.\<close>

definition raw_notes :: "string \<Rightarrow> bool" where
  "raw_notes fs \<longleftrightarrow> fs \<noteq> ''all'' \<and> card (requested_fields fs) = 1 \<and> ''notes'' \<in> requested_fields fs"

definition output_entry :: "entry \<Rightarrow> string \<Rightarrow> bool \<Rightarrow> string" where
  "output_entry e fs show =
     (if raw_notes fs then
        (case e_notes e of None \<Rightarrow> [] | Some n \<Rightarrow> if show then expose n else println stars)
      else
        line_if (wants fs ''name'') (''Name: '' @ e_name e)
        @ line_if (wants fs ''id'') (''ID: '' @ e_id e)
        @ output_data show fs (e_data e)
        @ output_notes show fs (e_notes e)
        @ concat (map (output_field show fs) (e_fields e)))"

text \<open>The rows of \<open>list\<close> and of \<open>get\<close> without an entry.\<close>

definition paren :: "string option \<Rightarrow> string" where
  "paren u = (case u of Some s \<Rightarrow> '' ('' @ s @ '')'' | None \<Rightarrow> [])"

definition entry_line :: "entry \<Rightarrow> string" where
  "entry_line e = println (e_id e @ '' | '' @ e_name e
     @ paren (case e_data e of Login l \<Rightarrow> lg_username l | _ \<Rightarrow> None))"

definition sidebar_line :: "sidebar_entry \<Rightarrow> string" where
  "sidebar_line e = println (se_id e @ '' | '' @ se_name e @ paren (se_username e))"

definition handle_response :: "response \<Rightarrow> string + unit" where
  "handle_response r = (case r of Error m \<Rightarrow> Inl (''Agent error: '' @ m) | _ \<Rightarrow> Inr ())"

end
