(* ===== verification/Account_Files.thy ===== *)
theory Account_Files
  imports Rust_Strings
begin

text \<open>
  Where the program keeps its files: \<open>cosmarden-core/src/dirs.rs\<close>, \<open>dirs/profile.rs\<close> and
  \<open>vault_binary.rs\<close>. The process environment is a map from names to values. The crates
  \<open>percent-encoding\<close>, \<open>sha2\<close> and \<open>directories\<close> are the arguments \<open>enc\<close>, \<open>sha256_hex\<close> and
  \<open>project_dirs\<close>; a path is a string, and \<open>path_join\<close> is \<open>Path::join\<close> with a relative name.
\<close>

type_synonym environ = "string \<rightharpoonup> string"

section \<open>Profiles and the renamed variables\<close>

definition nonempty_env :: "environ \<Rightarrow> string \<Rightarrow> string option" where
  "nonempty_env env key = (case env key of Some v \<Rightarrow> if v \<noteq> [] then Some v else None | None \<Rightarrow> None)"

definition PROFILE_ENV :: string where "PROFILE_ENV = ''COSMARDEN_PROFILE''"
definition LEGACY_PROFILE_ENV :: string where "LEGACY_PROFILE_ENV = ''COSMIC_BWARDEN_PROFILE''"

definition profile :: "environ \<Rightarrow> string" where
  "profile env = (case (case nonempty_env env PROFILE_ENV of
        Some v \<Rightarrow> Some v | None \<Rightarrow> nonempty_env env LEGACY_PROFILE_ENV) of
     Some p \<Rightarrow> ''cosmarden-'' @ p | None \<Rightarrow> ''cosmarden'')"

definition LEGACY_ENV :: "(string \<times> string) list" where
  "LEGACY_ENV =
     [(''COSMARDEN_CONFIG'', ''COSMIC_BWARDEN_CONFIG''),
      (''COSMARDEN_SOCKET'', ''COSMIC_BWARDEN_SOCKET''),
      (''COSMARDEN_SSH_SOCKET'', ''COSMIC_BWARDEN_SSH_SOCKET''),
      (''COSMARDEN_PROFILE'', ''COSMIC_BWARDEN_PROFILE''),
      (''COSMARDEN_MODE'', ''COSMIC_BWARDEN_MODE'')]"

definition adopt_one :: "string \<times> string \<Rightarrow> environ \<Rightarrow> environ" where
  "adopt_one = (\<lambda>(new, old) env. if env new = None
     then (case env old of Some v \<Rightarrow> env(new \<mapsto> v) | None \<Rightarrow> env) else env)"

definition adopt_legacy_env :: "environ \<Rightarrow> environ" where
  "adopt_legacy_env = fold adopt_one LEGACY_ENV"

definition env_path :: "environ \<Rightarrow> string \<Rightarrow> string \<Rightarrow> string option" where
  "env_path env new old = (case env new of Some v \<Rightarrow> Some v | None \<Rightarrow> env old)"

section \<open>Paths\<close>

definition path_join :: "string \<Rightarrow> string \<Rightarrow> string" where
  "path_join dir rel = (if dir = [] \<or> ends_with [CHR ''/''] dir then dir @ rel else dir @ ''/'' @ rel)"

record project_dirs =
  pd_config :: string
  pd_cache :: string
  pd_data :: string
  pd_runtime :: "string option"

definition runtime_dir :: "(string \<Rightarrow> project_dirs) \<Rightarrow> string \<Rightarrow> nat \<Rightarrow> environ \<Rightarrow> string" where
  "runtime_dir dirs temp uid env = (case pd_runtime (dirs (profile env)) of
     Some d \<Rightarrow> d | None \<Rightarrow> temp @ ''/'' @ profile env @ ''-'' @ show_nat uid)"

definition config_file :: "(string \<Rightarrow> project_dirs) \<Rightarrow> environ \<Rightarrow> string" where
  "config_file dirs env = (case env_path env ''COSMARDEN_CONFIG'' ''COSMIC_BWARDEN_CONFIG'' of
     Some p \<Rightarrow> p | None \<Rightarrow> path_join (pd_config (dirs (profile env))) ''config.json'')"

definition socket_file :: "(string \<Rightarrow> project_dirs) \<Rightarrow> string \<Rightarrow> nat \<Rightarrow> environ \<Rightarrow> string" where
  "socket_file dirs temp uid env = (case env_path env ''COSMARDEN_SOCKET'' ''COSMIC_BWARDEN_SOCKET'' of
     Some p \<Rightarrow> p | None \<Rightarrow> path_join (runtime_dir dirs temp uid env) ''socket'')"

definition ssh_agent_socket_file :: "(string \<Rightarrow> project_dirs) \<Rightarrow> string \<Rightarrow> nat \<Rightarrow> environ \<Rightarrow> string" where
  "ssh_agent_socket_file dirs temp uid env =
     (case env_path env ''COSMARDEN_SSH_SOCKET'' ''COSMIC_BWARDEN_SSH_SOCKET'' of
        Some p \<Rightarrow> p | None \<Rightarrow> path_join (runtime_dir dirs temp uid env) ''ssh-agent-socket'')"

text \<open>
  \<open>CONTROLS\<close> is the C0 controls and DEL; \<open>INVALID_PATH\<close> adds three characters. \<open>percent_law\<close> is
  what \<open>percent-encoding\<close> documents: a byte that is in the set or outside ASCII becomes \<open>%\<close> and
  two upper-case hexadecimal digits, any other byte stays.
\<close>

definition invalid_path :: "char \<Rightarrow> bool" where
  "invalid_path c \<longleftrightarrow> of_char c < (32 :: nat) \<or> of_char c = (127 :: nat) \<or> c = CHR ''/'' \<or> c = CHR ''%'' \<or> c = CHR '':''"

definition hex_digit :: "nat \<Rightarrow> char" where
  "hex_digit n = ''0123456789ABCDEF'' ! n"

definition percent_byte :: "(char \<Rightarrow> bool) \<Rightarrow> char \<Rightarrow> string" where
  "percent_byte bad c = (if bad c \<or> 128 \<le> (of_char c :: nat)
     then [CHR ''%'', hex_digit (of_char c div 16), hex_digit (of_char c mod 16)] else [c])"

definition percent_law :: "((char \<Rightarrow> bool) \<Rightarrow> string \<Rightarrow> string) \<Rightarrow> bool" where
  "percent_law enc \<longleftrightarrow> (\<forall>bad s. enc bad s = concat (map (percent_byte bad) s))"

definition db_name :: "((char \<Rightarrow> bool) \<Rightarrow> string \<Rightarrow> string) \<Rightarrow> string \<Rightarrow> string \<Rightarrow> string" where
  "db_name enc server email = enc invalid_path server @ '':'' @ enc invalid_path email @ ''.json''"

definition db_file ::
  "((char \<Rightarrow> bool) \<Rightarrow> string \<Rightarrow> string) \<Rightarrow> (string \<Rightarrow> project_dirs) \<Rightarrow> environ \<Rightarrow> string \<Rightarrow> string \<Rightarrow> string" where
  "db_file enc dirs env server email = path_join (pd_cache (dirs (profile env))) (db_name enc server email)"

definition account_hash :: "(string \<Rightarrow> string) \<Rightarrow> string \<Rightarrow> string \<Rightarrow> string" where
  "account_hash sha256_hex server email = take 16 (sha256_hex (server @ [CHR 0x00] @ email))"

definition tpm_blob_file :: "(string \<Rightarrow> string) \<Rightarrow> (string \<Rightarrow> project_dirs) \<Rightarrow> environ \<Rightarrow> string \<Rightarrow> string \<Rightarrow> string" where
  "tpm_blob_file sha256_hex dirs env server email = path_join (pd_data (dirs (profile env)))
     (''tpm_sealed_'' @ account_hash sha256_hex server email @ ''.bin'')"

definition session_file :: "(string \<Rightarrow> string) \<Rightarrow> (string \<Rightarrow> project_dirs) \<Rightarrow> environ \<Rightarrow> string \<Rightarrow> string \<Rightarrow> string" where
  "session_file sha256_hex dirs env server email = path_join (pd_data (dirs (profile env)))
     (''session_'' @ account_hash sha256_hex server email @ ''.enc'')"

definition device_id_file :: "(string \<Rightarrow> project_dirs) \<Rightarrow> environ \<Rightarrow> string" where
  "device_id_file dirs env = path_join (pd_data (dirs (profile env))) ''device_id''"

definition generator_settings_file :: "(string \<Rightarrow> project_dirs) \<Rightarrow> environ \<Rightarrow> string" where
  "generator_settings_file dirs env = path_join (pd_data (dirs (profile env))) ''generator_settings.json''"

definition generator_key_file :: "(string \<Rightarrow> project_dirs) \<Rightarrow> environ \<Rightarrow> string" where
  "generator_key_file dirs env = path_join (pd_data (dirs (profile env))) ''generator_key.bin''"

definition generator_history_file :: "(string \<Rightarrow> project_dirs) \<Rightarrow> environ \<Rightarrow> string" where
  "generator_history_file dirs env = path_join (pd_data (dirs (profile env))) ''generator_history.bin''"

section \<open>Finding and starting the application\<close>

definition APPLET_BINARY :: string where "APPLET_BINARY = ''cosmarden-applet''"

text \<open>\<open>exe_dir\<close> is the parent directory of the running executable.\<close>

definition resolve_vault_binary ::
  "(string \<Rightarrow> bool) \<Rightarrow> string option \<Rightarrow> string option \<Rightarrow> string option \<Rightarrow> string option" where
  "resolve_vault_binary is_file override exe_dir path_var =
     (case override of Some p \<Rightarrow> Some p | None \<Rightarrow>
       (case exe_dir of
          Some dir \<Rightarrow> if is_file (path_join dir APPLET_BINARY) then Some (path_join dir APPLET_BINARY)
            else Option.bind path_var (\<lambda>p. List.find is_file (map (\<lambda>dir. path_join dir APPLET_BINARY) (split_char CHR '':'' p)))
        | None \<Rightarrow> Option.bind path_var (\<lambda>p. List.find is_file (map (\<lambda>dir. path_join dir APPLET_BINARY) (split_char CHR '':'' p)))))"

text \<open>The variables a command sets (\<open>Some\<close>) and removes (\<open>None\<close>).\<close>

record command =
  cm_program :: string
  cm_env :: "(string \<times> string option) list"

definition vault_command :: "string \<Rightarrow> string option \<Rightarrow> command" where
  "vault_command exe token = \<lparr>cm_program = exe,
     cm_env = [(''COSMARDEN_MODE'', Some ''application''), (''COSMIC_PANEL_NAME'', None)]
       @ (case token of Some t \<Rightarrow> [(''XDG_ACTIVATION_TOKEN'', Some t), (''DESKTOP_STARTUP_ID'', Some t)] | None \<Rightarrow> [])\<rparr>"

section \<open>Accounts have their own files\<close>

lemma hex_digit_inj: "m < 16 \<Longrightarrow> n < 16 \<Longrightarrow> hex_digit m = hex_digit n \<Longrightarrow> m = n"
  unfolding hex_digit_def by (subst (asm) nth_eq_iff_index_eq) simp_all

lemma of_char_256: "(of_char c :: nat) < 256"
  by simp

lemma percent_byte_cases:
  "percent_byte invalid_path c = [c] \<and> \<not> invalid_path c
   \<or> (\<exists>a b. percent_byte invalid_path c = [CHR ''%'', a, b])"
  by (auto simp: percent_byte_def)

lemma percent_byte_inj:
  assumes "percent_byte invalid_path c @ s = percent_byte invalid_path d @ t"
  shows "c = d \<and> s = t"
proof (cases "invalid_path c \<or> 128 \<le> (of_char c :: nat)")
  case True
  then have d: "invalid_path d \<or> 128 \<le> (of_char d :: nat)"
    using assms by (auto simp: percent_byte_def invalid_path_def split: if_splits)
  then have h: "hex_digit (of_char c div 16) = hex_digit (of_char d div 16)"
      "hex_digit (of_char c mod 16) = hex_digit (of_char d mod 16)" "s = t"
    using assms True by (auto simp: percent_byte_def)
  have lt: "(of_char x :: nat) div 16 < 16" for x
    using of_char_256 [of x] by (simp add: div_less_iff_less_mult)
  have "(of_char c :: nat) div 16 = of_char d div 16" "(of_char c :: nat) mod 16 = of_char d mod 16"
    using hex_digit_inj [OF lt lt h(1)] hex_digit_inj [OF _ _ h(2)] by simp_all
  then have "(of_char c :: nat) = of_char d"
    by (metis div_mult_mod_eq)
  then show ?thesis
    using h(3) by simp
next
  case False
  then show ?thesis
    using assms by (auto simp: percent_byte_def invalid_path_def split: if_splits)
qed

lemma percent_concat_inj:
  assumes "concat (map (percent_byte invalid_path) s) = concat (map (percent_byte invalid_path) t)"
  shows "s = t"
  using assms
proof (induction s arbitrary: t)
  case Nil
  then show ?case
    using percent_byte_cases by (cases t) (auto, metis list.discI)
next
  case (Cons c s)
  then obtain d t' where t: "t = d # t'"
    using percent_byte_cases [of c] by (cases t) auto
  then show ?case
    using percent_byte_inj [of c "concat (map (percent_byte invalid_path) s)" d] Cons by auto
qed

lemma hex_digit_clean: "n < 16 \<Longrightarrow> hex_digit n \<noteq> CHR ''/'' \<and> hex_digit n \<noteq> CHR '':''"
proof -
  assume "n < 16"
  then have "hex_digit n \<in> set ''0123456789ABCDEF''"
    unfolding hex_digit_def by (intro nth_mem) simp
  then show ?thesis
    by auto
qed

lemma percent_clean:
  assumes "x \<in> set (percent_byte invalid_path c)"
  shows "x \<noteq> CHR ''/'' \<and> x \<noteq> CHR '':''"
proof (cases "invalid_path c \<or> 128 \<le> (of_char c :: nat)")
  case True
  have lt: "(of_char c :: nat) div 16 < 16" "(of_char c :: nat) mod 16 < 16"
    using of_char_256 [of c] by (simp_all add: div_less_iff_less_mult)
  have "x = CHR ''%'' \<or> x = hex_digit (of_char c div 16) \<or> x = hex_digit (of_char c mod 16)"
    using assms True by (simp add: percent_byte_def)
  then show ?thesis
    using hex_digit_clean [OF lt(1)] hex_digit_clean [OF lt(2)] by (elim disjE) simp_all
next
  case False
  then have "x = c" "c \<noteq> CHR ''/''" "c \<noteq> CHR '':''"
    using assms by (simp_all add: percent_byte_def invalid_path_def)
  then show ?thesis
    by simp
qed

lemma split_at_colon:
  assumes "a @ '':'' @ b = c @ '':'' @ d" and "CHR '':'' \<notin> set a" and "CHR '':'' \<notin> set c"
  shows "a = c \<and> b = d"
proof -
  have w: "takeWhile (\<lambda>x. x \<noteq> CHR '':'') (s @ '':'' @ r) = s" if "CHR '':'' \<notin> set s" for s r
    using that by (induction s) auto
  have "a = c"
    using w [OF assms(2), of b] w [OF assms(3), of d] assms(1) by simp
  then show ?thesis
    using assms(1) by simp
qed

lemma db_name_inj:
  assumes "percent_law enc" and "db_name enc server email = db_name enc server' email'"
  shows "server = server' \<and> email = email'"
proof -
  let ?p = "\<lambda>s. concat (map (percent_byte invalid_path) s)"
  have "?p server @ '':'' @ ?p email @ ''.json'' = ?p server' @ '':'' @ ?p email' @ ''.json''"
    using assms by (simp add: db_name_def percent_law_def)
  moreover have "CHR '':'' \<notin> set (?p s)" for s
    using percent_clean by auto
  ultimately have p: "?p server = ?p server' \<and> ?p email @ ''.json'' = ?p email' @ ''.json''"
    by (intro split_at_colon)
  then have "?p email = ?p email'"
    by (simp only: append_same_eq)
  with p show ?thesis
    by (blast intro: percent_concat_inj)
qed

lemma db_name_component:
  assumes "percent_law enc"
  shows "CHR ''/'' \<notin> set (db_name enc server email)"
proof -
  have "CHR ''/'' \<notin> set (concat (map (percent_byte invalid_path) s))" for s
    using percent_clean by auto
  then show ?thesis
    using assms by (simp add: db_name_def percent_law_def)
qed

lemma adopt_one_other: "k \<noteq> fst p \<Longrightarrow> adopt_one p env k = env k"
  by (cases p) (auto simp: adopt_one_def split: option.splits)

lemma fold_adopt_other: "k \<notin> fst ` set ps \<Longrightarrow> fold adopt_one ps env k = env k"
  by (induction ps arbitrary: env) (auto simp: adopt_one_other)

lemma fold_adopt:
  assumes "(new, old) \<in> set ps" and "distinct (map fst ps)" and "fst ` set ps \<inter> snd ` set ps = {}"
  shows "fold adopt_one ps env new = env_path env new old"
  using assms
proof (induction ps arbitrary: env)
  case (Cons p ps)
  show ?case
  proof (cases "p = (new, old)")
    case True
    then have "fold adopt_one (p # ps) env new = adopt_one p env new"
      using Cons.prems(2) by (simp add: fold_adopt_other)
    then show ?thesis
      using True by (auto simp: adopt_one_def env_path_def split: option.split)
  next
    case False
    then have "new \<noteq> fst p" "old \<noteq> fst p"
      using Cons.prems by (auto simp: image_iff)
    then have "env_path (adopt_one p env) new old = env_path env new old"
      by (cases "env new") (simp_all add: env_path_def adopt_one_other)
    then show ?thesis
      using Cons False by auto
  qed
qed simp

lemma adopt_legacy_env_eq:
  assumes "(new, old) \<in> set LEGACY_ENV"
  shows "adopt_legacy_env env new = env_path env new old"
  unfolding adopt_legacy_env_def by (rule fold_adopt [OF assms]) (simp_all add: LEGACY_ENV_def)

lemma path_join_inj: "path_join d a = path_join d b \<Longrightarrow> a = b"
  by (simp add: path_join_def split: if_splits)

lemma db_name_json: "ends_with ''.json'' (db_name enc server email)"
  unfolding ends_with_iff
  by (rule exI [of _ "enc invalid_path server @ '':'' @ enc invalid_path email"])
    (simp only: db_name_def append_assoc)

text \<open>
  Two accounts never share a database file: the file's path determines the server and the email.
  Whatever these contain, the file is directly in the cache directory, since its name has no
  slash and ends in \<open>.json\<close>.
\<close>

theorem account_files_separate:
  assumes "percent_law enc" and "db_file enc dirs env server email = db_file enc dirs env server' email'"
  shows "server = server' \<and> email = email' \<and> CHR ''/'' \<notin> set (db_name enc server email)
    \<and> ends_with ''.json'' (db_name enc server email)"
proof -
  have "db_name enc server email = db_name enc server' email'"
    using assms(2) unfolding db_file_def by (rule path_join_inj)
  then show ?thesis
    using db_name_inj [OF assms(1)] db_name_component [OF assms(1)] db_name_json by blast
qed

definition sample_dirs :: "string \<Rightarrow> project_dirs" where
  "sample_dirs name = \<lparr>pd_config = ''/c'', pd_cache = ''/k'', pd_data = ''/d'', pd_runtime = None\<rparr>"

theorem account_files_separate_witness:
  "let enc = (\<lambda>bad s. concat (map (percent_byte bad) s)) in
     db_file enc sample_dirs Map.empty ''s'' ''a/b:c'' = ''/k/s:a%2Fb%3Ac.json''
   \<and> CHR ''/'' \<notin> set (db_name enc ''s'' ''a/b:c'')"
proof -
  have "db_file (\<lambda>bad s. concat (map (percent_byte bad) s)) sample_dirs Map.empty ''s'' ''a/b:c'' = ''/k/s:a%2Fb%3Ac.json''"
    by (simp add: db_file_def path_join_def sample_dirs_def db_name_def percent_byte_def invalid_path_def hex_digit_def
        ends_with_def)
  then show ?thesis
    using account_files_separate [of "\<lambda>bad s. concat (map (percent_byte bad) s)" sample_dirs Map.empty "''s''" "''a/b:c''" "''s''" "''a/b:c''"]
    by (simp add: percent_law_def Let_def)
qed

end
