(* ===== verification/Cli_Commands.thy ===== *)
theory Cli_Commands
  imports Cli_Output Ipc_Client Account_Files
begin

text \<open>
  The command line client, \<open>cosmarden-cli/src/\<close>: \<open>main.rs\<close>, \<open>commands/\<close> and the two lookups of
  \<open>utils.rs\<close>. A command is a value of type \<open>('w, 'a) cli\<close>: it runs in a \<open>console\<close>, which holds the
  world the agent is reached in, the unread standard input, what the terminal will answer to
  password prompts and what was asked, and the bytes written so far. An \<open>anyhow::Error\<close> is the text
  that its \<open>Display\<close> shows, the outermost context.
\<close>

section \<open>Consoles\<close>

record 'w console =
  con_world :: 'w
  con_stdin :: string
  con_tty :: "string option list"
  con_asked :: "string list"
  con_out :: string
  con_err :: string

type_synonym ('w, 'a) cli = "'w console \<Rightarrow> (string, 'a) fallible \<times> 'w console"

definition c_ret :: "'a \<Rightarrow> ('w, 'a) cli" where "c_ret a x = (Okay a, x)"
definition c_fail :: "string \<Rightarrow> ('w, 'a) cli" where "c_fail m x = (Fail m, x)"
definition c_panic :: "string \<Rightarrow> ('w, 'a) cli" where "c_panic m x = (Panic m, x)"

text \<open>The \<open>?\<close> operator, and one statement after another.\<close>

definition c_try :: "('w, 'a) cli \<Rightarrow> ('a \<Rightarrow> ('w, 'b) cli) \<Rightarrow> ('w, 'b) cli" where
  "c_try m f x = (case m x of
     (Panic p, y) \<Rightarrow> (Panic p, y)
   | (Ret (Inl e), y) \<Rightarrow> (Fail e, y)
   | (Ret (Inr a), y) \<Rightarrow> f a y)"

definition c_seq :: "('w, unit) cli \<Rightarrow> ('w, 'b) cli \<Rightarrow> ('w, 'b) cli" where
  "c_seq m k = c_try m (\<lambda>_. k)"

definition c_of :: "string + 'a \<Rightarrow> ('w, 'a) cli" where
  "c_of r x = (Ret r, x)"

fun c_each :: "('a \<Rightarrow> ('w, unit) cli) \<Rightarrow> 'a list \<Rightarrow> ('w, unit) cli" where
  "c_each f [] = c_ret ()"
| "c_each f (a # as) = c_seq (f a) (c_each f as)"

text \<open>\<open>AgentClient::send\<close> with \<open>.await?\<close>, as a \<open>Result\<close>, and with a \<open>.context\<close>.\<close>

definition c_send :: "'w requester \<Rightarrow> action \<Rightarrow> ('w, response) cli" where
  "c_send rq a x = (case rq a (con_world x) of
     (Inl e, w) \<Rightarrow> (Fail (error_display e), x\<lparr>con_world := w\<rparr>)
   | (Inr r, w) \<Rightarrow> (Okay r, x\<lparr>con_world := w\<rparr>))"

definition c_result :: "'w requester \<Rightarrow> action \<Rightarrow> ('w, error + response) cli" where
  "c_result rq a x = (case rq a (con_world x) of (r, w) \<Rightarrow> (Okay r, x\<lparr>con_world := w\<rparr>))"

definition c_context :: "string \<Rightarrow> ('w, 'a) cli \<Rightarrow> ('w, 'a) cli" where
  "c_context ctx m x = (case m x of (r, y) \<Rightarrow> (map_fail (\<lambda>_. ctx) r, y))"

definition c_print :: "string \<Rightarrow> ('w, unit) cli" where
  "c_print s x = (Okay (), x\<lparr>con_out := con_out x @ s\<rparr>)"

definition c_eprint :: "string \<Rightarrow> ('w, unit) cli" where
  "c_eprint s x = (Okay (), x\<lparr>con_err := con_err x @ s\<rparr>)"

text \<open>\<open>rpassword::prompt_password\<close>.\<close>

definition c_prompt :: "string \<Rightarrow> ('w, string option) cli" where
  "c_prompt s x = (case con_tty x of
     [] \<Rightarrow> (Okay None, x\<lparr>con_asked := con_asked x @ [s]\<rparr>)
   | t # ts \<Rightarrow> (Okay t, x\<lparr>con_asked := con_asked x @ [s], con_tty := ts\<rparr>))"

definition c_password :: "string \<Rightarrow> string \<Rightarrow> ('w, string) cli" where
  "c_password s ctx = c_try (c_prompt s) (\<lambda>r. case r of Some p \<Rightarrow> c_ret p | None \<Rightarrow> c_fail ctx)"

definition not_utf8 :: string where
  "not_utf8 = ''stream did not contain valid UTF-8''"

definition c_read_line :: "('w, string) cli" where
  "c_read_line x =
     (let l = takeWhile (\<lambda>c. c \<noteq> CHR 0x0A) (con_stdin x);
          y = x\<lparr>con_stdin := drop (length l + 1) (con_stdin x)\<rparr>
      in if utf8 l then (Okay l, y) else (Fail not_utf8, y))"

definition c_read_stdin :: "('w, string) cli" where
  "c_read_stdin x = (if utf8 (con_stdin x) then (Okay (con_stdin x), x\<lparr>con_stdin := []\<rparr>)
     else (Fail (''Failed to read notes from stdin: '' @ not_utf8), x\<lparr>con_stdin := []\<rparr>))"

definition c_handle :: "response \<Rightarrow> ('w, unit) cli" where
  "c_handle r = c_of (handle_response r)"

text \<open>\<open>handle_response(res)?; unreachable!()\<close>\<close>

definition c_unexpected :: "response \<Rightarrow> ('w, 'a) cli" where
  "c_unexpected r = c_seq (c_handle r) (c_panic ''internal error: entered unreachable code'')"

definition c_ack :: "'w requester \<Rightarrow> action \<Rightarrow> string \<Rightarrow> ('w, unit) cli" where
  "c_ack rq a done_line = c_try (c_send rq a) (\<lambda>r. c_seq (c_handle r) (c_print (println done_line)))"

lemmas cli_defs = c_ret_def c_fail_def c_panic_def c_try_def c_seq_def c_of_def c_send_def c_print_def
  c_eprint_def c_handle_def

section \<open>Finding an entry\<close>

text \<open>\<open>str::parse::<usize>()\<close>.\<close>

fun parse_digits :: "nat \<Rightarrow> string \<Rightarrow> nat option" where
  "parse_digits n [] = Some n"
| "parse_digits n (c # cs) = (case digit_val c of None \<Rightarrow> None | Some d \<Rightarrow> parse_digits (10 * n + d) cs)"

definition parse_usize :: "string \<Rightarrow> nat option" where
  "parse_usize s =
     (let t = (case strip_prefix ''+'' s of Some r \<Rightarrow> r | None \<Rightarrow> s) in
      if t = [] then None
      else (case parse_digits 0 t of Some n \<Rightarrow> if n < 2 ^ 64 then Some n else None | None \<Rightarrow> None))"

definition menu_line :: "nat \<Rightarrow> entry \<Rightarrow> string" where
  "menu_line i e = println (show_nat (i + 1) @ '': '' @ e_id e @ '' | '' @ e_name e)"

definition select_entry :: "entry list \<Rightarrow> ('w, string) cli" where
  "select_entry es =
     c_seq (c_print (println ''Multiple entries found:'' @ concat (map2 menu_line [0..<length es] es)
         @ ''Select entry (1-'' @ show_nat (length es) @ ''): ''))
       (c_try c_read_line (\<lambda>input. case parse_usize (trim input) of
          None \<Rightarrow> c_fail ''invalid selection''
        | Some idx \<Rightarrow> if idx = 0 \<or> length es < idx then c_fail ''invalid selection''
            else c_ret (e_id (es ! (idx - 1)))))"

definition found_entries :: "'w requester \<Rightarrow> string \<Rightarrow> response \<Rightarrow> ('w, entry list) cli" where
  "found_entries rq q r = (case r of
     Entries es \<Rightarrow> if es = [] then
         c_try (c_send rq (GetEntry q None)) (\<lambda>r. case r of Response_Entry e \<Rightarrow> c_ret [e] | _ \<Rightarrow> c_ret [])
       else c_ret es
   | Error m \<Rightarrow> if m = ''agent is locked'' then c_fail ''agent is locked'' else c_ret []
   | _ \<Rightarrow> c_ret [])"

definition resolve_id :: "'w requester \<Rightarrow> string \<Rightarrow> entry_type option \<Rightarrow> ('w, string) cli" where
  "resolve_id rq q ty =
     c_try (c_send rq (GetEntries (Some q) ty False)) (\<lambda>r.
     c_try (found_entries rq q r) (\<lambda>es. case es of
        [] \<Rightarrow> c_fail ''Entry not found''
      | [e] \<Rightarrow> c_ret (e_id e)
      | _ \<Rightarrow> select_entry es))"

definition find_same_name_entries :: "'w requester \<Rightarrow> string \<Rightarrow> entry_type \<Rightarrow> ('w, entry list) cli" where
  "find_same_name_entries rq name ty =
     c_try (c_send rq (GetEntries (Some name) (Some ty) False)) (\<lambda>r. case r of
        Entries es \<Rightarrow> c_ret (filter (\<lambda>e. e_name e = name) es)
      | Error m \<Rightarrow> c_fail (''Agent error: '' @ m)
      | _ \<Rightarrow> c_ret [])"

section \<open>Reading\<close>

definition fetch_get_action :: "string \<Rightarrow> bool \<Rightarrow> action" where
  "fetch_get_action i show_secrets = (if show_secrets then GetEntry i None else GetEntryMeta i)"

definition list_rows :: "'w requester \<Rightarrow> string option \<Rightarrow> entry_type option \<Rightarrow> ('w, unit) cli" where
  "list_rows rq q ty = c_try (c_send rq (GetEntries q ty False)) (\<lambda>r. case r of
     Entries es \<Rightarrow> c_print (concat (map entry_line es))
   | _ \<Rightarrow> c_handle r)"

definition list_pinned :: "'w requester \<Rightarrow> string option \<Rightarrow> entry_type option \<Rightarrow> ('w, unit) cli" where
  "list_pinned rq q ty = c_try (c_send rq (GetSidebarEntries q ty True None)) (\<lambda>r. case r of
     SidebarEntries es \<Rightarrow> c_print (concat (map sidebar_line es))
   | _ \<Rightarrow> c_handle r)"

definition show_one :: "'w requester \<Rightarrow> string \<Rightarrow> bool \<Rightarrow> entry \<Rightarrow> ('w, unit) cli" where
  "show_one rq fs show e =
     c_try (if show then c_try (c_send rq (fetch_get_action (e_id e) True)) (\<lambda>r. case r of
              Response_Entry e \<Rightarrow> c_ret e | _ \<Rightarrow> c_unexpected r)
            else c_ret e)
       (\<lambda>e. c_seq (c_print (output_entry e fs show)) (c_print (println ''---'')))"

definition get_all :: "'w requester \<Rightarrow> string \<Rightarrow> entry_type option \<Rightarrow> string \<Rightarrow> bool \<Rightarrow> ('w, unit) cli" where
  "get_all rq q ty fs show = c_try (c_send rq (GetEntries (Some q) ty False)) (\<lambda>r. case r of
     Entries es \<Rightarrow> if es = [] then c_fail ''Entry not found'' else c_each (show_one rq fs show) es
   | _ \<Rightarrow> c_handle r)"

definition get_one :: "'w requester \<Rightarrow> string \<Rightarrow> entry_type option \<Rightarrow> string \<Rightarrow> bool \<Rightarrow> ('w, unit) cli" where
  "get_one rq q ty fs show =
     c_try (resolve_id rq q ty) (\<lambda>i.
     c_try (c_send rq (fetch_get_action i show)) (\<lambda>r.
     c_try (case r of Response_Entry e \<Rightarrow> c_ret e | EntryMeta e ks \<Rightarrow> c_ret e | _ \<Rightarrow> c_unexpected r)
       (\<lambda>e. c_print (output_entry e fs show))))"

section \<open>Adding\<close>

definition entry_type_label :: "entry_type \<Rightarrow> string" where
  "entry_type_label t = (case t of ET_Login \<Rightarrow> ''login'' | ET_Card \<Rightarrow> ''card'' | ET_Identity \<Rightarrow> ''identity''
     | ET_SecureNote \<Rightarrow> ''note'' | ET_SshKey \<Rightarrow> ''sshkey'' | ET_BankAccount \<Rightarrow> ''bankaccount''
     | ET_DriversLicense \<Rightarrow> ''driverslicense'' | ET_Passport \<Rightarrow> ''passport'')"

record add_vals =
  av_username :: "string option"
  av_password :: "secret option"
  av_notes :: "secret option"
  av_private_key :: "secret option"
  av_public_key :: "string option"
  av_uris :: "uri list"

definition no_vals :: add_vals where
  "no_vals = \<lparr>av_username = None, av_password = None, av_notes = None, av_private_key = None,
     av_public_key = None, av_uris = []\<rparr>"

definition notes_twice :: string where
  "notes_twice = ''Cannot pass notes=... together with --stdin; choose one''"

definition uris_of :: "string \<Rightarrow> uri list" where
  "uris_of v = map (\<lambda>u. \<lparr>u_uri = u, u_match_type = None\<rparr>) (filter (\<lambda>s. s \<noteq> []) (map trim (split_char CHR '','' v)))"

definition add_arg :: "bool \<Rightarrow> string \<Rightarrow> add_vals \<Rightarrow> string + add_vals" where
  "add_arg stdin arg a = (case split_once ''='' arg of
     None \<Rightarrow> Inr a
   | Some (k, v) \<Rightarrow>
       if k \<in> {''username'', ''user''} then Inr (a\<lparr>av_username := Some v\<rparr>)
       else if k \<in> {''password'', ''pass''} then Inr (a\<lparr>av_password := Some (Secret v)\<rparr>)
       else if k \<in> {''notes'', ''note''} then
         (if stdin then Inl notes_twice else Inr (a\<lparr>av_notes := Some (Secret v)\<rparr>))
       else if k \<in> {''uri'', ''uris''} then Inr (a\<lparr>av_uris := av_uris a @ uris_of v\<rparr>)
       else if k \<in> {''private_key'', ''private''} then Inr (a\<lparr>av_private_key := Some (Secret v)\<rparr>)
       else if k \<in> {''public_key'', ''public''} then Inr (a\<lparr>av_public_key := Some v\<rparr>)
       else Inr a)"

fun fold_args :: "(string \<Rightarrow> 'a \<Rightarrow> string + 'a) \<Rightarrow> string list \<Rightarrow> 'a \<Rightarrow> string + 'a" where
  "fold_args f [] a = Inr a"
| "fold_args f (x # xs) a = and_then (f x a) (fold_args f xs)"

definition cli_field :: "field_type \<Rightarrow> string \<Rightarrow> field option" where
  "cli_field ty f = map_option (\<lambda>(k, v). \<lparr>f_ty = Some ty, f_name = Some k, f_value = Some (Secret v),
     f_linked_id = None\<rparr>) (split_once ''='' f)"

definition cli_fields :: "kv_args \<Rightarrow> field list" where
  "cli_fields ka = List.map_filter (cli_field FT_Text) (ka_field ka)
     @ List.map_filter (cli_field FT_Hidden) (ka_secret_field ka)"

definition or_empty :: "secret option \<Rightarrow> secret" where
  "or_empty v = (case v of Some s \<Rightarrow> s | None \<Rightarrow> Secret [])"

text \<open>The request, \<open>None\<close> for a type that \<open>add\<close> does not support.\<close>

definition add_request :: "entry_type \<Rightarrow> string \<Rightarrow> add_vals \<Rightarrow> field list \<Rightarrow> action option" where
  "add_request t name a fs = (case t of
     ET_Login \<Rightarrow> Some (AddEntry \<lparr>ne_name = name, ne_entry_type = t, ne_username = av_username a,
       ne_password = av_password a, ne_notes = av_notes a, ne_fields = fs, ne_totp = None, ne_uris = av_uris a\<rparr>)
   | ET_SecureNote \<Rightarrow> Some (AddSecureNote name (or_empty (av_notes a)) fs)
   | ET_SshKey \<Rightarrow> Some (AddSshKey name (or_empty (av_private_key a)) (av_public_key a) (av_notes a) fs)
   | _ \<Rightarrow> None)"

definition replaced_line :: "entry \<Rightarrow> string" where
  "replaced_line d = println (''Replaced existing entry '' @ e_id d @ '' (\"'' @ e_name d @ ''\")'')"

definition delete_duplicate :: "'w requester \<Rightarrow> entry \<Rightarrow> ('w, unit) cli" where
  "delete_duplicate rq d = c_try (c_send rq (DeleteEntry (e_id d)))
     (\<lambda>r. c_seq (c_handle r) (c_eprint (replaced_line d)))"

definition duplicate_warning :: "entry_type \<Rightarrow> entry \<Rightarrow> string" where
  "duplicate_warning t d = println (''Warning: a '' @ entry_type_label t @ '' entry named \"'' @ e_name d
     @ ''\" already exists (id '' @ e_id d @ ''). Adding a new entry anyway.'' @ [CHR 0x0A]
     @ ''  Use --replace to replace it instead, or run: cosmarden edit '' @ e_id d @ '' --delete'')"

text \<open>What follows the treatment of the duplicates.\<close>

definition add_new :: "'w requester \<Rightarrow> string \<Rightarrow> kv_args \<Rightarrow> entry_type \<Rightarrow> ('w, unit) cli" where
  "add_new rq name ka t =
     c_try (c_of (fold_args (add_arg (ka_stdin ka)) (ka_args ka) no_vals)) (\<lambda>a.
     c_try (if ka_stdin ka then c_try c_read_stdin (\<lambda>buf. c_ret (a\<lparr>av_notes := Some (Secret buf)\<rparr>)) else c_ret a) (\<lambda>a.
     c_try (case add_request t name a (cli_fields ka) of
              Some q \<Rightarrow> c_send rq q
            | None \<Rightarrow> c_fail (''Unsupported entry type for '' @ [CHR 0x27] @ ''add'' @ [CHR 0x27])) (\<lambda>r.
     c_seq (c_handle r) (c_print (println ''Entry added successfully'')))))"

definition handle_add :: "'w requester \<Rightarrow> string \<Rightarrow> kv_args \<Rightarrow> bool \<Rightarrow> entry_type option \<Rightarrow> ('w, unit) cli" where
  "handle_add rq name ka replace ty =
     (let t = (case ty of Some t \<Rightarrow> t | None \<Rightarrow> ET_Login) in
      c_try (find_same_name_entries rq name t) (\<lambda>dups.
      c_seq (if replace then c_each (delete_duplicate rq) dups
             else c_eprint (concat (map (duplicate_warning t) dups)))
        (add_new rq name ka t)))"

section \<open>Editing\<close>

fun edit_data :: "string \<Rightarrow> string \<Rightarrow> entry_data \<Rightarrow> entry_data" where
  "edit_data k v (Login l) =
     (if k \<in> {''username'', ''user''} then Login (l\<lparr>lg_username := Some v\<rparr>)
      else if k \<in> {''password'', ''pass''} then Login (l\<lparr>lg_password := Some (Secret v)\<rparr>)
      else Login l)"
| "edit_data k v (SshKey s) =
     (if k \<in> {''private_key'', ''private''} then SshKey (s\<lparr>sk_private_key := Some (Secret v)\<rparr>)
      else if k \<in> {''public_key'', ''public''} then SshKey (s\<lparr>sk_public_key := Some v\<rparr>)
      else SshKey s)"
| "edit_data k v d = d"

definition edit_arg :: "bool \<Rightarrow> string \<Rightarrow> entry \<Rightarrow> string + entry" where
  "edit_arg stdin arg e = (case split_once ''='' arg of
     None \<Rightarrow> Inr e
   | Some (k, v) \<Rightarrow>
       if k = ''name'' then Inr (e\<lparr>e_name := v\<rparr>)
       else if k \<in> {''notes'', ''note''} then
         (if stdin then Inl notes_twice else Inr (e\<lparr>e_notes := Some (Secret v)\<rparr>))
       else Inr (e\<lparr>e_data := edit_data k v (e_data e)\<rparr>))"

definition edit_field :: "field_type \<Rightarrow> string \<Rightarrow> entry \<Rightarrow> entry" where
  "edit_field ty f e = (case split_once ''='' f of Some (k, v) \<Rightarrow> set_field e k v ty | None \<Rightarrow> e)"

definition edit_fields :: "kv_args \<Rightarrow> entry \<Rightarrow> entry" where
  "edit_fields ka e = fold (edit_field FT_Hidden) (ka_secret_field ka) (fold (edit_field FT_Text) (ka_field ka) e)"

definition edit_delete :: "'w requester \<Rightarrow> kv_args \<Rightarrow> string \<Rightarrow> ('w, unit) cli" where
  "edit_delete rq ka i =
     (if ka_args ka \<noteq> [] \<or> ka_field ka \<noteq> [] \<or> ka_secret_field ka \<noteq> [] \<or> ka_stdin ka
      then c_fail (''Cannot combine --delete with other edit arguments ''
        @ ''(name=value, --field, --secret-field, --stdin)'')
      else c_ack rq (DeleteEntry i) ''Entry deleted successfully'')"

definition edit_entry :: "'w requester \<Rightarrow> kv_args \<Rightarrow> string \<Rightarrow> ('w, unit) cli" where
  "edit_entry rq ka i =
     c_try (c_send rq (GetEntry i None)) (\<lambda>r.
     c_try (case r of Response_Entry e \<Rightarrow> c_ret e | _ \<Rightarrow> c_unexpected r) (\<lambda>e.
     c_try (c_of (fold_args (edit_arg (ka_stdin ka)) (ka_args ka) e)) (\<lambda>e.
     c_try (if ka_stdin ka then c_try c_read_stdin (\<lambda>buf. c_ret (e\<lparr>e_notes := Some (Secret buf)\<rparr>)) else c_ret e) (\<lambda>e.
     c_ack rq (UpdateEntry (edit_fields ka e)) ''Entry updated successfully''))))"

definition handle_edit :: "'w requester \<Rightarrow> string \<Rightarrow> kv_args \<Rightarrow> bool \<Rightarrow> entry_type option \<Rightarrow> ('w, unit) cli" where
  "handle_edit rq q ka delete ty = c_try (resolve_id rq q ty)
     (if delete then edit_delete rq ka else edit_entry rq ka)"

text \<open>\<open>handle_command\<close> of \<open>commands/vault.rs\<close>.\<close>

fun vault_command_run :: "'w requester \<Rightarrow> entry_type option \<Rightarrow> cli_command \<Rightarrow> ('w, unit) cli" where
  "vault_command_run rq ty Cmd_Sync = c_ack rq Action_Sync ''Synced successfully''"
| "vault_command_run rq ty (Cmd_List q pinned) = (if pinned then list_pinned rq q ty else list_rows rq q ty)"
| "vault_command_run rq ty (Cmd_Pin q) = c_try (resolve_id rq q ty) (\<lambda>i. c_ack rq (PinEntry i) ''Pinned successfully'')"
| "vault_command_run rq ty (Cmd_Unpin q) = c_try (resolve_id rq q ty) (\<lambda>i. c_ack rq (UnpinEntry i) ''Unpinned successfully'')"
| "vault_command_run rq ty (Cmd_Get q allof fs show) = (case q of
     Some q \<Rightarrow> if allof then get_all rq q ty fs show else get_one rq q ty fs show
   | None \<Rightarrow> list_rows rq None ty)"
| "vault_command_run rq ty (Cmd_Add name ka replace) = handle_add rq name ka replace ty"
| "vault_command_run rq ty (Cmd_Edit q ka delete) = handle_edit rq q ka delete ty"
| "vault_command_run rq ty (Cmd_AddNote name nts) = c_ack rq
     (AddSecureNote name (Secret (unwrap_str nts)) []) ''Note added successfully''"
| "vault_command_run rq ty (Cmd_AddSshKey name k pk nts) = c_ack rq
     (AddSshKey name (Secret (unwrap_str k)) pk (map_option Secret nts) []) ''SSH key added successfully''"
| "vault_command_run rq ty c = c_panic ''internal error: entered unreachable code''"

end
