(* ===== verification/Cli_Main.thy ===== *)
theory Cli_Main
  imports Cli_Commands
begin

text \<open>
  The rest of the command line client: \<open>commands/auth.rs\<close>, \<open>commands/auth/pin.rs\<close>,
  \<open>commands/generator.rs\<close>, the routing of \<open>commands/mod.rs\<close> and \<open>main.rs\<close>.
\<close>

section \<open>The PIN after a login\<close>

datatype login_pin_intent = Pin_Skip | Pin_Setup | Pin_Disable

definition login_pin_intent :: "bool \<Rightarrow> bool \<Rightarrow> string \<Rightarrow> login_pin_intent" where
  "login_pin_intent available configured pin =
     (if \<not> available then Pin_Skip
      else if pin \<noteq> [] then Pin_Setup
      else if configured then Pin_Disable
      else Pin_Skip)"

definition pin_offer_line :: "bool \<Rightarrow> string" where
  "pin_offer_line configured = println (
     if configured then ''PIN unlock is still configured on this device. Enter a PIN (min '' @ show_nat MIN_PIN_LEN
       @ '' chars) to keep it, or leave empty to disable:''
     else ''TPM2 available. Enter a PIN (min '' @ show_nat MIN_PIN_LEN
       @ '' chars) to enable PIN unlock, or leave empty to skip:'')"

definition pin_request :: "'w requester \<Rightarrow> action \<Rightarrow> string \<Rightarrow> string \<Rightarrow> string \<Rightarrow> ('w, unit) cli" where
  "pin_request rq a ctx what done_line = c_try (c_context ctx (c_send rq a)) (\<lambda>r. case r of
     Ack \<Rightarrow> c_print (println done_line)
   | Error m \<Rightarrow> c_eprint (println (what @ '' failed: '' @ m))
   | _ \<Rightarrow> c_eprint (println (''Unexpected response from '' @ what)))"

definition pin_chosen :: "'w requester \<Rightarrow> bool \<Rightarrow> bool \<Rightarrow> string \<Rightarrow> ('w, unit) cli" where
  "pin_chosen rq available configured pin = (case login_pin_intent available configured pin of
     Pin_Skip \<Rightarrow> c_ret ()
   | Pin_Setup \<Rightarrow>
       if char_count pin < MIN_PIN_LEN
       then c_eprint (println (''PIN must be at least '' @ show_nat MIN_PIN_LEN @ '' characters '' @ EM_DASH @ '' skipping.''))
       else pin_request rq (SetupTpmPinFromUnlocked pin) ''failed to set up TPM PIN'' ''PIN setup'' ''PIN unlock enabled.''
   | Pin_Disable \<Rightarrow> pin_request rq DisableTpmPin ''failed to disable TPM PIN'' ''PIN disable'' ''PIN unlock disabled.'')"

definition offer_after_login :: "'w requester \<Rightarrow> ('w, unit) cli" where
  "offer_after_login rq = c_try (c_result rq CheckTpm) (\<lambda>r. case r of
     Inr (TpmStatus available configured) \<Rightarrow>
       if \<not> available then c_ret ()
       else c_seq (c_eprint (pin_offer_line configured))
         (c_try (c_prompt ''PIN: '') (\<lambda>p. case p of
            None \<Rightarrow> c_ret ()
          | Some p \<Rightarrow> pin_chosen rq available configured (trim p)))
   | _ \<Rightarrow> c_ret ())"

section \<open>Accounts\<close>

definition given_password :: "string option \<Rightarrow> ('w, string) cli" where
  "given_password p = (case p of Some p \<Rightarrow> c_ret p
     | None \<Rightarrow> c_password ''Master Password: '' ''failed to read password'')"

definition talk :: "'w requester \<Rightarrow> action \<Rightarrow> ('w, response) cli" where
  "talk rq a = c_context ''failed to talk to agent'' (c_send rq a)"

definition login_action :: "string \<Rightarrow> string \<Rightarrow> string option \<Rightarrow> login_request" where
  "login_action email password server = \<lparr>lr_email = email, lr_password = password, lr_server_url = server,
     lr_remember_me = True, lr_two_factor_token = None, lr_two_factor_provider = None,
     lr_two_factor_code = None, lr_device_verification_code = None\<rparr>"

definition verify_device :: "'w requester \<Rightarrow> login_request \<Rightarrow> response \<Rightarrow> ('w, response) cli" where
  "verify_device rq l r = (case r of
     Response_NewDeviceVerificationRequired \<Rightarrow>
       c_seq (c_print (println ''A verification code has been sent to your email.''))
         (c_try (c_password ''Verification code: '' ''failed to read verification code'') (\<lambda>code.
          talk rq (Action_Login (l\<lparr>lr_device_verification_code := Some code\<rparr>))))
   | _ \<Rightarrow> c_ret r)"

definition chosen_provider :: "u32 list \<Rightarrow> u32 outcome" where
  "chosen_provider ps = (if 1 \<in> set ps then Ret 1 else (case ps of p # _ \<Rightarrow> Ret p
     | [] \<Rightarrow> Panic ''index out of bounds: the len is 0 but the index is 0''))"

definition two_factor :: "'w requester \<Rightarrow> login_request \<Rightarrow> response \<Rightarrow> ('w, response) cli" where
  "two_factor rq l r = (case r of
     Response_TwoFactorRequired token ps \<Rightarrow>
       c_seq (c_print (println ''Two-factor authentication required.''
           @ (if 1 \<in> set ps then println ''1. Email'' else [])))
         (case chosen_provider ps of Panic m \<Rightarrow> c_panic m | Ret provider \<Rightarrow>
           c_try (c_password ''Two-factor code: '' ''failed to read code'') (\<lambda>code.
           talk rq (Action_Login (l\<lparr>lr_two_factor_token := Some token, lr_two_factor_provider := Some provider,
             lr_two_factor_code := Some code\<rparr>))))
   | _ \<Rightarrow> c_ret r)"

definition login_command :: "'w requester \<Rightarrow> string \<Rightarrow> string option \<Rightarrow> string option \<Rightarrow> ('w, unit) cli" where
  "login_command rq email server pw =
     c_try (given_password pw) (\<lambda>password.
     c_try (talk rq (Action_Login (login_action email password server))) (\<lambda>r.
     c_try (verify_device rq (login_action email password server) r) (\<lambda>r.
     c_try (two_factor rq (login_action email password server) r) (\<lambda>r.
     c_seq (c_handle r) (c_seq (c_print (println ''Logged in successfully'')) (offer_after_login rq))))))"

definition check_protocol_compatibility :: "string \<Rightarrow> string \<Rightarrow> string + unit" where
  "check_protocol_compatibility local protocol =
     (if local \<noteq> protocol then Inl (''Protocol mismatch! CLI (protocol v'' @ local
        @ '') is incompatible with agent (protocol v'' @ protocol @ '').'') else Inr ())"

definition version_command :: "'w requester \<Rightarrow> (string \<Rightarrow> string) \<Rightarrow> string \<Rightarrow> ('w, unit) cli" where
  "version_command rq du ver = c_try (c_send rq Action_Version) (\<lambda>r. case r of
     Response_Version agent_version protocol \<Rightarrow>
       c_seq (c_print (println (''Local version:     '' @ ver) @ println (''Agent version:     '' @ agent_version)
           @ println (''Protocol version:  '' @ protocol)))
         (c_seq (c_of (check_protocol_compatibility PROTOCOL_VERSION protocol))
           (c_print (println ''Compatibility:     OK'')))
   | _ \<Rightarrow> c_fail (''Unexpected response: '' @ response_debug du r))"

definition unlocked_command :: "'w requester \<Rightarrow> ('w, unit) cli" where
  "unlocked_command rq = c_try (c_result rq Action_Version) (\<lambda>r. case r of
     Inr _ \<Rightarrow> c_print (println ''Agent is running and connected.'')
   | Inl e \<Rightarrow> c_fail (''Agent is not running or not reachable: '' @ error_display e))"

text \<open>\<open>handle_command\<close> of \<open>commands/auth.rs\<close>; \<open>ver\<close> is the build's version, \<open>du\<close> the escaping of \<open>Debug\<close>.\<close>

fun auth_command :: "'w requester \<Rightarrow> (string \<Rightarrow> string) \<Rightarrow> string \<Rightarrow> cli_command \<Rightarrow> ('w, unit) cli" where
  "auth_command rq du ver (Cmd_Register email server pw) =
     c_try (given_password pw) (\<lambda>password.
     c_try (talk rq (Action_Register email password server)) (\<lambda>r.
     c_seq (c_handle r) (c_print (println ''Account created successfully''))))"
| "auth_command rq du ver (Cmd_Login email server pw) = login_command rq email server pw"
| "auth_command rq du ver (Cmd_Unlock pw) =
     c_try (given_password pw) (\<lambda>password. c_ack rq (Action_Unlock password) ''Unlocked successfully'')"
| "auth_command rq du ver Cmd_Lock = c_ack rq Action_Lock ''Locked successfully''"
| "auth_command rq du ver Cmd_Unlocked = unlocked_command rq"
| "auth_command rq du ver Cmd_Logout = c_ack rq Logout ''Logged out successfully''"
| "auth_command rq du ver Cmd_Quit = c_ack rq Quit ''Agent quit successfully''"
| "auth_command rq du ver Cmd_Version = version_command rq du ver"
| "auth_command rq du ver c = c_panic ''internal error: entered unreachable code''"

section \<open>The generator\<close>

definition current_length :: "'w requester \<Rightarrow> ('w, u8) cli" where
  "current_length rq = c_try (c_send rq GetGeneratorSettings) (\<lambda>r. c_ret (case r of
     GeneratorSettings gs \<Rightarrow> gs_length gs | _ \<Rightarrow> gs_length default_generator_settings))"

definition generate_settings :: "'w requester \<Rightarrow> generate_args \<Rightarrow> ('w, generator_settings option) cli" where
  "generate_settings rq g =
     (if ga_uppercase g \<or> ga_lowercase g \<or> ga_numbers g \<or> ga_special g \<or> ga_length g \<noteq> None
      then c_try (case ga_length g of Some l \<Rightarrow> c_ret l | None \<Rightarrow> current_length rq) (\<lambda>len.
        c_ret (Some \<lparr>gs_uppercase = ga_uppercase g, gs_lowercase = ga_lowercase g,
          gs_numbers = ga_numbers g, gs_special = ga_special g, gs_length = len\<rparr>))
      else c_ret None)"

definition history_line :: "generator_history_entry \<Rightarrow> string" where
  "history_line e = println (show_nat (unat (gh_created_at e)) @ '' | '' @ expose (gh_password e))"

definition print_history :: "'w requester \<Rightarrow> ('w, unit) cli" where
  "print_history rq = c_try (c_send rq GetPasswordHistory) (\<lambda>r. case r of
     PasswordHistory es \<Rightarrow> c_print (concat (map history_line es))
   | _ \<Rightarrow> c_handle r)"

definition generate_command :: "'w requester \<Rightarrow> generate_args \<Rightarrow> ('w, unit) cli" where
  "generate_command rq g =
     (if ga_history g then print_history rq
      else c_try (generate_settings rq g) (\<lambda>gs.
        c_try (c_send rq (GeneratePassword gs)) (\<lambda>r. case r of
          GeneratedPassword p \<Rightarrow> c_print (println (expose p))
        | _ \<Rightarrow> c_handle r)))"

section \<open>The program\<close>

text \<open>\<open>commands::run\<close>.\<close>

fun cli_run ::
  "'w requester \<Rightarrow> (string \<Rightarrow> string) \<Rightarrow> string \<Rightarrow> entry_type option \<Rightarrow> cli_command \<Rightarrow> ('w, unit) cli" where
  "cli_run rq du ver ty (Cmd_Register a b c) = auth_command rq du ver (Cmd_Register a b c)"
| "cli_run rq du ver ty (Cmd_Login a b c) = auth_command rq du ver (Cmd_Login a b c)"
| "cli_run rq du ver ty (Cmd_Unlock a) = auth_command rq du ver (Cmd_Unlock a)"
| "cli_run rq du ver ty Cmd_Lock = auth_command rq du ver Cmd_Lock"
| "cli_run rq du ver ty Cmd_Logout = auth_command rq du ver Cmd_Logout"
| "cli_run rq du ver ty Cmd_Quit = auth_command rq du ver Cmd_Quit"
| "cli_run rq du ver ty Cmd_Unlocked = auth_command rq du ver Cmd_Unlocked"
| "cli_run rq du ver ty Cmd_Version = auth_command rq du ver Cmd_Version"
| "cli_run rq du ver ty (Cmd_Generate g) = generate_command rq g"
| "cli_run rq du ver ty c = vault_command_run rq ty c"

text \<open>The overrides that \<open>main\<close> puts into the environment before it connects.\<close>

definition cli_environ ::
  "(environ \<Rightarrow> error + config) \<Rightarrow> string option \<Rightarrow> string option \<Rightarrow> environ \<Rightarrow> environ" where
  "cli_environ load config socket env =
     (let env = (case config of Some p \<Rightarrow> env(''COSMARDEN_CONFIG'' \<mapsto> p) | None \<Rightarrow> env);
          env = (case socket of Some p \<Rightarrow> env(''COSMARDEN_SOCKET'' \<mapsto> p) | None \<Rightarrow> env)
      in if socket = None \<and> env ''COSMARDEN_SOCKET'' = None then
           (case load env of
              Inr cfg \<Rightarrow> (case cfg_socket_path cfg of Some p \<Rightarrow> env(''COSMARDEN_SOCKET'' \<mapsto> p) | None \<Rightarrow> env)
            | Inl e \<Rightarrow> env)
         else env)"

definition unlock_and_retry :: "'w requester \<Rightarrow> ('w, unit) cli \<Rightarrow> ('w, unit) cli" where
  "unlock_and_retry rq again =
     c_try (c_password ''Vault is locked. Master Password: '' ''failed to read password'') (\<lambda>password.
     c_try (c_send rq (Action_Unlock password)) (\<lambda>r.
     c_seq (c_handle r) again))"

text \<open>\<open>main\<close> after the connection is set up.\<close>

definition cli_main ::
  "'w requester \<Rightarrow> (string \<Rightarrow> string) \<Rightarrow> string \<Rightarrow> entry_type option \<Rightarrow> cli_command \<Rightarrow> ('w, unit) cli" where
  "cli_main rq du ver ty c x = (case cli_run rq du ver ty c x of
     (Ret (Inl e), y) \<Rightarrow>
       if contains_str ''agent is locked'' e then unlock_and_retry rq (cli_run rq du ver ty c) y
       else (Fail e, y)
   | (r, y) \<Rightarrow> (r, y))"

end
