(* ===== verification/Cli_Properties.thy ===== *)
theory Cli_Properties
  imports Cli_Main Vault_Effects Sample_Host
begin

text \<open>
  What the command line client promises: what it prints without \<open>--show-secrets\<close>, what \<open>edit\<close>
  changes, what a locked agent makes it do, where a type keyword may stand, and the order in which
  \<open>add --replace\<close> works.
\<close>

section \<open>Reading without the secrets\<close>

definition public_response :: "response \<Rightarrow> bool" where
  "public_response r = (case r of
     Response_Entry e \<Rightarrow> redact_entry_secrets e = e
   | EntryMeta e ks \<Rightarrow> redact_entry_secrets e = e
   | Entries es \<Rightarrow> map redact_entry_secrets es = es
   | _ \<Rightarrow> True)"

definition redact_response :: "response \<Rightarrow> response" where
  "redact_response r = (case r of
     Response_Entry e \<Rightarrow> Response_Entry (redact_entry_secrets e)
   | EntryMeta e ks \<Rightarrow> EntryMeta (redact_entry_secrets e) []
   | Entries es \<Rightarrow> Entries (map redact_entry_secrets es)
   | Response_Password p \<Rightarrow> Response_Password (Secret [])
   | Totp p \<Rightarrow> Totp (Secret [])
   | _ \<Rightarrow> r)"

text \<open>An agent that never answers with a secret of an entry.\<close>

definition redacting :: "'w requester \<Rightarrow> 'w requester" where
  "redacting rq a w = (case rq a w of (Inr r, v) \<Rightarrow> (Inr (redact_response r), v) | (Inl e, v) \<Rightarrow> (Inl e, v))"

fun bulk_read :: "action \<Rightarrow> bool" where
  "bulk_read (GetEntries q t p) = True"
| "bulk_read (GetEntryMeta i) = True"
| "bulk_read a = False"

lemma handle_redacted [simp]: "c_handle (redact_response r) = c_handle r"
  by (cases r) (simp_all add: redact_response_def c_handle_def handle_response_def)

lemma unexpected_redacted [simp]: "c_unexpected (redact_response r) = c_unexpected r"
  by (simp add: c_unexpected_def)

lemma try_redacting:
  assumes "\<And>r. f (redact_response r) = g r"
  shows "c_try (c_send (redacting rq) a) f = c_try (c_send rq a) g"
  by (rule ext) (auto simp: c_try_def c_send_def redacting_def assms split: prod.split sum.split)

lemma try_cong: "(\<And>a. f a = g a) \<Longrightarrow> c_try m f = c_try m g"
  by (metis ext)

lemma ack_redacting: "c_ack (redacting rq) a s = c_ack rq a s"
  unfolding c_ack_def by (rule try_redacting) simp

lemma try_assoc: "c_try (c_try m f) g = c_try m (\<lambda>a. c_try (f a) g)"
  by (rule ext) (auto simp: c_try_def split: prod.splits outcome.splits sum.splits)

lemma try_ret [simp]: "c_try (c_ret a) f = f a"
  by (rule ext) (simp add: c_try_def c_ret_def)

lemma redact_public_Entries: "public_response (Entries es) \<Longrightarrow> redact_response (Entries es) = Entries es"
  by (simp add: public_response_def redact_response_def)

lemma public_entries:
  assumes "public_response r"
  shows "(case redact_response r of Entries es \<Rightarrow> f es | _ \<Rightarrow> c_handle (redact_response r))
    = (case r of Entries es \<Rightarrow> f es | _ \<Rightarrow> c_handle r)"
proof (cases r)
  case (Entries es)
  then show ?thesis
    using redact_public_Entries assms by simp
qed (simp_all add: redact_response_def c_handle_def handle_response_def)

lemma each_cong: "(\<And>a. f a = g a) \<Longrightarrow> c_each f as = c_each g as"
  by (induction as) auto

text \<open>The agents that keep the secrets out of the bulk reads.\<close>

locale bulk_reader =
  fixes rq :: "'w requester"
  assumes bulk_public: "bulk_read a \<Longrightarrow> rq a w = (Inr r, v) \<Longrightarrow> public_response r"
begin

lemma try_bulk:
  assumes "bulk_read a" and "\<And>r. public_response r \<Longrightarrow> f (redact_response r) = g r"
  shows "c_try (c_send (redacting rq) a) f = c_try (c_send rq a) g"
proof
  fix x
  show "c_try (c_send (redacting rq) a) f x = c_try (c_send rq a) g x"
  proof (cases "rq a (con_world x)")
    case (Pair r v)
    then show ?thesis
      using bulk_public [OF assms(1), of "con_world x"] assms(2)
      by (cases r) (auto simp: c_try_def c_send_def redacting_def)
  qed
qed

lemma found_redacting:
  assumes "public_response r" and "\<And>e. pick [redact_entry_secrets e] = pick [e]"
  shows "c_try (found_entries (redacting rq) q (redact_response r)) pick = c_try (found_entries rq q r) pick"
proof -
  let ?one = "\<lambda>r. case r of Response_Entry e \<Rightarrow> c_ret [e] | _ \<Rightarrow> c_ret []"
  have "c_try (c_try (c_send (redacting rq) (GetEntry q None)) ?one) pick
     = c_try (c_try (c_send rq (GetEntry q None)) ?one) pick"
    unfolding try_assoc
  proof (rule try_redacting)
    fix r show "c_try (?one (redact_response r)) pick = c_try (?one r) pick"
      using assms(2) by (cases r) (simp_all add: redact_response_def)
  qed
  then show ?thesis
    using redact_public_Entries assms(1) by (cases r) (auto simp: found_entries_def redact_response_def)
qed

lemma resolve_redacting: "resolve_id (redacting rq) q ty = resolve_id rq q ty"
  unfolding resolve_id_def by (intro try_bulk found_redacting) (simp_all add: redact_entry_secrets_def)

lemma rows_redacting: "list_rows (redacting rq) q ty = list_rows rq q ty"
  unfolding list_rows_def by (intro try_bulk public_entries) simp_all

lemma pinned_redacting: "list_pinned (redacting rq) q ty = list_pinned rq q ty"
  unfolding list_pinned_def
proof (rule try_redacting)
  fix r show "(case redact_response r of SidebarEntries es \<Rightarrow> c_print (concat (map sidebar_line es)) | _ \<Rightarrow> c_handle (redact_response r))
     = (case r of SidebarEntries es \<Rightarrow> c_print (concat (map sidebar_line es)) | _ \<Rightarrow> c_handle r)"
    by (cases r) (simp_all add: redact_response_def c_handle_def handle_response_def)
qed

lemma get_all_redacting: "get_all (redacting rq) q ty fs False = get_all rq q ty fs False"
proof -
  have "show_one (redacting rq) fs False = show_one rq fs False"
    by (rule ext) (simp add: show_one_def)
  then show ?thesis
    unfolding get_all_def by (intro try_bulk) (simp_all only: public_entries bulk_read.simps)
qed

lemma get_one_redacting: "get_one (redacting rq) q ty fs False = get_one rq q ty fs False"
  unfolding get_one_def resolve_redacting fetch_get_action_def
proof (intro try_cong, simp, rule try_bulk)
  fix r :: response
  let ?entry = "\<lambda>r. case r of Response_Entry e \<Rightarrow> c_ret e | EntryMeta e ks \<Rightarrow> c_ret e | _ \<Rightarrow> c_unexpected r"
  let ?print = "\<lambda>e. c_print (output_entry e fs False)"
  assume "public_response r"
  then show "c_try (?entry (redact_response r)) ?print = c_try (?entry r) ?print"
    by (cases r) (simp_all add: redact_response_def public_response_def c_unexpected_def c_handle_def handle_response_def)
qed simp

end

lemma handled_direct:
  assumes "direct_client E a z = (Inr r, v)" and "\<forall>s. a \<noteq> UpdateLockTimeout s"
  shows "\<exists>y. handle_request E a (snd z) = (Ret r, y)"
proof -
  obtain q y where "handle_request E a (snd z) = (q, y)"
    by (cases "handle_request E a (snd z)")
  then show ?thesis
    using assms direct_client_answer [OF assms(2), of E "snd z" _ y "fst z"]
      direct_client_panic [OF assms(2), of E "snd z" _ y "fst z"]
    by (cases q) auto
qed

lemma entries_public:
  assumes "handle_get_entries C q ty p s = Ret r"
  shows "public_response r"
proof -
  have "(\<exists>es. r = Entries es) \<or> r = agent_is_locked"
    using assms by (auto simp: handle_get_entries_def Let_def split: option.splits outcome.splits)
  moreover have "map redact_entry_secrets es = es" if "r = Entries es" for es
    using handle_get_entries_redacted [of C q ty p s es] assms that by (auto intro: map_idI)
  ultimately show ?thesis
    by (auto simp: public_response_def)
qed

lemma meta_public: "handle_get_entry_meta C i s = Ret r \<Longrightarrow> public_response r"
  by (auto simp: public_response_def handle_get_entry_meta_def split: option.splits outcome.splits)

interpretation agent_reads: bulk_reader "direct_client E" for E :: "'w env"
proof
  fix a and w :: "timer \<times> agent \<times> 'w" and r v
  assume a: "bulk_read a" and d: "direct_client E a w = (Inr r, v)"
  then obtain y where "handle_request E a (snd w) = (Ret r, y)"
    using handled_direct [OF d] by (cases a) auto
  then show "public_response r"
    using a
    by (cases a) (auto simp: handle_request_def t_read_def t_seq_def t_bind_def t_lock_def
        intro: entries_public meta_public)
qed


text \<open>\<open>list\<close>, and \<open>get\<close> without \<open>--show-secrets\<close>.\<close>

fun without_secrets :: "cli_command \<Rightarrow> bool" where
  "without_secrets (Cmd_List q pinned) = True"
| "without_secrets (Cmd_Get q allof fs show) = (\<not> show)"
| "without_secrets c = False"

lemma vault_redacting:
  assumes "without_secrets c"
  shows "vault_command_run (redacting (direct_client E)) ty c = vault_command_run (direct_client E) ty c"
  using assms
  by (cases c) (auto simp: agent_reads.rows_redacting agent_reads.pinned_redacting agent_reads.get_all_redacting
      agent_reads.get_one_redacting split: option.split)

text \<open>
  C30: Without \<open>--show-secrets\<close> no secret of an entry reaches what the client prints: a whole run of \<open>get\<close>
  or \<open>list\<close>, with the unlock and the second attempt if the vault was locked, is the same as a run with an
  agent that takes the secrets out of every answer.
\<close>

theorem cli_shows_no_secret:
  assumes "without_secrets c"
  shows "cli_main (direct_client E) du ver ty c = cli_main (redacting (direct_client E)) du ver ty c"
proof -
  have run: "cli_run (redacting rq) du ver ty c = vault_command_run (redacting rq) ty c"
      "cli_run rq du ver ty c = vault_command_run rq ty c" for rq :: "(timer \<times> agent \<times> 'a) requester"
    using assms by (cases c; simp)+
  have again: "unlock_and_retry (redacting rq) k = unlock_and_retry rq k" for rq :: "(timer \<times> agent \<times> 'a) requester" and k
    unfolding unlock_and_retry_def by (intro try_cong try_redacting) simp
  have same: "cli_run (redacting (direct_client E)) du ver ty c = cli_run (direct_client E) du ver ty c"
    by (simp only: run vault_redacting [OF assms])
  show ?thesis
    by (intro ext) (simp only: cli_main_def same again)
qed

definition console_of :: "'w \<Rightarrow> string \<Rightarrow> 'w console" where
  "console_of w input = \<lparr>con_world = w, con_stdin = input, con_tty = [Some ''pw''], con_asked = [],
     con_out = [], con_err = []\<rparr>"

theorem cli_shows_no_secret_witness:
  "cli_main (direct_client sample_env) (\<lambda>s. s) ''1'' None (Cmd_Get (Some ''x'') False ''all'' False)
       (console_of (timer_new 0 900, agent_new 1, sample_host) [])
   = cli_main (redacting (direct_client sample_env)) (\<lambda>s. s) ''1'' None (Cmd_Get (Some ''x'') False ''all'' False)
       (console_of (timer_new 0 900, agent_new 1, sample_host) [])"
  using cli_shows_no_secret [of "Cmd_Get (Some ''x'') False ''all'' False" sample_env] by simp

section \<open>A locked vault\<close>













section \<open>Type keywords\<close>

lemma map_nth_part: "map ((!) (p # a @ r)) [1..<Suc (length a)] = a"
  by (rule nth_equalityI) (simp_all add: nth_append del: upt_Suc)

lemma map_nth_rest: "map ((!) (p # a @ k # b)) [length a + 2..<length a + 2 + length b] = b"
  by (rule nth_equalityI) (simp_all add: nth_append nth_Cons' del: upt_Suc)

lemma without_keyword: "without_type (p # a @ k # b) (Suc (length a)) = a @ b"
proof -
  have "[1..<length (p # a @ k # b)] = [1..<Suc (length a)] @ Suc (length a) # [length a + 2..<length a + 2 + length b]"
    using upt_add_eq_append [of 1 "Suc (length a)" "Suc (length b)"]
    by (simp add: upt_conv_Cons [of "Suc (length a)"] del: upt_Suc)
  then have "filter (\<lambda>i. i \<noteq> Suc (length a)) [1..<length (p # a @ k # b)]
      = [1..<Suc (length a)] @ [length a + 2..<length a + 2 + length b]"
    by (simp del: upt_Suc add: filter_id_conv)
  then show ?thesis
    unfolding without_type_def by (simp only: map_append map_nth_part map_nth_rest)
qed

lemma keyword_found:
  assumes "to_lowercase k \<in> set type_keywords" and "to_lowercase k \<noteq> ''login''"
    and "\<forall>s \<in> set a. to_lowercase s \<notin> set type_keywords"
    and "a = [] \<or> last a \<notin> {''-t'', ''--type''}"
  shows "found_idx (p # a @ k # b) = Some (Suc (length a))"
proof -
  have "takes_type (p # a @ k # b) (Suc (length a))"
    using assms by (cases a rule: rev_cases) (auto simp: takes_type_def nth_append)
  moreover have "\<not> takes_type (p # a @ k # b) (Suc j)" if "j < length a" for j
    using assms(3) that by (auto simp: takes_type_def nth_append)
  ultimately show ?thesis
    by (auto simp: found_idx_def find_Some_iff simp del: upt_Suc intro!: exI [of _ "length a"])
qed

text \<open>
  A type keyword may stand anywhere in the arguments: it is taken out, put in front as \<open>--type\<close>, and the
  other arguments keep their order. Without a command among them the entries are listed.
\<close>

theorem keyword_anywhere:
  assumes "to_lowercase k \<in> set type_keywords" and "to_lowercase k \<noteq> ''login''"
    and "\<forall>s \<in> set a. to_lowercase s \<notin> set type_keywords"
    and "a = [] \<or> last a \<notin> {''-t'', ''--type''}"
  shows "preprocess_args (p # a @ k # b) = p # ''--type'' # to_lowercase k # a @ b
    @ (if list_ex is_subcommand (a @ b) then [] else [''ls''])"
  using keyword_found [OF assms, of p b] without_keyword [of p a k b]
  by (simp add: preprocess_args_def)

theorem keyword_anywhere_witness:
  "preprocess_args [''cosmarden'', ''get'', ''Note'', ''x''] = [''cosmarden'', ''--type'', ''note'', ''get'', ''x'']"
proof -
  have k: "to_lowercase ''Note'' = ''note''" "to_lowercase ''get'' = ''get''" "to_lowercase ''x'' = ''x''"
    by code_simp+
  show ?thesis
    using keyword_anywhere [of "''Note''" "[''get'']" "''cosmarden''" "[''x'']"]
    by (simp add: type_keywords_def k is_subcommand_def subcommands_def)
qed

section \<open>Editing\<close>




lemma edit_data_type [simp]: "entry_type_of (edit_data k v d) = entry_type_of d"
  by (cases d) simp_all





text \<open>The custom fields: the last value given for a name is the one stored.\<close>

definition field_value :: "entry \<Rightarrow> string \<Rightarrow> secret option option" where
  "field_value e n = map_option f_value (get_field e n)"

lemma field_value_set [simp]: "field_value (set_field e m v ty) n = (if n = m then Some (Some (Secret v)) else field_value e n)"
  using find_set_field_in_same [of n "e_fields e" v ty]
  by (auto simp: field_value_def get_field_def set_field_def find_set_field_in_other)







text \<open>An agent with one entry, which records the requests it gets.\<close>

definition recording_agent :: "entry \<Rightarrow> action list requester" where
  "recording_agent e a w = (Inr (case a of GetEntry i p \<Rightarrow> Response_Entry e | GetEntries q t p \<Rightarrow> Entries [e] | _ \<Rightarrow> Ack), w @ [a])"

definition note_named :: "string \<Rightarrow> entry" where
  "note_named n = sample_stored_entry\<lparr>e_id := ''7'', e_name := n, e_data := SecureNote, e_fields := []\<rparr>"



section \<open>Replacing\<close>

lemma each_delete:
  assumes "\<forall>i w. fst (rq (DeleteEntry i) w) = Inr Ack"
  shows "c_each (delete_duplicate rq) dups con = (Okay (),
    con\<lparr>con_world := fold (\<lambda>d w. snd (rq (DeleteEntry (e_id d)) w)) dups (con_world con),
        con_err := con_err con @ concat (map replaced_line dups)\<rparr>)"
proof (induction dups arbitrary: con)
  case (Cons d dups)
  obtain w where w: "rq (DeleteEntry (e_id d)) (con_world con) = (Inr Ack, w)"
    using assms by (metis prod.collapse)
  then have "delete_duplicate rq d con = (Okay (), con\<lparr>con_world := w, con_err := con_err con @ replaced_line d\<rparr>)"
    by (simp add: delete_duplicate_def cli_defs handle_response_def)
  then show ?case
    using Cons.IH w by (simp add: c_seq_def c_try_def)
qed (simp add: c_ret_def)

text \<open>
  C31: \<open>add --replace\<close> deletes before it checks that it can add. For a type of entry that \<open>add\<close> does not support, all
  entries of that name and type are deleted, and then the command fails without having added one.
\<close>

theorem replace_deletes_then_refuses:
  assumes "t \<notin> {ET_Login, ET_SecureNote, ET_SshKey}" and "\<not> ka_stdin ka"
    and "fold_args (add_arg False) (ka_args ka) no_vals = Inr a"
    and "rq (GetEntries (Some name) (Some t) False) (con_world con) = (Inr (Entries es), w)"
    and "\<forall>i w. fst (rq (DeleteEntry i) w) = Inr Ack"
  shows "\<exists>con'. handle_add rq name ka True (Some t) con
      = (Fail (''Unsupported entry type for '' @ [CHR 0x27] @ ''add'' @ [CHR 0x27]), con')
    \<and> con_world con' = fold (\<lambda>d w. snd (rq (DeleteEntry (e_id d)) w)) (filter (\<lambda>e. e_name e = name) es) w"
proof -
  have "add_request t name b fs = None" for b fs
    using assms(1) by (cases t) (simp_all add: add_request_def)
  then have "add_new rq name ka t con'
      = (Fail (''Unsupported entry type for '' @ [CHR 0x27] @ ''add'' @ [CHR 0x27]), con')" for con'
    using assms(2,3) by (simp add: add_new_def cli_defs)
  moreover have "find_same_name_entries rq name t con = (Okay (filter (\<lambda>e. e_name e = name) es), con\<lparr>con_world := w\<rparr>)"
    using assms(4) by (simp add: find_same_name_entries_def cli_defs)
  ultimately show ?thesis
    by (simp add: handle_add_def c_try_def c_seq_def each_delete [OF assms(5)])
qed

theorem replace_deletes_then_refuses_witness:
  "con_world (snd (handle_add (recording_agent (note_named ''a'')) ''a''
       \<lparr>ka_args = [], ka_field = [], ka_secret_field = [], ka_stdin = False\<rparr> True (Some ET_Card) (console_of [] [])))
    = [GetEntries (Some ''a'') (Some ET_Card) False, DeleteEntry ''7'']"
proof -
  let ?ka = "\<lparr>ka_args = [], ka_field = [], ka_secret_field = [], ka_stdin = False\<rparr>"
  show ?thesis
    using replace_deletes_then_refuses [of ET_Card ?ka no_vals "recording_agent (note_named ''a'')" "''a''" "console_of [] []"
        "[note_named ''a'']" "[GetEntries (Some ''a'') (Some ET_Card) False]"]
    by (auto simp: recording_agent_def console_of_def note_named_def)
qed

end
