(* ===== verification/Ui_State.thy ===== *)
theory Ui_State
  imports Field_Access Generator Tpm_Pin
begin

text \<open>
  The COSMIC window and applet, \<open>cosmarden-ui/src/\<close>: the state (\<open>app/state.rs\<close>), the messages
  (\<open>message/mod.rs\<close>), what an update asks the runtime to do, and the pure helpers (\<open>wipe.rs\<close>,
  \<open>applet_search.rs\<close>, \<open>tasks.rs\<close>, the \<open>*_actions.rs\<close> builders). The \<open>Message\<close> enum is split along
  the files that handle its variants. A \<open>Task\<close> is a list of \<open>ui_cmd\<close>; a request to the agent is
  paired with the closure that turns the answer into a message, named by an \<open>answer_to\<close>.

  The widget state that no decision reads (pane geometry, toasts, the window of the applet host) is left
  out; the text editor and the segmented controls are the text and the index they hold.
\<close>

section \<open>Views\<close>

datatype view = View_Loading | View_Setup | View_Unlock | View_Vault | View_Settings | View_PasswordGenerator

definition is_unlocked :: "view \<Rightarrow> bool" where
  "is_unlocked v \<longleftrightarrow> v \<in> {View_Vault, View_Settings, View_PasswordGenerator}"

datatype unlock_mode = Mode_Password | Mode_Pin

datatype reprompt_intent = Intent_Edit | Intent_Reveal string | Intent_Copy string

type_synonym 'a answer = "string + 'a"

record config_snapshot =
  cs_config :: config
  cs_needs_login :: bool
  cs_has_account :: bool
  cs_is_locked :: bool
  cs_sync_failed :: bool
  cs_session_id :: u64
  cs_lock_epoch :: u64

record notify_payload =
  np_app_name :: string
  np_app_icon :: string
  np_summary :: string
  np_body :: string

section \<open>State\<close>

record ui_app =
  ui_config :: config
  ui_config_loaded :: bool
  ui_windows :: "nat list"
  ui_view :: view
  ui_auth_loading :: bool
  ui_search_query :: string
  ui_entries :: "sidebar_entry list"
  ui_all_entries :: "sidebar_entry list"
  ui_error :: "string option"
  ui_selected_entry_id :: "string option"
  ui_selected_entry :: "entry option"
  ui_editing_entry :: "entry option"
  ui_filter_type :: "entry_type option"
  ui_search_only_pinned :: bool
  ui_revealed_fields :: "(string \<times> string) set"
  ui_login_email :: string
  ui_login_password :: string
  ui_login_server :: string
  ui_login_remember :: bool
  ui_login_verification_code :: string
  ui_show_verification_input :: bool
  ui_unlock_password :: string
  ui_unlock_pin :: string
  ui_unlock_pin_revealed :: bool
  ui_unlock_pin_apply_pending :: bool
  ui_token_tx :: bool
  ui_applet_popup :: "nat option"
  ui_applet_unlock_password :: string
  ui_applet_error :: "string option"
  ui_applet_search_query :: string
  ui_applet_search_only_favourites :: bool
  ui_applet_search_results :: "sidebar_entry list"
  ui_applet_search_id :: u32
  ui_applet_reprompt_id :: "string option"
  ui_applet_reprompt_password :: string
  ui_applet_unlock_password_revealed :: bool
  ui_applet_reprompt_password_revealed :: bool
  ui_applet_last_popup_closed_at :: "nat option"
  ui_editing_config :: "config option"
  ui_login_pin_enabled :: bool
  ui_login_pin :: string
  ui_login_pin_revealed :: bool
  ui_master_password_revealed :: bool
  ui_show_advanced :: bool
  ui_notes_content :: string
  ui_search_id :: u32
  ui_show_delete_confirm :: "string option"
  ui_show_reprompt :: "string option"
  ui_reprompt_password :: string
  ui_edit_password_revealed :: bool
  ui_reprompt_password_revealed :: bool
  ui_protocol_mismatch :: bool
  ui_pending_vault_entry :: "string option"
  ui_sync_failed :: bool
  ui_syncing :: bool
  ui_deleting :: bool
  ui_tpm_status_known :: bool
  ui_tpm_available :: bool
  ui_tpm_configured :: bool
  ui_unlock_mode :: unlock_mode
  ui_password_preferred :: bool
  ui_applet_pin :: string
  ui_applet_pin_revealed :: bool
  ui_main_window_pin :: string
  ui_last_config :: "(u64 \<times> u64) option"
  ui_show_tpm_setup_form :: bool
  ui_tpm_setup_pin :: string
  ui_tpm_setup_pin_revealed :: bool
  ui_show_session_restore :: bool
  ui_session_restore_password :: string
  ui_session_restore_revealed :: bool
  ui_show_tpm_disable_form :: bool
  ui_tpm_diagnostics :: "(string \<times> bool \<times> string) list"
  ui_tpm_error :: "string option"
  ui_tpm_da :: "tpm_da_status option"
  ui_pin_incorrect :: bool
  ui_has_account :: bool
  ui_last_unlock_notify :: "notify_payload option"
  ui_generator_settings :: generator_settings
  ui_generator_result :: "secret option"
  ui_generator_result_revealed :: bool
  ui_generator_history :: "generator_history_entry list"
  ui_generator_history_revealed :: "nat set"
  ui_generator_error :: "string option"
  ui_generator_history_delete_pending :: "nat option"
  ui_generator_tab :: nat
  ui_clipboard_clear_generation :: u32
  ui_clipboard_pending_clear :: "string option"
  ui_reprompt_intent :: "reprompt_intent option"
  ui_pending_secret_field :: "string option"
  ui_totp_code :: "secret option"

definition ui_default :: ui_app where
  "ui_default = \<lparr>ui_config = default_config, ui_config_loaded = False, ui_windows = [], ui_view = View_Loading,
     ui_auth_loading = False, ui_search_query = [], ui_entries = [], ui_all_entries = [], ui_error = None,
     ui_selected_entry_id = None, ui_selected_entry = None, ui_editing_entry = None, ui_filter_type = None,
     ui_search_only_pinned = False, ui_revealed_fields = {}, ui_login_email = [], ui_login_password = [],
     ui_login_server = [], ui_login_remember = True, ui_login_verification_code = [],
     ui_show_verification_input = False, ui_unlock_password = [], ui_unlock_pin = [],
     ui_unlock_pin_revealed = False, ui_unlock_pin_apply_pending = False, ui_token_tx = False,
     ui_applet_popup = None, ui_applet_unlock_password = [], ui_applet_error = None,
     ui_applet_search_query = [], ui_applet_search_only_favourites = False, ui_applet_search_results = [],
     ui_applet_search_id = 0, ui_applet_reprompt_id = None, ui_applet_reprompt_password = [],
     ui_applet_unlock_password_revealed = False, ui_applet_reprompt_password_revealed = False,
     ui_applet_last_popup_closed_at = None, ui_editing_config = None, ui_login_pin_enabled = False,
     ui_login_pin = [], ui_login_pin_revealed = False, ui_master_password_revealed = False,
     ui_show_advanced = False, ui_notes_content = [], ui_search_id = 0, ui_show_delete_confirm = None,
     ui_show_reprompt = None, ui_reprompt_password = [], ui_edit_password_revealed = False,
     ui_reprompt_password_revealed = False, ui_protocol_mismatch = False, ui_pending_vault_entry = None,
     ui_sync_failed = False, ui_syncing = False, ui_deleting = False, ui_tpm_status_known = False,
     ui_tpm_available = False, ui_tpm_configured = False, ui_unlock_mode = Mode_Password,
     ui_password_preferred = False, ui_applet_pin = [], ui_applet_pin_revealed = False,
     ui_main_window_pin = [], ui_last_config = None, ui_show_tpm_setup_form = False, ui_tpm_setup_pin = [],
     ui_tpm_setup_pin_revealed = False, ui_show_session_restore = False, ui_session_restore_password = [],
     ui_session_restore_revealed = False, ui_show_tpm_disable_form = False, ui_tpm_diagnostics = [],
     ui_tpm_error = None, ui_tpm_da = None, ui_pin_incorrect = False, ui_has_account = False,
     ui_last_unlock_notify = None, ui_generator_settings = default_generator_settings,
     ui_generator_result = None, ui_generator_result_revealed = False, ui_generator_history = [],
     ui_generator_history_revealed = {}, ui_generator_error = None,
     ui_generator_history_delete_pending = None, ui_generator_tab = 0, ui_clipboard_clear_generation = 0,
     ui_clipboard_pending_clear = None, ui_reprompt_intent = None, ui_pending_secret_field = None,
     ui_totp_code = None\<rparr>"

section \<open>Messages\<close>

datatype (plugins only: size) lifecycle_msg =
    ConfigReceived "config_snapshot answer"
  | EventReceived event
  | WindowClosed nat
  | ProtocolVersionCheck "bool answer"
  | TpmStatusReceived "(bool \<times> bool) answer"
  | TpmDaStatusReceived "tpm_da_status option"
  | TpmDiagnosticsReceived "(string \<times> bool \<times> string) list"
  | RefreshStateInternal

datatype (plugins only: size) auth_msg =
    EmailChanged string
  | PasswordChanged string
  | ServerChanged string
  | RememberChanged bool
  | VerificationCodeChanged string
  | LoginPinEnabledToggled bool
  | LoginPinChanged string
  | LoginPinRevealToggled
  | MainWindowPinChanged string
  | MainWindowPinSubmitted
  | MainWindowPinResult "unit answer"
  | LoginSubmitted
  | UnlockPasswordChanged string
  | UnlockPinChanged string
  | UnlockPinRevealToggled
  | SessionRestoreToggle
  | SessionRestorePasswordChanged string
  | SessionRestoreRevealToggled
  | SessionRestoreSubmitted
  | UnlockSubmitted
  | AuthResult "unit answer"
  | LockClicked
  | LockResult
  | LogoutClicked
  | LogoutResult

datatype (plugins only: size) vault_msg =
    SearchChanged string
  | FilterTabActivated nat
  | SelectEntry string
  | EntryReceived "entry answer"
  | DeleteEntryClicked string
  | ConfirmDelete
  | CancelDelete
  | DeleteEntryResult "unit answer"
  | EntriesReceived u32 "sidebar_entry list answer"
  | SyncClicked
  | SyncResult "unit answer"
  | TogglePin string
  | ToggleSearchPinned
  | RepromptPasswordChanged string
  | SubmitReprompt
  | CancelReprompt

datatype (plugins only: size) edit_msg =
    AddEntryRequested
  | EditEntry
  | EditEntryLoaded "entry answer"
  | CancelEdit
  | SaveEdit
  | SaveEditResult "unit answer"
  | EditFieldChanged string string
  | EditNameChanged string
  | NotesAction string
  | NewEntryTypeChanged entry_type

datatype (plugins only: size) secrets_msg =
    ToggleRevealField string string
  | CopySecretField string string
  | OnDemandSecretLoaded string bool "on_demand_payload answer"

datatype (plugins only: size) applet_msg =
    AppletIconClicked
  | Exit
  | OpenVaultRequested
  | Token_Init
  | Token_Finished
  | Token_Activation "string option" string
  | AppletUnlockPasswordChanged string
  | AppletUnlockSubmitted
  | AppletUnlockResult "unit answer"
  | AppletToggleUnlockPasswordReveal
  | AppletToggleRepromptPasswordReveal
  | AppletTogglePinReveal
  | AppletPinChanged string
  | AppletPinSubmitted
  | AppletPinResult "unit answer"
  | AppletUseMasterPasswordInstead

datatype (plugins only: size) row_msg =
    AppletSearchChanged string
  | AppletToggleFavouritesFilter
  | AppletSearchResultsReceived u32 "sidebar_entry list answer"
  | AppletCopyPrimary string
  | AppletCopySecret string
  | AppletOpenInVault string
  | AppletOpenLink string
  | AppletSecretReceived "(string \<times> string) + secret"
  | AppletGeneratePasswordRequested
  | AppletGeneratePasswordReceived "secret answer"
  | AppletRepromptPasswordChanged string
  | AppletRepromptSubmitted
  | AppletRepromptCancelled

datatype (plugins only: size) tpm_msg =
    TpmSetupFormToggle
  | TpmDisableFormToggle
  | TpmSetupPinChanged string
  | TpmSetupPinRevealToggled
  | TpmSetupSubmitted
  | TpmSetupResult "unit answer"
  | TpmDisableSubmitted
  | TpmDisableResult "unit answer"

datatype (plugins only: size) pwgen_msg =
    GeneratorViewClicked
  | GeneratorTabActivated nat
  | GeneratorUppercaseToggled bool
  | GeneratorLowercaseToggled bool
  | GeneratorNumbersToggled bool
  | GeneratorSpecialToggled bool
  | GeneratorLengthChanged u32
  | GeneratorResetClicked
  | GeneratorGenerateClicked
  | GeneratorGenerated "secret answer"
  | GeneratorRevealToggled
  | GeneratorSettingsReceived "generator_settings answer"
  | GeneratorHistoryReceived "generator_history_entry list answer"
  | GeneratorHistoryRevealToggled nat
  | GeneratorHistoryDeleteRequested nat
  | GeneratorHistoryDeleteCancelled
  | GeneratorHistoryDeleteConfirmed
  | GeneratorHistoryDeleted "unit answer"

datatype (plugins only: size) app_msg =
    CopyToClipboardClicked string
  | ClipboardClearElapsed u32
  | ClipboardClearReadback u32 "string option"
  | ToggleMasterPasswordReveal
  | ToggleEditPasswordReveal
  | ToggleRepromptPasswordReveal
  | SettingsViewClicked
  | SettingsEditClicked
  | SettingsSaveClicked
  | SettingsCancelClicked
  | SettingsServerChanged string
  | SettingsLockTimeoutChanged u32
  | ToggleAdvanced

datatype (plugins only: size) ui_message =
    M_Lifecycle lifecycle_msg
  | M_Auth auth_msg
  | M_Vault vault_msg
  | M_Edit edit_msg
  | M_Secrets secrets_msg
  | M_Applet applet_msg
  | M_Row row_msg
  | M_Tpm tpm_msg
  | M_Pwgen pwgen_msg
  | M_App app_msg

section \<open>Tasks\<close>

datatype answer_to =
    To_Config
  | To_FirstConfig
  | To_TpmStatus
  | To_TpmDa
  | To_TpmDiagnostics
  | To_Version
  | To_Entries u32
  | To_AppletSearch u32
  | To_AuthResult
  | To_MainWindowPin
  | To_AppletUnlock
  | To_AppletPin
  | To_LockResult
  | To_LogoutResult
  | To_EntryReceived
  | To_EditLoaded
  | To_DeleteResult
  | To_SyncResult
  | To_SaveResult
  | To_OnDemand string bool
  | To_AppletSecret string
  | To_AppletGenerated
  | To_Generated
  | To_GeneratorSettings
  | To_GeneratorHistory
  | To_HistoryDeleted
  | To_TpmSetup
  | To_TpmDisable
  | To_OpenVault
  | To_Nothing

datatype ui_cmd =
    Ask action answer_to
  | Then ui_message
  | After_Secs nat ui_message
  | Clipboard_Write string
  | Clipboard_Read u32
  | Focus_Input string
  | Notify notify_payload
  | Toast_Copied
  | Popup_Open
  | Popup_Destroy nat
  | Close_App
  | Token_Request
  | Spawn_App "string option"
  | Open_Link string
  | Write_Config config

text \<open>
  What the application reads of its surroundings at an update: the clock of \<open>Instant\<close> (in milliseconds) and of
  \<open>SystemTime\<close> (in seconds), the configuration file and whether it can be written, the translated texts and
  the text editor.
\<close>

record ui_env =
  ue_now :: nat
  ue_secs :: u64
  ue_load_config :: "error + config"
  ue_save_error :: "error option"
  ue_text :: "string \<Rightarrow> string"
  ue_save_failed_text :: "string \<Rightarrow> string"
  ue_edit_text :: "string \<Rightarrow> string \<Rightarrow> string"
  ue_debug :: "string \<Rightarrow> string"

type_synonym ui_step = "ui_app \<times> ui_cmd list"

end
