(* ===== verification/Ui_Helpers.thy ===== *)
theory Ui_Helpers
  imports Ui_State Plasma_Tray
begin

text \<open>
  The pure parts of the user interface: the requests it builds (\<open>vault_actions.rs\<close>, \<open>auth_actions.rs\<close>,
  \<open>generator_actions.rs\<close>), what becomes of an answer (the closures of \<open>tasks.rs\<close> and of the update
  functions), the lists (\<open>applet_search.rs\<close>, \<open>apply_local_filter\<close>), and the parts of an update that several
  messages share (\<open>wipe.rs\<close>, the clipboard, the focus).
\<close>

section \<open>Requests\<close>

definition fetch_entry :: "string \<Rightarrow> string option \<Rightarrow> action" where
  "fetch_entry i reprompt = (case reprompt of None \<Rightarrow> GetEntryMeta i | Some pw \<Rightarrow> GetEntry i (Some pw))"

definition fetch_full_entry :: "string \<Rightarrow> string option \<Rightarrow> action" where
  "fetch_full_entry i reprompt = GetEntry i reprompt"

definition toggle_pin :: "string \<Rightarrow> bool \<Rightarrow> action" where
  "toggle_pin i now_pinned = (if now_pinned then PinEntry i else UnpinEntry i)"

definition sidebar_entries :: "string option \<Rightarrow> entry_type option \<Rightarrow> bool \<Rightarrow> action" where
  "sidebar_entries q ty only_pinned = GetSidebarEntries q ty only_pinned None"

definition applet_search :: "string option \<Rightarrow> bool \<Rightarrow> action" where
  "applet_search q only_pinned = GetSidebarEntries q None only_pinned None"

definition fetch_password :: "string \<Rightarrow> string option \<Rightarrow> action" where
  "fetch_password i reprompt = GetPassword i reprompt"

definition notes_fetch_after_selection :: "entry \<Rightarrow> action option" where
  "notes_fetch_after_selection e =
     (if e_data e = SecureNote \<and> e_notes e = None then Some (fetch_full_entry (e_id e) None) else None)"

definition submit_reprompt_action :: "reprompt_intent option \<Rightarrow> string \<Rightarrow> string \<Rightarrow> action" where
  "submit_reprompt_action intent i password = (case intent of
     Some (Intent_Reveal f) \<Rightarrow> on_demand_secret f i (Some password)
   | Some (Intent_Copy f) \<Rightarrow> on_demand_secret f i (Some password)
   | _ \<Rightarrow> fetch_full_entry i (Some password))"

definition login_request_of :: "string \<Rightarrow> string \<Rightarrow> string \<Rightarrow> bool \<Rightarrow> string \<Rightarrow> action" where
  "login_request_of email password server_url remember code = Action_Login
     \<lparr>lr_email = email, lr_password = password, lr_server_url = Some server_url, lr_remember_me = remember,
      lr_two_factor_token = None, lr_two_factor_provider = None, lr_two_factor_code = None,
      lr_device_verification_code = (if code = [] then None else Some code)\<rparr>"

datatype unlock_pin_intent = Reseal action | Clear_Stale action | Do_Nothing string

definition apply_unlock_pin :: "bool \<Rightarrow> bool \<Rightarrow> string \<Rightarrow> unlock_pin_intent" where
  "apply_unlock_pin available configured pin =
     (if \<not> available then Do_Nothing pin
      else if pin \<noteq> [] then Reseal (SetupTpmPinFromUnlocked pin)
      else if configured then Clear_Stale DisableTpmPin
      else Do_Nothing pin)"

definition apply_login_pin :: "bool \<Rightarrow> bool \<Rightarrow> bool \<Rightarrow> string \<Rightarrow> unlock_pin_intent" where
  "apply_login_pin available configured enabled pin =
     apply_unlock_pin available configured (if enabled then pin else [])"

definition generate_with :: "generator_settings \<Rightarrow> action" where
  "generate_with s = GeneratePassword (Some s)"

definition generate_with_stored :: action where
  "generate_with_stored = GeneratePassword None"

section \<open>Answers\<close>

definition unexpected :: string where "unexpected = ''unexpected response''"

definition ack_answer :: "error + response \<Rightarrow> unit answer" where
  "ack_answer r = (case r of Inr Ack \<Rightarrow> Inr () | Inr (Error m) \<Rightarrow> Inl m | _ \<Rightarrow> Inl unexpected)"

definition config_answer :: "error + response \<Rightarrow> config_snapshot answer" where
  "config_answer r = (case r of
     Inr (Config cfg nl ha lk sf sid ep) \<Rightarrow> Inr \<lparr>cs_config = cfg, cs_needs_login = nl, cs_has_account = ha,
       cs_is_locked = lk, cs_sync_failed = sf, cs_session_id = sid, cs_lock_epoch = ep\<rparr>
   | Inr (Error m) \<Rightarrow> Inl m | _ \<Rightarrow> Inl unexpected)"

definition first_config_answer :: "error + response \<Rightarrow> config_snapshot answer" where
  "first_config_answer r = (case r of
     Inr (Config cfg nl ha lk sf sid ep) \<Rightarrow> config_answer r
   | Inr (Error m) \<Rightarrow> Inl m
   | Inr q \<Rightarrow> Inl ''unexpected response from agent''
   | Inl e \<Rightarrow> Inl (''failed to connect to agent: '' @ error_display e))"

definition sidebar_answer :: "error + response \<Rightarrow> sidebar_entry list answer" where
  "sidebar_answer r = (case r of Inr (SidebarEntries es) \<Rightarrow> Inr es | Inr (Error m) \<Rightarrow> Inl m | _ \<Rightarrow> Inl unexpected)"

definition full_entry_answer :: "error + response \<Rightarrow> entry answer" where
  "full_entry_answer r = (case r of Inr (Response_Entry e) \<Rightarrow> Inr e | Inr (Error m) \<Rightarrow> Inl m | _ \<Rightarrow> Inl unexpected)"

definition entry_answer :: "error + response \<Rightarrow> entry answer" where
  "entry_answer r = (case r of Inr (Response_Entry e) \<Rightarrow> Inr e | Inr (EntryMeta e ks) \<Rightarrow> Inr e
     | Inr (Error m) \<Rightarrow> Inl m | _ \<Rightarrow> Inl unexpected)"

definition generated_answer :: "error + response \<Rightarrow> secret answer" where
  "generated_answer r = (case r of Inr (GeneratedPassword p) \<Rightarrow> Inr p | Inr (Error m) \<Rightarrow> Inl m | _ \<Rightarrow> Inl unexpected)"

definition tpm_status_answer :: "error + response \<Rightarrow> (bool \<times> bool) answer" where
  "tpm_status_answer r = (case r of Inr (TpmStatus a c) \<Rightarrow> Inr (a, c) | Inr (Error m) \<Rightarrow> Inl m
     | _ \<Rightarrow> Inl (unexpected @ '' to CheckTpm''))"

definition version_answer_of :: "error + response \<Rightarrow> bool answer" where
  "version_answer_of r = (case r of Inr (Response_Version v p) \<Rightarrow> Inr (PROTOCOL_VERSION \<noteq> p)
     | Inl e \<Rightarrow> Inl (''failed to check version: '' @ error_display e) | _ \<Rightarrow> Inl ''unexpected version response'')"

text \<open>The message an answer becomes; \<open>None\<close> is \<open>Action::None\<close>.\<close>

fun deliver :: "(string \<Rightarrow> string) \<Rightarrow> answer_to \<Rightarrow> error + response \<Rightarrow> ui_message option" where
  "deliver du To_Config r = Some (M_Lifecycle (ConfigReceived (config_answer r)))"
| "deliver du To_FirstConfig r = Some (M_Lifecycle (ConfigReceived (first_config_answer r)))"
| "deliver du To_TpmStatus r = Some (M_Lifecycle (TpmStatusReceived (tpm_status_answer r)))"
| "deliver du To_TpmDa r = Some (M_Lifecycle (TpmDaStatusReceived
     (case r of Inr (TpmDaStatus s) \<Rightarrow> Some s | _ \<Rightarrow> None)))"
| "deliver du To_TpmDiagnostics r = Some (M_Lifecycle (TpmDiagnosticsReceived
     (case r of Inr (TpmDiagnostics cs) \<Rightarrow> cs | _ \<Rightarrow> [])))"
| "deliver du To_Version r = Some (M_Lifecycle (ProtocolVersionCheck (version_answer_of r)))"
| "deliver du (To_Entries n) r = Some (M_Vault (EntriesReceived n (sidebar_answer r)))"
| "deliver du (To_AppletSearch n) r = Some (M_Row (AppletSearchResultsReceived n (sidebar_answer r)))"
| "deliver du To_AuthResult r = Some (M_Auth (AuthResult (ack_answer r)))"
| "deliver du To_MainWindowPin r = Some (M_Auth (MainWindowPinResult (ack_answer r)))"
| "deliver du To_AppletUnlock r = Some (M_Applet (AppletUnlockResult (ack_answer r)))"
| "deliver du To_AppletPin r = Some (M_Applet (AppletPinResult (ack_answer r)))"
| "deliver du To_LockResult r = Some (M_Auth LockResult)"
| "deliver du To_LogoutResult r = Some (M_Auth LogoutResult)"
| "deliver du To_EntryReceived r = Some (M_Vault (EntryReceived (entry_answer r)))"
| "deliver du To_EditLoaded r = Some (M_Edit (EditEntryLoaded (full_entry_answer r)))"
| "deliver du To_DeleteResult r = Some (M_Vault (DeleteEntryResult (ack_answer r)))"
| "deliver du To_SyncResult r = Some (M_Vault (SyncResult (ack_answer r)))"
| "deliver du To_SaveResult r = Some (M_Edit (SaveEditResult (ack_answer r)))"
| "deliver du (To_OnDemand f copy) r = Some (M_Secrets (OnDemandSecretLoaded f copy (case r of
     Inr q \<Rightarrow> parse_on_demand_response (response_debug du) f q | Inl e \<Rightarrow> Inl (error_display e))))"
| "deliver du (To_AppletSecret i) r = Some (M_Row (AppletSecretReceived (case r of
     Inr (Response_Password p) \<Rightarrow> Inr p | Inr (Error m) \<Rightarrow> Inl (i, m) | _ \<Rightarrow> Inl (i, unexpected))))"
| "deliver du To_AppletGenerated r = Some (M_Row (AppletGeneratePasswordReceived (generated_answer r)))"
| "deliver du To_Generated r = Some (M_Pwgen (GeneratorGenerated (generated_answer r)))"
| "deliver du To_GeneratorSettings r = Some (M_Pwgen (GeneratorSettingsReceived (case r of
     Inr (GeneratorSettings s) \<Rightarrow> Inr s | Inr (Error m) \<Rightarrow> Inl m | _ \<Rightarrow> Inl unexpected)))"
| "deliver du To_GeneratorHistory r = Some (M_Pwgen (GeneratorHistoryReceived (case r of
     Inr (PasswordHistory es) \<Rightarrow> Inr es | Inr (Error m) \<Rightarrow> Inl m | _ \<Rightarrow> Inl unexpected)))"
| "deliver du To_HistoryDeleted r = Some (M_Pwgen (GeneratorHistoryDeleted (ack_answer r)))"
| "deliver du To_TpmSetup r = Some (M_Tpm (TpmSetupResult (ack_answer r)))"
| "deliver du To_TpmDisable r = Some (M_Tpm (TpmDisableResult (ack_answer r)))"
| "deliver du To_OpenVault r = Some (M_Applet OpenVaultRequested)"
| "deliver du To_Nothing r = None"

section \<open>Lists\<close>

definition APPLET_SEARCH_LIMIT :: nat where "APPLET_SEARCH_LIMIT = 10"
definition APPLET_LABEL_MAX_LEN :: nat where "APPLET_LABEL_MAX_LEN = 28"

datatype applet_row_kind = Row_Login "string option" "string option" | Row_SecureNote | Row_SshKey

record applet_row =
  ar_id :: string
  ar_label :: string
  ar_kind :: applet_row_kind

definition effective_only_pinned :: "string \<Rightarrow> bool \<Rightarrow> bool" where
  "effective_only_pinned query favourites = (trim query = [] \<or> favourites)"

definition applet_rows_request :: "string \<Rightarrow> bool \<Rightarrow> string option \<times> bool" where
  "applet_rows_request query favourites =
     (if trim query = [] then None else Some query, effective_only_pinned query favourites)"

text \<open>\<open>s.chars().take(n)\<close> on the bytes: a continuation byte belongs to the character before it.\<close>

fun take_chars :: "nat \<Rightarrow> string \<Rightarrow> string" where
  "take_chars n [] = []"
| "take_chars n (c # cs) =
     (if cont_byte (of_char c) then c # take_chars n cs
      else (case n of 0 \<Rightarrow> [] | Suc k \<Rightarrow> c # take_chars k cs))"

definition truncate_label :: "string \<Rightarrow> string" where
  "truncate_label s = take_chars APPLET_LABEL_MAX_LEN s"

definition applet_row_of :: "(string \<Rightarrow> string option) \<Rightarrow> sidebar_entry \<Rightarrow> applet_row option" where
  "applet_row_of psl e = (case se_entry_type e of
     ET_Login \<Rightarrow> Some \<lparr>ar_id = se_id e, ar_label = truncate_label (display_label_for_name psl (se_name e)),
       ar_kind = Row_Login (se_username e) (open_uri_for_name (se_name e))\<rparr>
   | ET_SecureNote \<Rightarrow> Some \<lparr>ar_id = se_id e, ar_label = truncate_label (se_name e), ar_kind = Row_SecureNote\<rparr>
   | ET_SshKey \<Rightarrow> Some \<lparr>ar_id = se_id e, ar_label = truncate_label (se_name e), ar_kind = Row_SshKey\<rparr>
   | _ \<Rightarrow> None)"

definition build_applet_rows :: "(string \<Rightarrow> string option) \<Rightarrow> sidebar_entry list \<Rightarrow> applet_row list" where
  "build_applet_rows psl es = take APPLET_SEARCH_LIMIT (List.map_filter (applet_row_of psl) es)"

definition idx_to_filter :: "nat \<Rightarrow> entry_type option" where
  "idx_to_filter i = (if i = 1 then Some ET_Login else if i = 2 then Some ET_SecureNote
     else if i = 3 then Some ET_SshKey else None)"

definition shown_entry :: "string \<Rightarrow> entry_type option \<Rightarrow> bool \<Rightarrow> sidebar_entry \<Rightarrow> bool" where
  "shown_entry q ty only_pinned e \<longleftrightarrow>
     \<not> (only_pinned \<and> \<not> se_is_pinned e)
     \<and> (case ty of Some t \<Rightarrow> se_entry_type e = t | None \<Rightarrow> True)
     \<and> (q = [] \<or> contains_str q (to_lowercase (se_name e))
        \<or> (case se_username e of Some u \<Rightarrow> contains_str q (to_lowercase u) | None \<Rightarrow> False))"

definition apply_local_filter ::
  "sidebar_entry list \<Rightarrow> string \<Rightarrow> entry_type option \<Rightarrow> bool \<Rightarrow> sidebar_entry list" where
  "apply_local_filter es query ty only_pinned =
     filter (shown_entry (to_lowercase (trim query)) ty only_pinned) es"

definition refilter :: "ui_app \<Rightarrow> ui_app" where
  "refilter a = a\<lparr>ui_entries := apply_local_filter (ui_all_entries a) (ui_search_query a) (ui_filter_type a)
     (ui_search_only_pinned a)\<rparr>"

section \<open>Parts of an update\<close>

definition wipe_session_secrets :: "ui_app \<Rightarrow> ui_app" where
  "wipe_session_secrets a = a
     \<lparr>ui_selected_entry := None, ui_editing_entry := None, ui_selected_entry_id := None, ui_entries := [],
      ui_all_entries := [], ui_revealed_fields := {}, ui_error := None, ui_pin_incorrect := False,
      ui_login_password := [], ui_unlock_password := [], ui_unlock_pin := [], ui_unlock_pin_revealed := False,
      ui_unlock_pin_apply_pending := False, ui_main_window_pin := [], ui_reprompt_password := [],
      ui_reprompt_intent := None, ui_pending_secret_field := None, ui_totp_code := None,
      ui_applet_unlock_password := [], ui_applet_reprompt_password := [], ui_applet_pin := [],
      ui_login_pin := [], ui_login_pin_enabled := False, ui_login_pin_revealed := False, ui_tpm_setup_pin := [],
      ui_notes_content := [], ui_generator_history_revealed := {}, ui_generator_result := None,
      ui_generator_result_revealed := False, ui_generator_history := [], ui_clipboard_pending_clear := None\<rparr>"

definition wipe_for_lock :: "ui_app \<Rightarrow> ui_app" where
  "wipe_for_lock a = wipe_session_secrets (a\<lparr>ui_view := View_Unlock\<rparr>)"

definition copy_to_clipboard_with_autoclear :: "string \<Rightarrow> ui_app \<Rightarrow> ui_step" where
  "copy_to_clipboard_with_autoclear value a =
     (let generation = ui_clipboard_clear_generation a + 1 in
      (a\<lparr>ui_clipboard_clear_generation := generation, ui_clipboard_pending_clear := Some value\<rparr>,
       [Clipboard_Write value, After_Secs CLIPBOARD_CLEAR_SECS (M_App (ClipboardClearElapsed generation))]))"

definition applet_copy_to_clipboard :: "string \<Rightarrow> ui_app \<Rightarrow> ui_step" where
  "applet_copy_to_clipboard value a =
     (case copy_to_clipboard_with_autoclear value a of (b, cs) \<Rightarrow> (b, cs @ [Toast_Copied]))"

definition main_unlock_focus_id :: "unlock_mode \<Rightarrow> bool \<Rightarrow> string" where
  "main_unlock_focus_id mode configured =
     (if mode = Mode_Pin \<and> configured then ''main-unlock-pin'' else ''main-unlock-password'')"

definition unlock_focus_id :: "unlock_mode \<Rightarrow> string" where
  "unlock_focus_id mode = (if mode = Mode_Pin then ''applet-unlock-pin'' else ''applet-unlock-password'')"

definition focus_unlock_input :: "ui_app \<Rightarrow> ui_cmd list" where
  "focus_unlock_input a =
     (if ui_view a \<noteq> View_Unlock \<or> \<not> ui_tpm_status_known a then []
      else [Focus_Input (main_unlock_focus_id (ui_unlock_mode a) (ui_tpm_configured a))])"

definition focus_unlock_inputs :: "ui_app \<Rightarrow> ui_cmd list" where
  "focus_unlock_inputs a = focus_unlock_input a
     @ (if ui_applet_popup a \<noteq> None \<and> ui_tpm_status_known a then [Focus_Input (unlock_focus_id (ui_unlock_mode a))] else [])"

definition fetch_config_task :: ui_cmd where "fetch_config_task = Ask GetConfig To_Config"
definition check_tpm_task :: ui_cmd where "check_tpm_task = Ask CheckTpm To_TpmStatus"
definition check_tpm_da_task :: ui_cmd where "check_tpm_da_task = Ask GetTpmDaStatus To_TpmDa"
definition refresh_soon :: ui_cmd where "refresh_soon = Then (M_Lifecycle RefreshStateInternal)"

definition fetch_sidebar :: "ui_app \<Rightarrow> ui_cmd" where
  "fetch_sidebar a = Ask (sidebar_entries None None False) (To_Entries (ui_search_id a))"

text \<open>The refresh of the list: \<open>search_id += 1\<close> and a request that carries it.\<close>

definition refetch_sidebar :: "ui_app \<Rightarrow> ui_step" where
  "refetch_sidebar a = (let b = a\<lparr>ui_search_id := ui_search_id a + 1\<rparr> in (b, [fetch_sidebar b]))"

definition applet_rows_task :: "ui_app \<Rightarrow> ui_step" where
  "applet_rows_task a =
     (let b = a\<lparr>ui_applet_search_id := ui_applet_search_id a + 1\<rparr>;
          (q, pinned) = applet_rows_request (ui_applet_search_query b) (ui_applet_search_only_favourites b)
      in (b, [Ask (applet_search q pinned) (To_AppletSearch (ui_applet_search_id b))]))"

definition unlock_prompt_ready :: "ui_app \<Rightarrow> bool" where
  "unlock_prompt_ready a \<longleftrightarrow> ui_has_account a
     \<and> (case cfg_email (ui_config a) of Some e \<Rightarrow> trim e \<noteq> [] | None \<Rightarrow> False)"

definition unlock_payload :: "ui_env \<Rightarrow> notify_payload" where
  "unlock_payload U = \<lparr>np_app_name = ue_text U ''app-title'', np_app_icon = ''com.enikeev.cosmarden-symbolic'',
     np_summary = ue_text U ''unlock-requested-summary'', np_body = ue_text U ''unlock-requested-body''\<rparr>"

definition payload_if_ready :: "ui_env \<Rightarrow> bool \<Rightarrow> notify_payload option" where
  "payload_if_ready U ready = (if ready then Some (unlock_payload U) else None)"

definition on_unlock_event :: "ui_env \<Rightarrow> bool \<Rightarrow> ui_app \<Rightarrow> ui_step" where
  "on_unlock_event U pin a =
     (let payload = payload_if_ready U (unlock_prompt_ready a); b = a\<lparr>ui_last_unlock_notify := payload\<rparr> in
      case payload of
        None \<Rightarrow> (b, [fetch_config_task])
      | Some p \<Rightarrow>
          (let b = (if pin then b\<lparr>ui_unlock_mode := Mode_Pin, ui_password_preferred := False, ui_pin_incorrect := False\<rparr>
                    else b\<lparr>ui_unlock_mode := Mode_Password\<rparr>);
               b = b\<lparr>ui_view := View_Unlock, ui_selected_entry := None, ui_editing_entry := None,
                     ui_selected_entry_id := None\<rparr>
           in (b, Notify p # (if pin then [check_tpm_da_task] else []) @ focus_unlock_input b)))"

definition pin_intent_task :: "unlock_pin_intent \<Rightarrow> ui_cmd list" where
  "pin_intent_task i = (case i of Reseal a \<Rightarrow> [Ask a To_TpmSetup] | Clear_Stale a \<Rightarrow> [Ask a To_TpmDisable]
     | Do_Nothing pin \<Rightarrow> [])"

definition apply_unlock_pin_task :: "ui_app \<Rightarrow> ui_step" where
  "apply_unlock_pin_task a = (a\<lparr>ui_unlock_pin := [], ui_unlock_pin_revealed := False\<rparr>,
     pin_intent_task (apply_unlock_pin (ui_tpm_available a) (ui_tpm_configured a) (ui_unlock_pin a)))"

definition apply_login_pin_task :: "ui_app \<Rightarrow> ui_step" where
  "apply_login_pin_task a =
     (a\<lparr>ui_login_pin_enabled := False, ui_login_pin_revealed := False, ui_login_pin := []\<rparr>,
      pin_intent_task (apply_login_pin (ui_tpm_available a) (ui_tpm_configured a) (ui_login_pin_enabled a) (ui_login_pin a)))"

definition dispatch_on_demand :: "string \<Rightarrow> string \<Rightarrow> bool \<Rightarrow> string option \<Rightarrow> ui_cmd" where
  "dispatch_on_demand i f copy reprompt = Ask (on_demand_secret f i reprompt) (To_OnDemand f copy)"

definition APPLET_POPUP_REOPEN_DEBOUNCE_MS :: nat where "APPLET_POPUP_REOPEN_DEBOUNCE_MS = 200"

definition should_suppress_popup_reopen :: "nat option \<Rightarrow> nat \<Rightarrow> bool" where
  "should_suppress_popup_reopen closed now =
     (case closed of Some t \<Rightarrow> now - t < APPLET_POPUP_REOPEN_DEBOUNCE_MS | None \<Rightarrow> False)"

datatype activation_action = Act_SpawnVault | Act_Lock | Act_Generate | Act_Ignore

definition classify_activation :: "string \<Rightarrow> activation_action" where
  "classify_activation exec =
     (if exec = [] \<or> exec = ''open-vault'' then Act_SpawnVault
      else (case strip_prefix ''activate:'' exec of
              Some name \<Rightarrow> if name = ''lock'' then Act_Lock else if name = ''generate'' then Act_Generate else Act_Ignore
            | None \<Rightarrow> Act_Ignore))"

definition reset_applet_popup_state :: "ui_app \<Rightarrow> ui_app" where
  "reset_applet_popup_state a = a\<lparr>ui_applet_unlock_password := [], ui_applet_unlock_password_revealed := False,
     ui_applet_reprompt_id := None, ui_applet_reprompt_password := [],
     ui_applet_reprompt_password_revealed := False, ui_applet_error := None\<rparr>"

definition open_applet_popup_task :: "ui_app \<Rightarrow> ui_step" where
  "open_applet_popup_task a = (let b = reset_applet_popup_state a in
     (b, [Ask Action_Version To_Version, Focus_Input (unlock_focus_id (ui_unlock_mode b)), fetch_config_task, Popup_Open]))"

text \<open>The closure that the runtime calls when it creates the popup, with the new window id.\<close>

definition popup_created :: "nat \<Rightarrow> ui_app \<Rightarrow> ui_app" where
  "popup_created i a = a\<lparr>ui_applet_popup := Some i, ui_windows := i # removeAll i (ui_windows a)\<rparr>"

end
