(* ===== verification/Ui_Update.thy ===== *)
theory Ui_Update
  imports Ui_Helpers
begin

text \<open>
  The update functions of the user interface, one per file of \<open>app/update/\<close>: from the state and a message to
  the new state and what the runtime is asked to do. \<open>ui_update\<close> is \<open>update_app\<close>.
\<close>

section \<open>Configuration, events and the TPM status (\<open>lifecycle.rs\<close>)\<close>

definition stale_snapshot :: "ui_app \<Rightarrow> config_snapshot \<Rightarrow> bool" where
  "stale_snapshot a s = (case ui_last_config a of
     Some (sid, ep) \<Rightarrow> sid = cs_session_id s \<and> cs_lock_epoch s < ep | None \<Rightarrow> False)"

definition prefill_login :: "ui_app \<Rightarrow> ui_app" where
  "prefill_login a = a
     \<lparr>ui_login_email := (case cfg_email (ui_config a) of Some e \<Rightarrow> e | None \<Rightarrow> ui_login_email a),
      ui_login_server := (case cfg_base_url (ui_config a) of Some u \<Rightarrow> u | None \<Rightarrow> ui_login_server a)\<rparr>"

definition store_snapshot :: "config_snapshot \<Rightarrow> ui_app \<Rightarrow> ui_app" where
  "store_snapshot s a = a\<lparr>ui_last_config := Some (cs_session_id s, cs_lock_epoch s), ui_config := cs_config s,
     ui_config_loaded := True, ui_sync_failed := cs_sync_failed s, ui_has_account := cs_has_account s\<rparr>"

definition open_vault_view :: "ui_app \<Rightarrow> ui_step" where
  "open_vault_view a =
     (let (b, fetch) = refetch_sidebar (a\<lparr>ui_view := View_Vault\<rparr>);
          (c, rows) = (if ui_applet_popup b \<noteq> None then applet_rows_task b else (b, []))
      in (c\<lparr>ui_pending_vault_entry := None\<rparr>, fetch @ [check_tpm_task] @ rows
          @ (case ui_pending_vault_entry c of Some i \<Rightarrow> [Then (M_Vault (SelectEntry i))] | None \<Rightarrow> [])))"

definition config_received :: "config_snapshot \<Rightarrow> ui_app \<Rightarrow> ui_step" where
  "config_received s a =
     (if stale_snapshot a s then (a, [])
      else (let b = store_snapshot s a in
        if \<not> cs_has_account s then (prefill_login (b\<lparr>ui_view := View_Setup\<rparr>), [check_tpm_task])
        else if cs_is_locked s then
          (let c = prefill_login (b\<lparr>ui_view := View_Unlock\<rparr>) in (c, check_tpm_task # focus_unlock_input c))
        else open_vault_view b))"

fun event_received :: "ui_env \<Rightarrow> event \<Rightarrow> ui_app \<Rightarrow> ui_step" where
  "event_received U Locked a = (let b = wipe_for_lock a in (b, fetch_config_task # focus_unlock_input b))"
| "event_received U PinRequested a = on_unlock_event U True a"
| "event_received U UnlockRequested a = on_unlock_event U False a"
| "event_received U Unlocked a = (a\<lparr>ui_view := View_Vault\<rparr>, [refresh_soon])"
| "event_received U VaultChanged a = (a, [refresh_soon])"
| "event_received U (OpenEntry i) a =
     (if ui_view a = View_Vault then (a, [Then (M_Vault (SelectEntry i))])
      else (a\<lparr>ui_pending_vault_entry := Some i\<rparr>, []))"

definition tpm_status_received :: "bool \<Rightarrow> bool \<Rightarrow> ui_app \<Rightarrow> ui_step" where
  "tpm_status_received available configured a =
     (let b = a\<lparr>ui_tpm_status_known := True, ui_tpm_available := available, ui_tpm_configured := configured\<rparr>;
          b = (if configured \<and> ui_view b = View_Unlock \<and> \<not> ui_password_preferred b then b\<lparr>ui_unlock_mode := Mode_Pin\<rparr> else b);
          b = (if available then b else b\<lparr>ui_tpm_da := None\<rparr>)
      in (b, (if available then check_tpm_da_task else Ask CheckTpmDiagnostics To_TpmDiagnostics) # focus_unlock_input b))"

definition refresh_state :: "ui_app \<Rightarrow> ui_step" where
  "refresh_state a =
     (if ui_view a \<in> {View_Loading, View_Setup, View_Unlock} then (a, [fetch_config_task])
      else (let (b, fetch) = refetch_sidebar a;
                (c, rows) = (if ui_applet_popup b \<noteq> None then applet_rows_task b else (b, []))
            in (c, fetch_config_task # fetch @ rows)))"

fun update_lifecycle :: "ui_env \<Rightarrow> lifecycle_msg \<Rightarrow> ui_app \<Rightarrow> ui_step" where
  "update_lifecycle U (ConfigReceived (Inr s)) a = config_received s a"
| "update_lifecycle U (ConfigReceived (Inl e)) a = (a\<lparr>ui_error := Some e, ui_view := View_Setup\<rparr>, [check_tpm_task])"
| "update_lifecycle U (EventReceived ev) a = event_received U ev a"
| "update_lifecycle U (WindowClosed i) a =
     (let b = (if ui_applet_popup a = Some i then a\<lparr>ui_applet_popup := None, ui_applet_last_popup_closed_at := Some (ue_now U)\<rparr> else a)
      in (b\<lparr>ui_windows := removeAll i (ui_windows b)\<rparr>, []))"
| "update_lifecycle U (ProtocolVersionCheck r) a =
     (case r of Inr m \<Rightarrow> (a\<lparr>ui_protocol_mismatch := m\<rparr>, []) | Inl e \<Rightarrow> (a, []))"
| "update_lifecycle U (TpmStatusReceived (Inr (av, cf))) a = tpm_status_received av cf a"
| "update_lifecycle U (TpmStatusReceived (Inl e)) a =
     (let b = a\<lparr>ui_tpm_status_known := True, ui_tpm_available := False, ui_tpm_configured := False\<rparr>
      in (b, focus_unlock_input b))"
| "update_lifecycle U (TpmDaStatusReceived s) a = (a\<lparr>ui_tpm_da := s\<rparr>, [])"
| "update_lifecycle U (TpmDiagnosticsReceived cs) a = (a\<lparr>ui_tpm_diagnostics := cs\<rparr>, [])"
| "update_lifecycle U RefreshStateInternal a = refresh_state a"

section \<open>Login, unlock, lock and logout (\<open>auth.rs\<close>)\<close>

definition pin_too_short :: "string \<Rightarrow> bool" where
  "pin_too_short pin \<longleftrightarrow> char_count pin < MIN_PIN_LEN"

definition main_pin_failed :: "ui_env \<Rightarrow> string \<Rightarrow> ui_app \<Rightarrow> ui_step" where
  "main_pin_failed U e a =
     (if e = ERR_TPM_UNSEAL_FAILED then (a\<lparr>ui_error := None, ui_pin_incorrect := True\<rparr>, [check_tpm_da_task])
      else if e = ERR_TPM_STATE_CHANGED then
        (a\<lparr>ui_error := Some (ue_text U ''tpm-state-changed''), ui_pin_incorrect := False, ui_unlock_mode := Mode_Password\<rparr>, [])
      else if e = ERR_TPM_BLOB_MISSING then
        (a\<lparr>ui_error := Some (ue_text U ''tpm-blob-missing''), ui_pin_incorrect := False, ui_unlock_mode := Mode_Password\<rparr>, [])
      else (a\<lparr>ui_error := Some e\<rparr>, []))"

definition auth_succeeded :: "bool \<Rightarrow> ui_app \<Rightarrow> ui_step" where
  "auth_succeeded apply_pin a =
     (let b = a\<lparr>ui_view := View_Vault, ui_error := None, ui_pin_incorrect := False, ui_show_session_restore := False,
                ui_session_restore_password := []\<rparr>;
          (c, pin) = (if apply_pin then apply_unlock_pin_task b else apply_login_pin_task b)
      in (c\<lparr>ui_login_password := [], ui_unlock_password := []\<rparr>, fetch_sidebar b # refresh_soon # pin))"

definition auth_failed :: "string \<Rightarrow> ui_app \<Rightarrow> ui_app" where
  "auth_failed e a =
     (if e = ''new_device_verification_required''
      then a\<lparr>ui_show_verification_input := True, ui_error := None, ui_view := View_Setup\<rparr>
      else a\<lparr>ui_error := Some e, ui_view := (if cfg_email (ui_config a) \<noteq> None then View_Unlock else View_Setup)\<rparr>)"

fun update_auth :: "ui_env \<Rightarrow> auth_msg \<Rightarrow> ui_app \<Rightarrow> ui_step" where
  "update_auth U (EmailChanged s) a = (a\<lparr>ui_login_email := s\<rparr>, [])"
| "update_auth U (PasswordChanged s) a = (a\<lparr>ui_login_password := s\<rparr>, [])"
| "update_auth U (ServerChanged s) a = (a\<lparr>ui_login_server := s\<rparr>, [])"
| "update_auth U (RememberChanged b) a = (a\<lparr>ui_login_remember := b\<rparr>, [])"
| "update_auth U (VerificationCodeChanged s) a = (a\<lparr>ui_login_verification_code := s\<rparr>, [])"
| "update_auth U (LoginPinEnabledToggled v) a =
     (if v then (a\<lparr>ui_login_pin_enabled := True\<rparr>, [])
      else (a\<lparr>ui_login_pin_enabled := False, ui_login_pin := [], ui_login_pin_revealed := False\<rparr>, []))"
| "update_auth U (LoginPinChanged s) a = (a\<lparr>ui_login_pin := s\<rparr>, [])"
| "update_auth U LoginPinRevealToggled a = (a\<lparr>ui_login_pin_revealed := \<not> ui_login_pin_revealed a\<rparr>, [])"
| "update_auth U (MainWindowPinChanged s) a = (a\<lparr>ui_main_window_pin := s\<rparr>, [])"
| "update_auth U MainWindowPinSubmitted a =
     (a\<lparr>ui_auth_loading := True\<rparr>, [Ask (UnlockWithPin (ui_main_window_pin a)) To_MainWindowPin])"
| "update_auth U (MainWindowPinResult r) a =
     (let b = a\<lparr>ui_auth_loading := False, ui_main_window_pin := []\<rparr> in
      case r of
        Inr u \<Rightarrow> (b\<lparr>ui_view := View_Vault, ui_error := None, ui_pin_incorrect := False\<rparr>, [refresh_soon])
      | Inl e \<Rightarrow> main_pin_failed U e b)"
| "update_auth U LoginSubmitted a =
     (if ui_login_pin_enabled a \<and> pin_too_short (ui_login_pin a)
      then (a\<lparr>ui_error := Some (ue_text U ''pin-too-short'')\<rparr>, [])
      else (a\<lparr>ui_auth_loading := True\<rparr>, [Ask (login_request_of (ui_login_email a) (ui_login_password a)
        (ui_login_server a) (ui_login_remember a) (ui_login_verification_code a)) To_AuthResult]))"
| "update_auth U (UnlockPasswordChanged s) a = (a\<lparr>ui_unlock_password := s\<rparr>, [])"
| "update_auth U (UnlockPinChanged s) a = (a\<lparr>ui_unlock_pin := s\<rparr>, [])"
| "update_auth U UnlockPinRevealToggled a = (a\<lparr>ui_unlock_pin_revealed := \<not> ui_unlock_pin_revealed a\<rparr>, [])"
| "update_auth U SessionRestoreToggle a =
     (a\<lparr>ui_show_session_restore := \<not> ui_show_session_restore a, ui_session_restore_password := []\<rparr>, [])"
| "update_auth U (SessionRestorePasswordChanged s) a = (a\<lparr>ui_session_restore_password := s\<rparr>, [])"
| "update_auth U SessionRestoreRevealToggled a =
     (a\<lparr>ui_session_restore_revealed := \<not> ui_session_restore_revealed a\<rparr>, [])"
| "update_auth U SessionRestoreSubmitted a =
     (a\<lparr>ui_auth_loading := True\<rparr>, [Ask (Action_Unlock (ui_session_restore_password a)) To_AuthResult])"
| "update_auth U UnlockSubmitted a =
     (if ui_unlock_pin a \<noteq> [] \<and> pin_too_short (ui_unlock_pin a)
      then (a\<lparr>ui_error := Some (ue_text U ''pin-too-short'')\<rparr>, [])
      else (a\<lparr>ui_unlock_pin_apply_pending := True, ui_auth_loading := True\<rparr>,
            [Ask (Action_Unlock (ui_unlock_password a)) To_AuthResult]))"
| "update_auth U (AuthResult r) a =
     (let apply_pin = ui_unlock_pin_apply_pending a;
          b = a\<lparr>ui_auth_loading := False, ui_unlock_pin_apply_pending := False\<rparr> in
      case r of Inr u \<Rightarrow> auth_succeeded apply_pin b | Inl e \<Rightarrow> (auth_failed e b, []))"
| "update_auth U LockClicked a = (a, [Ask Action_Lock To_LockResult])"
| "update_auth U LockResult a = (let b = wipe_for_lock a in (b, focus_unlock_input b))"
| "update_auth U LogoutClicked a = (a, [Ask Logout To_LogoutResult])"
| "update_auth U LogoutResult a = (wipe_session_secrets (a\<lparr>ui_view := View_Setup\<rparr>), [])"

section \<open>List, selection and synchronising (\<open>vault.rs\<close>)\<close>

definition select_entry_id :: "string \<Rightarrow> ui_app \<Rightarrow> ui_step" where
  "select_entry_id i a =
     (a\<lparr>ui_selected_entry_id := Some i, ui_selected_entry := None, ui_editing_entry := None, ui_totp_code := None,
        ui_pending_secret_field := None, ui_reprompt_intent := None, ui_view := View_Vault\<rparr>,
      [Ask (fetch_entry i None) To_EntryReceived])"

definition entry_received :: "entry \<Rightarrow> ui_app \<Rightarrow> ui_step" where
  "entry_received e a =
     (let b = a\<lparr>ui_notes_content := [], ui_selected_entry := Some e, ui_show_reprompt := None,
                ui_reprompt_password := [], ui_reprompt_password_revealed := False\<rparr> in
      case notes_fetch_after_selection e of
        Some q \<Rightarrow> (b\<lparr>ui_pending_secret_field := Some ''Notes''\<rparr>, [Ask q (To_OnDemand ''Notes'' False)])
      | None \<Rightarrow> (b, []))"

definition drop_selection :: "ui_app \<Rightarrow> ui_app" where
  "drop_selection a = a\<lparr>ui_selected_entry_id := None, ui_selected_entry := None, ui_editing_entry := None\<rparr>"

definition entries_received :: "sidebar_entry list \<Rightarrow> ui_app \<Rightarrow> ui_app" where
  "entries_received es a =
     (let b = (refilter (a\<lparr>ui_all_entries := es\<rparr>))\<lparr>ui_error := None\<rparr> in
      case ui_selected_entry_id b of
        Some i \<Rightarrow> if i \<in> se_id ` set es then b else drop_selection b
      | None \<Rightarrow> b)"

fun flip_pin :: "string \<Rightarrow> sidebar_entry list \<Rightarrow> sidebar_entry list \<times> bool" where
  "flip_pin i [] = ([], False)"
| "flip_pin i (e # es) =
     (if se_id e = i then (e\<lparr>se_is_pinned := \<not> se_is_pinned e\<rparr> # es, \<not> se_is_pinned e)
      else (case flip_pin i es of (fs, p) \<Rightarrow> (e # fs, p)))"

definition toggle_entry_pin :: "string \<Rightarrow> ui_app \<Rightarrow> ui_step" where
  "toggle_entry_pin i a =
     (case flip_pin i (ui_entries a) of (es, pinned) \<Rightarrow>
       (a\<lparr>ui_entries := es,
          ui_selected_entry := map_option (\<lambda>e. if e_id e = i then e\<lparr>e_favorite := pinned\<rparr> else e) (ui_selected_entry a)\<rparr>,
        [Ask (toggle_pin i pinned) To_Nothing]))"

definition delete_answered :: "unit answer \<Rightarrow> ui_app \<Rightarrow> ui_step" where
  "delete_answered r a =
     (let b = a\<lparr>ui_deleting := False\<rparr> in
      case r of Inr u \<Rightarrow> refetch_sidebar (drop_selection b)
      | Inl e \<Rightarrow> (b\<lparr>ui_sync_failed := True, ui_error := Some e\<rparr>, []))"

definition sync_answered :: "unit answer \<Rightarrow> ui_app \<Rightarrow> ui_step" where
  "sync_answered r a =
     (let b = a\<lparr>ui_syncing := False\<rparr> in
      case r of Inr u \<Rightarrow> refetch_sidebar (b\<lparr>ui_sync_failed := False, ui_error := None\<rparr>)
      | Inl e \<Rightarrow> (b\<lparr>ui_sync_failed := True, ui_error := Some e\<rparr>, []))"

definition submit_reprompt :: "ui_app \<Rightarrow> ui_step" where
  "submit_reprompt a =
     (a, case ui_show_reprompt a of
           None \<Rightarrow> []
         | Some i \<Rightarrow> (case ui_reprompt_intent a of
             Some (Intent_Reveal f) \<Rightarrow> [dispatch_on_demand i f False (Some (ui_reprompt_password a))]
           | Some (Intent_Copy f) \<Rightarrow> [dispatch_on_demand i f True (Some (ui_reprompt_password a))]
           | q \<Rightarrow> [Ask (submit_reprompt_action q i (ui_reprompt_password a)) To_EditLoaded]))"

fun update_vault :: "ui_env \<Rightarrow> vault_msg \<Rightarrow> ui_app \<Rightarrow> ui_step" where
  "update_vault U (SearchChanged q) a = (refilter (a\<lparr>ui_search_query := q\<rparr>), [])"
| "update_vault U (FilterTabActivated i) a = (refilter (a\<lparr>ui_filter_type := idx_to_filter i\<rparr>), [])"
| "update_vault U (SelectEntry i) a = select_entry_id i a"
| "update_vault U (EntryReceived (Inr e)) a = entry_received e a"
| "update_vault U (EntryReceived (Inl m)) a =
     (if m = ''reprompt_required'' then (a\<lparr>ui_show_reprompt := ui_selected_entry_id a\<rparr>, [])
      else (a\<lparr>ui_error := Some m\<rparr>, []))"
| "update_vault U (DeleteEntryClicked i) a = (a\<lparr>ui_show_delete_confirm := Some i\<rparr>, [])"
| "update_vault U ConfirmDelete a =
     (a\<lparr>ui_deleting := True, ui_show_delete_confirm := None\<rparr>,
      (case ui_show_delete_confirm a of Some i \<Rightarrow> [Ask (DeleteEntry i) To_DeleteResult] | None \<Rightarrow> []))"
| "update_vault U CancelDelete a = (a\<lparr>ui_show_delete_confirm := None\<rparr>, [])"
| "update_vault U (DeleteEntryResult r) a = delete_answered r a"
| "update_vault U (EntriesReceived n r) a =
     (if n = ui_search_id a then
        (case r of Inr es \<Rightarrow> entries_received es a
         | Inl e \<Rightarrow> if e = ''agent is locked'' then a\<lparr>ui_all_entries := [], ui_entries := []\<rparr>
             else a\<lparr>ui_error := Some e\<rparr>)
      else a, [])"
| "update_vault U SyncClicked a = (a\<lparr>ui_syncing := True\<rparr>, [Ask Action_Sync To_SyncResult])"
| "update_vault U (SyncResult r) a = sync_answered r a"
| "update_vault U (TogglePin i) a = toggle_entry_pin i a"
| "update_vault U ToggleSearchPinned a = (refilter (a\<lparr>ui_search_only_pinned := \<not> ui_search_only_pinned a\<rparr>), [])"
| "update_vault U (RepromptPasswordChanged p) a = (a\<lparr>ui_reprompt_password := p\<rparr>, [])"
| "update_vault U SubmitReprompt a = submit_reprompt a"
| "update_vault U CancelReprompt a =
     (a\<lparr>ui_show_reprompt := None, ui_reprompt_intent := None, ui_reprompt_password := [],
        ui_reprompt_password_revealed := False\<rparr>, [])"

section \<open>The edit buffer (\<open>vault_edit.rs\<close>)\<close>

definition blank_login :: entry_data where
  "blank_login = Login \<lparr>lg_username = Some [], lg_password = Some (Secret []), lg_totp = None, lg_uris = []\<rparr>"

definition blank_entry :: "u64 \<Rightarrow> entry" where
  "blank_entry now_secs = \<lparr>e_id = new_placeholder_id now_secs, e_org_id = None, e_folder = None, e_folder_id = None,
     e_name = ''New Entry'', e_favorite = False, e_data = blank_login, e_fields = [], e_notes = Some (Secret []),
     e_history = [], e_key = None, e_reprompt = Reprompt_None\<rparr>"

text \<open>Blank notes are sent as none.\<close>

definition saved_entry :: "entry \<Rightarrow> entry" where
  "saved_entry e = (case e_notes e of Some n \<Rightarrow> if trim (expose n) = [] then e\<lparr>e_notes := None\<rparr> else e | None \<Rightarrow> e)"

fun edit_slot :: "string \<Rightarrow> string \<Rightarrow> entry_data \<Rightarrow> entry_data" where
  "edit_slot f v (Login l) =
     (if f = ''Username'' then Login (l\<lparr>lg_username := Some v\<rparr>)
      else if f = ''Password'' then Login (l\<lparr>lg_password := Some (Secret v)\<rparr>) else Login l)"
| "edit_slot f v (SshKey s) =
     (if f = ''Private Key'' then SshKey (s\<lparr>sk_private_key := Some (Secret v)\<rparr>)
      else if f = ''Public Key'' then SshKey (s\<lparr>sk_public_key := Some v\<rparr>)
      else if f = ''Fingerprint'' then SshKey (s\<lparr>sk_fingerprint := Some v\<rparr>) else SshKey s)"
| "edit_slot f v (Card c) =
     (if f = ''Card Number'' then Card (c\<lparr>cd_number := Some (Secret v)\<rparr>)
      else if f = ''Cardholder'' then Card (c\<lparr>cd_cardholder_name := Some v\<rparr>)
      else if f = ''Brand'' then Card (c\<lparr>cd_brand := Some v\<rparr>) else Card c)"
| "edit_slot f v (Identity i) =
     (if f = ''Username'' then Identity (i\<lparr>id_username := Some v\<rparr>)
      else if f = ''Email'' then Identity (i\<lparr>id_email := Some v\<rparr>) else Identity i)"
| "edit_slot f v d = d"

fun edit_custom :: "string \<Rightarrow> string \<Rightarrow> field list \<Rightarrow> field list" where
  "edit_custom n v [] = []"
| "edit_custom n v (f # fs) =
     (if f_name f = Some n then f\<lparr>f_value := Some (Secret v)\<rparr> # fs else f # edit_custom n v fs)"

definition edit_draft :: "string \<Rightarrow> string \<Rightarrow> entry \<Rightarrow> entry" where
  "edit_draft f v e = e\<lparr>e_data := edit_slot f v (e_data e), e_fields := edit_custom f v (e_fields e)\<rparr>"

definition retype_draft :: "entry_type \<Rightarrow> entry \<Rightarrow> entry" where
  "retype_draft ty e = (case ty of
     ET_Login \<Rightarrow> e\<lparr>e_data := blank_login\<rparr>
   | ET_SecureNote \<Rightarrow> e\<lparr>e_data := SecureNote\<rparr>
   | ET_SshKey \<Rightarrow> e\<lparr>e_data := SshKey \<lparr>sk_private_key = Some (Secret []), sk_public_key = Some [], sk_fingerprint = None\<rparr>\<rparr>
   | _ \<Rightarrow> e)"

definition save_succeeded :: "ui_app \<Rightarrow> ui_step" where
  "save_succeeded a =
     (let b = (case ui_selected_entry a of Some e \<Rightarrow> if is_new e then a\<lparr>ui_selected_entry := None\<rparr> else a | None \<Rightarrow> a);
          (c, fetch) = refetch_sidebar (b\<lparr>ui_editing_entry := None\<rparr>)
      in (c, fetch @ (case ui_selected_entry_id a of Some i \<Rightarrow> [Then (M_Vault (SelectEntry i))] | None \<Rightarrow> [])))"

definition selected_id :: "ui_app \<Rightarrow> string option" where
  "selected_id a = (case ui_selected_entry a of Some e \<Rightarrow> Some (e_id e) | None \<Rightarrow> ui_selected_entry_id a)"

fun update_vault_edit :: "ui_env \<Rightarrow> edit_msg \<Rightarrow> ui_app \<Rightarrow> ui_step" where
  "update_vault_edit U AddEntryRequested a =
     (a\<lparr>ui_selected_entry := Some (blank_entry (ue_secs U)), ui_editing_entry := Some (blank_entry (ue_secs U)),
        ui_selected_entry_id := None, ui_notes_content := [], ui_edit_password_revealed := False\<rparr>, [])"
| "update_vault_edit U EditEntry a =
     (a, case selected_id a of Some i \<Rightarrow> [Ask (fetch_full_entry i None) To_EditLoaded] | None \<Rightarrow> [])"
| "update_vault_edit U (EditEntryLoaded (Inr e)) a =
     (a\<lparr>ui_notes_content := (case e_notes e of Some n \<Rightarrow> expose n | None \<Rightarrow> []), ui_editing_entry := Some e,
        ui_edit_password_revealed := False, ui_show_reprompt := None, ui_reprompt_intent := None\<rparr>, [])"
| "update_vault_edit U (EditEntryLoaded (Inl m)) a =
     (if m = ''reprompt_required''
      then (a\<lparr>ui_show_reprompt := ui_selected_entry_id a, ui_reprompt_intent := Some Intent_Edit\<rparr>, [])
      else (a\<lparr>ui_error := Some m\<rparr>, []))"
| "update_vault_edit U CancelEdit a = (a\<lparr>ui_editing_entry := None, ui_notes_content := []\<rparr>, [])"
| "update_vault_edit U SaveEdit a =
     (a, case ui_editing_entry a of Some e \<Rightarrow> [Ask (save_action (saved_entry e)) To_SaveResult] | None \<Rightarrow> [])"
| "update_vault_edit U (SaveEditResult (Inr u)) a = save_succeeded a"
| "update_vault_edit U (SaveEditResult (Inl e)) a = (a\<lparr>ui_sync_failed := True, ui_error := Some e\<rparr>, [])"
| "update_vault_edit U (EditFieldChanged f v) a =
     (a\<lparr>ui_editing_entry := map_option (edit_draft f v) (ui_editing_entry a)\<rparr>, [])"
| "update_vault_edit U (EditNameChanged n) a =
     (a\<lparr>ui_editing_entry := map_option (\<lambda>e. e\<lparr>e_name := n\<rparr>) (ui_editing_entry a)\<rparr>, [])"
| "update_vault_edit U (NotesAction x) a =
     (let txt = ue_edit_text U x (ui_notes_content a) in
      (a\<lparr>ui_notes_content := txt,
         ui_editing_entry := map_option (\<lambda>e. e\<lparr>e_notes := Some (Secret txt)\<rparr>) (ui_editing_entry a)\<rparr>, []))"
| "update_vault_edit U (NewEntryTypeChanged ty) a =
     (a\<lparr>ui_editing_entry := map_option (retype_draft ty) (ui_editing_entry a)\<rparr>, [])"

section \<open>Secrets on demand (\<open>vault_secrets.rs\<close>)\<close>

definition toggle_reveal_field :: "string \<Rightarrow> string \<Rightarrow> ui_app \<Rightarrow> ui_step" where
  "toggle_reveal_field i f a =
     (if (i, f) \<in> ui_revealed_fields a then
        (let b = a\<lparr>ui_revealed_fields := ui_revealed_fields a - {(i, f)}\<rparr> in
         (if f = ''TOTP'' then b\<lparr>ui_totp_code := None\<rparr> else b, []))
      else if (case ui_selected_entry a of Some e \<Rightarrow> secret_is_loaded e f | None \<Rightarrow> False) then
        (a\<lparr>ui_revealed_fields := insert (i, f) (ui_revealed_fields a)\<rparr>, [])
      else (a\<lparr>ui_pending_secret_field := Some f\<rparr>, [dispatch_on_demand i f False None]))"

text \<open>The value that is copied without asking the agent.\<close>

definition loaded_plaintext :: "string \<Rightarrow> ui_app \<Rightarrow> string option" where
  "loaded_plaintext f a =
     (if f = ''TOTP'' then map_option expose (ui_totp_code a)
      else (case ui_selected_entry a of Some e \<Rightarrow> field_plaintext e f | None \<Rightarrow> None))"

definition copy_secret_field :: "string \<Rightarrow> string \<Rightarrow> ui_app \<Rightarrow> ui_step" where
  "copy_secret_field i f a = (case loaded_plaintext f a of
     Some v \<Rightarrow> copy_to_clipboard_with_autoclear v a
   | None \<Rightarrow> (a\<lparr>ui_pending_secret_field := Some f\<rparr>, [dispatch_on_demand i f True None]))"

fun put_password :: "secret \<Rightarrow> entry \<Rightarrow> entry" where
  "put_password p e = (case e_data e of Login l \<Rightarrow> e\<lparr>e_data := Login (l\<lparr>lg_password := Some p\<rparr>)\<rparr> | _ \<Rightarrow> e)"

fun take_payload :: "string \<Rightarrow> on_demand_payload \<Rightarrow> ui_app \<Rightarrow> ui_app \<times> string option" where
  "take_payload f (OD_Password p) a =
     (a\<lparr>ui_selected_entry := map_option (put_password p) (ui_selected_entry a)\<rparr>, Some (expose p))"
| "take_payload f (OD_Totp c) a = (a\<lparr>ui_totp_code := Some c\<rparr>, Some (expose c))"
| "take_payload f (OD_Entry e) a = (a\<lparr>ui_selected_entry := Some e\<rparr>, field_plaintext e f)"

definition secret_loaded :: "string \<Rightarrow> bool \<Rightarrow> on_demand_payload \<Rightarrow> ui_app \<Rightarrow> ui_step" where
  "secret_loaded f copy p a =
     (let (b, v) = take_payload f p a;
          b = (case ui_selected_entry_id b of
                 Some i \<Rightarrow> b\<lparr>ui_revealed_fields := insert (i, f) (ui_revealed_fields b)\<rparr> | None \<Rightarrow> b);
          b = b\<lparr>ui_pending_secret_field := None, ui_show_reprompt := None, ui_reprompt_intent := None\<rparr>
      in (case (copy, v) of (True, Some s) \<Rightarrow> copy_to_clipboard_with_autoclear s b | _ \<Rightarrow> (b, [])))"

fun update_vault_secrets :: "ui_env \<Rightarrow> secrets_msg \<Rightarrow> ui_app \<Rightarrow> ui_step" where
  "update_vault_secrets U (ToggleRevealField i f) a = toggle_reveal_field i f a"
| "update_vault_secrets U (CopySecretField i f) a = copy_secret_field i f a"
| "update_vault_secrets U (OnDemandSecretLoaded f copy (Inr p)) a = secret_loaded f copy p a"
| "update_vault_secrets U (OnDemandSecretLoaded f copy (Inl m)) a =
     (if m = ''reprompt_required''
      then (a\<lparr>ui_show_reprompt := ui_selected_entry_id a,
              ui_reprompt_intent := Some (if copy then Intent_Copy f else Intent_Reveal f)\<rparr>, [])
      else (a\<lparr>ui_error := Some m\<rparr>, []))"

section \<open>The applet (\<open>applet.rs\<close>)\<close>

definition destroy_popup :: "ui_app \<Rightarrow> ui_step" where
  "destroy_popup a = (case ui_applet_popup a of
     Some i \<Rightarrow> (a\<lparr>ui_applet_popup := None, ui_windows := removeAll i (ui_windows a)\<rparr>, [Popup_Destroy i])
   | None \<Rightarrow> (a, []))"

definition applet_icon_clicked :: "ui_env \<Rightarrow> ui_app \<Rightarrow> ui_step" where
  "applet_icon_clicked U a =
     (if ui_applet_popup a \<noteq> None then
        (case destroy_popup a of (b, cs) \<Rightarrow> (b\<lparr>ui_applet_last_popup_closed_at := Some (ue_now U)\<rparr>, cs))
      else if should_suppress_popup_reopen (ui_applet_last_popup_closed_at a) (ue_now U) then
        (a\<lparr>ui_applet_last_popup_closed_at := None\<rparr>, [])
      else open_applet_popup_task (a\<lparr>ui_applet_last_popup_closed_at := None\<rparr>))"

definition applet_pin_failed :: "ui_env \<Rightarrow> string \<Rightarrow> ui_app \<Rightarrow> ui_step" where
  "applet_pin_failed U e a =
     (let b = a\<lparr>ui_view := View_Unlock\<rparr> in
      if e = ERR_TPM_UNSEAL_FAILED then
        (b\<lparr>ui_applet_error := None, ui_error := None, ui_pin_incorrect := True\<rparr>, [check_tpm_da_task])
      else if e = ERR_TPM_STATE_CHANGED then
        (b\<lparr>ui_applet_error := None, ui_error := Some (ue_text U ''tpm-state-changed''), ui_pin_incorrect := False,
           ui_unlock_mode := Mode_Password\<rparr>, [])
      else if e = ERR_TPM_BLOB_MISSING then
        (b\<lparr>ui_applet_error := None, ui_error := Some (ue_text U ''tpm-blob-missing''), ui_pin_incorrect := False,
           ui_unlock_mode := Mode_Password\<rparr>, [])
      else (b\<lparr>ui_applet_error := Some e, ui_error := Some e\<rparr>, []))"

definition applet_unlocked :: "ui_app \<Rightarrow> ui_step" where
  "applet_unlocked a =
     (let (b, rows) = applet_rows_task (a\<lparr>ui_applet_error := None, ui_view := View_Vault\<rparr>);
          (c, pin) = apply_unlock_pin_task b
      in (c, rows @ pin))"

fun update_applet :: "ui_env \<Rightarrow> applet_msg \<Rightarrow> ui_app \<Rightarrow> ui_step" where
  "update_applet U AppletIconClicked a = applet_icon_clicked U a"
| "update_applet U Exit a = (case destroy_popup a of (b, cs) \<Rightarrow> (b, cs @ [Close_App]))"
| "update_applet U OpenVaultRequested a =
     (case destroy_popup a of (b, cs) \<Rightarrow> (b, cs @ (if ui_token_tx b then [Token_Request] else [Spawn_App None])))"
| "update_applet U Token_Init a = (a\<lparr>ui_token_tx := True\<rparr>, [])"
| "update_applet U Token_Finished a = (a\<lparr>ui_token_tx := False\<rparr>, [])"
| "update_applet U (Token_Activation tok exec) a = (case classify_activation exec of
     Act_SpawnVault \<Rightarrow> (a, [Spawn_App tok])
   | Act_Lock \<Rightarrow> update_auth U LockClicked a
   | Act_Generate \<Rightarrow> (a, [Ask generate_with_stored To_AppletGenerated])
   | Act_Ignore \<Rightarrow> (a, []))"
| "update_applet U (AppletUnlockPasswordChanged p) a = (a\<lparr>ui_applet_unlock_password := p\<rparr>, [])"
| "update_applet U AppletUnlockSubmitted a =
     (if ui_unlock_pin a \<noteq> [] \<and> pin_too_short (ui_unlock_pin a)
      then (a\<lparr>ui_applet_error := Some (ue_text U ''pin-too-short'')\<rparr>, [])
      else (a, [Ask (Action_Unlock (ui_applet_unlock_password a)) To_AppletUnlock]))"
| "update_applet U (AppletUnlockResult r) a =
     (let b = a\<lparr>ui_applet_unlock_password := []\<rparr> in
      case r of Inr u \<Rightarrow> applet_unlocked b | Inl e \<Rightarrow> (b\<lparr>ui_applet_error := Some e\<rparr>, []))"
| "update_applet U AppletToggleUnlockPasswordReveal a =
     (a\<lparr>ui_applet_unlock_password_revealed := \<not> ui_applet_unlock_password_revealed a\<rparr>, [])"
| "update_applet U AppletToggleRepromptPasswordReveal a =
     (a\<lparr>ui_applet_reprompt_password_revealed := \<not> ui_applet_reprompt_password_revealed a\<rparr>, [])"
| "update_applet U AppletTogglePinReveal a = (a\<lparr>ui_applet_pin_revealed := \<not> ui_applet_pin_revealed a\<rparr>, [])"
| "update_applet U (AppletPinChanged p) a = (a\<lparr>ui_applet_pin := p\<rparr>, [])"
| "update_applet U AppletPinSubmitted a = (a, [Ask (UnlockWithPin (ui_applet_pin a)) To_AppletPin])"
| "update_applet U (AppletPinResult r) a =
     (let b = a\<lparr>ui_applet_pin := [], ui_applet_pin_revealed := False\<rparr> in
      case r of
        Inr u \<Rightarrow> (b\<lparr>ui_applet_error := None, ui_error := None, ui_pin_incorrect := False, ui_view := View_Vault\<rparr>, [refresh_soon])
      | Inl e \<Rightarrow> applet_pin_failed U e b)"
| "update_applet U AppletUseMasterPasswordInstead a =
     (let b = a\<lparr>ui_unlock_mode := Mode_Password, ui_password_preferred := True, ui_pin_incorrect := False\<rparr>
      in (b, focus_unlock_inputs b))"

fun update_row :: "ui_env \<Rightarrow> row_msg \<Rightarrow> ui_app \<Rightarrow> ui_step" where
  "update_row U (AppletSearchChanged q) a = applet_rows_task (a\<lparr>ui_applet_search_query := q\<rparr>)"
| "update_row U AppletToggleFavouritesFilter a =
     applet_rows_task (a\<lparr>ui_applet_search_only_favourites := \<not> ui_applet_search_only_favourites a\<rparr>)"
| "update_row U (AppletSearchResultsReceived n r) a =
     (if n = ui_applet_search_id a then
        (case r of Inr es \<Rightarrow> a\<lparr>ui_applet_search_results := es, ui_applet_error := None\<rparr>
         | Inl e \<Rightarrow> if e = ''agent is locked'' then a else a\<lparr>ui_applet_error := Some e\<rparr>)
      else a, [])"
| "update_row U (AppletCopyPrimary i) a =
     (case List.find (\<lambda>e. se_id e = i) (ui_applet_search_results a) of
        Some e \<Rightarrow> (case se_username e of Some u \<Rightarrow> applet_copy_to_clipboard u a | None \<Rightarrow> (a, []))
      | None \<Rightarrow> (a, []))"
| "update_row U (AppletCopySecret i) a = (a, [Ask (fetch_password i None) (To_AppletSecret i)])"
| "update_row U (AppletOpenInVault i) a = (a, [Ask (SetPendingEntry i) To_OpenVault])"
| "update_row U (AppletOpenLink uri) a = (a, [Open_Link uri])"
| "update_row U (AppletSecretReceived (Inr s)) a = applet_copy_to_clipboard (expose s)
     (a\<lparr>ui_applet_reprompt_id := None, ui_applet_reprompt_password := [], ui_applet_error := None\<rparr>)"
| "update_row U (AppletSecretReceived (Inl (i, m))) a =
     (if m = ''reprompt_required''
      then (a\<lparr>ui_applet_reprompt_id := Some i, ui_applet_reprompt_password := []\<rparr>, [Focus_Input ''applet-reprompt-password''])
      else (a\<lparr>ui_applet_error := Some m\<rparr>, []))"
| "update_row U AppletGeneratePasswordRequested a = (a, [Ask generate_with_stored To_AppletGenerated])"
| "update_row U (AppletGeneratePasswordReceived r) a =
     (case r of Inr p \<Rightarrow> applet_copy_to_clipboard (expose p) a | Inl e \<Rightarrow> (a\<lparr>ui_applet_error := Some e\<rparr>, []))"
| "update_row U (AppletRepromptPasswordChanged p) a = (a\<lparr>ui_applet_reprompt_password := p\<rparr>, [])"
| "update_row U AppletRepromptSubmitted a =
     (a, case ui_applet_reprompt_id a of
           Some i \<Rightarrow> [Ask (fetch_password i (Some (ui_applet_reprompt_password a))) (To_AppletSecret i)] | None \<Rightarrow> [])"
| "update_row U AppletRepromptCancelled a = (a\<lparr>ui_applet_reprompt_id := None, ui_applet_reprompt_password := []\<rparr>, [])"

fun update_tpm :: "ui_env \<Rightarrow> tpm_msg \<Rightarrow> ui_app \<Rightarrow> ui_step" where
  "update_tpm U TpmSetupFormToggle a =
     (a\<lparr>ui_show_tpm_setup_form := \<not> ui_show_tpm_setup_form a, ui_tpm_setup_pin := [],
        ui_tpm_setup_pin_revealed := False, ui_tpm_error := None\<rparr>, [])"
| "update_tpm U TpmDisableFormToggle a =
     (a\<lparr>ui_show_tpm_disable_form := \<not> ui_show_tpm_disable_form a, ui_tpm_error := None\<rparr>, [])"
| "update_tpm U (TpmSetupPinChanged p) a = (a\<lparr>ui_tpm_setup_pin := p\<rparr>, [])"
| "update_tpm U TpmSetupPinRevealToggled a = (a\<lparr>ui_tpm_setup_pin_revealed := \<not> ui_tpm_setup_pin_revealed a\<rparr>, [])"
| "update_tpm U TpmSetupSubmitted a =
     (if pin_too_short (ui_tpm_setup_pin a) then (a\<lparr>ui_applet_error := Some (ue_text U ''pin-too-short'')\<rparr>, [])
      else (a, [Ask (SetupTpmPinFromUnlocked (ui_tpm_setup_pin a)) To_TpmSetup]))"
| "update_tpm U (TpmSetupResult r) a =
     (let b = a\<lparr>ui_tpm_setup_pin := [], ui_tpm_setup_pin_revealed := False, ui_show_tpm_setup_form := False\<rparr> in
      case r of
        Inr u \<Rightarrow> (b\<lparr>ui_tpm_configured := True, ui_applet_error := None, ui_tpm_error := None\<rparr>, [check_tpm_da_task])
      | Inl e \<Rightarrow> (b\<lparr>ui_tpm_error := Some e, ui_applet_error := Some e\<rparr>, []))"
| "update_tpm U TpmDisableSubmitted a = (a, [Ask DisableTpmPin To_TpmDisable])"
| "update_tpm U (TpmDisableResult r) a =
     (let b = a\<lparr>ui_show_tpm_disable_form := False\<rparr> in
      case r of
        Inr u \<Rightarrow> (b\<lparr>ui_tpm_configured := False, ui_unlock_mode := Mode_Password, ui_password_preferred := True,
                    ui_applet_error := None, ui_tpm_error := None\<rparr>, [check_tpm_da_task])
      | Inl e \<Rightarrow> (b\<lparr>ui_tpm_error := Some e, ui_applet_error := Some e\<rparr>, []))"

section \<open>The generator pane (\<open>pwgen.rs\<close>)\<close>

definition fetch_generator_history :: ui_cmd where
  "fetch_generator_history = Ask GetPasswordHistory To_GeneratorHistory"

fun update_pwgen :: "ui_env \<Rightarrow> pwgen_msg \<Rightarrow> ui_app \<Rightarrow> ui_step" where
  "update_pwgen U GeneratorViewClicked a =
     ((drop_selection a)\<lparr>ui_view := View_PasswordGenerator, ui_generator_tab := 0\<rparr>,
      [Ask GetGeneratorSettings To_GeneratorSettings, fetch_generator_history])"
| "update_pwgen U (GeneratorTabActivated i) a = (a\<lparr>ui_generator_tab := i\<rparr>, [])"
| "update_pwgen U (GeneratorUppercaseToggled v) a =
     (a\<lparr>ui_generator_settings := (ui_generator_settings a)\<lparr>gs_uppercase := v\<rparr>\<rparr>, [])"
| "update_pwgen U (GeneratorLowercaseToggled v) a =
     (a\<lparr>ui_generator_settings := (ui_generator_settings a)\<lparr>gs_lowercase := v\<rparr>\<rparr>, [])"
| "update_pwgen U (GeneratorNumbersToggled v) a =
     (a\<lparr>ui_generator_settings := (ui_generator_settings a)\<lparr>gs_numbers := v\<rparr>\<rparr>, [])"
| "update_pwgen U (GeneratorSpecialToggled v) a =
     (a\<lparr>ui_generator_settings := (ui_generator_settings a)\<lparr>gs_special := v\<rparr>\<rparr>, [])"
| "update_pwgen U (GeneratorLengthChanged v) a =
     (a\<lparr>ui_generator_settings := (ui_generator_settings a)\<lparr>gs_length := ucast v\<rparr>\<rparr>, [])"
| "update_pwgen U GeneratorResetClicked a = (a\<lparr>ui_generator_settings := default_generator_settings\<rparr>, [])"
| "update_pwgen U GeneratorGenerateClicked a = (a, [Ask (generate_with (ui_generator_settings a)) To_Generated])"
| "update_pwgen U (GeneratorGenerated r) a =
     (case r of
        Inr p \<Rightarrow> (a\<lparr>ui_generator_result := Some p, ui_generator_result_revealed := False, ui_generator_error := None\<rparr>,
                  [fetch_generator_history])
      | Inl e \<Rightarrow> (a\<lparr>ui_generator_error := Some e\<rparr>, []))"
| "update_pwgen U GeneratorRevealToggled a =
     (a\<lparr>ui_generator_result_revealed := \<not> ui_generator_result_revealed a\<rparr>, [])"
| "update_pwgen U (GeneratorSettingsReceived r) a =
     (case r of Inr s \<Rightarrow> (a\<lparr>ui_generator_settings := s\<rparr>, []) | Inl e \<Rightarrow> (a, []))"
| "update_pwgen U (GeneratorHistoryReceived r) a =
     (case r of
        Inr es \<Rightarrow> (a\<lparr>ui_generator_history := es, ui_generator_history_revealed := {}\<rparr>, [])
      | Inl e \<Rightarrow> (a\<lparr>ui_generator_error := Some e\<rparr>, []))"
| "update_pwgen U (GeneratorHistoryRevealToggled i) a =
     (a\<lparr>ui_generator_history_revealed := (if i \<in> ui_generator_history_revealed a
          then ui_generator_history_revealed a - {i} else insert i (ui_generator_history_revealed a))\<rparr>, [])"
| "update_pwgen U (GeneratorHistoryDeleteRequested i) a = (a\<lparr>ui_generator_history_delete_pending := Some i\<rparr>, [])"
| "update_pwgen U GeneratorHistoryDeleteCancelled a = (a\<lparr>ui_generator_history_delete_pending := None\<rparr>, [])"
| "update_pwgen U GeneratorHistoryDeleteConfirmed a =
     (a\<lparr>ui_generator_history_delete_pending := None\<rparr>,
      case ui_generator_history_delete_pending a of
        Some i \<Rightarrow> if i < length (ui_generator_history a)
          then [Ask (DeleteGeneratedPassword (gh_created_at (ui_generator_history a ! i))) To_HistoryDeleted] else []
      | None \<Rightarrow> [])"
| "update_pwgen U (GeneratorHistoryDeleted r) a =
     (case r of Inr u \<Rightarrow> (a, [fetch_generator_history]) | Inl e \<Rightarrow> (a\<lparr>ui_generator_error := Some e\<rparr>, []))"

section \<open>Clipboard and settings (\<open>mod.rs\<close>)\<close>

definition clipboard_readback :: "u32 \<Rightarrow> string option \<Rightarrow> ui_app \<Rightarrow> ui_step" where
  "clipboard_readback generation contents a =
     (if generation \<noteq> ui_clipboard_clear_generation a then (a, [])
      else (case ui_clipboard_pending_clear a of
              None \<Rightarrow> (a, [])
            | Some ours \<Rightarrow> (a\<lparr>ui_clipboard_pending_clear := None\<rparr>,
                if contents = Some ours then [Clipboard_Write []] else [])))"

definition merged_config :: "config \<Rightarrow> config \<Rightarrow> config" where
  "merged_config on_disk edited = on_disk\<lparr>cfg_base_url := cfg_base_url edited, cfg_lock_timeout := cfg_lock_timeout edited\<rparr>"

definition save_settings :: "ui_env \<Rightarrow> config \<Rightarrow> ui_app \<Rightarrow> ui_step" where
  "save_settings U edited a =
     (if \<not> ui_config_loaded a then (a\<lparr>ui_error := Some (ue_text U ''settings-save-not-loaded'')\<rparr>, [])
      else (case ue_load_config U of
              Inl e \<Rightarrow> (a\<lparr>ui_error := Some (ue_save_failed_text U (error_display e))\<rparr>, [])
            | Inr on_disk \<Rightarrow>
                (case ue_save_error U of
                   Some e \<Rightarrow> (a\<lparr>ui_error := Some (ue_save_failed_text U (error_display e))\<rparr>, [])
                 | None \<Rightarrow>
                     (a\<lparr>ui_editing_config := None, ui_config := merged_config on_disk edited, ui_view := View_Settings\<rparr>,
                      [Write_Config (merged_config on_disk edited),
                       Ask (UpdateLockTimeout (cfg_lock_timeout edited)) To_Nothing]))))"

fun update_rest :: "ui_env \<Rightarrow> app_msg \<Rightarrow> ui_app \<Rightarrow> ui_step" where
  "update_rest U (CopyToClipboardClicked txt) a = copy_to_clipboard_with_autoclear txt a"
| "update_rest U (ClipboardClearElapsed n) a =
     (a, if n = ui_clipboard_clear_generation a \<and> ui_clipboard_pending_clear a \<noteq> None then [Clipboard_Read n] else [])"
| "update_rest U (ClipboardClearReadback n contents) a = clipboard_readback n contents a"
| "update_rest U ToggleMasterPasswordReveal a = (a\<lparr>ui_master_password_revealed := \<not> ui_master_password_revealed a\<rparr>, [])"
| "update_rest U ToggleEditPasswordReveal a = (a\<lparr>ui_edit_password_revealed := \<not> ui_edit_password_revealed a\<rparr>, [])"
| "update_rest U ToggleRepromptPasswordReveal a =
     (a\<lparr>ui_reprompt_password_revealed := \<not> ui_reprompt_password_revealed a\<rparr>, [])"
| "update_rest U SettingsViewClicked a = ((drop_selection a)\<lparr>ui_view := View_Settings\<rparr>, [check_tpm_task])"
| "update_rest U SettingsEditClicked a = (a\<lparr>ui_editing_config := Some (ui_config a)\<rparr>, [])"
| "update_rest U SettingsSaveClicked a =
     (case ui_editing_config a of Some edited \<Rightarrow> save_settings U edited a | None \<Rightarrow> (a, []))"
| "update_rest U SettingsCancelClicked a = (a\<lparr>ui_editing_config := None\<rparr>, [])"
| "update_rest U (SettingsServerChanged s) a =
     (a\<lparr>ui_editing_config := map_option (\<lambda>c. c\<lparr>cfg_base_url := Some s\<rparr>) (ui_editing_config a)\<rparr>, [])"
| "update_rest U (SettingsLockTimeoutChanged minutes) a =
     (a\<lparr>ui_editing_config := map_option (\<lambda>c. c\<lparr>cfg_lock_timeout := ucast minutes * 60\<rparr>) (ui_editing_config a)\<rparr>, [])"
| "update_rest U ToggleAdvanced a = (a\<lparr>ui_show_advanced := \<not> ui_show_advanced a\<rparr>, [])"

section \<open>All messages\<close>

fun ui_update :: "ui_env \<Rightarrow> ui_message \<Rightarrow> ui_app \<Rightarrow> ui_step" where
  "ui_update U (M_Lifecycle m) a = update_lifecycle U m a"
| "ui_update U (M_Auth m) a = update_auth U m a"
| "ui_update U (M_Vault m) a = update_vault U m a"
| "ui_update U (M_Edit m) a = update_vault_edit U m a"
| "ui_update U (M_Secrets m) a = update_vault_secrets U m a"
| "ui_update U (M_Applet m) a = update_applet U m a"
| "ui_update U (M_Row m) a = update_row U m a"
| "ui_update U (M_Tpm m) a = update_tpm U m a"
| "ui_update U (M_Pwgen m) a = update_pwgen U m a"
| "ui_update U (M_App m) a = update_rest U m a"

section \<open>The application (\<open>runtime.rs\<close>)\<close>

text \<open>The socket that \<open>init\<close> sets: the flag, else what the configuration says unless the environment names one.\<close>

definition startup_socket :: "string option \<Rightarrow> bool \<Rightarrow> error + config \<Rightarrow> string option" where
  "startup_socket flag env_set cfg = (case flag of
     Some p \<Rightarrow> Some p
   | None \<Rightarrow> if env_set then None else (case cfg of Inr c \<Rightarrow> cfg_socket_path c | Inl e \<Rightarrow> None))"

definition ui_init :: ui_step where
  "ui_init = (ui_default, [Ask Action_Version To_Version, Ask GetConfig To_FirstConfig])"

text \<open>
  The messages of the agent's subscription, from what is read on its connection: the outcome of each
  read. A failed read ends the stream with one message.
\<close>

fun agent_subscription :: "(error + response) list \<Rightarrow> ui_message list" where
  "agent_subscription [] = []"
| "agent_subscription (Inl e # rs) = [M_Lifecycle RefreshStateInternal]"
| "agent_subscription (Inr (Event ev) # rs) = M_Lifecycle (EventReceived ev) # agent_subscription rs"
| "agent_subscription (Inr r # rs) = agent_subscription rs"

end
