(* ===== verification/Ui_Debug.thy ===== *)
theory Ui_Debug
  imports Ui_State Debug_Output
begin

text \<open>
  The hand-written \<open>Debug\<close> of the messages of the user interface, \<open>message/debug_impls.rs\<close>:
  \<open>variant_name\<close> (its arms grouped by the datatypes of the messages) and the formatter.
\<close>

definition message_variant_name :: "ui_message \<Rightarrow> string" where
  "message_variant_name m = (case m of
     M_Lifecycle x \<Rightarrow> (case x of
       ConfigReceived _ \<Rightarrow> ''ConfigReceived''
     | EventReceived _ \<Rightarrow> ''EventReceived''
     | WindowClosed _ \<Rightarrow> ''WindowClosed''
     | ProtocolVersionCheck _ \<Rightarrow> ''ProtocolVersionCheck''
     | TpmStatusReceived _ \<Rightarrow> ''TpmStatusReceived''
     | TpmDaStatusReceived _ \<Rightarrow> ''TpmDaStatusReceived''
     | TpmDiagnosticsReceived _ \<Rightarrow> ''TpmDiagnosticsReceived''
     | RefreshStateInternal \<Rightarrow> ''RefreshStateInternal'')
   | M_Auth x \<Rightarrow> (case x of
       EmailChanged _ \<Rightarrow> ''EmailChanged''
     | PasswordChanged _ \<Rightarrow> ''PasswordChanged''
     | ServerChanged _ \<Rightarrow> ''ServerChanged''
     | RememberChanged _ \<Rightarrow> ''RememberChanged''
     | VerificationCodeChanged _ \<Rightarrow> ''VerificationCodeChanged''
     | LoginPinEnabledToggled _ \<Rightarrow> ''LoginPinEnabledToggled''
     | LoginPinChanged _ \<Rightarrow> ''LoginPinChanged''
     | LoginPinRevealToggled \<Rightarrow> ''LoginPinRevealToggled''
     | MainWindowPinChanged _ \<Rightarrow> ''MainWindowPinChanged''
     | MainWindowPinSubmitted \<Rightarrow> ''MainWindowPinSubmitted''
     | MainWindowPinResult _ \<Rightarrow> ''MainWindowPinResult''
     | LoginSubmitted \<Rightarrow> ''LoginSubmitted''
     | UnlockPasswordChanged _ \<Rightarrow> ''UnlockPasswordChanged''
     | UnlockPinChanged _ \<Rightarrow> ''UnlockPinChanged''
     | UnlockPinRevealToggled \<Rightarrow> ''UnlockPinRevealToggled''
     | SessionRestoreToggle \<Rightarrow> ''SessionRestoreToggle''
     | SessionRestorePasswordChanged _ \<Rightarrow> ''SessionRestorePasswordChanged''
     | SessionRestoreRevealToggled \<Rightarrow> ''SessionRestoreRevealToggled''
     | SessionRestoreSubmitted \<Rightarrow> ''SessionRestoreSubmitted''
     | UnlockSubmitted \<Rightarrow> ''UnlockSubmitted''
     | AuthResult _ \<Rightarrow> ''AuthResult''
     | LockClicked \<Rightarrow> ''LockClicked''
     | LockResult \<Rightarrow> ''LockResult''
     | LogoutClicked \<Rightarrow> ''LogoutClicked''
     | LogoutResult \<Rightarrow> ''LogoutResult'')
   | M_Vault x \<Rightarrow> (case x of
       SearchChanged _ \<Rightarrow> ''SearchChanged''
     | FilterTabActivated _ \<Rightarrow> ''FilterTabActivated''
     | SelectEntry _ \<Rightarrow> ''SelectEntry''
     | EntryReceived _ \<Rightarrow> ''EntryReceived''
     | DeleteEntryClicked _ \<Rightarrow> ''DeleteEntry''
     | ConfirmDelete \<Rightarrow> ''ConfirmDelete''
     | CancelDelete \<Rightarrow> ''CancelDelete''
     | DeleteEntryResult _ \<Rightarrow> ''DeleteEntryResult''
     | EntriesReceived _ _ \<Rightarrow> ''EntriesReceived''
     | SyncClicked \<Rightarrow> ''SyncClicked''
     | SyncResult _ \<Rightarrow> ''SyncResult''
     | TogglePin _ \<Rightarrow> ''TogglePin''
     | ToggleSearchPinned \<Rightarrow> ''ToggleSearchPinned''
     | RepromptPasswordChanged _ \<Rightarrow> ''RepromptPasswordChanged''
     | SubmitReprompt \<Rightarrow> ''SubmitReprompt''
     | CancelReprompt \<Rightarrow> ''CancelReprompt'')
   | M_Edit x \<Rightarrow> (case x of
       AddEntryRequested \<Rightarrow> ''AddEntryRequested''
     | EditEntry \<Rightarrow> ''EditEntry''
     | EditEntryLoaded _ \<Rightarrow> ''EditEntryLoaded''
     | CancelEdit \<Rightarrow> ''CancelEdit''
     | SaveEdit \<Rightarrow> ''SaveEdit''
     | SaveEditResult _ \<Rightarrow> ''SaveEditResult''
     | EditFieldChanged _ _ \<Rightarrow> ''EditFieldChanged''
     | EditNameChanged _ \<Rightarrow> ''EditNameChanged''
     | NotesAction _ \<Rightarrow> ''NotesAction''
     | NewEntryTypeChanged _ \<Rightarrow> ''NewEntryTypeChanged'')
   | M_Secrets x \<Rightarrow> (case x of
       ToggleRevealField _ _ \<Rightarrow> ''ToggleRevealField''
     | CopySecretField _ _ \<Rightarrow> ''CopySecretField''
     | OnDemandSecretLoaded _ _ _ \<Rightarrow> ''OnDemandSecretLoaded'')
   | M_Applet x \<Rightarrow> (case x of
       AppletIconClicked \<Rightarrow> ''AppletIconClicked''
     | Exit \<Rightarrow> ''Exit''
     | OpenVaultRequested \<Rightarrow> ''OpenVaultRequested''
     | Token_Init \<Rightarrow> ''Token''
     | Token_Finished \<Rightarrow> ''Token''
     | Token_Activation _ _ \<Rightarrow> ''Token''
     | AppletUnlockPasswordChanged _ \<Rightarrow> ''AppletUnlockPasswordChanged''
     | AppletUnlockSubmitted \<Rightarrow> ''AppletUnlockSubmitted''
     | AppletUnlockResult _ \<Rightarrow> ''AppletUnlockResult''
     | AppletToggleUnlockPasswordReveal \<Rightarrow> ''AppletToggleUnlockPasswordReveal''
     | AppletToggleRepromptPasswordReveal \<Rightarrow> ''AppletToggleRepromptPasswordReveal''
     | AppletTogglePinReveal \<Rightarrow> ''AppletTogglePinReveal''
     | AppletPinChanged _ \<Rightarrow> ''AppletPinChanged''
     | AppletPinSubmitted \<Rightarrow> ''AppletPinSubmitted''
     | AppletPinResult _ \<Rightarrow> ''AppletPinResult''
     | AppletUseMasterPasswordInstead \<Rightarrow> ''AppletUseMasterPasswordInstead'')
   | M_Row x \<Rightarrow> (case x of
       AppletSearchChanged _ \<Rightarrow> ''AppletSearchChanged''
     | AppletToggleFavouritesFilter \<Rightarrow> ''AppletToggleFavouritesFilter''
     | AppletSearchResultsReceived _ _ \<Rightarrow> ''AppletSearchResultsReceived''
     | AppletCopyPrimary _ \<Rightarrow> ''AppletCopyPrimary''
     | AppletCopySecret _ \<Rightarrow> ''AppletCopySecret''
     | AppletOpenInVault _ \<Rightarrow> ''AppletOpenInVault''
     | AppletOpenLink _ \<Rightarrow> ''AppletOpenLink''
     | AppletSecretReceived _ \<Rightarrow> ''AppletSecretReceived''
     | AppletGeneratePasswordRequested \<Rightarrow> ''AppletGeneratePasswordRequested''
     | AppletGeneratePasswordReceived _ \<Rightarrow> ''AppletGeneratePasswordReceived''
     | AppletRepromptPasswordChanged _ \<Rightarrow> ''AppletRepromptPasswordChanged''
     | AppletRepromptSubmitted \<Rightarrow> ''AppletRepromptSubmitted''
     | AppletRepromptCancelled \<Rightarrow> ''AppletRepromptCancelled'')
   | M_Tpm x \<Rightarrow> (case x of
       TpmSetupFormToggle \<Rightarrow> ''TpmSetupFormToggle''
     | TpmDisableFormToggle \<Rightarrow> ''TpmDisableFormToggle''
     | TpmSetupPinChanged _ \<Rightarrow> ''TpmSetupPinChanged''
     | TpmSetupPinRevealToggled \<Rightarrow> ''TpmSetupPinRevealToggled''
     | TpmSetupSubmitted \<Rightarrow> ''TpmSetupSubmitted''
     | TpmSetupResult _ \<Rightarrow> ''TpmSetupResult''
     | TpmDisableSubmitted \<Rightarrow> ''TpmDisableSubmitted''
     | TpmDisableResult _ \<Rightarrow> ''TpmDisableResult'')
   | M_Pwgen x \<Rightarrow> (case x of
       GeneratorViewClicked \<Rightarrow> ''GeneratorViewClicked''
     | GeneratorTabActivated _ \<Rightarrow> ''GeneratorTabActivated''
     | GeneratorUppercaseToggled _ \<Rightarrow> ''GeneratorUppercaseToggled''
     | GeneratorLowercaseToggled _ \<Rightarrow> ''GeneratorLowercaseToggled''
     | GeneratorNumbersToggled _ \<Rightarrow> ''GeneratorNumbersToggled''
     | GeneratorSpecialToggled _ \<Rightarrow> ''GeneratorSpecialToggled''
     | GeneratorLengthChanged _ \<Rightarrow> ''GeneratorLengthChanged''
     | GeneratorResetClicked \<Rightarrow> ''GeneratorResetClicked''
     | GeneratorGenerateClicked \<Rightarrow> ''GeneratorGenerateClicked''
     | GeneratorGenerated _ \<Rightarrow> ''GeneratorGenerated''
     | GeneratorRevealToggled \<Rightarrow> ''GeneratorRevealToggled''
     | GeneratorSettingsReceived _ \<Rightarrow> ''GeneratorSettingsReceived''
     | GeneratorHistoryReceived _ \<Rightarrow> ''GeneratorHistoryReceived''
     | GeneratorHistoryRevealToggled _ \<Rightarrow> ''GeneratorHistoryRevealToggled''
     | GeneratorHistoryDeleteRequested _ \<Rightarrow> ''GeneratorHistoryDeleteRequested''
     | GeneratorHistoryDeleteCancelled \<Rightarrow> ''GeneratorHistoryDeleteCancelled''
     | GeneratorHistoryDeleteConfirmed \<Rightarrow> ''GeneratorHistoryDeleteConfirmed''
     | GeneratorHistoryDeleted _ \<Rightarrow> ''GeneratorHistoryDeleted'')
   | M_App x \<Rightarrow> (case x of
       CopyToClipboardClicked _ \<Rightarrow> ''CopyToClipboard''
     | ClipboardClearElapsed _ \<Rightarrow> ''ClipboardClearElapsed''
     | ClipboardClearReadback _ _ \<Rightarrow> ''ClipboardClearReadback''
     | ToggleMasterPasswordReveal \<Rightarrow> ''ToggleMasterPasswordReveal''
     | ToggleEditPasswordReveal \<Rightarrow> ''ToggleEditPasswordReveal''
     | ToggleRepromptPasswordReveal \<Rightarrow> ''ToggleRepromptPasswordReveal''
     | SettingsViewClicked \<Rightarrow> ''SettingsViewClicked''
     | SettingsEditClicked \<Rightarrow> ''SettingsEditClicked''
     | SettingsSaveClicked \<Rightarrow> ''SettingsSaveClicked''
     | SettingsCancelClicked \<Rightarrow> ''SettingsCancelClicked''
     | SettingsServerChanged _ \<Rightarrow> ''SettingsServerChanged''
     | SettingsLockTimeoutChanged _ \<Rightarrow> ''SettingsLockTimeoutChanged''
     | ToggleAdvanced \<Rightarrow> ''ToggleAdvanced''))"

fun message_debug :: "(string \<Rightarrow> string) \<Rightarrow> ui_message \<Rightarrow> string" where
  "message_debug du (M_Vault (SelectEntry i)) = ''SelectEntry('' @ debug_str du i @ '')''"
| "message_debug du (M_Vault (DeleteEntryClicked i)) = ''DeleteEntry('' @ debug_str du i @ '')''"
| "message_debug du (M_App (ClipboardClearElapsed n)) = ''ClipboardClearElapsed('' @ show_nat (unat n) @ '')''"
| "message_debug du m = message_variant_name m"

end
