(* ===== verification/Ui_Properties.thy ===== *)
theory Ui_Properties
  imports Ui_Update Ui_Debug
begin

text \<open>
  What the user interface guarantees: the clipboard, the lists, the configuration snapshots, the settings
  and the lock.
\<close>

named_theorems ui_parts

lemmas [ui_parts] = refetch_sidebar_def refilter_def applet_rows_task_def open_vault_view_def config_received_def
  store_snapshot_def prefill_login_def on_unlock_event_def tpm_status_received_def wipe_for_lock_def
  wipe_session_secrets_def main_pin_failed_def auth_succeeded_def auth_failed_def apply_unlock_pin_task_def
  apply_login_pin_task_def pin_intent_task_def select_entry_id_def entry_received_def drop_selection_def
  entries_received_def toggle_entry_pin_def dispatch_on_demand_def save_succeeded_def toggle_reveal_field_def
  copy_secret_field_def secret_loaded_def destroy_popup_def applet_icon_clicked_def open_applet_popup_task_def
  reset_applet_popup_state_def applet_pin_failed_def applet_unlocked_def clipboard_readback_def save_settings_def
  copy_to_clipboard_with_autoclear_def applet_copy_to_clipboard_def focus_unlock_input_def focus_unlock_inputs_def
  fetch_config_task_def check_tpm_task_def check_tpm_da_task_def refresh_soon_def fetch_sidebar_def
  fetch_generator_history_def refresh_state_def delete_answered_def sync_answered_def submit_reprompt_def

lemmas ui_splits = if_splits option.splits sum.splits prod.splits bool.splits unlock_pin_intent.splits
  reprompt_intent.splits activation_action.splits

section \<open>The clipboard\<close>

definition clip :: "ui_app \<Rightarrow> u32 \<times> string option" where
  "clip a = (ui_clipboard_clear_generation a, ui_clipboard_pending_clear a)"

fun is_timer :: "ui_cmd \<Rightarrow> bool" where
  "is_timer (After_Secs n m) = True"
| "is_timer c = False"

definition timers :: "ui_cmd list \<Rightarrow> nat" where "timers cs = length (filter is_timer cs)"

text \<open>The messages that end the session in the interface.\<close>

fun wipes :: "ui_message \<Rightarrow> bool" where
  "wipes (M_Auth LockResult) = True"
| "wipes (M_Auth LogoutResult) = True"
| "wipes (M_Lifecycle (EventReceived Locked)) = True"
| "wipes m = False"

text \<open>What a message may do to the timer of the clipboard.\<close>

definition clip_kept :: "ui_app \<Rightarrow> ui_step \<Rightarrow> bool" where
  "clip_kept a s \<longleftrightarrow> timers (snd s) = 0 \<and> clip (fst s) = clip a"

definition clip_copied :: "ui_app \<Rightarrow> ui_step \<Rightarrow> bool" where
  "clip_copied a s \<longleftrightarrow> timers (snd s) = 1
     \<and> ui_clipboard_clear_generation (fst s) = ui_clipboard_clear_generation a + 1"

lemmas clip_defs = clip_kept_def clip_copied_def clip_def timers_def

lemma copy_copies [simp]:
  "clip_copied a (copy_to_clipboard_with_autoclear v a)" "clip_copied a (applet_copy_to_clipboard v a)"
  by (simp_all add: clip_defs copy_to_clipboard_with_autoclear_def applet_copy_to_clipboard_def Let_def)

lemma clip_event: "ev \<noteq> Locked \<Longrightarrow> clip_kept a (event_received U ev a)"
  by (cases ev) (auto simp: clip_defs ui_parts Let_def split: ui_splits)

lemma clip_lifecycle: "\<not> wipes (M_Lifecycle m) \<Longrightarrow> clip_kept a (update_lifecycle U m a)"
proof (induction U m a rule: update_lifecycle.induct)
  case (3 U ev a)
  then show ?case using clip_event [of ev a U] by (cases ev) auto
qed (auto simp: clip_defs ui_parts Let_def split: ui_splits)

lemma clip_auth: "\<not> wipes (M_Auth m) \<Longrightarrow> clip_kept a (update_auth U m a)"
  by (cases m) (auto simp: clip_defs ui_parts Let_def split: ui_splits)

lemma clip_vault: "clip_kept a (update_vault U m a)"
  by (induction U m a rule: update_vault.induct)
     (auto simp: clip_defs ui_parts Let_def split: ui_splits)

lemma clip_edit: "clip_kept a (update_vault_edit U m a)"
  by (induction U m a rule: update_vault_edit.induct)
     (auto simp: clip_defs ui_parts Let_def split: ui_splits)

lemma take_payload_clip:
  "clip (fst (take_payload f p a)) = clip a"
  by (cases p) (simp_all add: clip_def)

lemma clip_secret_loaded: "clip_kept a (secret_loaded f copy p a) \<or> clip_copied a (secret_loaded f copy p a)"
proof -
  obtain b v where t: "take_payload f p a = (b, v)" by (cases "take_payload f p a")
  then have "clip b = clip a" using take_payload_clip [of f p a] by simp
  then show ?thesis
    using t by (auto simp: secret_loaded_def clip_defs copy_to_clipboard_with_autoclear_def Let_def split: ui_splits)
qed

lemma clip_secrets: "clip_kept a (update_vault_secrets U m a) \<or> clip_copied a (update_vault_secrets U m a)"
proof (induction U m a rule: update_vault_secrets.induct)
  case (3 U f copy p a)
  then show ?case by (simp add: clip_secret_loaded)
qed (auto simp: clip_defs ui_parts Let_def split: ui_splits)

lemma clip_applet: "clip_kept a (update_applet U m a) \<or> clip_copied a (update_applet U m a)"
  by (induction U m a rule: update_applet.induct)
     (auto simp: clip_defs ui_parts Let_def split: ui_splits)

lemma clip_row: "clip_kept a (update_row U m a) \<or> clip_copied a (update_row U m a)"
  by (induction U m a rule: update_row.induct) (auto simp: clip_defs ui_parts Let_def split: ui_splits)

lemma clip_tpm: "clip_kept a (update_tpm U m a)"
  by (cases m) (auto simp: clip_defs ui_parts Let_def split: ui_splits)

lemma clip_pwgen: "clip_kept a (update_pwgen U m a)"
  by (cases m) (auto simp: clip_defs ui_parts Let_def split: ui_splits)

lemma clip_rest:
  assumes "\<And>x. m \<noteq> ClipboardClearReadback (ui_clipboard_clear_generation a) x"
  shows "clip_kept a (update_rest U m a) \<or> clip_copied a (update_rest U m a)"
  using assms by (cases m) (auto simp: clip_defs ui_parts Let_def split: ui_splits)

lemma clip_step:
  assumes "\<And>x. m \<noteq> M_App (ClipboardClearReadback (ui_clipboard_clear_generation a) x)" and "\<not> wipes m"
  shows "clip_kept a (ui_update U m a) \<or> clip_copied a (ui_update U m a)"
  using assms clip_lifecycle clip_auth clip_vault clip_edit clip_secrets clip_applet clip_row clip_tpm clip_pwgen clip_rest
  by (cases m) auto

lemma clip_wiped:
  "wipes m \<Longrightarrow> timers (snd (ui_update U m a)) = 0 \<and> ui_clipboard_pending_clear (fst (ui_update U m a)) = None
     \<and> ui_clipboard_clear_generation (fst (ui_update U m a)) = ui_clipboard_clear_generation a"
  by (induction m rule: wipes.induct) (auto simp: clip_defs ui_parts Let_def split: ui_splits)

text \<open>A run of the interface: messages in the order in which they arrive, and all that was asked for.\<close>

fun ui_run :: "(ui_env \<times> ui_message) list \<Rightarrow> ui_app \<Rightarrow> ui_step" where
  "ui_run [] a = (a, [])"
| "ui_run ((U, m) # ms) a = (case ui_update U m a of (b, cs) \<Rightarrow> case ui_run ms b of (c, ds) \<Rightarrow> (c, cs @ ds))"

lemma timers_append [simp]: "timers (cs @ ds) = timers cs + timers ds" and timers_Nil [simp]: "timers [] = 0"
  by (simp_all add: timers_def)

definition no_readback :: "u32 \<Rightarrow> (ui_env \<times> ui_message) list \<Rightarrow> bool" where
  "no_readback g ms \<longleftrightarrow> (\<forall>x U. (U, M_App (ClipboardClearReadback g x)) \<notin> set ms)"

lemma clip_generation:
  "ui_clipboard_clear_generation (fst (ui_update U m a))
   = ui_clipboard_clear_generation a + of_nat (timers (snd (ui_update U m a)))"
proof (cases "\<exists>x. m = M_App (ClipboardClearReadback (ui_clipboard_clear_generation a) x)")
  case True
  then show ?thesis by (auto simp: clipboard_readback_def clip_defs split: option.splits)
next
  case False
  then show ?thesis using clip_step [of m a U] clip_wiped [of m U a] by (cases "wipes m") (auto simp: clip_defs)
qed

lemma run_generation:
  "ui_run ms a = (c, ds) \<Longrightarrow> ui_clipboard_clear_generation c = ui_clipboard_clear_generation a + of_nat (timers ds)"
proof (induction ms arbitrary: a ds)
  case (Cons x ms)
  obtain U m where x: "x = (U, m)" by (cases x)
  obtain b cs where b: "ui_update U m a = (b, cs)" by (cases "ui_update U m a")
  obtain es where es: "ui_run ms b = (c, es)" "ds = cs @ es"
    using Cons.prems x b by (auto split: prod.splits)
  show ?case using Cons.IH [OF es(1)] es(2) clip_generation [of U m a] b by (simp add: ac_simps)
qed simp

lemma run_pending:
  "\<lbrakk>ui_run ms a = (c, ds); timers ds = 0; no_readback (ui_clipboard_clear_generation a) ms\<rbrakk>
   \<Longrightarrow> ui_clipboard_pending_clear c
       = (if \<exists>x\<in>set ms. wipes (snd x) then None else ui_clipboard_pending_clear a)"
proof (induction ms arbitrary: a ds)
  case (Cons x ms)
  obtain U m where x: "x = (U, m)" by (cases x)
  obtain b cs where b: "ui_update U m a = (b, cs)" by (cases "ui_update U m a")
  obtain es where es: "ui_run ms b = (c, es)" "ds = cs @ es"
    using Cons.prems x b by (auto split: prod.splits)
  have t: "timers cs = 0" "timers es = 0" using Cons.prems(2) es(2) by auto
  have g: "ui_clipboard_clear_generation b = ui_clipboard_clear_generation a"
    using clip_generation [of U m a] b t by simp
  have ih: "ui_clipboard_pending_clear c
            = (if \<exists>x\<in>set ms. wipes (snd x) then None else ui_clipboard_pending_clear b)"
    using Cons.IH [OF es(1) t(2)] Cons.prems(3) g by (auto simp: no_readback_def)
  have "\<And>y. m \<noteq> M_App (ClipboardClearReadback (ui_clipboard_clear_generation a) y)"
    using Cons.prems(3) x by (auto simp: no_readback_def)
  then show ?case
    using ih x b t clip_step [of m a U] clip_wiped [of m U a] by (cases "wipes m") (auto simp: clip_defs)
qed simp

text \<open>C16: The timer of a copied value, 30 seconds after the copy, in any run of the interface. When nothing was copied since
  and the session did not end, it asks what the clipboard holds and empties it exactly when it still holds
  the copied value. It does nothing when something newer was copied (that copy has its own timer), and it
  does nothing either when the session was locked or left in between: then the copied value stays in the
  clipboard.\<close>

theorem copy_timer_outcome:
  assumes "copy_to_clipboard_with_autoclear v a = (b, cs)" and "ui_run ms b = (c, ds)"
    and "no_readback (ui_clipboard_clear_generation b) ms" and "timers ds < 2 ^ 32"
  shows "cs = [Clipboard_Write v, After_Secs 30 (M_App (ClipboardClearElapsed (ui_clipboard_clear_generation b)))]
    \<and> (if timers ds = 0 \<and> \<not> (\<exists>x\<in>set ms. wipes (snd x))
       then ui_update U (M_App (ClipboardClearElapsed (ui_clipboard_clear_generation b))) c
              = (c, [Clipboard_Read (ui_clipboard_clear_generation b)])
          \<and> ui_update U (M_App (ClipboardClearReadback (ui_clipboard_clear_generation b) held)) c
              = (c\<lparr>ui_clipboard_pending_clear := None\<rparr>, if held = Some v then [Clipboard_Write []] else [])
       else ui_update U (M_App (ClipboardClearElapsed (ui_clipboard_clear_generation b))) c = (c, []))"
proof -
  have b: "ui_clipboard_pending_clear b = Some v"
    and cs: "cs = [Clipboard_Write v, After_Secs 30 (M_App (ClipboardClearElapsed (ui_clipboard_clear_generation b)))]"
    using assms(1) by (auto simp: copy_to_clipboard_with_autoclear_def Let_def CLIPBOARD_CLEAR_SECS_def)
  have g: "ui_clipboard_clear_generation c = ui_clipboard_clear_generation b + of_nat (timers ds)"
    by (rule run_generation [OF assms(2)])
  show ?thesis
  proof (cases "timers ds = 0")
    case True
    then show ?thesis using run_pending [OF assms(2) True assms(3)] b cs g
      by (auto simp: clipboard_readback_def)
  next
    case False
    then have "(of_nat (timers ds) :: 32 word) \<noteq> 0"
      using assms(4) by (auto simp: word_of_nat_eq_0_iff dest: dvd_imp_le)
    then show ?thesis using cs g False by auto
  qed
qed

definition sample_ui_env :: ui_env where
  "sample_ui_env = \<lparr>ue_now = 0, ue_secs = 0, ue_load_config = Inr default_config, ue_save_error = None,
     ue_text = (\<lambda>k. k), ue_save_failed_text = (\<lambda>e. e), ue_edit_text = (\<lambda>x t. x), ue_debug = (\<lambda>s. s)\<rparr>"

text \<open>A password is copied and the vault is locked before the 30 seconds are over.\<close>

theorem copy_timer_outcome_witness:
  "let b = fst (copy_to_clipboard_with_autoclear ''s3'' ui_default); c = fst (ui_run [(sample_ui_env, M_Auth LockResult)] b) in
   ui_clipboard_clear_generation b = 1 \<and> ui_update sample_ui_env (M_App (ClipboardClearElapsed 1)) c = (c, [])"
proof -
  obtain b cs where b: "copy_to_clipboard_with_autoclear ''s3'' ui_default = (b, cs)"
    by (cases "copy_to_clipboard_with_autoclear ''s3'' ui_default")
  obtain c ds where c: "ui_run [(sample_ui_env, M_Auth LockResult)] b = (c, ds)" by (cases "ui_run [(sample_ui_env, M_Auth LockResult)] b")
  have "timers ds = 0" using c by (auto simp: timers_def focus_unlock_input_def Let_def split: if_splits)
  moreover have "ui_clipboard_clear_generation b = 1"
    using b by (auto simp: copy_to_clipboard_with_autoclear_def ui_default_def Let_def)
  moreover have "no_readback 1 [(sample_ui_env, M_Auth LockResult)]" by (simp add: no_readback_def)
  ultimately show ?thesis using copy_timer_outcome [OF b c] b c by (simp add: Let_def)
qed

section \<open>Lists, snapshots and settings\<close>

definition unpinned :: "sidebar_entry \<Rightarrow> sidebar_entry" where "unpinned e = e\<lparr>se_is_pinned := False\<rparr>"

definition list_agrees :: "ui_app \<Rightarrow> bool" where
  "list_agrees a \<longleftrightarrow> map unpinned (ui_entries a)
     = map unpinned (apply_local_filter (ui_all_entries a) (ui_search_query a) (ui_filter_type a) (ui_search_only_pinned a))"

text \<open>A step that leaves the snapshot and the configuration file alone, and keeps the list.\<close>

definition calm :: "ui_app \<Rightarrow> ui_step \<Rightarrow> bool" where
  "calm a s \<longleftrightarrow> ui_last_config (fst s) = ui_last_config a \<and> (list_agrees a \<longrightarrow> list_agrees (fst s))
     \<and> (\<forall>c. Write_Config c \<notin> set (snd s))"

lemmas calm_defs = calm_def list_agrees_def

lemma flip_pin_unpinned: "map unpinned (fst (flip_pin i es)) = map unpinned es"
  by (induction es) (auto simp: unpinned_def split: prod.splits)

lemma flip_pin_agrees: "flip_pin i es = (fs, p) \<Longrightarrow> map unpinned fs = map unpinned es"
  using flip_pin_unpinned [of i es] by simp

lemma filter_Nil [simp]: "apply_local_filter [] q ty p = []"
  by (simp add: apply_local_filter_def)

lemma calm_event: "calm a (event_received U ev a)"
  by (cases ev) (auto simp: calm_defs ui_parts Let_def split: ui_splits)

lemma calm_lifecycle: "(\<And>s. m \<noteq> ConfigReceived (Inr s)) \<Longrightarrow> calm a (update_lifecycle U m a)"
proof (induction U m a rule: update_lifecycle.induct)
  case (3 U ev a)
  then show ?case by (simp add: calm_event)
qed (auto simp: calm_defs ui_parts Let_def split: ui_splits)

lemma config_received_agrees: "list_agrees a \<Longrightarrow> list_agrees (fst (config_received s a))"
  by (auto simp: list_agrees_def ui_parts Let_def split: ui_splits)


lemma config_received_writes: "Write_Config c \<notin> set (snd (config_received s a))"
  by (auto simp: ui_parts Let_def split: ui_splits)

lemma calm_auth: "calm a (update_auth U m a)"
  by (cases m) (auto simp: calm_defs ui_parts Let_def split: ui_splits)

lemma calm_vault: "calm a (update_vault U m a)"
  by (induction U m a rule: update_vault.induct)
     (auto simp: calm_defs ui_parts Let_def dest: flip_pin_agrees split: ui_splits)

lemma calm_edit: "calm a (update_vault_edit U m a)"
  by (induction U m a rule: update_vault_edit.induct) (auto simp: calm_defs ui_parts Let_def split: ui_splits)

lemma calm_secret_loaded: "calm a (secret_loaded f copy p a)"
  by (cases p) (auto simp: calm_defs ui_parts Let_def split: ui_splits)

lemma calm_secrets: "calm a (update_vault_secrets U m a)"
proof (induction U m a rule: update_vault_secrets.induct)
  case (3 U f copy p a)
  then show ?case by (simp add: calm_secret_loaded)
qed (auto simp: calm_defs ui_parts Let_def split: ui_splits)

lemma calm_applet: "calm a (update_applet U m a)"
  by (induction U m a rule: update_applet.induct) (auto simp: calm_defs ui_parts Let_def split: ui_splits)

lemma calm_row: "calm a (update_row U m a)"
  by (induction U m a rule: update_row.induct) (auto simp: calm_defs ui_parts Let_def split: ui_splits)

lemma calm_tpm: "calm a (update_tpm U m a)"
  by (cases m) (auto simp: calm_defs ui_parts Let_def split: ui_splits)

lemma calm_pwgen: "calm a (update_pwgen U m a)"
  by (cases m) (auto simp: calm_defs ui_parts Let_def split: ui_splits)

lemma calm_rest: "m \<noteq> SettingsSaveClicked \<Longrightarrow> calm a (update_rest U m a)"
  by (cases m) (auto simp: calm_defs ui_parts Let_def split: ui_splits)

lemma calm_step:
  "\<lbrakk>\<And>s. m \<noteq> M_Lifecycle (ConfigReceived (Inr s)); m \<noteq> M_App SettingsSaveClicked\<rbrakk> \<Longrightarrow> calm a (ui_update U m a)"
  using calm_lifecycle calm_auth calm_vault calm_edit calm_secrets calm_applet calm_row calm_tpm calm_pwgen calm_rest
  by (cases m) auto

lemma save_keeps:
  "ui_last_config (fst (update_rest U SettingsSaveClicked a)) = ui_last_config a"
  "list_agrees a \<Longrightarrow> list_agrees (fst (update_rest U SettingsSaveClicked a))"
  by (auto simp: list_agrees_def save_settings_def split: ui_splits)

lemma list_step: "list_agrees a \<Longrightarrow> list_agrees (fst (ui_update U m a))"
proof (cases "\<exists>s. m = M_Lifecycle (ConfigReceived (Inr s))")
  case True
  then show "list_agrees a \<Longrightarrow> ?thesis" using config_received_agrees by auto
next
  case False
  then show "list_agrees a \<Longrightarrow> ?thesis"
    using calm_step [of m a U] save_keeps(2) by (cases "m = M_App SettingsSaveClicked") (auto simp: calm_def)
qed

lemma list_run: "list_agrees a \<Longrightarrow> list_agrees (fst (ui_run ms a))"
proof (induction ms arbitrary: a)
  case (Cons x ms)
  obtain U m where x: "x = (U, m)" by (cases x)
  obtain b cs where b: "ui_update U m a = (b, cs)" by (cases "ui_update U m a")
  show ?case using list_step [OF Cons.prems, of U m] Cons.IH [of b] x b by (auto split: prod.splits)
qed simp

text \<open>C17: In every run of the interface from its start - whatever the user does, and in whatever order the answers
  and the events of the agent arrive - the entries shown are those of the cache that match the search text,
  the type tab and the favourites switch, in the order of the cache. Only the pin marks can differ for a
  while: pinning an entry changes the list before the agent has confirmed it.\<close>

theorem shown_list_is_filter:
  "let a = fst (ui_run ms ui_default) in
   map unpinned (ui_entries a)
   = map unpinned (filter (shown_entry (to_lowercase (trim (ui_search_query a))) (ui_filter_type a) (ui_search_only_pinned a))
       (ui_all_entries a))"
proof -
  have "list_agrees ui_default" by (simp add: list_agrees_def ui_default_def)
  then show ?thesis using list_run by (simp add: list_agrees_def apply_local_filter_def Let_def)
qed

section \<open>Snapshots of the agent\<close>







section \<open>Settings\<close>

text \<open>C19: The interface writes the configuration file on one occasion only: when settings are saved after the agent's
  configuration was received. It then writes the file as it is on disk with the server address and the lock
  timeout of the form, and tells the agent that timeout. A save that writes nothing keeps the form.\<close>

theorem settings_write_two_settings:
  assumes "ui_update U m a = (b, cs)"
  shows "(\<forall>c. Write_Config c \<in> set cs \<longrightarrow> m = M_App SettingsSaveClicked \<and> ui_config_loaded a
             \<and> (\<exists>disk form. ue_load_config U = Inr disk \<and> ui_editing_config a = Some form
                  \<and> c = disk\<lparr>cfg_base_url := cfg_base_url form, cfg_lock_timeout := cfg_lock_timeout form\<rparr>
                  \<and> cs = [Write_Config c, Ask (UpdateLockTimeout (cfg_lock_timeout form)) To_Nothing]
                  \<and> b = a\<lparr>ui_config := c, ui_editing_config := None, ui_view := View_Settings\<rparr>))
    \<and> (m = M_App SettingsSaveClicked \<longrightarrow> cs = [] \<longrightarrow> ui_editing_config b = ui_editing_config a \<and> ui_config b = ui_config a)"
proof (cases "m = M_App SettingsSaveClicked")
  case True
  then show ?thesis using assms
    by (auto simp: save_settings_def merged_config_def split: option.splits sum.splits if_splits)
next
  case False
  have "Write_Config c \<notin> set cs" for c
  proof (cases "\<exists>s. m = M_Lifecycle (ConfigReceived (Inr s))")
    case True
    then show ?thesis using assms config_received_writes by (metis snd_conv ui_update.simps(1) update_lifecycle.simps(1))
  next
    case False
    then show ?thesis using \<open>m \<noteq> _\<close> assms calm_step [of m a U] by (simp add: calm_def)
  qed
  then show ?thesis using False by simp
qed

definition sample_settings :: ui_app where
  "sample_settings = ui_default\<lparr>ui_config_loaded := True, ui_editing_config := Some (default_config\<lparr>cfg_lock_timeout := 60\<rparr>)\<rparr>"

theorem settings_write_two_settings_witness:
  "\<exists>b. ui_update sample_ui_env (M_App SettingsSaveClicked) sample_settings
     = (b, [Write_Config (default_config\<lparr>cfg_base_url := cfg_base_url default_config, cfg_lock_timeout := 60\<rparr>),
            Ask (UpdateLockTimeout 60) To_Nothing])
     \<and> b = sample_settings\<lparr>ui_config := default_config\<lparr>cfg_base_url := cfg_base_url default_config, cfg_lock_timeout := 60\<rparr>,
         ui_editing_config := None, ui_view := View_Settings\<rparr>"
proof -
  obtain b cs where u: "ui_update sample_ui_env (M_App SettingsSaveClicked) sample_settings = (b, cs)"
    by (cases "ui_update sample_ui_env (M_App SettingsSaveClicked) sample_settings")
  moreover have "\<exists>c. Write_Config c \<in> set cs"
    using u by (auto simp: sample_settings_def sample_ui_env_def save_settings_def)
  ultimately show ?thesis
    using settings_write_two_settings [OF u] by (auto simp: sample_ui_env_def sample_settings_def)
qed

section \<open>Lock and logout\<close>

text \<open>C15: What a lock, a logout or the agent's \<open>Locked\<close> event leave does not depend on what the window held: with any
  other entry open or being edited, any other lists, revealed fields, code, generated passwords, notes,
  pending copy and form passwords, the next state and everything asked for are the same, and the vault is
  no longer shown. Two things do survive: the master password typed to restore a session, and the rows
  of the applet's last search, with the names and user names of the entries.\<close>

theorem lock_erases_the_vault:
  assumes "wipes m"
  shows "ui_update U m (a
    \<lparr>ui_selected_entry := e1, ui_editing_entry := e2, ui_selected_entry_id := i, ui_entries := es, ui_all_entries := fs,
     ui_revealed_fields := rs, ui_totp_code := code, ui_notes_content := txt, ui_generator_result := g,
     ui_generator_history := hs, ui_clipboard_pending_clear := cl, ui_login_password := p1, ui_unlock_password := p2,
     ui_unlock_pin := p3, ui_main_window_pin := p4, ui_reprompt_password := p5, ui_applet_unlock_password := p6,
     ui_applet_reprompt_password := p7, ui_applet_pin := p8, ui_login_pin := p9, ui_tpm_setup_pin := p10\<rparr>)
    = ui_update U m a
    \<and> \<not> is_unlocked (ui_view (fst (ui_update U m a)))
    \<and> ui_session_restore_password (fst (ui_update U m a)) = ui_session_restore_password a
    \<and> ui_applet_search_results (fst (ui_update U m a)) = ui_applet_search_results a"
  using assms by (induction m rule: wipes.induct)
    (simp_all add: wipe_for_lock_def wipe_session_secrets_def focus_unlock_input_def is_unlocked_def Let_def)

theorem lock_erases_the_vault_witness:
  "ui_update sample_ui_env (M_Auth LockResult)
     (ui_default\<lparr>ui_selected_entry := Some (blank_entry 0), ui_editing_entry := None, ui_selected_entry_id := Some ''e1'',
        ui_entries := [], ui_all_entries := [], ui_revealed_fields := {(''e1'', ''Password'')}, ui_totp_code := Some (Secret ''123456''),
        ui_notes_content := ''note'', ui_generator_result := None, ui_generator_history := [],
        ui_clipboard_pending_clear := Some ''s3'', ui_login_password := [], ui_unlock_password := ''master'',
        ui_unlock_pin := ''1234'', ui_main_window_pin := [], ui_reprompt_password := ''master'',
        ui_applet_unlock_password := [], ui_applet_reprompt_password := [], ui_applet_pin := [], ui_login_pin := [],
        ui_tpm_setup_pin := []\<rparr>)
   = ui_update sample_ui_env (M_Auth LockResult) ui_default"
  by (rule lock_erases_the_vault [THEN conjunct1]) simp

section \<open>Secrets on demand\<close>

text \<open>C25: A password that arrives late goes to the wrong entry. The user reveals the password of an entry, selects
  another entry before the agent has answered, and the second entry is loaded: when the first answer arrives, its
  password is put into the second entry and shown there as revealed, because the answer does not say which
  entry it belongs to.\<close>

theorem late_password_in_other_entry:
  assumes "ui_selected_entry a = Some e1" and "\<not> secret_is_loaded e1 ''Password''" and "(i, ''Password'') \<notin> ui_revealed_fields a"
    and "e_data e2 = Login l" and "deliver du (To_OnDemand ''Password'' False) (Inr (Response_Password p)) = Some answer"
  shows "snd (ui_run [(U, M_Secrets (ToggleRevealField i ''Password''))] a)
           = [Ask (GetPassword i None) (To_OnDemand ''Password'' False)]
    \<and> (let b = fst (ui_run [(U, M_Secrets (ToggleRevealField i ''Password'')), (U, M_Vault (SelectEntry j)),
                            (U, M_Vault (EntryReceived (Inr e2))), (U, answer)] a)
       in ui_selected_entry_id b = Some j
          \<and> ui_selected_entry b = Some (e2\<lparr>e_data := Login (l\<lparr>lg_password := Some p\<rparr>)\<rparr>)
          \<and> (j, ''Password'') \<in> ui_revealed_fields b)"
proof -
  have "answer = M_Secrets (OnDemandSecretLoaded ''Password'' False (Inr (OD_Password p)))"
    using assms(5) by (simp add: parse_on_demand_response_def)
  then show ?thesis using assms(1-4)
    by (simp add: toggle_reveal_field_def dispatch_on_demand_def on_demand_secret_def select_entry_id_def
        entry_received_def notes_fetch_after_selection_def secret_loaded_def Let_def)
qed

definition sample_login :: "string option \<Rightarrow> entry" where
  "sample_login pw = (blank_entry 0)\<lparr>e_id := ''e2'',
     e_data := Login \<lparr>lg_username = None, lg_password = map_option Secret pw, lg_totp = None, lg_uris = []\<rparr>\<rparr>"

theorem late_password_in_other_entry_witness:
  "ui_selected_entry (fst (ui_run [(sample_ui_env, M_Secrets (ToggleRevealField ''e1'' ''Password'')),
       (sample_ui_env, M_Vault (SelectEntry ''e2'')), (sample_ui_env, M_Vault (EntryReceived (Inr (sample_login None)))),
       (sample_ui_env, M_Secrets (OnDemandSecretLoaded ''Password'' False (Inr (OD_Password (Secret ''s3'')))))]
       (ui_default\<lparr>ui_selected_entry := Some (sample_login None)\<rparr>)))
   = Some (sample_login (Some ''s3''))"
  using late_password_in_other_entry [of "ui_default\<lparr>ui_selected_entry := Some (sample_login None)\<rparr>" "sample_login None" "''e1''"
      "sample_login None" "\<lparr>lg_username = None, lg_password = None, lg_totp = None, lg_uris = []\<rparr>" id "Secret ''s3''"
      "M_Secrets (OnDemandSecretLoaded ''Password'' False (Inr (OD_Password (Secret ''s3''))))" sample_ui_env "''e2''"]
  by (simp add: sample_login_def blank_entry_def ui_default_def secret_is_loaded_def parse_on_demand_response_def Let_def)

text \<open>The dialog for a guarded entry. When the agent answers that a secret is guarded, the dialog opens, and the
  next request for it carries the password that was typed. After the answer the dialog is closed, but the
  typed password stays in its field: when another guarded secret of the entry is asked for, submitting the
  dialog without typing anything sends it again.\<close>

theorem reprompt_password_reused:
  assumes "ui_selected_entry_id a = Some i"
    and "deliver du (To_OnDemand f False) (Inr (Error ''reprompt_required'')) = Some guarded"
    and "deliver du (To_OnDemand f False) r = Some (M_Secrets (OnDemandSecretLoaded f False (Inr q)))"
    and "deliver du (To_OnDemand g False) (Inr (Error ''reprompt_required'')) = Some guarded_too"
  shows "let (b, cs) = ui_run [(U, guarded), (U, M_Vault (RepromptPasswordChanged pw)), (U, M_Vault SubmitReprompt)] a;
             (c, ds) = ui_run [(U, M_Secrets (OnDemandSecretLoaded f False (Inr q)))] b;
             (d, es) = ui_run [(U, guarded_too), (U, M_Vault SubmitReprompt)] c
         in ui_show_reprompt b = Some i \<and> cs = [Ask (on_demand_secret f i (Some pw)) (To_OnDemand f False)]
          \<and> ui_show_reprompt c = None \<and> (i, f) \<in> ui_revealed_fields c \<and> ds = []
          \<and> es = [Ask (on_demand_secret g i (Some pw)) (To_OnDemand g False)]"
proof -
  have "guarded = M_Secrets (OnDemandSecretLoaded f False (Inl ''reprompt_required''))"
    and "guarded_too = M_Secrets (OnDemandSecretLoaded g False (Inl ''reprompt_required''))"
    using assms(2,4) by (simp_all add: parse_on_demand_response_def)
  then show ?thesis using assms(1)
    by (cases q) (simp_all add: submit_reprompt_def secret_loaded_def dispatch_on_demand_def Let_def)
qed

theorem reprompt_password_reused_witness:
  "snd (ui_run [(sample_ui_env, M_Secrets (OnDemandSecretLoaded ''Password'' False (Inl ''reprompt_required''))),
       (sample_ui_env, M_Vault (RepromptPasswordChanged ''master'')), (sample_ui_env, M_Vault SubmitReprompt)]
       (ui_default\<lparr>ui_selected_entry_id := Some ''e1''\<rparr>))
   = [Ask (GetPassword ''e1'' (Some ''master'')) (To_OnDemand ''Password'' False)]"
  using reprompt_password_reused [of "ui_default\<lparr>ui_selected_entry_id := Some ''e1''\<rparr>" "''e1''" id "''Password''"
      "M_Secrets (OnDemandSecretLoaded ''Password'' False (Inl ''reprompt_required''))"
      "Inr (Response_Password (Secret ''s3''))" "OD_Password (Secret ''s3'')" "''TOTP''"
      "M_Secrets (OnDemandSecretLoaded ''TOTP'' False (Inl ''reprompt_required''))" sample_ui_env "''master''"]
  by (simp add: parse_on_demand_response_def on_demand_secret_def Let_def split: prod.splits)

section \<open>The PIN after a successful unlock\<close>

text \<open>C20: A session restored with the master password from the sidebar of an open vault is handled as a login: when the
  login form's PIN switch is off (it is, unless the user turned it on there), the successful answer asks the
  agent to remove the sealed PIN of this device. On a machine without a TPM, or without a sealed PIN,
  nothing is removed.\<close>

theorem session_restore_removes_pin:
  assumes "\<not> ui_login_pin_enabled a" and "\<not> ui_unlock_pin_apply_pending a"
  shows "snd (ui_run [(U, M_Auth SessionRestoreSubmitted), (U, M_Auth (AuthResult (Inr u)))] a)
    = [Ask (Action_Unlock (ui_session_restore_password a)) To_AuthResult,
       Ask (GetSidebarEntries None None False None) (To_Entries (ui_search_id a)), refresh_soon]
      @ (if ui_tpm_available a \<and> ui_tpm_configured a then [Ask DisableTpmPin To_TpmDisable] else [])"
  using assms
  by (simp add: auth_succeeded_def apply_login_pin_task_def pin_intent_task_def apply_login_pin_def apply_unlock_pin_def
      fetch_sidebar_def sidebar_entries_def Let_def)

theorem session_restore_removes_pin_witness:
  "Ask DisableTpmPin To_TpmDisable \<in> set (snd (ui_run
     [(sample_ui_env, M_Auth SessionRestoreSubmitted), (sample_ui_env, M_Auth (AuthResult (Inr ())))]
     (ui_default\<lparr>ui_view := View_Vault, ui_tpm_available := True, ui_tpm_configured := True\<rparr>)))"
  by (subst session_restore_removes_pin) (simp_all add: ui_default_def)

section \<open>Answers after the lock, and fields of one name\<close>

lemma late_edit_after_lock:
  "ui_editing_entry (fst (ui_run [(U, M_Auth LockResult), (U, M_Edit (EditEntryLoaded (Inr e)))] a)) = Some e"
  by (simp add: Let_def)

text \<open>
  The subscription is not opened again: a lock that the agent announces after a failed read is never
  heard, and the answer to the one refresh shows the unlock form without wiping anything.
\<close>

lemma events_after_failed_read_lost:
  "agent_subscription (map (Inr \<circ> Event) evs @ Inl e # rs)
   = map (M_Lifecycle \<circ> EventReceived) evs @ [M_Lifecycle RefreshStateInternal]"
  by (induction evs) simp_all

lemma locked_snapshot_keeps_entry:
  "\<lbrakk>cs_has_account s; cs_is_locked s; \<not> stale_snapshot a s\<rbrakk>
   \<Longrightarrow> ui_view (fst (config_received s a)) = View_Unlock \<and> ui_selected_entry (fst (config_received s a)) = ui_selected_entry a"
  by (simp add: config_received_def store_snapshot_def prefill_login_def Let_def)

lemma failed_restore_hides_open_vault:
  "\<lbrakk>m \<noteq> ''new_device_verification_required''; cfg_email (ui_config a) = Some e\<rbrakk>
   \<Longrightarrow> ui_view (fst (ui_update U (M_Auth (AuthResult (Inl m))) a)) = View_Unlock
     \<and> ui_selected_entry (fst (ui_update U (M_Auth (AuthResult (Inl m))) a)) = ui_selected_entry a"
  by (simp add: auth_failed_def Let_def)

lemma password_edit_hits_custom_field:
  "\<lbrakk>e_data e = Login l; e_fields e = [f]; f_name f = Some ''Password''\<rbrakk>
   \<Longrightarrow> edit_draft ''Password'' v e = e\<lparr>e_data := Login (l\<lparr>lg_password := Some (Secret v)\<rparr>),
         e_fields := [f\<lparr>f_value := Some (Secret v)\<rparr>]\<rparr>"
  by (simp add: edit_draft_def)

lemma hidden_entry_unpinned:
  "(\<forall>e\<in>set (ui_entries a). se_id e \<noteq> i) \<Longrightarrow> snd (ui_update U (M_Vault (TogglePin i)) a) = [Ask (UnpinEntry i) To_Nothing]"
proof -
  have "(\<forall>e\<in>set es. se_id e \<noteq> i) \<Longrightarrow> flip_pin i es = (es, False)" for es by (induction es) auto
  then show "(\<forall>e\<in>set (ui_entries a). se_id e \<noteq> i) \<Longrightarrow> ?thesis" by (simp add: toggle_entry_pin_def toggle_pin_def)
qed

end
