(* ===== verification/Ui_View.thy ===== *)
theory Ui_View
  imports Ui_Update Server_Session
begin

text \<open>
  What the window shows of an entry, \<open>cosmarden-ui/src/view/vault/field.rs\<close>, \<open>notes.rs\<close> and \<open>detail.rs\<close>, and the
  texts of \<open>view/mod.rs\<close>. An \<open>Element\<close> is the list of its widgets in order: their texts, values and messages,
  without size, colour, alignment, images and tooltips (but for the user name of an applet row, which is data). A
  translated text is its key with its arguments. A slider has its bounds, its step and its value.
\<close>

section \<open>Widgets\<close>

datatype (plugins only: size) ui_text = Tr string "ui_text list" | Raw string

datatype (plugins only: size) widget =
    W_Text ui_text
  | W_Button ui_text "ui_message option"
  | W_Icon string "ui_message option"
  | W_Input ui_text string "string \<Rightarrow> ui_message" "ui_message option"
  | W_Secure ui_text string bool "ui_message option" "(string \<Rightarrow> ui_message) option" "ui_message option"
  | W_Toggle ui_text bool "bool \<Rightarrow> ui_message"
  | W_Slider u32 u32 u32 u32 "u32 \<Rightarrow> ui_message"
  | W_Tabs "ui_text list" nat "nat \<Rightarrow> ui_message"
  | W_Editor string "string \<Rightarrow> ui_message"
  | W_Spinner

abbreviation fl :: "string \<Rightarrow> ui_text" where "fl k \<equiv> Tr k []"

definition error_text :: "string option \<Rightarrow> widget list" where
  "error_text e = (case e of Some m \<Rightarrow> [W_Text (Tr ''error-fmt'' [Raw m])] | None \<Rightarrow> [])"

section \<open>Times\<close>

definition format_secs :: "u32 \<Rightarrow> ui_text" where
  "format_secs n = (let n = unat n in
     if n = 0 then fl ''duration-moment''
     else if n mod 3600 = 0 then Raw (show_nat (n div 3600) @ ''h'')
     else if 3600 \<le> n then Raw (show_nat (n div 3600) @ ''h'' @ show_nat (n mod 3600 div 60) @ ''m'')
     else if 60 \<le> n then Raw (show_nat (n div 60) @ ''m'')
     else Raw (show_nat n @ ''s''))"

text \<open>The quotient of \<open>era\<close> is the truncating one of Rust; the other values are not negative.\<close>

definition era_of :: "int \<Rightarrow> int" where
  "era_of z = (if 0 \<le> z then z div 146097 else - ((146096 - z) div 146097))"

definition civil_from_days :: "int \<Rightarrow> int \<times> int \<times> int" where
  "civil_from_days days =
     (let z = days + 719468;
          era = era_of z;
          doe = z - era * 146097;
          yoe = (doe - doe div 1460 + doe div 36524 - doe div 146096) div 365;
          y = yoe + era * 400;
          doy = doe - (365 * yoe + yoe div 4 - yoe div 100);
          mp = (5 * doy + 2) div 153;
          d = doy - (153 * mp + 2) div 5 + 1;
          m = (if mp < 10 then mp + 3 else mp - 9)
      in (if m \<le> 2 then y + 1 else y, m, d))"

definition days_from_civil :: "int \<Rightarrow> int \<Rightarrow> int \<Rightarrow> int" where
  "days_from_civil y m d =
     (let y = (if m \<le> 2 then y - 1 else y);
          era = (if 0 \<le> y then y div 400 else - ((399 - y) div 400));
          yoe = y - era * 400;
          doy = (153 * (if 2 < m then m - 3 else m + 9) + 2) div 5 + d - 1;
          doe = yoe * 365 + yoe div 4 - yoe div 100 + doy
      in era * 146097 + doe - 719468)"

definition pad_num :: "nat \<Rightarrow> int \<Rightarrow> string" where
  "pad_num w n =
     (let ds = show_nat (nat \<bar>n\<bar>); sign = (if n < 0 then ''-'' else []) in
      sign @ replicate (w - length sign - length ds) (CHR ''0'') @ ds)"

definition format_unix_timestamp_utc :: "u64 \<Rightarrow> string" where
  "format_unix_timestamp_utc t =
     (let s = sint t; (year, month, day) = civil_from_days (s div 86400); tod = s mod 86400 in
      pad_num 4 year @ ''-'' @ pad_num 2 month @ ''-'' @ pad_num 2 day @ '' ''
      @ pad_num 2 (tod div 3600) @ '':'' @ pad_num 2 (tod mod 3600 div 60))"

section \<open>The PIN's attempts\<close>

definition num_text :: "u32 \<Rightarrow> ui_text" where "num_text n = Raw (show_nat (unat n))"

definition tpm_da_line :: "ui_app \<Rightarrow> ui_text option" where
  "tpm_da_line a = (case ui_tpm_da a of
     None \<Rightarrow> None
   | Some da \<Rightarrow>
       if \<not> da_available da then None
       else if da_in_lockout da then
         Some (case da_recovery_interval_secs da of
                 Some s \<Rightarrow> Tr ''tpm-lockout-wait'' [format_secs s] | None \<Rightarrow> fl ''tpm-lockout'')
       else (case (da_remaining da, da_max_tries da) of
               (Some r, Some m) \<Rightarrow> Some (Tr ''tpm-attempts-remaining'' [num_text r, num_text m])
             | (Some r, None) \<Rightarrow> Some (Tr ''tpm-attempts-remaining-simple'' [num_text r])
             | _ \<Rightarrow> None))"

definition pin_feedback_line :: "ui_app \<Rightarrow> ui_text" where
  "pin_feedback_line a = (case tpm_da_line a of Some l \<Rightarrow> l | None \<Rightarrow> fl ''pin-incorrect'')"

section \<open>The rows of an entry\<close>

definition field_keys :: "(string \<times> string) list" where
  "field_keys =
    [(''Username'', ''field-username''), (''Password'', ''field-password''), (''TOTP'', ''field-totp''),
     (''TOTP Seed'', ''field-totp-seed''), (''Private Key'', ''field-private-key''),
     (''Public Key'', ''field-public-key''), (''Card Number'', ''field-card-number''),
     (''Cardholder'', ''field-cardholder''), (''Brand'', ''field-brand''), (''Email'', ''field-email''),
     (''SSN'', ''field-ssn''), (''Bank Name'', ''field-bank-name''), (''Name on Account'', ''field-name-on-account''),
     (''Account Type'', ''field-account-type''), (''Account Number'', ''field-account-number''),
     (''Routing Number'', ''field-routing-number''), (''Branch Number'', ''field-branch-number''),
     (''PIN'', ''field-pin''), (''SWIFT Code'', ''field-swift-code''), (''IBAN'', ''field-iban''),
     (''Bank Contact Phone'', ''field-bank-contact-phone''), (''First Name'', ''field-first-name''),
     (''Middle Name'', ''field-middle-name''), (''Last Name'', ''field-last-name''),
     (''Date of Birth'', ''field-date-of-birth''), (''License Number'', ''field-license-number''),
     (''Issuing Country'', ''field-issuing-country''), (''Issuing State'', ''field-issuing-state''),
     (''Issue Date'', ''field-issue-date''), (''Expiration Date'', ''field-expiration-date''),
     (''Issuing Authority'', ''field-issuing-authority''), (''License Class'', ''field-license-class''),
     (''Surname'', ''field-surname''), (''Given Name'', ''field-given-name''), (''Sex'', ''field-sex''),
     (''Birth Place'', ''field-birth-place''), (''Nationality'', ''field-nationality''),
     (''Passport Number'', ''field-passport-number''), (''Passport Type'', ''field-passport-type''),
     (''National Identification Number'', ''field-national-identification-number'')]"

definition field_label :: "string \<Rightarrow> ui_text" where
  "field_label k = (case map_of field_keys k of Some t \<Rightarrow> fl t | None \<Rightarrow> Raw k)"

record pane_row =
  pr_label :: string
  pr_value :: string
  pr_hidden :: bool

definition plain_row :: "string \<Rightarrow> string option \<Rightarrow> pane_row list" where
  "plain_row k v = (case v of Some s \<Rightarrow> [\<lparr>pr_label = k, pr_value = s, pr_hidden = False\<rparr>] | None \<Rightarrow> [])"

definition hidden_row :: "string \<Rightarrow> string option \<Rightarrow> pane_row" where
  "hidden_row k v = \<lparr>pr_label = k, pr_value = (case v of Some s \<Rightarrow> s | None \<Rightarrow> []), pr_hidden = True\<rparr>"

abbreviation secret_row :: "string \<Rightarrow> secret option \<Rightarrow> pane_row" where
  "secret_row k v \<equiv> hidden_row k (map_option expose v)"

fun data_rows :: "string option \<Rightarrow> entry_data \<Rightarrow> pane_row list" where
  "data_rows code (Login l) = plain_row ''Username'' (lg_username l)
     @ [secret_row ''Password'' (lg_password l), hidden_row ''TOTP'' code]"
| "data_rows code (SshKey s) = secret_row ''Private Key'' (sk_private_key s) # plain_row ''Public Key'' (sk_public_key s)"
| "data_rows code (Card c) = secret_row ''Card Number'' (cd_number c)
     # plain_row ''Cardholder'' (cd_cardholder_name c) @ plain_row ''Brand'' (cd_brand c)"
| "data_rows code (Identity i) = plain_row ''Username'' (id_username i) @ plain_row ''Email'' (id_email i)
     @ [hidden_row ''SSN'' (id_ssn i), hidden_row ''License Number'' (id_license_number i),
        hidden_row ''Passport Number'' (id_passport_number i)]"
| "data_rows code (BankAccount b) = plain_row ''Bank Name'' (ba_bank_name b)
     @ plain_row ''Name on Account'' (ba_name_on_account b) @ plain_row ''Account Type'' (ba_account_type b)
     @ [secret_row ''Account Number'' (ba_account_number b), secret_row ''Routing Number'' (ba_routing_number b),
        hidden_row ''Branch Number'' (ba_branch_number b), secret_row ''PIN'' (ba_pin b),
        hidden_row ''SWIFT Code'' (ba_swift_code b), hidden_row ''IBAN'' (ba_iban b)]
     @ plain_row ''Bank Contact Phone'' (ba_bank_contact_phone b)"
| "data_rows code (DriversLicense d) = plain_row ''First Name'' (dl_first_name d)
     @ plain_row ''Middle Name'' (dl_middle_name d) @ plain_row ''Last Name'' (dl_last_name d)
     @ plain_row ''Date of Birth'' (dl_date_of_birth d)
     @ [secret_row ''License Number'' (dl_license_number d)]
     @ plain_row ''Issuing Country'' (dl_issuing_country d) @ plain_row ''Issuing State'' (dl_issuing_state d)
     @ plain_row ''Issue Date'' (dl_issue_date d) @ plain_row ''Expiration Date'' (dl_expiration_date d)
     @ plain_row ''Issuing Authority'' (dl_issuing_authority d) @ plain_row ''License Class'' (dl_license_class d)"
| "data_rows code (Passport p) = plain_row ''Surname'' (pp_surname p) @ plain_row ''Given Name'' (pp_given_name p)
     @ [hidden_row ''Date of Birth'' (pp_date_of_birth p)]
     @ plain_row ''Sex'' (pp_sex p) @ plain_row ''Birth Place'' (pp_birth_place p)
     @ plain_row ''Nationality'' (pp_nationality p) @ plain_row ''Issuing Country'' (pp_issuing_country p)
     @ [secret_row ''Passport Number'' (pp_passport_number p)] @ plain_row ''Passport Type'' (pp_passport_type p)
     @ [hidden_row ''National Identification Number'' (pp_national_identification_number p)]
     @ plain_row ''Issuing Authority'' (pp_issuing_authority p) @ plain_row ''Issue Date'' (pp_issue_date p)
     @ plain_row ''Expiration Date'' (pp_expiration_date p)"
| "data_rows code SecureNote = []"

definition custom_row :: "field \<Rightarrow> pane_row option" where
  "custom_row f = (case f_name f of
     None \<Rightarrow> None
   | Some n \<Rightarrow> if f_ty f = Some FT_Hidden \<or> f_value f \<noteq> None
       then Some \<lparr>pr_label = n, pr_value = (case f_value f of Some v \<Rightarrow> expose v | None \<Rightarrow> []),
                  pr_hidden = (f_ty f = Some FT_Hidden)\<rparr>
       else None)"

definition entry_rows :: "ui_app \<Rightarrow> entry \<Rightarrow> pane_row list" where
  "entry_rows a e = data_rows (map_option expose (ui_totp_code a)) (e_data e) @ List.map_filter custom_row (e_fields e)"

definition view_field :: "ui_app \<Rightarrow> string \<Rightarrow> pane_row \<Rightarrow> widget list" where
  "view_field a i r =
     (if field_is_secret (pr_label r) (pr_hidden r)
      then [W_Text (field_label (pr_label r)),
            W_Secure (Raw []) (pr_value r) ((i, pr_label r) \<notin> ui_revealed_fields a)
              (Some (M_Secrets (ToggleRevealField i (pr_label r)))) None None,
            W_Icon ''edit-copy-symbolic'' (Some (M_Secrets (CopySecretField i (pr_label r))))]
      else [W_Text (field_label (pr_label r)), W_Text (Raw (pr_value r)),
            W_Icon ''edit-copy-symbolic'' (Some (M_App (CopyToClipboardClicked (pr_value r))))])"

section \<open>Notes\<close>

datatype notes_display_kind = Notes_Masked | Notes_Plaintext

definition notes_display :: "entry \<Rightarrow> bool \<Rightarrow> notes_display_kind" where
  "notes_display e revealed = (if revealed \<and> e_notes e \<noteq> None then Notes_Plaintext else Notes_Masked)"

definition view_notes :: "ui_app \<Rightarrow> entry \<Rightarrow> bool \<Rightarrow> widget list" where
  "view_notes a e editing =
     (if editing then [W_Editor (ui_notes_content a) (\<lambda>x. M_Edit (NotesAction x))]
      else [case notes_display e ((e_id e, ''Notes'') \<in> ui_revealed_fields a) of
              Notes_Plaintext \<Rightarrow> W_Text (Raw (case e_notes e of Some n \<Rightarrow> expose n | None \<Rightarrow> []))
            | Notes_Masked \<Rightarrow> W_Text (fl ''notes-hidden''),
            W_Icon ''image-red-eye-symbolic'' (Some (M_Secrets (ToggleRevealField (e_id e) ''Notes''))),
            W_Icon ''edit-copy-symbolic'' (Some (M_Secrets (CopySecretField (e_id e) ''Notes'')))])"

section \<open>The pane\<close>

definition opt_text :: "string option \<Rightarrow> string" where
  "opt_text v = (case v of Some s \<Rightarrow> s | None \<Rightarrow> [])"

text \<open>One input of the edit form: its label, the key its message carries, what it shows, whether it is masked.\<close>

record edit_input =
  ei_label :: string
  ei_key :: string
  ei_value :: string
  ei_secure :: bool

fun edit_inputs :: "entry_data \<Rightarrow> edit_input list" where
  "edit_inputs (Login l) =
     [\<lparr>ei_label = ''Username'', ei_key = ''Username'', ei_value = opt_text (lg_username l), ei_secure = False\<rparr>,
      \<lparr>ei_label = ''Password'', ei_key = ''Password'', ei_value = opt_text (map_option expose (lg_password l)), ei_secure = True\<rparr>,
      \<lparr>ei_label = ''TOTP Seed'', ei_key = ''TOTP'', ei_value = opt_text (map_option expose (lg_totp l)), ei_secure = False\<rparr>]"
| "edit_inputs (SshKey s) =
     [\<lparr>ei_label = ''Private Key'', ei_key = ''Private Key'', ei_value = opt_text (map_option expose (sk_private_key s)), ei_secure = True\<rparr>,
      \<lparr>ei_label = ''Public Key'', ei_key = ''Public Key'', ei_value = opt_text (sk_public_key s), ei_secure = False\<rparr>]"
| "edit_inputs d = []"

definition edit_widgets :: "ui_app \<Rightarrow> edit_input \<Rightarrow> widget list" where
  "edit_widgets a x =
     [W_Text (field_label (ei_label x)),
      if ei_secure x
      then W_Secure (field_label (ei_label x)) (ei_value x) (\<not> ui_edit_password_revealed a)
        (Some (M_App ToggleEditPasswordReveal)) (Some (\<lambda>v. M_Edit (EditFieldChanged (ei_key x) v))) None
      else W_Input (field_label (ei_label x)) (ei_value x) (\<lambda>v. M_Edit (EditFieldChanged (ei_key x) v)) None]"

definition type_selector :: "widget list" where
  "type_selector =
     [W_Text (fl ''entry-type''),
      W_Button (fl ''entry-type-login'') (Some (M_Edit (NewEntryTypeChanged ET_Login))),
      W_Button (fl ''entry-type-note'') (Some (M_Edit (NewEntryTypeChanged ET_SecureNote))),
      W_Button (fl ''entry-type-ssh-key'') (Some (M_Edit (NewEntryTypeChanged ET_SshKey)))]"

definition view_header :: "ui_app \<Rightarrow> entry \<Rightarrow> widget list" where
  "view_header a e = (case ui_editing_entry a of
     None \<Rightarrow>
       [W_Icon (if (case List.find (\<lambda>x. se_id x = e_id e) (ui_entries a) of Some x \<Rightarrow> se_is_pinned x | None \<Rightarrow> False)
                then ''starred-symbolic'' else ''non-starred-symbolic'') (Some (M_Vault (TogglePin (e_id e)))),
        W_Text (Raw (e_name e)), W_Button (fl ''edit'') (Some (M_Edit EditEntry))]
   | Some d \<Rightarrow>
       [W_Input (fl ''name'') (e_name d) (\<lambda>v. M_Edit (EditNameChanged v)) None,
        W_Button (fl ''save'') (Some (M_Edit SaveEdit)), W_Button (fl ''cancel'') (Some (M_Edit CancelEdit))])"

definition view_fields :: "ui_app \<Rightarrow> entry \<Rightarrow> widget list" where
  "view_fields a e = (case ui_editing_entry a of
     None \<Rightarrow> concat (map (view_field a (e_id e)) (entry_rows a e))
   | Some d \<Rightarrow> (if is_new d then type_selector else []) @ concat (map (edit_widgets a) (edit_inputs (e_data d))))"

definition view_delete :: "ui_app \<Rightarrow> entry \<Rightarrow> widget list" where
  "view_delete a e = (if ui_editing_entry a = None then []
     else if ui_deleting a then [W_Spinner]
     else [W_Button (fl ''delete-entry'') (Some (M_Vault (DeleteEntryClicked (e_id e))))])"

definition view_entry_details :: "ui_app \<Rightarrow> entry \<Rightarrow> widget list" where
  "view_entry_details a e = view_header a e @ view_fields a e @ [W_Text (fl ''notes'')]
     @ view_notes a e (ui_editing_entry a \<noteq> None) @ view_delete a e
     @ [W_Button (Tr ''entry-id'' [Raw (e_id e)]) (Some (M_App (CopyToClipboardClicked (e_id e))))]"

end
