(* ===== verification/Ui_Screens.thy ===== *)
theory Ui_Screens
  imports Ui_View
begin

text \<open>
  The screens of the window and of the applet's popup, \<open>cosmarden-ui/src/view/\<close> and \<open>application_view\<close> of
  \<open>runtime.rs\<close>: which widgets are there in which state.
\<close>

section \<open>Login and unlock (\<open>auth.rs\<close>)\<close>

definition ELLIPSIS :: string where "ELLIPSIS = [CHR 0xE2, CHR 0x80, CHR 0xA6]"

definition busy_label :: "ui_app \<Rightarrow> string \<Rightarrow> ui_text" where
  "busy_label a k = (if ui_auth_loading a then Raw ELLIPSIS else fl k)"

definition min_pin :: ui_text where "min_pin = Tr ''pin-min-chars'' [Raw (show_nat MIN_PIN_LEN)]"

definition login_disabled :: "ui_app \<Rightarrow> bool" where
  "login_disabled a \<longleftrightarrow> trim (ui_login_email a) = [] \<or> ui_login_password a = []
     \<or> ui_show_verification_input a \<and> ui_login_verification_code a = [] \<or> ui_auth_loading a"

definition view_login :: "ui_app \<Rightarrow> widget list" where
  "view_login a =
     [W_Text (fl ''welcome-title''), W_Text (fl ''welcome-body''),
      W_Input (fl ''email'') (ui_login_email a) (\<lambda>v. M_Auth (EmailChanged v)) None,
      W_Secure (fl ''master-password'') (ui_login_password a) (\<not> ui_master_password_revealed a)
        (Some (M_App ToggleMasterPasswordReveal)) (Some (\<lambda>v. M_Auth (PasswordChanged v))) (Some (M_Auth LoginSubmitted))]
     @ (if ui_show_verification_input a then
          [W_Text (fl ''new-device-verification''),
           W_Input (fl ''verification-code'') (ui_login_verification_code a) (\<lambda>v. M_Auth (VerificationCodeChanged v))
             (Some (M_Auth LoginSubmitted))] else [])
     @ [W_Button (fl (if ui_show_advanced a then ''hide-advanced'' else ''show-advanced'')) (Some (M_App ToggleAdvanced))]
     @ (if ui_show_advanced a then
          [W_Input (fl ''server-url-optional'') (ui_login_server a) (\<lambda>v. M_Auth (ServerChanged v)) None] else [])
     @ [W_Toggle (fl ''remember-email'') (ui_login_remember a) (\<lambda>v. M_Auth (RememberChanged v))]
     @ (if ui_tpm_available a then
          [W_Toggle (fl ''enable-pin-after-login'') (ui_login_pin_enabled a) (\<lambda>v. M_Auth (LoginPinEnabledToggled v))] else [])
     @ (if ui_tpm_available a \<and> ui_login_pin_enabled a then
          [W_Secure min_pin (ui_login_pin a) (\<not> ui_login_pin_revealed a) (Some (M_Auth LoginPinRevealToggled))
             (Some (\<lambda>v. M_Auth (LoginPinChanged v))) (Some (M_Auth LoginSubmitted)),
           W_Text (fl ''pin-tpm-note-login'')]
        else if ui_tpm_available a \<and> ui_tpm_configured a then [W_Text (fl ''pin-login-leftover-note'')] else [])
     @ error_text (ui_error a)
     @ [W_Button (busy_label a ''login'') (if login_disabled a then None else Some (M_Auth LoginSubmitted))]"

definition email_line :: "ui_app \<Rightarrow> widget list" where
  "email_line a = (if ui_login_email a \<noteq> [] then [W_Text (Raw (ui_login_email a))] else [])"

definition view_pin_unlock :: "ui_app \<Rightarrow> widget list" where
  "view_pin_unlock a =
     [W_Text (fl ''vault-locked''), W_Text (fl ''enter-pin-to-unlock'')] @ email_line a
     @ [W_Secure (fl ''locked-need-pin'') (ui_main_window_pin a) True None
          (Some (\<lambda>v. M_Auth (MainWindowPinChanged v))) (Some (M_Auth MainWindowPinSubmitted))]
     @ (if ui_pin_incorrect a then [W_Text (pin_feedback_line a)] else [])
     @ error_text (ui_error a)
     @ [W_Button (busy_label a ''unlock'')
          (if \<not> ui_auth_loading a \<and> ui_main_window_pin a \<noteq> [] then Some (M_Auth MainWindowPinSubmitted) else None),
        W_Button (fl ''use-master-password-instead'') (Some (M_Applet AppletUseMasterPasswordInstead))]"

definition view_password_unlock :: "ui_app \<Rightarrow> widget list" where
  "view_password_unlock a =
     [W_Text (fl ''vault-locked''), W_Text (fl ''enter-master-password-to-unlock'')] @ email_line a
     @ [W_Secure (fl ''master-password'') (ui_unlock_password a) (\<not> ui_master_password_revealed a)
          (Some (M_App ToggleMasterPasswordReveal)) (Some (\<lambda>v. M_Auth (UnlockPasswordChanged v)))
          (Some (M_Auth UnlockSubmitted))]
     @ (if ui_tpm_available a then
          [W_Secure min_pin (ui_unlock_pin a) (\<not> ui_unlock_pin_revealed a) (Some (M_Auth UnlockPinRevealToggled))
             (Some (\<lambda>v. M_Auth (UnlockPinChanged v))) (Some (M_Auth UnlockSubmitted)),
           W_Text (fl (if ui_tpm_configured a then ''pin-reenable-note'' else ''pin-optional-note''))] else [])
     @ error_text (ui_error a)
     @ [W_Button (busy_label a ''unlock'')
          (if ui_unlock_password a = [] \<or> ui_auth_loading a then None else Some (M_Auth UnlockSubmitted)),
        W_Button (fl ''logout'') (Some (M_Auth LogoutClicked))]"

definition view_auth :: "ui_app \<Rightarrow> widget list" where
  "view_auth a =
     (if ui_view a = View_Setup then view_login a
      else if ui_unlock_mode a = Mode_Pin \<and> ui_tpm_configured a then view_pin_unlock a
      else if \<not> ui_tpm_status_known a then [W_Text (fl ''vault-locked''), W_Spinner]
      else view_password_unlock a)"

section \<open>The sidebar (\<open>vault/sidebar.rs\<close>)\<close>

definition is_session_expired :: "bool \<Rightarrow> string option \<Rightarrow> bool" where
  "is_session_expired failed e \<longleftrightarrow> failed \<and> (case e of Some m \<Rightarrow> contains_str ERR_NO_SESSION m | None \<Rightarrow> False)"

definition sync_area :: "ui_app \<Rightarrow> widget" where
  "sync_area a =
     (if ui_syncing a then W_Spinner
      else if is_session_expired (ui_sync_failed a) (ui_error a)
        then W_Icon ''dialog-password-symbolic'' (Some (M_Auth SessionRestoreToggle))
      else if ui_sync_failed a then W_Icon ''network-error-symbolic'' (Some (M_Vault SyncClicked))
      else W_Icon ''emblem-synchronizing-symbolic'' (Some (M_Vault SyncClicked)))"

definition view_session_restore :: "ui_app \<Rightarrow> widget list" where
  "view_session_restore a = (if ui_show_session_restore a then
     [W_Text (fl ''restore-session-note''),
      W_Secure (fl ''master-password'') (ui_session_restore_password a) (\<not> ui_session_restore_revealed a)
        (Some (M_Auth SessionRestoreRevealToggled)) (Some (\<lambda>v. M_Auth (SessionRestorePasswordChanged v)))
        (Some (M_Auth SessionRestoreSubmitted)),
      W_Button (fl ''restore-session'') (Some (M_Auth SessionRestoreSubmitted)),
      W_Button (fl ''cancel'') (Some (M_Auth SessionRestoreToggle))] else [])"

definition filter_idx :: "entry_type option \<Rightarrow> nat" where
  "filter_idx f = (case f of Some ET_Login \<Rightarrow> 1 | Some ET_SecureNote \<Rightarrow> 2 | Some ET_SshKey \<Rightarrow> 3 | _ \<Rightarrow> 0)"

definition view_sidebar :: "ui_app \<Rightarrow> widget list" where
  "view_sidebar a =
     [W_Tabs [fl ''filter-all'', fl ''filter-logins'', fl ''filter-notes'', fl ''filter-ssh-keys'']
        (filter_idx (ui_filter_type a)) (\<lambda>i. M_Vault (FilterTabActivated i)),
      W_Input (fl ''search'') (ui_search_query a) (\<lambda>v. M_Vault (SearchChanged v)) None,
      W_Icon (if ui_search_only_pinned a then ''starred-symbolic'' else ''non-starred-symbolic'') (Some (M_Vault ToggleSearchPinned))]
     @ (if ui_entries a = [] then [W_Text (fl ''no-entries-found'')]
        else map (\<lambda>e. W_Button (Raw (se_name e)) (Some (M_Vault (SelectEntry (se_id e))))) (ui_entries a))
     @ [W_Button (fl ''add'') (Some (M_Edit AddEntryRequested)),
        W_Button (fl ''password-generator'') (Some (M_Pwgen GeneratorViewClicked)),
        sync_area a, W_Icon ''system-lock-screen-symbolic'' (Some (M_Auth LockClicked)),
        W_Icon ''system-log-out-symbolic'' (Some (M_Auth LogoutClicked)),
        W_Button (fl ''settings'') (Some (M_App SettingsViewClicked))]
     @ (if ui_sync_failed a then (case ui_error a of Some m \<Rightarrow> [W_Text (Raw m)] | None \<Rightarrow> []) else [])
     @ view_session_restore a"

section \<open>The generator pane (\<open>vault/generator.rs\<close>)\<close>

definition LENGTH_MIN :: u32 where "LENGTH_MIN = 8"
definition LENGTH_MAX :: u32 where "LENGTH_MAX = 32"

definition view_generator_settings :: "ui_app \<Rightarrow> widget list" where
  "view_generator_settings a = (let s = ui_generator_settings a in
     [W_Toggle (fl ''uppercase'') (gs_uppercase s) (\<lambda>v. M_Pwgen (GeneratorUppercaseToggled v)),
      W_Toggle (fl ''lowercase'') (gs_lowercase s) (\<lambda>v. M_Pwgen (GeneratorLowercaseToggled v)),
      W_Toggle (fl ''numbers'') (gs_numbers s) (\<lambda>v. M_Pwgen (GeneratorNumbersToggled v)),
      W_Toggle (fl ''special-characters'') (gs_special s) (\<lambda>v. M_Pwgen (GeneratorSpecialToggled v)),
      W_Text (Tr ''password-length'' [num_text (ucast (gs_length s))]),
      W_Slider LENGTH_MIN LENGTH_MAX 1 (ucast (gs_length s)) (\<lambda>v. M_Pwgen (GeneratorLengthChanged v)),
      W_Button (fl ''generate'') (Some (M_Pwgen GeneratorGenerateClicked)),
      W_Button (fl ''reset'') (Some (M_Pwgen GeneratorResetClicked))]
     @ (case ui_generator_result a of
          Some pw \<Rightarrow> [W_Secure (Raw []) (expose pw) (\<not> ui_generator_result_revealed a) (Some (M_Pwgen GeneratorRevealToggled)) None None,
                      W_Icon ''edit-copy-symbolic'' (Some (M_App (CopyToClipboardClicked (expose pw))))]
        | None \<Rightarrow> [W_Text (fl ''no-password-generated-yet'')])
     @ error_text (ui_generator_error a))"

definition history_row :: "ui_app \<Rightarrow> nat \<Rightarrow> generator_history_entry \<Rightarrow> widget list" where
  "history_row a i h =
     [W_Text (Raw (format_unix_timestamp_utc (gh_created_at h))),
      W_Secure (Raw []) (expose (gh_password h)) (i \<notin> ui_generator_history_revealed a)
        (Some (M_Pwgen (GeneratorHistoryRevealToggled i))) None None,
      W_Icon ''edit-copy-symbolic'' (Some (M_App (CopyToClipboardClicked (expose (gh_password h))))),
      W_Icon ''user-trash-symbolic'' (Some (M_Pwgen (GeneratorHistoryDeleteRequested i)))]"

definition view_generator_history :: "ui_app \<Rightarrow> widget list" where
  "view_generator_history a = W_Text (fl ''recent-passwords'')
     # (if ui_generator_history a = [] then [W_Text (fl ''no-recent-passwords'')]
        else concat (map (\<lambda>(i, h). history_row a i h) (enumerate 0 (ui_generator_history a))))"

definition view_generator :: "ui_app \<Rightarrow> widget list" where
  "view_generator a =
     [W_Text (fl ''password-generator''),
      W_Tabs [fl ''generator-tab-generate'', fl ''generator-tab-history''] (ui_generator_tab a) (\<lambda>i. M_Pwgen (GeneratorTabActivated i))]
     @ (if ui_generator_tab a = 1 then view_generator_history a else view_generator_settings a)"

section \<open>Settings (\<open>settings.rs\<close>)\<close>

definition LOCK_MIN :: u64 where "LOCK_MIN = 5"
definition LOCK_MAX :: u64 where "LOCK_MAX = 90"
definition LOCK_STEP :: u32 where "LOCK_STEP = 5"

definition lock_minutes :: "config \<Rightarrow> u32" where
  "lock_minutes c = ucast (min LOCK_MAX (max LOCK_MIN (cfg_lock_timeout c div 60)))"

definition settings_form :: "config \<Rightarrow> widget list" where
  "settings_form c =
     [W_Text (fl ''server''), W_Input (fl ''server-label'') (opt_text (cfg_base_url c)) (\<lambda>v. M_App (SettingsServerChanged v)) None,
      W_Text (Tr ''autolock-minutes'' [num_text (lock_minutes c)]),
      W_Slider (ucast LOCK_MIN) (ucast LOCK_MAX) LOCK_STEP (lock_minutes c) (\<lambda>v. M_App (SettingsLockTimeoutChanged v))]"

definition settings_shown :: "config \<Rightarrow> widget list" where
  "settings_shown c =
     [W_Text (fl ''account''), W_Text (Raw (case cfg_email c of Some e \<Rightarrow> e | None \<Rightarrow> EM_DASH)),
      W_Text (fl ''server-label''), W_Text (case cfg_base_url c of Some u \<Rightarrow> Raw u | None \<Rightarrow> fl ''bitwarden-cloud''),
      W_Text (fl ''auto-lock''), W_Text (Tr ''minutes-fmt'' [Raw (show_nat (unat (cfg_lock_timeout c div 60)))])]"

definition tpm_diagnostic_icon :: "bool \<Rightarrow> string" where
  "tpm_diagnostic_icon passed = (if passed then ''object-select-symbolic'' else ''process-stop-symbolic'')"

definition diagnostic_row :: "string \<times> bool \<times> string \<Rightarrow> widget list" where
  "diagnostic_row = (\<lambda>(label, passed, hint).
     [W_Icon (tpm_diagnostic_icon passed) None, W_Text (Raw label)] @ (if passed then [] else [W_Text (Raw hint)]))"

definition tpm_form :: "ui_app \<Rightarrow> widget list" where
  "tpm_form a =
     (if ui_tpm_configured a \<and> ui_show_tpm_disable_form a then
        [W_Text (fl ''pin-will-be-removed''), W_Button (fl ''disable-pin-unlock'') (Some (M_Tpm TpmDisableSubmitted)),
         W_Button (fl ''cancel'') (Some (M_Tpm TpmDisableFormToggle))]
      else if \<not> ui_tpm_configured a \<and> ui_show_tpm_setup_form a then
        [W_Text (fl ''new-pin''), W_Secure (Tr ''new-pin-min-chars'' [Raw (show_nat MIN_PIN_LEN)]) (ui_tpm_setup_pin a) (\<not> ui_tpm_setup_pin_revealed a)
           (Some (M_Tpm TpmSetupPinRevealToggled)) (Some (\<lambda>v. M_Tpm (TpmSetupPinChanged v))) (Some (M_Tpm TpmSetupSubmitted)),
         W_Text (fl ''pin-tpm-note-settings''), W_Button (fl ''enable'') (Some (M_Tpm TpmSetupSubmitted)),
         W_Button (fl ''cancel'') (Some (M_Tpm TpmSetupFormToggle))]
      else [])"

definition tpm_settings_section :: "ui_app \<Rightarrow> widget list" where
  "tpm_settings_section a = W_Text (fl ''pin-unlock-title'')
     # (if \<not> ui_tpm_status_known a then [W_Text (fl ''checking-tpm'')]
        else if \<not> ui_tpm_available a then
          (if ui_tpm_diagnostics a = [] then [W_Text (fl ''tpm-not-accessible'')]
           else concat (map diagnostic_row (ui_tpm_diagnostics a)))
        else (let on = ui_tpm_configured a \<or> ui_show_tpm_setup_form a in
          [W_Text (fl ''pin-unlock''), W_Text (fl (if on then ''status-active'' else ''status-not-configured'')),
           W_Toggle (Raw []) on (\<lambda>v. M_Tpm (if v then TpmSetupFormToggle else TpmDisableFormToggle))]
          @ error_text (ui_tpm_error a)
          @ (case tpm_da_line a of Some l \<Rightarrow> [W_Text l] | None \<Rightarrow> [])
          @ tpm_form a))"

definition view_settings :: "string \<Rightarrow> ui_app \<Rightarrow> widget list" where
  "view_settings version a =
     (let config = (case ui_editing_config a of Some c \<Rightarrow> c | None \<Rightarrow> ui_config a) in
      W_Text (fl ''settings'')
      # (if ui_editing_config a \<noteq> None
         then [W_Button (fl ''save'') (Some (M_App SettingsSaveClicked)), W_Button (fl ''cancel'') (Some (M_App SettingsCancelClicked))]
         else [W_Button (fl ''edit'') (Some (M_App SettingsEditClicked))])
      @ (if ui_editing_config a \<noteq> None then settings_form config else settings_shown config)
      @ tpm_settings_section a
      @ (if ui_editing_config a \<noteq> None then []
         else [W_Button (Raw (''v'' @ version)) (Some (M_App (CopyToClipboardClicked version))),
               W_Button (Raw ''https://github.com/donatengit/cosmic-bwarden'')
                 (Some (M_App (CopyToClipboardClicked ''https://github.com/donatengit/cosmic-bwarden'')))]))"

section \<open>The window (\<open>vault/mod.rs\<close>, \<open>view/mod.rs\<close>)\<close>

definition view_vault_right_panel :: "string \<Rightarrow> ui_app \<Rightarrow> widget list" where
  "view_vault_right_panel version a =
     (if ui_view a = View_Settings then view_settings version a
      else if ui_view a = View_PasswordGenerator then view_generator a
      else (case ui_selected_entry a of Some e \<Rightarrow> view_entry_details a e | None \<Rightarrow> [W_Text (fl ''select-entry'')]))"

definition view_vault :: "string \<Rightarrow> ui_app \<Rightarrow> widget list" where
  "view_vault version a = view_sidebar a @ view_vault_right_panel version a"

definition mismatch_text :: "widget list" where
  "mismatch_text = [W_Text (fl ''protocol-version-mismatch''), W_Button (fl ''quit'') (Some (M_Applet Exit))]"

definition view_content :: "string \<Rightarrow> ui_app \<Rightarrow> widget list" where
  "view_content version a =
     (if ui_protocol_mismatch a then mismatch_text
      else (case ui_view a of
              View_Loading \<Rightarrow> [W_Text (fl ''loading'')]
            | View_Setup \<Rightarrow> view_auth a
            | View_Unlock \<Rightarrow> view_auth a
            | _ \<Rightarrow> view_vault version a))"

definition view_dialogs :: "ui_app \<Rightarrow> widget list option" where
  "view_dialogs a =
     (if ui_show_delete_confirm a \<noteq> None then
        Some [W_Text (fl ''delete-entry-title''), W_Text (fl ''confirm-delete''),
              W_Button (fl ''delete'') (Some (M_Vault ConfirmDelete)), W_Button (fl ''cancel'') (Some (M_Vault CancelDelete))]
      else if ui_show_reprompt a \<noteq> None then
        Some [W_Text (fl ''master-password-required''), W_Text (fl ''enter-master-password''),
              W_Secure (fl ''master-password'') (ui_reprompt_password a) (\<not> ui_reprompt_password_revealed a)
                (Some (M_App ToggleRepromptPasswordReveal)) (Some (\<lambda>v. M_Vault (RepromptPasswordChanged v)))
                (Some (M_Vault SubmitReprompt)),
              W_Button (fl ''verify'') (Some (M_Vault SubmitReprompt)), W_Button (fl ''cancel'') (Some (M_Vault CancelReprompt))]
      else if ui_generator_history_delete_pending a \<noteq> None then
        Some [W_Text (fl ''delete-history-entry-title''), W_Text (fl ''confirm-delete-history-entry''),
              W_Button (fl ''delete'') (Some (M_Pwgen GeneratorHistoryDeleteConfirmed)),
              W_Button (fl ''cancel'') (Some (M_Pwgen GeneratorHistoryDeleteCancelled))]
      else None)"

text \<open>\<open>application_view\<close>: the dialog lies over the content.\<close>

definition application_view :: "string \<Rightarrow> ui_app \<Rightarrow> widget list \<times> widget list option" where
  "application_view version a = (view_content version a, view_dialogs a)"

section \<open>The popup of the applet (\<open>applet/\<close>)\<close>

definition applet_session_expired :: "ui_app \<Rightarrow> bool" where
  "applet_session_expired a = (case ui_error a of Some e \<Rightarrow> contains_str ''session token'' e | None \<Rightarrow> False)"

definition header_row :: "ui_app \<Rightarrow> widget list" where
  "header_row a =
     [W_Button (fl ''open-vault-window'') (Some (M_Applet OpenVaultRequested))]
     @ (if ui_sync_failed a \<and> is_unlocked (ui_view a) then
          [if applet_session_expired a then W_Icon ''dialog-password-symbolic'' (Some (M_Auth LogoutClicked))
           else W_Icon ''network-error-symbolic'' (Some (M_Vault SyncClicked))] else [])
     @ [W_Icon ''insert-drawing-symbolic'' (Some (M_Row AppletGeneratePasswordRequested))]
     @ (if is_unlocked (ui_view a) then [W_Icon ''system-lock-screen-symbolic'' (Some (M_Auth LockClicked))] else [])
     @ [W_Icon ''system-log-out-symbolic'' (Some (M_Auth LogoutClicked))]"

definition reprompt_row :: "ui_app \<Rightarrow> widget list" where
  "reprompt_row a =
     [W_Secure (fl ''master-password'') (ui_applet_reprompt_password a) (\<not> ui_applet_reprompt_password_revealed a)
        (Some (M_Applet AppletToggleRepromptPasswordReveal)) (Some (\<lambda>v. M_Row (AppletRepromptPasswordChanged v)))
        (Some (M_Row AppletRepromptSubmitted)),
      W_Icon ''object-select-symbolic'' (Some (M_Row AppletRepromptSubmitted)),
      W_Icon ''window-close-symbolic'' (Some (M_Row AppletRepromptCancelled))]"

definition open_in_vault :: "string \<Rightarrow> widget" where
  "open_in_vault i = W_Icon ''preferences-workspaces-symbolic'' (Some (M_Row (AppletOpenInVault i)))"

definition copy_secret_icon :: "string \<Rightarrow> widget" where
  "copy_secret_icon i = W_Icon ''network-vpn-symbolic'' (Some (M_Row (AppletCopySecret i)))"

definition result_row_view :: "applet_row \<Rightarrow> widget list" where
  "result_row_view r = (case ar_kind r of
     Row_Login u l \<Rightarrow>
       [W_Button (Raw (ar_label r)) (if u \<noteq> None then Some (M_Row (AppletCopyPrimary (ar_id r))) else None)]
       @ (case u of Some n \<Rightarrow> [W_Text (Raw n)] | None \<Rightarrow> [])
       @ [open_in_vault (ar_id r),
          W_Icon ''window-pop-out-symbolic'' (map_option (\<lambda>u. M_Row (AppletOpenLink u)) l), copy_secret_icon (ar_id r)]
   | _ \<Rightarrow> [W_Button (Raw (ar_label r)) (Some (M_Row (AppletCopySecret (ar_id r)))),
          open_in_vault (ar_id r), copy_secret_icon (ar_id r)])"

definition view_applet_search :: "(string \<Rightarrow> string option) \<Rightarrow> ui_app \<Rightarrow> widget list" where
  "view_applet_search psl a =
     [W_Input (fl ''search'') (ui_applet_search_query a) (\<lambda>v. M_Row (AppletSearchChanged v)) None,
      W_Icon (if ui_applet_search_only_favourites a then ''starred-symbolic'' else ''non-starred-symbolic'')
        (Some (M_Row AppletToggleFavouritesFilter))]
     @ (case build_applet_rows psl (ui_applet_search_results a) of
          [] \<Rightarrow> [W_Text (fl (if trim (ui_applet_search_query a) = [] then ''no-pinned-entries'' else ''no-results''))]
        | rs \<Rightarrow> concat (map (\<lambda>r. if ui_applet_reprompt_id a = Some (ar_id r) then reprompt_row a else result_row_view r) rs))"

definition view_applet_unlock :: "ui_app \<Rightarrow> widget list" where
  "view_applet_unlock a =
     (if \<not> ui_tpm_status_known a then [W_Spinner]
      else if ui_unlock_mode a = Mode_Pin then
        [W_Secure (fl ''locked-need-pin'') (ui_applet_pin a) (\<not> ui_applet_pin_revealed a) (Some (M_Applet AppletTogglePinReveal))
           (Some (\<lambda>v. M_Applet (AppletPinChanged v))) (Some (M_Applet AppletPinSubmitted)),
         W_Icon ''changes-allow-symbolic'' (Some (M_Applet AppletPinSubmitted))]
        @ (if ui_pin_incorrect a then [W_Text (pin_feedback_line a)] else [])
        @ [W_Button (fl ''use-master-password-instead'') (Some (M_Applet AppletUseMasterPasswordInstead))]
      else
        [W_Secure (fl ''locked-need-password'') (ui_applet_unlock_password a) (\<not> ui_applet_unlock_password_revealed a)
           (Some (M_Applet AppletToggleUnlockPasswordReveal)) (Some (\<lambda>v. M_Applet (AppletUnlockPasswordChanged v)))
           (Some (M_Applet AppletUnlockSubmitted)),
         W_Icon ''changes-allow-symbolic'' (Some (M_Applet AppletUnlockSubmitted))]
        @ (if ui_tpm_available a then
             [W_Secure (fl ''pin-empty-to-disable'') (ui_unlock_pin a) (\<not> ui_unlock_pin_revealed a)
                (Some (M_Auth UnlockPinRevealToggled)) (Some (\<lambda>v. M_Auth (UnlockPinChanged v)))
                (Some (M_Applet AppletUnlockSubmitted)),
              W_Text (fl (if ui_tpm_configured a then ''pin-reenable-note-short'' else ''pin-optional-note-short''))] else []))"

definition quit_footer :: "widget list" where
  "quit_footer = [W_Button (fl ''quit'') (Some (M_Applet Exit))]"

definition applet_popup_content :: "(string \<Rightarrow> string option) \<Rightarrow> ui_app \<Rightarrow> widget list" where
  "applet_popup_content psl a =
     (if ui_protocol_mismatch a then W_Text (fl ''protocol-version-mismatch'') # quit_footer
      else header_row a
        @ (if is_unlocked (ui_view a) then view_applet_search psl a
           else if ui_view a = View_Setup then [W_Text (fl ''not-configured'')]
           else view_applet_unlock a)
        @ (case ui_applet_error a of Some e \<Rightarrow> [W_Text (Raw e)] | None \<Rightarrow> [])
        @ quit_footer)"

section \<open>The icon in the panel and the windows\<close>

definition APPLET_ICON :: string where "APPLET_ICON = ''cosmarden-symbolic.svg''"
definition APPLET_ICON_LOCKED :: string where "APPLET_ICON_LOCKED = ''cosmarden-locked-symbolic.svg''"

definition applet_view :: "ui_app \<Rightarrow> widget list" where
  "applet_view a =
     [W_Icon (if is_unlocked (ui_view a) then APPLET_ICON else APPLET_ICON_LOCKED) (Some (M_Applet AppletIconClicked))]"

text \<open>A window that is a popup of the applet, a surface of the panel, or a window of its own.\<close>

definition view_instance :: "(string \<Rightarrow> string option) \<Rightarrow> string \<Rightarrow> bool \<Rightarrow> nat \<Rightarrow> ui_app \<Rightarrow> widget list" where
  "view_instance psl version in_panel i a =
     (if i \<in> set (ui_windows a) then applet_popup_content psl a
      else if in_panel then applet_view a
      else view_content version a)"

end
