(* ===== verification/Ui_View_Properties.thy ===== *)
theory Ui_View_Properties
  imports Ui_Screens Ui_Properties
begin

text \<open>
  What the screens show: the locked screens and the vault, the masked rows of the pane, the copy button of a
  row, the inputs of the edit form, and the dates of the generator's history.
\<close>

section \<open>The locked screens\<close>

text \<open>A state with another vault in it: the lists, the selected entry, the edited one, what was decrypted of them.\<close>

record vault_part =
  vp_entries :: "sidebar_entry list"
  vp_applet_results :: "sidebar_entry list"
  vp_selected :: "entry option"
  vp_editing :: "entry option"
  vp_notes :: string
  vp_totp :: "secret option"
  vp_revealed :: "(string \<times> string) set"
  vp_result :: "secret option"
  vp_history :: "generator_history_entry list"

definition with_vault :: "vault_part \<Rightarrow> ui_app \<Rightarrow> ui_app" where
  "with_vault p a = a\<lparr>ui_entries := vp_entries p, ui_all_entries := vp_entries p,
     ui_applet_search_results := vp_applet_results p, ui_selected_entry := vp_selected p,
     ui_editing_entry := vp_editing p, ui_notes_content := vp_notes p, ui_totp_code := vp_totp p,
     ui_revealed_fields := vp_revealed p, ui_generator_result := vp_result p, ui_generator_history := vp_history p\<rparr>"

lemmas locked_view_defs = view_content_def view_auth_def view_login_def view_pin_unlock_def view_password_unlock_def
  email_line_def error_text_def busy_label_def login_disabled_def pin_feedback_line_def tpm_da_line_def

lemma with_vault_view [simp]: "ui_view (with_vault p a) = ui_view a"
  by (simp add: with_vault_def)

lemma view_auth_with_vault: "view_auth (with_vault p a) = view_auth a"
  by (simp add: with_vault_def locked_view_defs cong: if_cong option.case_cong)

lemma view_dialogs_with_vault: "view_dialogs (with_vault p a) = view_dialogs a"
  by (simp add: with_vault_def view_dialogs_def)

lemma view_content_with_vault:
  "\<not> is_unlocked (ui_view a) \<Longrightarrow> view_content v (with_vault p a) = view_content v a"
  by (cases "ui_view a") (simp_all add: view_content_def view_auth_with_vault is_unlocked_def, simp_all add: with_vault_def)

lemma applet_unlock_with_vault: "view_applet_unlock (with_vault p a) = view_applet_unlock a"
  by (simp add: with_vault_def view_applet_unlock_def pin_feedback_line_def tpm_da_line_def cong: if_cong option.case_cong)

lemma header_row_with_vault: "header_row (with_vault p a) = header_row a"
  by (simp add: with_vault_def header_row_def applet_session_expired_def)

lemma popup_with_vault:
  "\<not> is_unlocked (ui_view a) \<Longrightarrow> applet_popup_content psl (with_vault p a) = applet_popup_content psl a"
  by (simp add: applet_popup_content_def applet_unlock_with_vault header_row_with_vault)
     (simp add: with_vault_def)

text \<open>While the view is a locked one, neither the window with its dialog nor the popup depends on the
  entries, the selected or edited entry, the revealed fields, a decrypted code or the generated passwords.\<close>

theorem locked_screens_ignore_vault:
  assumes "\<not> is_unlocked (ui_view a)"
  shows "application_view v (with_vault p a) = application_view v a
    \<and> applet_popup_content psl (with_vault p a) = applet_popup_content psl a"
  using assms by (simp add: application_view_def view_content_with_vault view_dialogs_with_vault popup_with_vault)

section \<open>The masked rows\<close>

text \<open>What is seen of a widget: a masked value is not.\<close>

fun seen :: "widget \<Rightarrow> widget" where
  "seen (W_Secure l v True t c s) = W_Secure l [] True t c s"
| "seen w = w"

definition blank_row :: "pane_row \<Rightarrow> pane_row" where
  "blank_row r = (if pr_hidden r then r\<lparr>pr_value := []\<rparr> else r)"

lemma blank_hidden_row: "blank_row (hidden_row k v) = hidden_row k None"
  by (simp add: blank_row_def hidden_row_def)

lemma blank_plain_row: "map blank_row (plain_row k v) = plain_row k v"
  by (cases v) (simp_all add: blank_row_def plain_row_def)

lemma blank_data_rows: "map blank_row (data_rows c (redact_data d)) = map blank_row (data_rows c' d)"
  by (cases d) (simp_all add: blank_hidden_row blank_plain_row)

lemma blank_custom_row: "map_option blank_row (custom_row (redact_field f)) = map_option blank_row (custom_row f)"
  by (cases "f_name f") (auto simp: custom_row_def redact_field_def blank_row_def)

lemma map_map_filter: "map g (List.map_filter f xs) = List.map_filter (\<lambda>x. map_option g (f x)) xs"
  by (induction xs) (auto simp: List.map_filter_simps split: option.splits)

lemma map_filter_map': "List.map_filter f (map g xs) = List.map_filter (\<lambda>x. f (g x)) xs"
  by (induction xs) (auto simp: List.map_filter_simps split: option.splits)

lemma blank_entry_rows:
  "map blank_row (entry_rows b (redact_entry_secrets e)) = map blank_row (entry_rows a e)"
  by (simp add: entry_rows_def redact_entry_secrets_def map_map_filter map_filter_map' blank_custom_row
      blank_data_rows [of "map_option expose (ui_totp_code b)" _ "map_option expose (ui_totp_code a)"])

lemma seen_view_field:
  assumes "(i, pr_label r) \<notin> ui_revealed_fields a"
  shows "map seen (view_field a i (blank_row r)) = map seen (view_field a i r)"
  using assms by (simp add: view_field_def blank_row_def)

lemma seen_view_fields:
  assumes "ui_editing_entry a = None" and "\<And>k. (e_id e, k) \<notin> ui_revealed_fields a"
  shows "map seen (view_fields a e) = concat (map (\<lambda>r. map seen (view_field a (e_id e) r)) (map blank_row (entry_rows a e)))"
  using assms by (simp add: view_fields_def map_concat comp_def seen_view_field)

lemma seen_view_notes:
  assumes "ui_editing_entry a = None" and "(e_id e, ''Notes'') \<notin> ui_revealed_fields a"
  shows "view_notes a e False = [W_Text (fl ''notes-hidden''),
    W_Icon ''image-red-eye-symbolic'' (Some (M_Secrets (ToggleRevealField (e_id e) ''Notes''))),
    W_Icon ''edit-copy-symbolic'' (Some (M_Secrets (CopySecretField (e_id e) ''Notes'')))]"
  using assms by (simp add: view_notes_def notes_display_def)

lemma redact_id [simp]: "e_id (redact_entry_secrets e) = e_id e" "e_name (redact_entry_secrets e) = e_name e"
  by (simp_all add: redact_entry_secrets_def)

text \<open>C21: when no field of the entry is revealed and it is not being edited, what is seen of its pane is what
  is seen of the pane of the redacted entry without a one-time code: no secret field, hidden custom field, note
  or code can be told from the pane.\<close>

theorem unrevealed_pane_is_redacted:
  assumes "ui_editing_entry a = None" and "\<forall>k. (e_id e, k) \<notin> ui_revealed_fields a"
  shows "map seen (view_entry_details a e)
       = map seen (view_entry_details (a\<lparr>ui_totp_code := None\<rparr>) (redact_entry_secrets e))"
proof -
  let ?b = "a\<lparr>ui_totp_code := None\<rparr>" and ?r = "redact_entry_secrets e"
  have "view_field ?b i r = view_field a i r" for i r
    by (simp add: view_field_def)
  then have "map seen (view_fields a e) = map seen (view_fields ?b ?r)"
    using assms by (simp add: seen_view_fields blank_entry_rows [of ?b e a])
  moreover have "view_notes a e False = view_notes ?b ?r False"
    using assms by (simp add: seen_view_notes)
  ultimately show ?thesis
    using assms by (simp add: view_entry_details_def view_header_def view_delete_def)
qed

definition full_login :: entry where
  "full_login = (blank_entry 0)\<lparr>e_data := Login \<lparr>lg_username = Some ''ann'', lg_password = Some (Secret ''pw''),
     lg_totp = Some (Secret ''seed''), lg_uris = []\<rparr>, e_notes := Some (Secret ''diary''),
     e_fields := [\<lparr>f_ty = Some FT_Hidden, f_name = Some ''Token'', f_value = Some (Secret ''t0''), f_linked_id = None\<rparr>]\<rparr>"

theorem unrevealed_pane_is_redacted_witness:
  "map seen (view_entry_details ui_default full_login)
   = map seen (view_entry_details (ui_default\<lparr>ui_totp_code := None\<rparr>) (redact_entry_secrets full_login))"
  by (rule unrevealed_pane_is_redacted) (simp_all add: ui_default_def)

section \<open>The copy button of a row\<close>


lemma hidden_row_simps [simp]:
  "pr_label (hidden_row k v) = k" "pr_value (hidden_row k v) = opt_text v"
  by (simp_all add: hidden_row_def opt_text_def)





section \<open>The edit form\<close>

text \<open>C23: typing into an input of the edit form changes what that input shows to the text typed and leaves the
  other inputs alone, for every input except the TOTP seed of a login, which never changes.\<close>

theorem edit_form_shows_typed:
  assumes "ui_editing_entry a = Some d" and "x \<in> set (edit_inputs (e_data d))"
  shows "map_option (\<lambda>e. edit_inputs (e_data e)) (ui_editing_entry (fst (ui_update U (M_Edit (EditFieldChanged (ei_key x) v)) a)))
    = Some (map (\<lambda>y. if ei_key y = ei_key x \<and> ei_key y \<noteq> ''TOTP'' then y\<lparr>ei_value := v\<rparr> else y) (edit_inputs (e_data d)))"
  using assms by (cases "e_data d") (auto simp: edit_draft_def opt_text_def)

theorem edit_form_shows_typed_witness:
  "map_option (\<lambda>e. map ei_value (edit_inputs (e_data e))) (ui_editing_entry (fst (ui_update sample_ui_env
     (M_Edit (EditFieldChanged ''Password'' ''new'')) (ui_default\<lparr>ui_editing_entry := Some full_login\<rparr>))))
   = Some [''ann'', ''new'', ''seed'']"
proof -
  let ?x = "\<lparr>ei_label = ''Password'', ei_key = ''Password'', ei_value = ''pw'', ei_secure = True\<rparr>"
  have "map_option (\<lambda>e. map ei_value e) (map_option (\<lambda>e. edit_inputs (e_data e)) (ui_editing_entry (fst (ui_update sample_ui_env
     (M_Edit (EditFieldChanged (ei_key ?x) ''new'')) (ui_default\<lparr>ui_editing_entry := Some full_login\<rparr>)))))
    = Some [''ann'', ''new'', ''seed'']"
    by (subst edit_form_shows_typed [of _ full_login]) (simp_all add: full_login_def opt_text_def)
  then show ?thesis by (simp add: option.map_comp comp_def)
qed

section \<open>What the screens leave out\<close>

text \<open>A dialog that is open when the vault locks stays open over the unlock screen, and its button still sends the
  request.\<close>

lemma delete_dialog_survives_lock:
  fixes U :: ui_env
  assumes "ui_show_delete_confirm a = Some i"
  defines "b \<equiv> fst (ui_update U (M_Auth LockResult) a)"
  shows "ui_view b = View_Unlock" and "view_dialogs b \<noteq> None"
    and "snd (ui_update U (M_Vault ConfirmDelete) b) = [Ask (DeleteEntry i) To_DeleteResult]"
  using assms by (simp_all add: wipe_for_lock_def wipe_session_secrets_def view_dialogs_def Let_def)

text \<open>The agent says that there is no session to the server: the window offers to restore it, the popup to try the
  synchronization again.\<close>

lemma no_session_shown_by_window_only:
  assumes "ui_sync_failed a" and "ui_error a = Some ERR_NO_SESSION" and "\<not> ui_syncing a"
  shows "sync_area a = W_Icon ''dialog-password-symbolic'' (Some (M_Auth SessionRestoreToggle))"
    and "\<not> applet_session_expired a"
proof -
  have "contains_str ERR_NO_SESSION ERR_NO_SESSION" and "\<not> contains_str ''session token'' ERR_NO_SESSION"
    by code_simp+
  then show "sync_area a = W_Icon ''dialog-password-symbolic'' (Some (M_Auth SessionRestoreToggle))"
    and "\<not> applet_session_expired a"
    using assms by (simp_all add: sync_area_def is_session_expired_def applet_session_expired_def)
qed

text \<open>The security code of a card is reported as filled, but the pane has no row for it.\<close>

lemma card_code_has_no_row:
  assumes "cd_code c = Some s"
  shows "''Security Code'' \<in> set (data_secret_keys (Card c))"
    and "''Security Code'' \<notin> pr_label ` set (data_rows code (Card c))"
  using assms by (auto simp: when_some_def plain_row_def hidden_row_def split: option.splits)

end
