(* ===== verification/Ui_Dates.thy ===== *)
theory Ui_Dates
  imports Ui_View
begin

text \<open>
  The calendar of the generator's history: \<open>civil_from_days\<close> gives a date of the Gregorian calendar, and its day
  number is the one it was given.
\<close>

section \<open>Monotone quotients\<close>

lemma minus_div_mono:
  fixes x y k :: int
  assumes "x \<le> y" and "0 < k"
  shows "x - x div k \<le> y - y div k"
proof -
  have "y - x \<le> (y - x) * k" using assms mult_left_mono [of 1 k "y - x"] by simp
  then have "y div k \<le> (x + (y - x) * k) div k" using assms by (intro zdiv_mono1) simp_all
  also have "\<dots> = x div k + (y - x)" using assms by simp
  finally show ?thesis by simp
qed

definition year_days :: "int \<Rightarrow> int" where
  "year_days x = x - x div 1460 + x div 36524 - x div 146096"

lemma year_days_mono: "x \<le> y \<Longrightarrow> year_days x \<le> year_days y"
proof -
  assume l: "x \<le> y"
  have q: "z div 146096 = z div 36524 div 4" for z :: int
    using zdiv_zmult2_eq [of 4 z 36524] by simp
  have "x div 36524 - x div 36524 div 4 \<le> y div 36524 - y div 36524 div 4"
    using l by (intro minus_div_mono zdiv_mono1) simp_all
  then show ?thesis
    using minus_div_mono [OF l, of 1460] by (simp add: year_days_def q)
qed

section \<open>Years of an era\<close>

text \<open>The day of the era on which a year begins (on the first of March) and the day after its last.\<close>

definition year_start :: "int \<Rightarrow> int" where
  "year_start y = 365 * y + y div 4 - y div 100"

definition year_end :: "int \<Rightarrow> int" where
  "year_end y = (if y = 399 then 146097 else year_start (y + 1))"

definition leap_year :: "int \<Rightarrow> bool" where
  "leap_year y \<longleftrightarrow> 4 dvd y \<and> (\<not> 100 dvd y \<or> 400 dvd y)"

definition year_fits :: "int \<Rightarrow> bool" where
  "year_fits y \<longleftrightarrow> 365 * y \<le> year_days (year_start y) \<and> year_days (year_end y - 1) < 365 * y + 365
     \<and> year_end y - year_start y = (if leap_year (y + 1) then 366 else 365)"

text \<open>Writing a year of the era as century, group of four years and rest makes every quotient of the formula plain.\<close>

definition year_split :: "int \<Rightarrow> int \<Rightarrow> int \<Rightarrow> int \<Rightarrow> bool" where
  "year_split y c q r \<longleftrightarrow> y = 100 * c + 4 * q + r \<and> c \<in> {0..3} \<and> q \<in> {0..24} \<and> r \<in> {0..3}"

lemma year_split_ex:
  assumes "0 \<le> y" and "y < 400"
  obtains c q r where "year_split y c q r"
proof
  have "0 \<le> y div 100 \<and> y div 100 \<le> 3" and "0 \<le> y mod 100 div 4 \<and> y mod 100 div 4 \<le> 24"
    and "0 \<le> y mod 100 mod 4 \<and> y mod 100 mod 4 \<le> 3"
    using assms by presburger+
  then show "year_split y (y div 100) (y mod 100 div 4) (y mod 100 mod 4)"
    by (simp add: year_split_def)
qed

lemma div_val:
  fixes x k v e :: int
  assumes "x = k * v + e" and "0 \<le> e" and "e < k"
  shows "x div k = v"
  using int_div_pos_eq [of x k v e] assms by simp

lemma year_start_split: "year_split y c q r \<Longrightarrow> year_start y = 36524 * c + 1461 * q + 365 * r"
proof -
  assume s: "year_split y c q r"
  then have "y div 4 = 25 * c + q" by (intro div_val [of _ _ _ r]) (simp_all add: year_split_def)
  moreover have "y div 100 = c" using s by (intro div_val [of _ _ _ "4 * q + r"]) (simp_all add: year_split_def)
  ultimately show ?thesis using s by (simp add: year_start_def year_split_def)
qed

lemma year_days_start:
  assumes s: "year_split y c q r"
  shows "year_days (year_start y) = 365 * y"
proof -
  let ?s = "36524 * c + 1461 * q + 365 * r"
  have "?s div 1460 = 25 * c + q"
    using s by (intro div_val [of _ _ _ "24 * c + q + 365 * r"]) (simp_all add: year_split_def)
  moreover have "?s div 36524 = c"
    using s by (intro div_val [of _ _ _ "1461 * q + 365 * r"]) (simp_all add: year_split_def)
  moreover have "?s div 146096 = 0"
    using s by (intro div_val [of _ _ _ ?s]) (simp_all add: year_split_def)
  ultimately show ?thesis
    unfolding year_start_split [OF s] year_days_def using s by (simp add: year_split_def)
qed

lemma last_day_short:
  assumes s: "year_split y c q r" and "r < 3 \<or> q = 24 \<and> c < 3"
  shows "year_days (year_start y + 364) < 365 * y + 365"
proof -
  let ?s = "36524 * c + 1461 * q + 365 * r + 364"
  have "?s div 36524 = c"
    using assms by (intro div_val [of _ _ _ "1461 * q + 365 * r + 364"]) (auto simp: year_split_def)
  moreover have "?s div 146096 = 0"
    using assms by (intro div_val [of _ _ _ ?s]) (auto simp: year_split_def)
  moreover have "25 * c + q \<le> ?s div 1460"
    using s zdiv_mono1 [of "1460 * (25 * c + q)" ?s 1460] by (simp add: year_split_def)
  ultimately show ?thesis
    unfolding year_start_split [OF s] year_days_def using s by (simp add: year_split_def)
qed

lemma last_day_long:
  assumes s: "year_split y c q r" and "r = 3" and "q < 24 \<or> c = 3"
  shows "year_days (year_start y + 365) < 365 * y + 365"
proof -
  have y: "y = 100 * c + 4 * q + 3" and b: "c \<in> {0..3}" "q \<in> {0..24}"
    using assms by (simp_all add: year_split_def)
  define d where "d = year_start y + 365"
  have d: "d = 36524 * c + 1461 * q + 1460"
    using assms(2) by (simp add: d_def year_start_split [OF s])
  have "d div 1460 = 25 * c + q + 1"
    using b by (intro div_val [of _ _ _ "24 * c + q"]) (simp_all add: d)
  moreover have "d div 36524 - d div 146096 = c"
  proof (cases "q = 24 \<and> c = 3")
    case True
    then show ?thesis by (simp add: d)
  next
    case False
    have "d div 36524 = c" and "d div 146096 = 0"
      using False b assms(3) by (auto intro!: div_val [of _ _ c "1461 * q + 1460"] div_val [of _ _ 0 d] simp: d)
    then show ?thesis by simp
  qed
  ultimately have "year_days d = d - (25 * c + q + 1) + c" by (simp add: year_days_def)
  then have "year_days d < 365 * y + 365" by (simp add: y d)
  then show ?thesis by (simp only: d_def)
qed

text \<open>A year of the era that begins in March has a 366th day when the next calendar year is a leap year.\<close>

lemma small_dvd:
  fixes x k :: int
  assumes "0 < x" and "x \<le> k"
  shows "k dvd x \<longleftrightarrow> x = k"
  using assms zdvd_imp_le [of k x] by auto

lemma leap_split:
  assumes "year_split y c q r"
  shows "leap_year (y + 1) \<longleftrightarrow> r = 3 \<and> (q < 24 \<or> c = 3)"
proof -
  have four: "4 dvd y + 1 \<longleftrightarrow> r = 3"
    using assms dvd_add_right_iff [of 4 "4 * (25 * c + q)" "r + 1"] small_dvd [of "r + 1" 4]
    by (simp add: year_split_def algebra_simps)
  have hundred: "100 dvd y + 1 \<longleftrightarrow> q = 24" if "r = 3"
    using assms that dvd_add_right_iff [of 100 "100 * c" "4 * (q + 1)"] small_dvd [of "4 * (q + 1)" 100]
    by (simp add: year_split_def algebra_simps)
  have "400 dvd y + 1 \<longleftrightarrow> c = 3" if "r = 3" and "q = 24"
    using assms that small_dvd [of "100 * (c + 1)" 400] by (simp add: year_split_def algebra_simps)
  then show ?thesis
    using four hundred assms by (auto simp: leap_year_def year_split_def)
qed

lemma year_start_next:
  assumes s: "year_split y c q r"
  shows "year_end y = year_start y + (if leap_year (y + 1) then 366 else 365)"
proof -
  consider "r < 3" | "r = 3" "q < 24" | "r = 3" "q = 24" "c < 3" | "r = 3" "q = 24" "c = 3"
  proof atomize_elim
    have "r \<le> 3 \<and> q \<le> 24 \<and> c \<le> 3" using s by (simp add: year_split_def)
    then show "r < 3 \<or> r = 3 \<and> q < 24 \<or> r = 3 \<and> q = 24 \<and> c < 3 \<or> r = 3 \<and> q = 24 \<and> c = 3" by arith
  qed
  then show ?thesis
  proof cases
    case 1
    then have n: "year_split (y + 1) c q (r + 1)" using s by (simp add: year_split_def)
    have "y \<noteq> 399" using 1 s by (simp add: year_split_def)
    with 1 show ?thesis
      by (simp add: year_end_def leap_split [OF s] year_start_split [OF s] year_start_split [OF n])
  next
    case 2
    then have n: "year_split (y + 1) c (q + 1) 0" using s by (simp add: year_split_def)
    have "y \<noteq> 399" using 2 s by (simp add: year_split_def)
    with 2 show ?thesis
      by (simp add: year_end_def leap_split [OF s] year_start_split [OF s] year_start_split [OF n])
  next
    case 3
    then have n: "year_split (y + 1) (c + 1) 0 0" using s by (simp add: year_split_def)
    have "y \<noteq> 399" using 3 s by (simp add: year_split_def)
    with 3 show ?thesis
      by (simp add: year_end_def leap_split [OF s] year_start_split [OF s] year_start_split [OF n])
  next
    case 4
    then have "year_end y = 146097" using s by (simp add: year_end_def year_split_def)
    with 4 show ?thesis by (simp add: leap_split [OF s] year_start_split [OF s])
  qed
qed

lemma year_fits_of:
  assumes "0 \<le> y" and "y < 400"
  shows "year_fits y"
proof -
  obtain c q r where s: "year_split y c q r" using assms by (rule year_split_ex)
  show ?thesis
  proof (cases "leap_year (y + 1)")
    case True
    then show ?thesis
      using last_day_long [OF s] leap_split [OF s]
      by (simp add: year_fits_def year_days_start [OF s] year_start_next [OF s] add.commute)
  next
    case False
    then have "r < 3 \<or> q = 24 \<and> c < 3" using s by (auto simp: leap_split [OF s] year_split_def)
    from last_day_short [OF s this] False show ?thesis
      by (simp add: year_fits_def year_days_start [OF s] year_start_next [OF s] add.commute)
  qed
qed

lemma year_of_day:
  assumes "0 \<le> d" and "d < year_end (int n)" and "n < 400"
  shows "\<exists>y. 0 \<le> y \<and> y \<le> int n \<and> year_start y \<le> d \<and> d < year_end y"
  using assms
proof (induction n)
  case 0
  then show ?case by (intro exI [of _ 0]) (simp add: year_start_def)
next
  case (Suc n)
  show ?case
  proof (cases "d < year_end (int n)")
    case True
    with Suc obtain y where "0 \<le> y \<and> y \<le> int n \<and> year_start y \<le> d \<and> d < year_end y" by auto
    then show ?thesis by (intro exI [of _ y]) auto
  next
    case False
    with Suc.prems have "year_start (int (Suc n)) \<le> d" by (auto simp: year_end_def add.commute split: if_splits)
    with Suc.prems show ?thesis by (intro exI [of _ "int (Suc n)"]) simp
  qed
qed

lemma year_of_era_day:
  assumes "0 \<le> d" and "d < 146097"
  defines "y \<equiv> (d - d div 1460 + d div 36524 - d div 146096) div 365"
  shows "0 \<le> y" and "y < 400" and "year_start y \<le> d" and "d < year_end y" and "year_fits y"
proof -
  obtain z where z: "0 \<le> z" "z \<le> 399" "year_start z \<le> d" "d < year_end z"
    using year_of_day [of d 399] assms(1,2) by (auto simp: year_end_def)
  then have f: "year_fits z" by (simp add: year_fits_of)
  have "365 * z \<le> year_days d" and "year_days d < 365 * z + 365"
    using f year_days_mono [OF z(3)] year_days_mono [of d "year_end z - 1"] z(4) by (auto simp: year_fits_def)
  then have "year_days d div 365 = z" by (intro int_div_pos_eq [of _ _ _ "year_days d - 365 * z"]) simp_all
  then have "y = z" by (simp add: y_def year_days_def)
  with z f show "0 \<le> y" and "y < 400" and "year_start y \<le> d" and "d < year_end y" and "year_fits y" by simp_all
qed

section \<open>Days of a year\<close>

definition month_length :: "int \<Rightarrow> int \<Rightarrow> int" where
  "month_length y m = (if m = 2 then (if leap_year y then 29 else 28) else if m \<in> {4, 6, 9, 11} then 30 else 31)"

definition month_of :: "int \<Rightarrow> int" where
  "month_of doy = (let mp = (5 * doy + 2) div 153 in if mp < 10 then mp + 3 else mp - 9)"

definition day_of :: "int \<Rightarrow> int" where
  "day_of doy = (let mp = (5 * doy + 2) div 153 in doy - (153 * mp + 2) div 5 + 1)"

definition doy_fits :: "int \<Rightarrow> bool" where
  "doy_fits doy \<longleftrightarrow> (let m = month_of doy; d = day_of doy in
     1 \<le> m \<and> m \<le> 12 \<and> 1 \<le> d
     \<and> d \<le> (if m = 2 then (if doy = 365 then 29 else 28) else if m = 4 \<or> m = 6 \<or> m = 9 \<or> m = 11 then 30 else 31)
     \<and> (153 * (if 2 < m then m - 3 else m + 9) + 2) div 5 + d - 1 = doy
     \<and> (doy = 365 \<longrightarrow> m = 2))"

text \<open>The months from March on have 31, 30, 31, 30, 31 days, twice, then January and February.\<close>

lemma doy_month:
  fixes doy :: int
  assumes "0 \<le> doy" and "doy < 366"
  obtains k where "(5 * doy + 2) div 153 = k" and "153 * k \<le> 5 * doy + 2" and "5 * doy + 2 < 153 * k + 153"
    and "k \<in> {0, 1, 2, 3, 4, 5, 6, 7, 8, 9, 10, 11}"
proof
  let ?k = "(5 * doy + 2) div 153"
  show b: "153 * ?k \<le> 5 * doy + 2" "5 * doy + 2 < 153 * ?k + 153"
    using mult_div_mod_eq [of 153 "5 * doy + 2"] pos_mod_bound [of 153 "5 * doy + 2"] pos_mod_sign [of 153 "5 * doy + 2"]
    by linarith+
  have "?k \<in> set [0..11]" using assms b by auto
  then show "?k \<in> {0, 1, 2, 3, 4, 5, 6, 7, 8, 9, 10, 11}" by (simp add: upto_rec1)
qed simp

lemma doy_fits_of:
  assumes "0 \<le> doy" and "doy < 366"
  shows "doy_fits doy"
proof -
  obtain k where k: "(5 * doy + 2) div 153 = k" "153 * k \<le> 5 * doy + 2" "5 * doy + 2 < 153 * k + 153"
    "k \<in> {0, 1, 2, 3, 4, 5, 6, 7, 8, 9, 10, 11}"
    using assms by (rule doy_month)
  show ?thesis
    using k(4,2,3) assms unfolding doy_fits_def month_of_def day_of_def Let_def k(1)
    by (elim insertE emptyE) simp_all
qed

section \<open>Eras\<close>

lemma ceil_div:
  fixes z k :: int
  assumes "0 < k"
  shows "- ((k - 1 - z) div k) = z div k"
proof -
  have "(k - 1 - z) div k = (- z - 1) div k + 1"
    using assms div_mult_self2 [of k "- z - 1" 1] by (simp add: algebra_simps)
  also have "(- z - 1) div k = - (z div k) - 1"
  proof (rule int_div_pos_eq [of _ _ _ "k - 1 - z mod k"])
    show "- z - 1 = k * (- (z div k) - 1) + (k - 1 - z mod k)"
      using mult_div_mod_eq [of k z] by (simp add: algebra_simps)
  qed (use assms pos_mod_bound [of k z] pos_mod_sign [of k z] in linarith)+
  finally show ?thesis by simp
qed

lemma era_of_div: "era_of z = z div 146097"
  using ceil_div [of 146097 z] by (simp add: era_of_def)

lemma era_of_year: "(if 0 \<le> y then y div 400 else - ((399 - y) div 400)) = (y div 400 :: int)"
  using ceil_div [of 400 y] by simp

lemma leap_year_era: "leap_year (y + e * 400) \<longleftrightarrow> leap_year y"
proof -
  have "k dvd y + e * 400 \<longleftrightarrow> k dvd y" if "k dvd 400" for k
    using that by (simp add: dvd_add_left_iff)
  then show ?thesis by (simp add: leap_year_def)
qed

text \<open>The date of a day, in the terms above.\<close>

lemma civil_from_days_parts:
  obtains era y doy where "civil_from_days z = (if month_of doy \<le> 2 then y + era * 400 + 1 else y + era * 400, month_of doy, day_of doy)"
    and "z = era * 146097 + year_start y + doy - 719468" and "0 \<le> y" and "y < 400" and "0 \<le> doy" and "doy < 366"
    and "doy = 365 \<longrightarrow> leap_year (y + 1)"
proof
  define s where "s = z + 719468"
  define doe where "doe = s mod 146097"
  define y where "y = (doe - doe div 1460 + doe div 36524 - doe div 146096) div 365"
  have e: "s - era_of s * 146097 = doe" by (simp add: doe_def era_of_div minus_div_mult_eq_mod)
  have "0 \<le> doe" and "doe < 146097" by (simp_all add: doe_def)
  note Y = year_of_era_day [OF this, folded y_def]
  show "0 \<le> y" and "y < 400" and "0 \<le> doe - year_start y" using Y by simp_all
  have "year_end y - year_start y = (if leap_year (y + 1) then 366 else 365)"
    using Y(5) by (simp add: year_fits_def)
  then show "doe - year_start y < 366" and "doe - year_start y = 365 \<longrightarrow> leap_year (y + 1)"
    using Y(4) by (auto split: if_splits)
  show "z = era_of s * 146097 + year_start y + (doe - year_start y) - 719468"
    using e by (simp add: s_def)
  have "civil_from_days z = (let doy = doe - year_start y; mp = (5 * doy + 2) div 153; m = (if mp < 10 then mp + 3 else mp - 9)
      in (if m \<le> 2 then y + era_of s * 400 + 1 else y + era_of s * 400, m, doy - (153 * mp + 2) div 5 + 1))"
    unfolding civil_from_days_def Let_def s_def [symmetric] e y_def [symmetric] year_start_def by (rule refl)
  then show "civil_from_days z = (if month_of (doe - year_start y) \<le> 2 then y + era_of s * 400 + 1 else y + era_of s * 400,
      month_of (doe - year_start y), day_of (doe - year_start y))"
    by (simp add: month_of_def day_of_def Let_def)
qed

lemma days_from_civil_parts:
  assumes "0 \<le> y" and "y < 400" and "doy_fits doy"
  shows "days_from_civil (if month_of doy \<le> 2 then y + era * 400 + 1 else y + era * 400) (month_of doy) (day_of doy)
    = era * 146097 + year_start y + doy - 719468"
proof -
  have q: "(y + era * 400) div 400 = era" using assms by simp
  show ?thesis
    using assms(3) by (simp add: days_from_civil_def Let_def era_of_year q year_start_def doy_fits_def)
qed

section \<open>Day after day\<close>

definition next_day :: "int \<Rightarrow> int \<Rightarrow> int \<Rightarrow> int \<times> int \<times> int" where
  "next_day y m d =
     (if d < month_length y m then (y, m, d + 1) else if m < 12 then (y, m + 1, 1) else (y + 1, 1, 1))"

definition march_days :: "int \<Rightarrow> int" where
  "march_days y = y div 400 * 146097 + year_start (y mod 400)"

lemma march_days_next: "march_days (y + 1) = march_days y + (if leap_year (y + 1) then 366 else 365)"
proof -
  have y: "leap_year (y mod 400 + 1) \<longleftrightarrow> leap_year (y + 1)"
    using leap_year_era [of "y mod 400 + 1" "y div 400"] div_mult_mod_eq [of y 400] by (simp add: algebra_simps)
  obtain c q r where s: "year_split (y mod 400) c q r" by (rule year_split_ex [of "y mod 400"]) simp_all
  note n = year_start_next [OF s, unfolded y]
  show ?thesis
  proof (cases "y mod 400 = 399")
    case True
    then have d: "(y + 1) div 400 = y div 400 + 1" and "(y + 1) mod 400 = 0"
      by (simp_all add: mod_add_eq [symmetric] div_add1_eq [of y 1])
    then show ?thesis
      using n True by (simp add: march_days_def year_end_def year_start_def)
  next
    case False
    then have m: "y mod 400 + 1 < 400" using pos_mod_bound [of 400 y] by simp
    have "(y + 1) div 400 = y div 400"
      using m div_mult_mod_eq [of y 400] by (intro div_val [of _ _ _ "y mod 400 + 1"]) simp_all
    moreover from this have "(y + 1) mod 400 = y mod 400 + 1" by (simp add: minus_div_mult_eq_mod [symmetric])
    ultimately show ?thesis
      using n False by (simp add: march_days_def year_end_def)
  qed
qed

lemma days_from_civil_march:
  "days_from_civil y m d = march_days (if m \<le> 2 then y - 1 else y)
     + (153 * (if 2 < m then m - 3 else m + 9) + 2) div 5 + d - 719469"
proof -
  have "y - y div 400 * 400 = y mod 400" for y :: int by (rule minus_div_mult_eq_mod)
  then show ?thesis
    unfolding days_from_civil_def Let_def era_of_year march_days_def year_start_def by presburger
qed

lemma days_from_civil_next:
  assumes "1 \<le> m" and "m \<le> 12" and "1 \<le> d" and "d \<le> month_length y m"
  shows "(case next_day y m d of (y', m', d') \<Rightarrow> days_from_civil y' m' d') = days_from_civil y m d + 1"
proof (cases "d < month_length y m")
  case True
  then show ?thesis by (simp add: next_day_def days_from_civil_march)
next
  case False
  then have d: "d = month_length y m" using assms(4) by simp
  have "m \<in> set [1..12]" using assms by auto
  then have "m \<in> {1, 2, 3, 4, 5, 6, 7, 8, 9, 10, 11, 12}" by (simp add: upto_rec1)
  then show ?thesis
    using march_days_next [of "y - 1"] unfolding d
    by (elim insertE emptyE) (simp_all add: next_day_def days_from_civil_march month_length_def)
qed

text \<open>C24: the date shown for a time is a date of the calendar, with the month's own number of days, and it is the
  date of the very day: it is the day number of \<open>days_from_civil\<close>, which counts one for every day of the calendar from
  the first of January 1970.\<close>

theorem history_date_correct:
  "case civil_from_days z of (y, m, d) \<Rightarrow>
     1 \<le> m \<and> m \<le> 12 \<and> 1 \<le> d \<and> d \<le> month_length y m \<and> days_from_civil y m d = z
     \<and> (case next_day y m d of (y', m', d') \<Rightarrow> days_from_civil y' m' d') = z + 1 \<and> days_from_civil 1970 1 1 = 0"
proof -
  obtain era y doy where p: "civil_from_days z = (if month_of doy \<le> 2 then y + era * 400 + 1 else y + era * 400, month_of doy, day_of doy)"
      "z = era * 146097 + year_start y + doy - 719468" "0 \<le> y" "y < 400" "0 \<le> doy" "doy < 366"
      "doy = 365 \<longrightarrow> leap_year (y + 1)"
    by (rule civil_from_days_parts)
  have f: "doy_fits doy" using p(5,6) by (rule doy_fits_of)
  have "leap_year (y + era * 400 + 1) \<longleftrightarrow> leap_year (y + 1)"
    using leap_year_era [of "y + 1" era] by (simp add: algebra_simps)
  then have "day_of doy \<le> month_length (if month_of doy \<le> 2 then y + era * 400 + 1 else y + era * 400) (month_of doy)"
    using f p(7) by (auto simp: doy_fits_def month_length_def Let_def split: if_splits)
  moreover from this have "(case next_day y' m d of (y', m', d') \<Rightarrow> days_from_civil y' m' d') = days_from_civil y' m d + 1"
    if "y' = (if month_of doy \<le> 2 then y + era * 400 + 1 else y + era * 400)" "m = month_of doy" "d = day_of doy" for y' m d
    using f unfolding that by (intro days_from_civil_next) (simp_all add: doy_fits_def Let_def)
  moreover have "days_from_civil 1970 1 1 = 0" by code_simp
  ultimately show ?thesis
    using f days_from_civil_parts [OF p(3,4) f, of era] unfolding p(1) by (simp add: doy_fits_def Let_def p(2))
qed

end
