(* ===== verification/Agent_Runs.thy ===== *)
theory Agent_Runs
  imports Agent_Steps
begin

text \<open>
  The tasks that \<open>cosmarden-agent/src/lib.rs\<close> spawns, as one relation: a frame of a connection,
  the registration and the end of a subscriber, the two requests of the SSH agent, the autolock
  check, a background job, and a message of logind (\<open>logind.rs\<close>). A run of the agent is a
  sequence of them; its effect on the shared state is a sequence of the steps of \<open>Agent_Steps\<close>.
\<close>

section \<open>The logind listener\<close>

text \<open>
  A message of the bus: a signal with the interface and member of its header and its body read
  as a bool, if that succeeds, or an error of the stream. \<open>taken\<close> is what \<open>take_delay_inhibitor\<close>
  answers when it is called. The inhibitor is held while it is \<open>Some\<close>.
\<close>

datatype dbus_message =
  Dbus_Message "string option" "string option" "bool option"
| Dbus_Error string

definition LOGIND_SESSION :: string where
  "LOGIND_SESSION = ''org.freedesktop.login1.Session''"

definition LOGIND_MANAGER :: string where
  "LOGIND_MANAGER = ''org.freedesktop.login1.Manager''"

fun logind_step :: "'fd option \<Rightarrow> dbus_message \<Rightarrow> agent \<times> 'fd option \<Rightarrow> agent \<times> 'fd option" where
  "logind_step taken (Dbus_Error e) x = x"
| "logind_step taken (Dbus_Message iface mbr body) (s, inhibitor) =
     (if iface = Some LOGIND_SESSION \<and> mbr = Some ''Lock'' then (lock s, inhibitor)
      else if iface = Some LOGIND_MANAGER
              \<and> (mbr = Some ''PrepareForSleep'' \<or> mbr = Some ''PrepareForShutdown'') then
        (if (case body of Some b \<Rightarrow> b | None \<Rightarrow> True) then (lock s, None)
         else (s, case inhibitor of None \<Rightarrow> taken | Some fd \<Rightarrow> Some fd))
      else (s, inhibitor))"

lemma logind_step_state: "fst (logind_step taken m x) = fst x \<or> fst (logind_step taken m x) = lock (fst x)"
  by (cases "(taken, m, x)" rule: logind_step.cases) auto

section \<open>Tasks\<close>

inductive agent_task :: "'w env \<Rightarrow> agent \<times> 'w \<Rightarrow> agent \<times> 'w \<Rightarrow> bool" for E where
  task_frame: "serve_frame E t len buf x = (r, y) \<Longrightarrow> agent_task E x y"
| task_subscribe: "agent_task E (s, w) (subscribe s, w)"
| task_disconnect: "agent_task E (s, w) (disconnect i s, w)"
| task_ssh_list: "ssh_request_identities E same_user x = (r, y) \<Longrightarrow> agent_task E x y"
| task_ssh_sign: "ssh_sign n E same_user wait q x = (r, y) \<Longrightarrow> agent_task E x y"
| task_autolock: "agent_task E (s, w) (autolock_check t now s, w)"
| task_job: "run_job E j x = (r, y) \<Longrightarrow> agent_task E x y"
| task_logind: "agent_task E (s, w) (fst (logind_step taken m (s, inhibitor :: nat option)), w)"

text \<open>An invariant of the steps is one of the tasks.\<close>

context agent_invariant
begin

lemma logind_keeps: "P s \<Longrightarrow> P (fst (logind_step taken m (s, inhibitor)))"
  using logind_step_state [of taken m "(s, inhibitor)"] lockings(1) [of s] by auto

lemma task_keeps:
  assumes "sched_keeps P E" and "en_crypto E = C" and "en_parse_pk E = pp"
    and "agent_task E x y" and "P (fst x)"
  shows "P (fst y)"
  using assms(4)
proof cases
  case (task_frame t len buf r)
  then show ?thesis
    using assms(5) by (rule keepsD [OF serve_frame_keeps [OF assms(1-3)]])
next
  case (task_subscribe s w)
  with assms(5) show ?thesis
    by (auto intro: step step_subscribe)
next
  case (task_disconnect s w i)
  with assms(5) show ?thesis
    by (auto intro: step step_disconnect)
next
  case (task_ssh_list b r)
  then show ?thesis
    using assms(5) by (rule keepsD [OF ssh_keeps(2) [OF assms(1)]])
next
  case (task_ssh_sign n b v q r)
  then show ?thesis
    using assms(5) by (rule keepsD [OF ssh_keeps(1) [OF assms(1)]])
next
  case (task_job j r)
  then show ?thesis
    using assms(5) by (rule keepsD [OF run_job_keeps [OF assms(1-3)]])
qed (use assms(5) in \<open>auto intro: autolock_keeps logind_keeps\<close>)

lemma tasks_keep:
  assumes "sched_keeps P E" and "en_crypto E = C" and "en_parse_pk E = pp"
    and "(agent_task E)\<^sup>*\<^sup>* x y" and "P (fst x)"
  shows "P (fst y)"
  using assms(4,5) by (induction rule: rtranclp_induct) (auto intro: task_keeps [OF assms(1-3)])

end

lemma tasks_run:
  assumes "sched_steps E" and "(agent_task E)\<^sup>*\<^sup>* x y"
  shows "(agent_step (en_crypto E) (en_parse_pk E))\<^sup>*\<^sup>* (fst x) (fst y)"
  by (rule reached.tasks_keep [OF sched_steps_reached [OF assms(1)] refl refl assms(2)]) simp

text \<open>What a run of the agent keeps, from the start on.\<close>

lemma agent_ok_tasks:
  assumes "sched_steps E" and "(agent_task E)\<^sup>*\<^sup>* x y" and "agent_ok (fst x)"
  shows "agent_ok (fst y)"
  by (rule ok.run_keeps [OF tasks_run [OF assms(1,2)] assms(3)])

lemma prompts_ok_tasks:
  assumes "sched_steps E" and "(agent_task E)\<^sup>*\<^sup>* x y" and "prompts_ok (fst x)"
  shows "prompts_ok (fst y)"
  by (rule prompts.run_keeps [OF tasks_run [OF assms(1,2)] assms(3)])

lemma prompts_ok_start: "prompts_ok (agent_start nanos pid cfg blob)"
  by (simp add: prompts_ok_def agent_start_def agent_new_def)

lemma epoch_run_tasks:
  assumes "sched_steps E" and "(agent_task E)\<^sup>*\<^sup>* x y"
  shows "\<exists>n. epoch_run (fst x) n (fst y)"
  by (rule epochs.run_keeps [OF tasks_run [OF assms]]) (blast intro: epoch_run.epoch_start)

lemma epoch_run_steps: "(agent_step C pp ^^ k) s s' \<Longrightarrow> \<exists>n. epoch_run s n s' \<and> n \<le> k"
proof (induction k arbitrary: s')
  case 0
  then show ?case
    by (auto intro: epoch_run.epoch_start)
next
  case (Suc k)
  then obtain z where z: "(agent_step C pp ^^ k) s z" "agent_step C pp z s'"
    by auto
  from Suc.IH [OF z(1)] obtain n where n: "epoch_run s n z" "n \<le> k"
    by blast
  from agent_step_epoch [OF z(2)] show ?case
  proof
    assume "st_keys s' = st_keys z \<and> st_lock_epoch s' = st_lock_epoch z"
    with n have "epoch_run s n s'"
      by (blast intro: epoch_run.epoch_same)
    with n(2) show ?thesis
      by (auto intro: exI [of _ n])
  next
    assume "st_lock_epoch s' = st_lock_epoch z + 1"
    with n have "epoch_run s (Suc n) s'"
      by (blast intro: epoch_run.epoch_turn)
    with n(2) show ?thesis
      by (auto intro: exI [of _ "Suc n"])
  qed
qed

lemma handle_logout_files:
  assumes "handle_logout E x = (Ret Ack, y)" and "load_config E (snd x) = Inr cfg" and "cfg_email cfg = Some m"
  shows "\<exists>w. snd y = snd (en_sched E (fst x, snd (en_save_db E (server_name cfg) m db_new
    (snd (en_clear_session E (server_name cfg) m w)))))"
  using assms
  by (auto simp: handle_logout_def with_config_def t_bind_def t_look_def t_try_def t_seq_def t_ret_def t_io_def t_ignore_def
      t_when_def t_lock_def t_mod_def case_prod_unfold split: if_splits)

lemma two_tasks: "agent_task E x y \<Longrightarrow> agent_task E y z \<Longrightarrow> (agent_task E)\<^sup>*\<^sup>* x z"
  by (meson converse_rtranclp_into_rtranclp r_into_rtranclp)

lemma lock_tokens [simp]: "access_of (lock s) = None" "refresh_of (lock s) = None"
  by (cases "st_db s"; simp add: access_of_def refresh_of_def drop_tokens_def)+

lemma task_request:
  fixes len :: u32
  assumes "en_decode_action E buf = Inr a" and "unat len \<le> MAX_IPC_FRAME_BYTES"
    and "\<And>s. a \<noteq> UpdateLockTimeout s" and "handle_request E a x = (Ret r, y)"
  shows "agent_task E x y"
proof -
  fix t
  obtain t' where "serve_action E t a x = (Ret (r, t'), y)"
    using assms(3,4) by (cases a) (auto simp: serve_action_def t_bind_def t_look_def t_ret_def)
  then obtain r' where "serve_frame E t len buf x = (r', y)"
    using assms(1,2) by (auto simp: serve_frame_def Let_def t_bind_def t_ret_def)
  then show ?thesis
    by (rule task_frame)
qed

end
