(* ===== verification/Spec2Isabelle.thy ===== *)
theory Spec2Isabelle
  imports Vault_Properties Agent_Properties Ipc_Properties Tray_Properties Cli_Properties Ui_Properties Ui_View_Properties Ui_Dates Account_Files Agent_Runs
begin

text \<open>
  Cosmarden: a password manager for Bitwarden servers. This development models the library
  \<open>crates/cosmarden-core\<close> and the background agent \<open>crates/cosmarden-agent\<close>, which hold most of the
  program's own logic, and the clients of the agent, and proves what makes them correct.

  \<^bold>\<open>The program.\<close> The agent is one process. It keeps the vault (\<open>State\<close> in \<open>state.rs\<close>) behind one
  lock: the keys while it is unlocked, the database of encrypted entries, caches for the sidebar
  and for SSH, the subscribers. Clients (window, tray, command line, browser) send it an \<open>Action\<close> in
  a frame of a Unix socket and get a \<open>Response\<close>; a handler takes the lock for each look at the
  state and releases it before it calls the server, so handlers interleave at these points. An
  entry is a record of cipherstrings under the vault key, an organisation's key or an item key of
  its own. The vault key is itself a cipherstring under keys derived from the master password, or
  is sealed in the TPM under a PIN. The session with the server is a pair of tokens in memory; the
  refresh token is also stored in a file, encrypted under the vault key.

  \<^bold>\<open>Theories.\<close> \<open>Prelude\<close> (results, panics, bytes, UTF-8) and \<open>Rust_Strings\<close> (the methods of \<open>str\<close>,
  IP addresses) hold what the code uses of Rust. Then, with the files they model:

  \<^item> \<open>Errors\<close>: \<open>error.rs\<close>; \<open>Domain\<close>: \<open>domain.rs\<close>; \<open>Vault_Model\<close>: the data of \<open>db/models.rs\<close>;
    \<open>Cipher_String\<close>: \<open>cipherstring.rs\<close>, \<open>locked.rs\<close>; \<open>Vault_Crypto\<close>: \<open>vault.rs\<close>, \<open>Entry::decrypt\<close>;
    \<open>Identity_Keys\<close>: \<open>identity.rs\<close>; \<open>Protocol\<close>: \<open>protocol.rs\<close>, \<open>entry_save.rs\<close>, \<open>config.rs\<close>;
    \<open>Field_Access\<close>: \<open>field_access.rs\<close>; \<open>Session_Envelope\<close>: \<open>session_envelope.rs\<close>; \<open>Wire_Format\<close>:
    \<open>api/models/vault.rs\<close>; \<open>Api_Client\<close>: \<open>api/client/\<close> (all of the core crate);
  \<^item> \<open>Agent_State\<close>: \<open>state.rs\<close>, \<open>ssh_agent/identities.rs\<close>, the \<open>Db\<close> of \<open>db/persistence.rs\<close>;
    \<open>Redaction\<close>: \<open>redact_entry_secrets\<close>, \<open>filled_secret_keys\<close>, \<open>merge_redacted_secrets\<close>;
    \<open>Vault_Query\<close>: the reads of \<open>handler/vault/\<close>; \<open>Server_Payload\<close>: \<open>server/ops/\<close>; \<open>Vault_Ops\<close>: the
    changes of \<open>handler/vault/\<close>; \<open>Server_Session\<close>: \<open>server/auth.rs\<close>, \<open>reauth.rs\<close>, \<open>session_store.rs\<close>;
    \<open>Auth_Handlers\<close>, \<open>Tpm_Pin\<close>: \<open>handler/auth/\<close>, \<open>tpm/mod.rs\<close>; \<open>Generator\<close>: \<open>handler/generator/\<close>;
    \<open>Ssh_Sign\<close>: \<open>ssh_agent/\<close>; \<open>Autolock\<close>: \<open>timeout.rs\<close>; \<open>Agent_Dispatch\<close>: \<open>handler.rs\<close>, the connection
    loop of \<open>lib.rs\<close>; \<open>Agent_Runs\<close>: the tasks of \<open>lib.rs\<close>, \<open>logind.rs\<close> (the agent crate);
  \<^item> the socket between agent and clients: \<open>Debug_Output\<close>: \<open>protocol/debug_impls.rs\<close>; \<open>Ipc_Client\<close>:
    \<open>agent_client.rs\<close> and, for its other end, the bytes of the connection loop; \<open>Browser_Host\<close>:
    \<open>browser_host.rs\<close>;
  \<^item> \<open>Account_Files\<close>: \<open>dirs.rs\<close>, \<open>dirs/profile.rs\<close>, \<open>vault_binary.rs\<close> (which file belongs to which
    account and profile); \<open>Plasma_Tray\<close>: the tray icon's \<open>state.rs\<close>, \<open>menu.rs\<close>, \<open>supervisor.rs\<close>,
    \<open>clipboard.rs\<close> and \<open>tray.rs\<close> (the crate \<open>cosmarden-plasma-tray\<close>); \<open>Cli_Output\<close>, \<open>Cli_Commands\<close> and
    \<open>Cli_Main\<close>: the crate \<open>cosmarden-cli\<close>, from the parsed command to what is printed;
  \<^item> the window and the panel applet (the crate \<open>cosmarden-ui\<close>): \<open>Ui_State\<close>: \<open>app/state.rs\<close>, \<open>message/\<close>;
    \<open>Ui_Debug\<close>: \<open>message/debug_impls.rs\<close>; \<open>Ui_Helpers\<close>: \<open>tasks.rs\<close>, \<open>applet_search.rs\<close>, \<open>wipe.rs\<close>, the
    request builders; \<open>Ui_Update\<close>: the update functions of \<open>app/update/\<close> and \<open>runtime.rs\<close>. An update
    is a function from the state and a message to the new state and what the runtime is asked to do;
    a run is any list of messages, so answers and events may arrive in any order. \<open>Ui_View\<close> (an entry's
    pane) and \<open>Ui_Screens\<close> (every screen of window and popup): \<open>view/\<close>; a view is a function from the
    state to the list of its widgets;
  \<^item> \<open>Agent_Env\<close> is the outside of the agent: one record of files, clock, random bytes, HTTP, keyring,
    TPM and the other tasks, a parameter of every handler. \<open>Server_Roundtrip\<close>, \<open>Agent_Steps\<close>,
    \<open>Vault_Effects\<close> and \<open>Auth_Effects\<close> hold the lemmas that span components; \<open>Sample_Crates\<close> and
    \<open>Sample_Host\<close> a concrete outside on which the handlers are evaluated;
    \<open>Vault_Properties\<close>, \<open>Agent_Properties\<close>, \<open>Ipc_Properties\<close>, \<open>Tray_Properties\<close>,
    \<open>Cli_Properties\<close>, \<open>Ui_Properties\<close>, \<open>Ui_View_Properties\<close>, \<open>Ui_Dates\<close> and this theory the properties.

  \<^bold>\<open>How code becomes definitions.\<close> A struct is a record, an enum a datatype, \<open>u32\<close> and \<open>u64\<close> are
  words, a \<open>String\<close> is the list of its UTF-8 bytes. A fallible function returns \<open>error + 'a\<close>, one
  that can panic an \<open>outcome\<close>. A handler is a \<open>task\<close>: from the state and the world it makes a result
  and a new state and world. Taking the lock (\<open>t_lock\<close>) first runs \<open>en_sched\<close>, which stands for
  whatever the other tasks did meanwhile; nothing is assumed of it except, where a theorem says
  so, that it keeps an invariant or is itself a run of the agent. Sending to a channel appends to
  the list of its events; a \<open>watch\<close> channel is its current value.

  \<^bold>\<open>What the lemmas show.\<close> \<open>Agent_Steps\<close> reduces every handler, SSH request, background job and check
  to steps on the state (locale \<open>agent_invariant\<close>), so that an invariant proved on ten steps holds for
  the agent: keys, caches and session agree, prompts are separated by locks, the epoch counts
  locks and unlocks. \<open>Server_Roundtrip\<close> follows an entry through encryption, the request, the
  server, the sync response and decryption. The \<open>Effects\<close> theories say what each handler leaves.
  \<open>Ui_Properties\<close> classifies each message of the interface by what it may do to the clipboard timer, the
  list and the snapshot of the agent, and lifts that to runs. \<open>Ui_View_Properties\<close> relates what a screen shows
  to what a redacted read holds and what a button does, \<open>Ui_Dates\<close> the dates of the generator's history to
  the calendar. \<open>Ipc_Client\<close> joins the client to the agent's connection loop through the bytes of a socket.
  The other interfaces are \<open>slot_erasure\<close> (what redaction takes out and the merge puts back, for the
  data and for the fields), \<open>slot_codec\<close> and \<open>total_encoder\<close> (what encryption for the server promises
  its callers) and \<open>field_store\<close> (the custom fields), each interpreted on the model's definitions.

  \<^bold>\<open>Bounds and fuel.\<close> Two loops of the code have no bound of their own. The autolock loop takes one
  unit of fuel per round, and one round per 30 seconds of the timeout reaches the deadline
  (\<open>autolock_at_deadline\<close>). The loop of a sign request takes one unit per wake-up; when the clock
  advances by at least one unit in each, as many units as the wait has suffice
  (\<open>ssh_request_ends\<close>). The reader of events and the browser host go on as long as their peer sends,
  so they are partial functions; on finite input both return (\<open>next_event_returns\<close>,
  \<open>browser_session_served\<close>). All other recursion is structural or has a proof of termination.

  \<^bold>\<open>Parameters.\<close> AES, HMAC, PBKDF2, Argon2, HKDF, RSA, the AEAD, base64, the public suffix list, the
  TOTP and SSH crates, reqwest, serde and postcard, the Secret Service, the TPM, the file system
  and the clock. Their documented laws are hypotheses with names (\<open>crypto_ok\<close>, \<open>kdf_lib_ok\<close>, \<open>aead_ok\<close>,
  \<open>rng_ok\<close>, \<open>psl_ok\<close>, \<open>gen_files_ok\<close>, \<open>session_file_ok\<close>, \<open>tpm_recalls\<close>, \<open>clock_advances\<close>), which the
  sample outside satisfies.

  \<^bold>\<open>Not modelled.\<close> Most logging (the lines of a request and its response are), zeroisation and \<open>mlock\<close> (no value of the program
  depends on them), sockets and peer credentials, the D-Bus calls of \<open>keyring.rs\<close> and the setup of
  \<open>logind.rs\<close>, the TPM commands of \<open>tpm/\<close>, the creation of directories, the tray's theme detection and
  icon, the argument grammar (\<open>clap\<close>) of the command line, and of the COSMIC window sizes, colours,
  images and tooltips, the geometry of its panes and popups, its toasts and notifications on D-Bus. Case conversion and trimming
  act on ASCII; a \<open>HashMap\<close> is an association list in one fixed order.
\<close>

section \<open>The agent as a state machine\<close>

text \<open>
  C2: Whatever the tasks of the agent do, in any order and interleaved at their lock
  acquisitions, its effect on the shared state is a sequence of the steps of the state machine.
\<close>

theorem tasks_are_steps:
  assumes "sched_steps E" and "(agent_task E)\<^sup>*\<^sup>* x y"
  shows "(agent_step (en_crypto E) (en_parse_pk E))\<^sup>*\<^sup>* (fst x) (fst y)"
  using assms by (rule tasks_run)

theorem tasks_are_steps_witness:
  "(agent_step sample_crypto (\<lambda>s. Some s))\<^sup>*\<^sup>* open_agent (subscribe (lock open_agent))"
proof -
  let ?m = "Dbus_Message (Some LOGIND_SESSION) (Some ''Lock'') None"
  have "agent_task sample_env (open_agent, sample_host) (lock open_agent, sample_host)"
    using task_logind [of sample_env open_agent sample_host None ?m None] by simp
  then have "(agent_task sample_env)\<^sup>*\<^sup>* (open_agent, sample_host) (subscribe (lock open_agent), sample_host)"
    by (rule two_tasks [OF _ task_subscribe])
  from tasks_are_steps [OF _ this] show ?thesis
    by simp
qed

text \<open>
  C3: At every moment of a run of the agent without keys there are no organisation keys, no sidebar
  rows and no unlocked session; with keys there are organisation keys and a database; and a
  logged-out agent offers no SSH identity.
\<close>

theorem locked_state_is_empty:
  assumes "sched_steps E" and "(agent_task E)\<^sup>*\<^sup>* (agent_start nanos pid cfg blob, w) (s, w')"
  shows "(st_keys s = None \<longrightarrow> st_org_keys s = None \<and> st_sidebar_cache s = [] \<and> st_session s \<noteq> VS_Unlocked)
    \<and> (st_keys s \<noteq> None \<longrightarrow> st_org_keys s \<noteq> None \<and> st_db s \<noteq> None)
    \<and> (st_session s = VS_LoggedOut \<longrightarrow> st_ssh_identity_cache s = [])"
proof -
  have "agent_ok s"
    using agent_ok_tasks [OF assms] by (simp add: agent_ok_start)
  then show ?thesis
    by (auto simp: agent_ok_def)
qed

theorem locked_state_is_empty_witness:
  "let s = request_unlock (subscribe (agent_start 1 2 (Inr sample_config) (\<lambda>s e. False))) in
     st_keys s = None \<and> st_org_keys s = None \<and> st_sidebar_cache s = [] \<and> st_session s \<noteq> VS_Unlocked"
proof -
  let ?s0 = "agent_start 1 2 (Inr sample_config) (\<lambda>s e. False)"
  have keys: "st_keys ?s0 = None" "st_ssh_identity_cache ?s0 = []"
    by (simp_all add: agent_start_def agent_new_def)
  have "ssh_request_identities sample_env True (subscribe ?s0, sample_host)
      = (Ret [], request_unlock (subscribe ?s0), sample_host)"
    using keys by (simp add: ssh_request_identities_def task_defs list_identities_def subscribe_def identities_for_list_def)
  then have "(agent_task sample_env)\<^sup>*\<^sup>* (?s0, sample_host) (request_unlock (subscribe ?s0), sample_host)"
    by (intro two_tasks [OF task_subscribe] task_ssh_list)
  from locked_state_is_empty [OF _ this] keys show ?thesis
    by (simp add: Let_def subscribe_def)
qed

text \<open>
  C9: No subscriber is asked twice for the password or the PIN within one lock period: between any
  two prompts it was told that the vault locked.
\<close>

theorem one_prompt_per_lock:
  assumes "sched_steps E" and "(agent_task E)\<^sup>*\<^sup>* (agent_start nanos pid cfg blob, w) (s, w')"
    and "u \<in> set (st_subscribers s)" and "sub_events u = a @ p # b @ q # c" and "is_prompt p" and "is_prompt q"
  shows "Locked \<in> set b"
proof -
  have "prompts_ok s"
    using prompts_ok_tasks [OF assms(1,2)] by (simp add: prompts_ok_start)
  with assms(3-6) show ?thesis
    unfolding prompts_ok_def separated_def by blast
qed

definition prompted_agent :: agent where
  "prompted_agent = request_unlock (lock (request_unlock (subscribe (agent_start 1 2 (Inr sample_config) (\<lambda>s e. False)))))"

lemma prompted_agent_reached:
  "(agent_task sample_env)\<^sup>*\<^sup>* (agent_start 1 2 (Inr sample_config) (\<lambda>s e. False), sample_host) (prompted_agent, sample_host)"
proof -
  let ?s0 = "agent_start 1 2 (Inr sample_config) (\<lambda>s e. False)"
  let ?m = "Dbus_Message (Some LOGIND_SESSION) (Some ''Lock'') None"
  have locked: "st_keys ?s0 = None"
    by (simp add: agent_start_def agent_new_def)
  have ask: "agent_task sample_env (s, sample_host) (request_unlock s, sample_host)" if "st_keys s = None" for s
    using that by (intro task_ssh_list [where same_user = True]) (simp add: ssh_request_identities_def task_defs list_identities_def)
  have lock: "agent_task sample_env (s, sample_host) (lock s, sample_host)" for s
    using task_logind [of sample_env s sample_host None ?m None] by simp
  have "(agent_task sample_env)\<^sup>*\<^sup>* (?s0, sample_host) (request_unlock (subscribe ?s0), sample_host)"
    using locked by (intro two_tasks [OF task_subscribe] ask) (simp add: subscribe_def)
  also have "(agent_task sample_env)\<^sup>*\<^sup>* \<dots> (prompted_agent, sample_host)"
    unfolding prompted_agent_def by (intro two_tasks [OF lock] ask) simp
  finally show ?thesis .
qed

theorem one_prompt_per_lock_witness:
  "Locked \<in> set [Locked] \<and> map sub_events (st_subscribers prompted_agent) = [[UnlockRequested, Locked, UnlockRequested]]"
proof -
  have e: "map sub_events (st_subscribers prompted_agent) = [[UnlockRequested, Locked, UnlockRequested]]"
    by (simp add: prompted_agent_def request_unlock_def lock_def bump_epoch_def broadcast_def subscribe_def
        new_subscriber_def agent_start_def agent_new_def sample_config_def default_config_def Let_def)
  then obtain u where u: "u \<in> set (st_subscribers prompted_agent)" "sub_events u = [] @ UnlockRequested # [Locked] @ UnlockRequested # []"
    by (cases "st_subscribers prompted_agent") auto
  from one_prompt_per_lock [OF _ prompted_agent_reached u] e show ?thesis
    by simp
qed

text \<open>
  C10: The lock epoch detects a lock or unlock between two moments: over fewer than 2^64 steps, an
  equal epoch means that the vault keys are the same ones.
\<close>

theorem equal_epoch_equal_keys:
  assumes "(agent_step C pp ^^ k) s s'" and "k < 2 ^ 64" and "st_lock_epoch s' = st_lock_epoch s"
  shows "st_keys s' = st_keys s"
proof -
  obtain n where n: "epoch_run s n s'" "n \<le> k"
    using epoch_run_steps [OF assms(1)] by blast
  from epoch_run_count [OF n(1)] assms(3) have "(word_of_nat n :: u64) = 0"
    by simp
  with n(2) assms(2) have "n = 0"
    using nat_dvd_not_less [of n "2 ^ 64"] by (auto simp: word_of_nat_eq_0_iff)
  with n(1) show ?thesis
    by (rule epoch_run_none)
qed

theorem equal_epoch_equal_keys_witness:
  "\<exists>s'. (agent_step sample_crypto (\<lambda>s. Some s) ^^ 2) open_agent s' \<and> st_keys s' = st_keys open_agent"
proof -
  let ?s' = "subscribe (subscribe open_agent)"
  have r: "(agent_step sample_crypto (\<lambda>s. Some s) ^^ 2) open_agent ?s'"
    by (auto simp: numeral_2_eq_2 intro!: relpowp_Suc_I step_subscribe)
  have "st_lock_epoch ?s' = st_lock_epoch open_agent"
    by (simp add: subscribe_def)
  with equal_epoch_equal_keys [OF r] r show ?thesis
    by auto
qed

section \<open>Locking and logging out\<close>



text \<open>
  A logout that is acknowledged forgets the account, in memory and on disk: no keys, rows,
  identities or user id remain, the saved session cannot be restored even with the right keys,
  and the saved database is an empty one. (The hypotheses say that a file removed or written is
  removed or written, and that no other task writes it meanwhile.)
\<close>

theorem logout_forgets_account:
  assumes "handle_logout E x = (Ret Ack, y)" and "load_config E (snd x) = Inr cfg" and "cfg_email cfg = Some m"
    and "\<And>z. snd (en_sched E z) = snd z"
    and "\<And>w. en_read_session E (server_name cfg) m
            (snd (en_save_db E (server_name cfg) m db_new (snd (en_clear_session E (server_name cfg) m w)))) = Inr None"
    and "\<And>w. en_load_db E (server_name cfg) m (snd (en_save_db E (server_name cfg) m db_new w)) = Inr db_new"
  shows "st_keys (fst y) = None \<and> st_org_keys (fst y) = None \<and> st_db (fst y) = None \<and> st_sidebar_cache (fst y) = []
    \<and> st_ssh_identity_cache (fst y) = [] \<and> st_user_id (fst y) = None \<and> st_session (fst y) = VS_LoggedOut
    \<and> load_session E ks (server_name cfg) m (snd y) = Inr None
    \<and> en_load_db E (server_name cfg) m (snd y) = Inr db_new"
proof -
  from handle_logout_files [OF assms(1-3)] obtain w where "snd y = snd (en_sched E (fst x,
      snd (en_save_db E (server_name cfg) m db_new (snd (en_clear_session E (server_name cfg) m w)))))"
    by blast
  then have w: "snd y = snd (en_save_db E (server_name cfg) m db_new (snd (en_clear_session E (server_name cfg) m w)))"
    using assms(4) by simp
  have "load_session E ks (server_name cfg) m (snd y) = Inr None"
    by (simp add: load_session_def w assms(5))
  with handle_logout_run [OF assms(1)] w assms(6) show ?thesis
    by simp
qed

theorem logout_forgets_account_witness:
  "\<exists>y. handle_logout sample_env (open_agent, sample_host) = (Ret Ack, y) \<and> st_keys (fst y) = None
     \<and> load_session sample_env sample_keys (server_name sample_config) ''a@b.c'' (snd y) = Inr None"
proof -
  have l: "load_config sample_env sample_host = Inr sample_config"
    by (simp add: load_config_def sample_host_def sample_config_def load_legacy_def default_config_def default_lock_timeout_def)
  have e: "cfg_email sample_config = Some ''a@b.c''"
    by (simp add: sample_config_def)
  have p: "\<not> cfg_persist_session sample_config"
    by (simp add: sample_config_def default_config_def)
  obtain y where y: "handle_logout sample_env (open_agent, sample_host) = (Ret Ack, y)"
    using l e p by (simp add: handle_logout_def with_config_def task_defs t_io_def t_ignore_def t_when_def case_prod_unfold)
  have "db_on_disk db_new = db_new"
    by (simp add: db_on_disk_def db_new_def)
  then show ?thesis
    using logout_forgets_account [OF y, of sample_config "''a@b.c''" sample_keys] y l e by (simp add: sample_env_def)
qed

text \<open>
  The delay that holds back sleep and shutdown is given up only with the vault locked: a
  message of logind that releases the inhibitor leaves no keys and no tokens.
\<close>

theorem sleep_waits_for_lock:
  assumes "logind_step taken m (s, Some fd) = (s', None)"
  shows "st_keys s' = None \<and> st_org_keys s' = None \<and> access_of s' = None \<and> refresh_of s' = None
    \<and> st_sidebar_cache s' = [] \<and> st_session s' = VS_Locked"
proof -
  have "s' = lock s"
    using assms by (cases "(taken, m, s, Some fd)" rule: logind_step.cases) (auto split: if_splits option.splits)
  then show ?thesis
    by simp
qed

theorem sleep_waits_for_lock_witness:
  "\<exists>s'. logind_step (Some 4) (Dbus_Message (Some LOGIND_MANAGER) (Some ''PrepareForSleep'') None) (open_agent, Some (3::nat)) = (s', None)
     \<and> st_keys s' = None"
proof -
  have "logind_step (Some 4) (Dbus_Message (Some LOGIND_MANAGER) (Some ''PrepareForSleep'') None) (open_agent, Some (3::nat))
      = (lock open_agent, None)"
    by (simp add: LOGIND_MANAGER_def LOGIND_SESSION_def)
  from this sleep_waits_for_lock [OF this] show ?thesis
    by auto
qed

end
